(* ===== verification/Prelude.thy ===== *)
theory Prelude
  imports Main "HOL-Library.Word"
begin

text \<open>
  The vocabulary of the development: Rust's machine integers, clock readings, and
  strings. A Rust \<^verbatim>\<open>char\<close> is a Unicode scalar value and is modelled by its code point, a
  \<^verbatim>\<open>String\<close> by the list of its scalar values; the byte offsets the source computes with are
  recovered by \<open>len_utf8\<close>, \<open>is_char_boundary\<close> and the slicing functions. The UTF-8
  encoder and the validating decoder (\<^verbatim>\<open>String::from_utf8\<close>) are here too, with the round trip.
\<close>

unbundle bit_operations_syntax

named_theorems ustr_simps \<open>rewrite rules for byte offsets and slices of Rust strings\<close>

type_synonym u8 = "8 word"
type_synonym u16 = "16 word"
type_synonym u32 = "32 word"
type_synonym usize = nat
type_synonym time = int
type_synonym uchar = nat
type_synonym ustr = "uchar list"

section \<open>Clock readings and saturating arithmetic\<close>

text \<open>Instants are nanoseconds on the monotonic clock; \<^verbatim>\<open>elapsed\<close> saturates at zero.\<close>

definition millis :: "int \<Rightarrow> time" where
  "millis n = n * 1000000"

definition elapsed :: "time \<Rightarrow> time \<Rightarrow> time" where
  "elapsed now t = max 0 (now - t)"

definition as_secs :: "time \<Rightarrow> int" where
  "as_secs d = d div 1000000000"

definition usize_max :: usize where
  "usize_max = 2 ^ 64 - 1"

definition saturating_add :: "usize \<Rightarrow> usize \<Rightarrow> usize" where
  "saturating_add a b = min (a + b) usize_max"

lemma unat_of_nat_u32 [simp]: "n < 2 ^ 32 \<Longrightarrow> unat (of_nat n :: u32) = n"
  by (simp add: unsigned_of_nat take_bit_nat_eq_self)

lemma u32_of_nat_eq_0: "n < 2 ^ 32 \<Longrightarrow> (of_nat n :: u32) = 0 \<longleftrightarrow> n = 0"
  using unat_of_nat_u32 [of n] by (auto simp del: unat_of_nat_u32)

section \<open>Characters\<close>

definition is_scalar :: "uchar \<Rightarrow> bool" where
  "is_scalar c \<longleftrightarrow> c < 0xD800 \<or> (0xE000 \<le> c \<and> c < 0x110000)"

definition len_utf8 :: "uchar \<Rightarrow> nat" where
  "len_utf8 c = (if c < 0x80 then 1 else if c < 0x800 then 2 else if c < 0x10000 then 3 else 4)"

definition is_ascii :: "uchar \<Rightarrow> bool" where
  "is_ascii c \<longleftrightarrow> c < 128"

definition is_ascii_lowercase :: "uchar \<Rightarrow> bool" where
  "is_ascii_lowercase c \<longleftrightarrow> 97 \<le> c \<and> c \<le> 122"

definition is_ascii_uppercase :: "uchar \<Rightarrow> bool" where
  "is_ascii_uppercase c \<longleftrightarrow> 65 \<le> c \<and> c \<le> 90"

definition is_ascii_alphabetic :: "uchar \<Rightarrow> bool" where
  "is_ascii_alphabetic c \<longleftrightarrow> is_ascii_lowercase c \<or> is_ascii_uppercase c"

definition is_ascii_digit :: "uchar \<Rightarrow> bool" where
  "is_ascii_digit c \<longleftrightarrow> 48 \<le> c \<and> c \<le> 57"

definition to_ascii_lowercase :: "uchar \<Rightarrow> uchar" where
  "to_ascii_lowercase c = (if is_ascii_uppercase c then c + 32 else c)"

definition to_ascii_uppercase :: "uchar \<Rightarrow> uchar" where
  "to_ascii_uppercase c = (if is_ascii_lowercase c then c - 32 else c)"

text \<open>\<^verbatim>\<open>char::is_control\<close>: the Unicode category Cc.\<close>

definition is_control :: "uchar \<Rightarrow> bool" where
  "is_control c \<longleftrightarrow> c < 32 \<or> (127 \<le> c \<and> c < 160)"

text \<open>\<^verbatim>\<open>char::is_whitespace\<close>: the Unicode property White\_Space.\<close>

definition is_whitespace :: "uchar \<Rightarrow> bool" where
  "is_whitespace c \<longleftrightarrow> (9 \<le> c \<and> c \<le> 13) \<or> c = 0x20 \<or> c = 0x85 \<or> c = 0xA0 \<or> c = 0x1680
     \<or> (0x2000 \<le> c \<and> c \<le> 0x200A) \<or> c = 0x2028 \<or> c = 0x2029 \<or> c = 0x202F \<or> c = 0x205F
     \<or> c = 0x3000"

lemma len_utf8_pos [simp, intro]: "0 < len_utf8 c"
  by (simp add: len_utf8_def)

lemma len_utf8_ne0 [simp]: "len_utf8 c \<noteq> 0"
  by (simp add: len_utf8_def)

lemma len_utf8_le4: "len_utf8 c \<le> 4"
  by (simp add: len_utf8_def)

lemma len_utf8_ascii: "len_utf8 c = 1 \<longleftrightarrow> is_ascii c"
  by (simp add: len_utf8_def is_ascii_def)

section \<open>Strings and byte offsets\<close>

text \<open>String literals of the source.\<close>

definition lit :: "string \<Rightarrow> ustr" where
  "lit s = map of_char s"

fun blen :: "ustr \<Rightarrow> nat" where
  "blen [] = 0"
| "blen (c # s) = len_utf8 c + blen s"

fun is_char_boundary :: "ustr \<Rightarrow> nat \<Rightarrow> bool" where
  "is_char_boundary [] i = (i = 0)"
| "is_char_boundary (c # s) i =
     (i = 0 \<or> (len_utf8 c \<le> i \<and> is_char_boundary s (i - len_utf8 c)))"

text \<open>\<^verbatim>\<open>s.get(..i)\<close> and \<^verbatim>\<open>s.get(i..)\<close>; the indexing forms panic where these return \<open>None\<close>.\<close>

fun str_to :: "ustr \<Rightarrow> nat \<Rightarrow> ustr option" where
  "str_to [] i = (if i = 0 then Some [] else None)"
| "str_to (c # s) i =
     (if i = 0 then Some []
      else if len_utf8 c \<le> i then map_option ((#) c) (str_to s (i - len_utf8 c)) else None)"

fun str_from :: "ustr \<Rightarrow> nat \<Rightarrow> ustr option" where
  "str_from [] i = (if i = 0 then Some [] else None)"
| "str_from (c # s) i =
     (if i = 0 then Some (c # s)
      else if len_utf8 c \<le> i then str_from s (i - len_utf8 c) else None)"

fun char_indices_from :: "nat \<Rightarrow> ustr \<Rightarrow> (nat \<times> uchar) list" where
  "char_indices_from n [] = []"
| "char_indices_from n (c # s) = (n, c) # char_indices_from (n + len_utf8 c) s"

definition char_indices :: "ustr \<Rightarrow> (nat \<times> uchar) list" where
  "char_indices s = char_indices_from 0 s"

text \<open>\<^verbatim>\<open>String::pop\<close> called \<open>n\<close> times drops the last \<open>n\<close> characters, all of them at most.\<close>

definition pop_n :: "nat \<Rightarrow> ustr \<Rightarrow> ustr" where
  "pop_n n s = take (length s - n) s"

definition last_char :: "ustr \<Rightarrow> uchar option" where
  "last_char s = (if s = [] then None else Some (last s))"

definition str_is_ascii :: "ustr \<Rightarrow> bool" where
  "str_is_ascii s = list_all is_ascii s"

lemma blen_append [simp]: "blen (s @ t) = blen s + blen t"
  by (induction s) auto

lemma blen_snoc: "blen (s @ [c]) = blen s + len_utf8 c"
  by simp

lemma blen_eq_0 [simp]: "blen s = 0 \<longleftrightarrow> s = []"
  by (cases s) auto

lemma blen_pos [simp]: "0 < blen s \<longleftrightarrow> s \<noteq> []"
  by (cases s) auto

lemma length_le_blen: "length s \<le> blen s"
proof (induction s)
  case (Cons c s)
  have "1 \<le> len_utf8 c" by (simp add: len_utf8_def)
  with Cons show ?case by simp
qed simp

lemma blen_rev [simp]: "blen (rev s) = blen s"
  by (induction s) auto

lemma blen_ascii: "str_is_ascii s \<Longrightarrow> blen s = length s"
  by (induction s) (auto simp: str_is_ascii_def len_utf8_ascii [THEN iffD2])

lemma is_char_boundary_0 [simp]: "is_char_boundary s 0"
  by (cases s) auto

lemma str_to_eq_Some: "str_to s i = Some p \<longleftrightarrow> (\<exists>q. s = p @ q \<and> blen p = i)"
proof (induction s i arbitrary: p rule: str_to.induct)
  case (1 i)
  then show ?case by auto
next
  case (2 c s i)
  show ?case
  proof (cases "i = 0 \<or> i < len_utf8 c")
    case True
    then show ?thesis by (cases p) auto
  next
    case False
    then have "str_to (c # s) i = Some p \<longleftrightarrow> (\<exists>p'. p = c # p' \<and> str_to s (i - len_utf8 c) = Some p')"
      by auto
    also have "\<dots> \<longleftrightarrow> (\<exists>p'. p = c # p' \<and> (\<exists>q. s = p' @ q \<and> blen p' = i - len_utf8 c))"
      using False "2.IH" by (simp add: not_less)
    also have "\<dots> \<longleftrightarrow> (\<exists>q. c # s = p @ q \<and> blen p = i)"
      using False by (cases p) auto
    finally show ?thesis .
  qed
qed

lemma str_from_eq_Some: "str_from s i = Some q \<longleftrightarrow> (\<exists>p. s = p @ q \<and> blen p = i)"
proof (induction s i arbitrary: q rule: str_from.induct)
  case (1 i)
  then show ?case by auto
next
  case (2 c s i)
  show ?case
  proof (cases "i = 0 \<or> i < len_utf8 c")
    case True
    have *: "(\<exists>p. c # s = p @ q \<and> blen p = i) \<longleftrightarrow> (i = 0 \<and> q = c # s)"
    proof
      assume "\<exists>p. c # s = p @ q \<and> blen p = i"
      then obtain p where p: "c # s = p @ q" "blen p = i" by blast
      with True show "i = 0 \<and> q = c # s" by (cases p) auto
    qed (auto intro: exI [of _ "[]"])
    from True show ?thesis by (auto simp: *)
  next
    case False
    then have "str_from (c # s) i = Some q \<longleftrightarrow> (\<exists>p. s = p @ q \<and> blen p = i - len_utf8 c)"
      using "2.IH" by auto
    also have "\<dots> \<longleftrightarrow> (\<exists>p. c # s = p @ q \<and> blen p = i)"
    proof
      assume "\<exists>p. s = p @ q \<and> blen p = i - len_utf8 c"
      then obtain p where "s = p @ q" "blen p = i - len_utf8 c" by blast
      with False show "\<exists>p. c # s = p @ q \<and> blen p = i" by (intro exI [of _ "c # p"]) auto
    next
      assume "\<exists>p. c # s = p @ q \<and> blen p = i"
      then obtain p where "c # s = p @ q" "blen p = i" by blast
      with False show "\<exists>p. s = p @ q \<and> blen p = i - len_utf8 c" by (cases p) auto
    qed
    finally show ?thesis .
  qed
qed

lemma is_char_boundary_iff: "is_char_boundary s i \<longleftrightarrow> (\<exists>p q. s = p @ q \<and> blen p = i)"
proof (induction s i rule: is_char_boundary.induct)
  case (1 i)
  then show ?case by auto
next
  case (2 c s i)
  show ?case
  proof (cases "i = 0 \<or> i < len_utf8 c")
    case True
    then show ?thesis
      by (auto simp: Cons_eq_append_conv intro: exI [of _ "[]"])
  next
    case False
    with 2 have "is_char_boundary (c # s) i \<longleftrightarrow> (\<exists>p q. s = p @ q \<and> blen p = i - len_utf8 c)"
      by auto
    also have "\<dots> \<longleftrightarrow> (\<exists>p q. c # s = p @ q \<and> blen p = i)"
    proof
      assume "\<exists>p q. s = p @ q \<and> blen p = i - len_utf8 c"
      then obtain p q where "s = p @ q" "blen p = i - len_utf8 c" by blast
      with False show "\<exists>p q. c # s = p @ q \<and> blen p = i" by (intro exI [of _ "c # p"] exI [of _ q]) auto
    next
      assume "\<exists>p q. c # s = p @ q \<and> blen p = i"
      then obtain p q where "c # s = p @ q" "blen p = i" by blast
      with False show "\<exists>p q. s = p @ q \<and> blen p = i - len_utf8 c" by (cases p) auto
    qed
    finally show ?thesis .
  qed
qed

lemma str_to_append [ustr_simps]: "str_to (p @ q) (blen p) = Some p"
  by (auto simp: str_to_eq_Some)

lemma str_from_append [ustr_simps]: "str_from (p @ q) (blen p) = Some q"
  by (auto simp: str_from_eq_Some)

lemma is_char_boundary_append [ustr_simps]: "is_char_boundary (p @ q) (blen p)"
  by (auto simp: is_char_boundary_iff)

text \<open>Two prefixes of one string of the same byte length are the same prefix.\<close>

lemma prefix_blen_unique: "p @ q = p' @ q' \<Longrightarrow> blen p = blen p' \<Longrightarrow> p = p'"
  by (metis option.inject str_to_append)

section \<open>The last character boundary at or before an offset\<close>

text \<open>
  The source looks a boundary up by scanning offsets downwards
  (\<^verbatim>\<open>(0..=n).rev().find(|i| s.is_char_boundary(*i)).unwrap_or(0)\<close>). The scan computes the
  length of the longest prefix that fits in \<open>n\<close> bytes.
\<close>

definition floor_boundary :: "ustr \<Rightarrow> nat \<Rightarrow> nat" where
  "floor_boundary s n =
     (case List.find (is_char_boundary s) (rev [0..<Suc (min n (blen s))]) of
        Some i \<Rightarrow> i
      | None \<Rightarrow> 0)"

fun floor_prefix :: "ustr \<Rightarrow> nat \<Rightarrow> ustr" where
  "floor_prefix [] n = []"
| "floor_prefix (c # s) n =
     (if len_utf8 c \<le> n then c # floor_prefix s (n - len_utf8 c) else [])"

text \<open>The panicking slices \<^verbatim>\<open>&s[..i]\<close>, \<^verbatim>\<open>&s[i..]\<close>, \<^verbatim>\<open>&s[i..j]\<close> at offsets known to be boundaries.\<close>

definition slice_to :: "ustr \<Rightarrow> nat \<Rightarrow> ustr" where
  "slice_to s i = the (str_to s i)"

definition slice_from :: "ustr \<Rightarrow> nat \<Rightarrow> ustr" where
  "slice_from s i = the (str_from s i)"

definition str_slice :: "ustr \<Rightarrow> nat \<Rightarrow> nat \<Rightarrow> ustr" where
  "str_slice s i j = slice_from (slice_to s j) i"

lemma find_rev_upt:
  "List.find P (rev [0..<Suc m]) = Some i \<longleftrightarrow> P i \<and> i \<le> m \<and> (\<forall>j. i < j \<longrightarrow> j \<le> m \<longrightarrow> \<not> P j)"
proof (induction m)
  case 0
  show ?case by (cases i) auto
next
  case (Suc m)
  have "rev [0..<Suc (Suc m)] = Suc m # rev [0..<Suc m]" by simp
  then show ?case using Suc by (auto simp: le_Suc_eq dest: spec [of _ "Suc m"])
qed

lemma floor_prefix_append: "\<exists>q. s = floor_prefix s n @ q"
  by (induction s n rule: floor_prefix.induct) auto

lemma blen_floor_prefix_le: "blen (floor_prefix s n) \<le> n"
  by (induction s n rule: floor_prefix.induct) auto

lemma floor_prefix_maximal:
  "s = p @ q \<Longrightarrow> blen p \<le> n \<Longrightarrow> blen p \<le> blen (floor_prefix s n)"
proof (induction s n arbitrary: p rule: floor_prefix.induct)
  case (2 c s n)
  show ?case
  proof (cases p)
    case (Cons d p')
    with "2.prems" have "len_utf8 c \<le> n" "s = p' @ q" "blen p' \<le> n - len_utf8 c" "d = c" by auto
    with "2.IH" Cons show ?thesis by auto
  qed simp
qed simp

lemma floor_prefix_whole [simp]: "blen s \<le> n \<Longrightarrow> floor_prefix s n = s"
  by (induction s n rule: floor_prefix.induct) auto

lemma floor_prefix_append_blen [simp]: "floor_prefix (p @ q) (blen p) = p"
  by (induction p) (auto, cases q, auto)

lemma floor_prefix_0 [simp]: "floor_prefix s 0 = []"
  by (cases s) auto

lemma floor_boundary_eq: "floor_boundary s n = blen (floor_prefix s n)"
proof -
  let ?i = "blen (floor_prefix s n)"
  obtain q where q: "s = floor_prefix s n @ q" using floor_prefix_append by blast
  have "is_char_boundary s ?i" using q is_char_boundary_iff by metis
  moreover have "?i \<le> min n (blen s)"
    using blen_floor_prefix_le [of s n] q by (metis blen_append le_add1 min.bounded_iff)
  moreover have "\<not> is_char_boundary s j" if "?i < j" "j \<le> min n (blen s)" for j
  proof
    assume "is_char_boundary s j"
    then obtain p r where "s = p @ r" "blen p = j" by (auto simp: is_char_boundary_iff)
    with floor_prefix_maximal [of s p r n] that show False by simp
  qed
  ultimately have "List.find (is_char_boundary s) (rev [0..<Suc (min n (blen s))]) = Some ?i"
    unfolding find_rev_upt by blast
  then show ?thesis by (simp add: floor_boundary_def)
qed

lemma slice_to_append [ustr_simps]: "slice_to (p @ q) (blen p) = p"
  by (simp add: slice_to_def ustr_simps)

lemma slice_from_append [ustr_simps]: "slice_from (p @ q) (blen p) = q"
  by (simp add: slice_from_def ustr_simps)

lemma str_slice_append [ustr_simps]: "str_slice (p @ m @ q) (blen p) (blen p + blen m) = m"
proof -
  have "slice_to ((p @ m) @ q) (blen (p @ m)) = p @ m" by (rule slice_to_append)
  then show ?thesis by (simp add: str_slice_def slice_from_append)
qed

lemma slice_to_floor_boundary [ustr_simps]: "slice_to s (floor_boundary s n) = floor_prefix s n"
proof -
  obtain q where q: "s = floor_prefix s n @ q" using floor_prefix_append by blast
  have "slice_to (floor_prefix s n @ q) (blen (floor_prefix s n)) = floor_prefix s n"
    by (rule slice_to_append)
  with q show ?thesis by (simp add: floor_boundary_eq)
qed

lemma floor_prefix_mono: "m \<le> n \<Longrightarrow> \<exists>t. floor_prefix s n = floor_prefix s m @ t"
proof (induction s n arbitrary: m rule: floor_prefix.induct)
  case (2 c s n)
  show ?case
  proof (cases "len_utf8 c \<le> m")
    case True
    with "2.prems" have "m - len_utf8 c \<le> n - len_utf8 c" by simp
    with True "2.IH" "2.prems" show ?thesis by fastforce
  qed simp
qed simp

section \<open>Popping characters\<close>

lemma pop_n_0 [simp]: "pop_n 0 s = s"
  by (simp add: pop_n_def)

lemma pop_n_Nil [simp]: "pop_n n [] = []"
  by (simp add: pop_n_def)

lemma pop_n_Suc: "pop_n (Suc n) s = pop_n n (butlast s)"
  by (simp add: pop_n_def butlast_conv_take min_def)

lemma pop_n_append: "n \<le> length t \<Longrightarrow> pop_n n (s @ t) = s @ pop_n n t"
  by (simp add: pop_n_def)

lemma pop_n_exact [simp]: "pop_n (length t) (s @ t) = s"
  by (simp add: pop_n_def)

lemma pop_n_add: "pop_n (m + n) s = pop_n n (pop_n m s)"
  by (simp add: pop_n_def min_absorb2)

lemma pop_n_all [simp]: "length s \<le> n \<Longrightarrow> pop_n n s = []"
  by (simp add: pop_n_def)

lemma length_pop_n [simp]: "length (pop_n n s) = length s - n"
  by (simp add: pop_n_def)

lemma pop_n_suffix: "s = pop_n n s @ drop (length s - n) s"
  by (simp add: pop_n_def)

section \<open>String methods\<close>

text \<open>\<^verbatim>\<open>trim\<close>, \<^verbatim>\<open>to\_ascii\_lowercase\<close>, \<^verbatim>\<open>split(c)\<close> and \<^verbatim>\<open>split\_once(c)\<close> of \<^verbatim>\<open>str\<close>.\<close>

definition str_trim :: "ustr \<Rightarrow> ustr" where
  "str_trim s = rev (dropWhile is_whitespace (rev (dropWhile is_whitespace s)))"

definition str_lower :: "ustr \<Rightarrow> ustr" where
  "str_lower s = map to_ascii_lowercase s"

fun str_split :: "uchar \<Rightarrow> ustr \<Rightarrow> ustr list" where
  "str_split c [] = [[]]"
| "str_split c (x # xs) =
     (if x = c then [] # str_split c xs
      else (case str_split c xs of [] \<Rightarrow> [[x]] | w # ws \<Rightarrow> (x # w) # ws))"

definition str_split_once :: "uchar \<Rightarrow> ustr \<Rightarrow> (ustr \<times> ustr) option" where
  "str_split_once c s =
     (if c \<in> set s then Some (takeWhile (\<lambda>x. x \<noteq> c) s, tl (dropWhile (\<lambda>x. x \<noteq> c) s)) else None)"

fun str_join :: "ustr \<Rightarrow> ustr list \<Rightarrow> ustr" where
  "str_join sep [] = []"
| "str_join sep [w] = w"
| "str_join sep (w # v # ws) = w @ sep @ str_join sep (v # ws)"

lemma str_split_nonempty [simp]: "str_split c s \<noteq> []"
  by (induction s) (auto split: list.split)

lemma str_split_no_sep: "w \<in> set (str_split c s) \<Longrightarrow> c \<notin> set w"
proof (induction s arbitrary: w)
  case (Cons x xs)
  then show ?case by (cases "str_split c xs") (auto split: if_splits)
qed simp

lemma str_split_single: "c \<notin> set w \<Longrightarrow> str_split c w = [w]"
  by (induction w) auto

lemma str_split_append: "c \<notin> set w \<Longrightarrow> str_split c (w @ c # s) = w # str_split c s"
  by (induction w) auto

lemma str_split_join:
  "ws \<noteq> [] \<Longrightarrow> (\<And>w. w \<in> set ws \<Longrightarrow> c \<notin> set w) \<Longrightarrow> str_split c (str_join [c] ws) = ws"
  by (induction ws rule: induct_list012) (simp_all add: str_split_single str_split_append)

lemma str_split_once_Some:
  "str_split_once c s = Some (a, b) \<longleftrightarrow> s = a @ c # b \<and> c \<notin> set a"
proof
  assume "str_split_once c s = Some (a, b)"
  then have c: "c \<in> set s" and a: "a = takeWhile (\<lambda>x. x \<noteq> c) s"
    and b: "b = tl (dropWhile (\<lambda>x. x \<noteq> c) s)"
    by (auto simp: str_split_once_def split: if_splits)
  then have ne: "dropWhile (\<lambda>x. x \<noteq> c) s \<noteq> []" by (auto simp: dropWhile_eq_Nil_conv)
  then have "hd (dropWhile (\<lambda>x. x \<noteq> c) s) = c" using hd_dropWhile [OF ne] by simp
  with ne b have "dropWhile (\<lambda>x. x \<noteq> c) s = c # b" by (metis list.collapse)
  with a have "s = a @ c # b" by (metis takeWhile_dropWhile_id)
  moreover have "c \<notin> set a" using a by (auto dest: set_takeWhileD)
  ultimately show "s = a @ c # b \<and> c \<notin> set a" by blast
next
  assume h: "s = a @ c # b \<and> c \<notin> set a"
  then have "takeWhile (\<lambda>x. x \<noteq> c) s = a" by (auto simp: takeWhile_append)
  moreover have "dropWhile (\<lambda>x. x \<noteq> c) s = c # b" using h by (auto simp: dropWhile_append)
  ultimately show "str_split_once c s = Some (a, b)" using h by (simp add: str_split_once_def)
qed

end
