(* ===== verification/Utf8.thy ===== *)
theory Utf8
  imports Prelude
begin

text \<open>
  UTF-8 as the standard library has it: \<open>utf8_encode\<close> is the encoding of one scalar value,
  \<open>bytes_of\<close> is \<^verbatim>\<open>str::as_bytes\<close> and \<open>from_utf8\<close> is the validating \<^verbatim>\<open>String::from_utf8\<close>
  (it refuses truncated, overlong, surrogate and out-of-range sequences). Bytes are naturals
  below 256. The engine wrapper decodes the third-party engine's output with \<open>from_utf8\<close>, and
  the composer compares strings by byte ranges, which is sound because the encoding is
  uniquely decodable.
\<close>

definition utf8_encode :: "uchar \<Rightarrow> nat list" where
  "utf8_encode c =
     (if c < 0x80 then [c]
      else if c < 0x800 then [0xC0 + c div 64, 0x80 + c mod 64]
      else if c < 0x10000 then [0xE0 + c div 4096, 0x80 + (c div 64) mod 64, 0x80 + c mod 64]
      else [0xF0 + c div 262144, 0x80 + (c div 4096) mod 64, 0x80 + (c div 64) mod 64,
            0x80 + c mod 64])"

definition bytes_of :: "ustr \<Rightarrow> nat list" where
  "bytes_of s = concat (map utf8_encode s)"

definition is_cont :: "nat \<Rightarrow> bool" where
  "is_cont b \<longleftrightarrow> 0x80 \<le> b \<and> b < 0xC0"

text \<open>One scalar value off the front of a byte string, with the rest; \<open>None\<close> when ill-formed.\<close>

fun decode_char :: "nat list \<Rightarrow> (uchar \<times> nat list) option" where
  "decode_char [] = None"
| "decode_char (b # bs) =
     (if b < 0x80 then Some (b, bs)
      else if 0xC2 \<le> b \<and> b < 0xE0 then
        (case bs of
           b1 # r \<Rightarrow> if is_cont b1 then Some ((b - 0xC0) * 64 + (b1 - 0x80), r) else None
         | _ \<Rightarrow> None)
      else if 0xE0 \<le> b \<and> b < 0xF0 then
        (case bs of
           b1 # b2 # r \<Rightarrow>
             (let c = (b - 0xE0) * 4096 + (b1 - 0x80) * 64 + (b2 - 0x80) in
              if is_cont b1 \<and> is_cont b2 \<and> 0x800 \<le> c \<and> is_scalar c then Some (c, r) else None)
         | _ \<Rightarrow> None)
      else if 0xF0 \<le> b \<and> b < 0xF5 then
        (case bs of
           b1 # b2 # b3 # r \<Rightarrow>
             (let c = (b - 0xF0) * 262144 + (b1 - 0x80) * 4096 + (b2 - 0x80) * 64 + (b3 - 0x80) in
              if is_cont b1 \<and> is_cont b2 \<and> is_cont b3 \<and> 0x10000 \<le> c \<and> is_scalar c
              then Some (c, r) else None)
         | _ \<Rightarrow> None)
      else None)"

lemma decode_char_shorter: "decode_char bs = Some (c, r) \<Longrightarrow> length r < length bs"
  by (cases bs) (auto simp: Let_def split: if_splits list.splits)

function from_utf8 :: "nat list \<Rightarrow> ustr option" where
  "from_utf8 bs =
     (if bs = [] then Some []
      else case decode_char bs of
             None \<Rightarrow> None
           | Some (c, r) \<Rightarrow> map_option ((#) c) (from_utf8 r))"
  by pat_completeness auto
termination
  by (relation "measure length") (auto dest: decode_char_shorter)

declare from_utf8.simps [simp del]

lemma from_utf8_Nil [simp]: "from_utf8 [] = Some []"
  by (subst from_utf8.simps) simp

lemma utf8_encode_nonempty [simp]: "utf8_encode c \<noteq> []"
  by (simp add: utf8_encode_def)

lemma length_utf8_encode: "length (utf8_encode c) = len_utf8 c"
  by (simp add: utf8_encode_def len_utf8_def)

lemma bytes_of_Nil [simp]: "bytes_of [] = []"
  by (simp add: bytes_of_def)

lemma bytes_of_Cons [simp]: "bytes_of (c # s) = utf8_encode c @ bytes_of s"
  by (simp add: bytes_of_def)

lemma bytes_of_append [simp]: "bytes_of (s @ t) = bytes_of s @ bytes_of t"
  by (simp add: bytes_of_def)

lemma length_bytes_of [simp]: "length (bytes_of s) = blen s"
  by (induction s) (auto simp: length_utf8_encode)

text \<open>Splitting a number into its base-64 digits loses nothing.\<close>

lemma digits2: "(n::nat) div 64 * 64 + n mod 64 = n"
  by (rule div_mult_mod_eq)

lemma regroup3: "a * 64 + r = (n::nat) \<Longrightarrow> q * 64 + t = a \<Longrightarrow> q * 4096 + t * 64 + r = n"
  by simp

lemma regroup4:
  "a * 64 + r = (n::nat) \<Longrightarrow> q * 4096 + t * 64 + u = a \<Longrightarrow> q * 262144 + t * 4096 + u * 64 + r = n"
  by simp

lemma digits3: "(n::nat) div 4096 * 4096 + n div 64 mod 64 * 64 + n mod 64 = n"
proof (rule regroup3 [OF digits2 [of n]])
  show "n div 4096 * 64 + n div 64 mod 64 = n div 64"
    using digits2 [of "n div 64"] by (simp only: div_mult2_eq [symmetric]) simp
qed

lemma digits4:
  "(n::nat) div 262144 * 262144 + n div 4096 mod 64 * 4096 + n div 64 mod 64 * 64 + n mod 64 = n"
proof (rule regroup4 [OF digits2 [of n]])
  show "n div 262144 * 4096 + n div 4096 mod 64 * 64 + n div 64 mod 64 = n div 64"
    using digits3 [of "n div 64"] by (simp only: div_mult2_eq [symmetric]) simp
qed

lemma div_mod_64:
  assumes "(d::nat) < 64"
  shows "(a * 64 + d) div 64 = a" and "(a * 64 + d) mod 64 = d"
  using assms by simp_all

lemma is_cont_lt: "is_cont b \<Longrightarrow> b - 0x80 < 64"
  by (auto simp: is_cont_def)

lemma decode_encode_char:
  assumes "is_scalar c"
  shows "decode_char (utf8_encode c @ r) = Some (c, r)"
proof -
  have c: "c < 0x110000" using assms by (auto simp: is_scalar_def)
  consider "c < 0x80" | "0x80 \<le> c" "c < 0x800" | "0x800 \<le> c" "c < 0x10000" | "0x10000 \<le> c"
    by linarith
  then show ?thesis
  proof cases
    case 1
    then show ?thesis by (simp add: utf8_encode_def)
  next
    case 2
    then have "2 \<le> c div 64" "c div 64 < 32" by linarith+
    with 2 show ?thesis
      using digits2 [of c] by (simp add: utf8_encode_def is_cont_def) linarith
  next
    case 3
    then have "c div 4096 < 16" by (simp add: less_mult_imp_div_less)
    with 3 show ?thesis
      using digits3 [of c] assms by (simp add: utf8_encode_def is_cont_def Let_def)
  next
    case 4
    with c have "c div 262144 < 5" by (simp add: less_mult_imp_div_less)
    with 4 show ?thesis
      using digits4 [of c] assms by (simp add: utf8_encode_def is_cont_def Let_def)
  qed
qed

lemma from_utf8_encode_Cons:
  "is_scalar c \<Longrightarrow> from_utf8 (utf8_encode c @ bs) = map_option ((#) c) (from_utf8 bs)"
  by (subst from_utf8.simps) (simp add: decode_encode_char)

lemma from_utf8_bytes_of: "list_all is_scalar s \<Longrightarrow> from_utf8 (bytes_of s) = Some s"
  by (induction s) (auto simp: from_utf8_encode_Cons)

text \<open>Distinct strings have distinct encodings.\<close>

lemma bytes_of_inject:
  assumes "list_all is_scalar s" "list_all is_scalar t"
  shows "bytes_of s = bytes_of t \<longleftrightarrow> s = t"
  using from_utf8_bytes_of [OF assms(1)] from_utf8_bytes_of [OF assms(2)] by (metis option.inject)

text \<open>The decoder accepts nothing but encodings of scalar values.\<close>

lemma decode_char_sound:
  assumes "decode_char bs = Some (c, r)"
  shows "is_scalar c \<and> bs = utf8_encode c @ r"
proof -
  from assms obtain b t where bs: "bs = b # t" by (cases bs) auto
  consider "b < 0x80" | "0xC2 \<le> b" "b < 0xE0" | "0xE0 \<le> b" "b < 0xF0" | "0xF0 \<le> b" "b < 0xF5"
    | "0x80 \<le> b \<and> b < 0xC2 \<or> 0xF5 \<le> b"
    by linarith
  then show ?thesis
  proof cases
    case 1
    with assms bs show ?thesis by (simp add: is_scalar_def utf8_encode_def)
  next
    case 2
    with assms bs obtain b1 where t: "t = b1 # r" "is_cont b1"
      and c: "c = (b - 0xC0) * 64 + (b1 - 0x80)"
      by (auto split: list.splits if_splits)
    have "c div 64 = b - 0xC0" "c mod 64 = b1 - 0x80"
      unfolding c by (rule div_mod_64 [OF is_cont_lt [OF t(2)]])+
    moreover have "0x80 \<le> c" "c < 0x800" using 2 t(2) by (auto simp: c is_cont_def)
    ultimately show ?thesis
      using 2 t by (simp add: bs utf8_encode_def is_scalar_def is_cont_def)
  next
    case 3
    with assms bs obtain b1 b2 where t: "t = b1 # b2 # r" "is_cont b1" "is_cont b2"
      and c: "c = (b - 0xE0) * 4096 + (b1 - 0x80) * 64 + (b2 - 0x80)"
      and s: "0x800 \<le> c" "is_scalar c"
      by (auto simp: Let_def split: list.splits if_splits)
    have q: "c = ((b - 0xE0) * 64 + (b1 - 0x80)) * 64 + (b2 - 0x80)" by (simp add: c)
    have d1: "c div 64 = (b - 0xE0) * 64 + (b1 - 0x80)" "c mod 64 = b2 - 0x80"
      unfolding q by (rule div_mod_64 [OF is_cont_lt [OF t(3)]])+
    have d2: "c div 64 div 64 = b - 0xE0" "c div 64 mod 64 = b1 - 0x80"
      unfolding d1 by (rule div_mod_64 [OF is_cont_lt [OF t(2)]])+
    have "c div 4096 = b - 0xE0" using d2(1) by (simp add: div_mult2_eq [symmetric])
    note e = this d2(2) d1(2)
    have "c < 0x10000" using 3 t by (auto simp: c is_cont_def)
    with e show ?thesis
      using 3 t s by (simp add: bs utf8_encode_def is_cont_def div_mult2_eq [symmetric])
  next
    case 4
    with assms bs obtain b1 b2 b3
      where t: "t = b1 # b2 # b3 # r" "is_cont b1" "is_cont b2" "is_cont b3"
      and c: "c = (b - 0xF0) * 262144 + (b1 - 0x80) * 4096 + (b2 - 0x80) * 64 + (b3 - 0x80)"
      and s: "0x10000 \<le> c" "is_scalar c"
      by (auto simp: Let_def split: list.splits if_splits)
    have q: "c = (((b - 0xF0) * 64 + (b1 - 0x80)) * 64 + (b2 - 0x80)) * 64 + (b3 - 0x80)"
      by (simp add: c)
    have d1: "c div 64 = ((b - 0xF0) * 64 + (b1 - 0x80)) * 64 + (b2 - 0x80)"
      "c mod 64 = b3 - 0x80"
      unfolding q by (rule div_mod_64 [OF is_cont_lt [OF t(4)]])+
    have d2: "c div 64 div 64 = (b - 0xF0) * 64 + (b1 - 0x80)"
      "c div 64 mod 64 = b2 - 0x80"
      unfolding d1 by (rule div_mod_64 [OF is_cont_lt [OF t(3)]])+
    have d3: "c div 64 div 64 div 64 = b - 0xF0" "c div 64 div 64 mod 64 = b1 - 0x80"
      unfolding d2 by (rule div_mod_64 [OF is_cont_lt [OF t(2)]])+
    have "c div 262144 = b - 0xF0" "c div 4096 mod 64 = b1 - 0x80"
      using d3 by (simp_all add: div_mult2_eq [symmetric])
    from this d2(2) d1(2) 4 t s show ?thesis
      by (simp add: bs utf8_encode_def is_cont_def div_mult2_eq [symmetric])
  next
    case 5
    with assms bs show ?thesis by auto
  qed
qed

lemma from_utf8_sound: "from_utf8 bs = Some s \<Longrightarrow> list_all is_scalar s \<and> bytes_of s = bs"
proof (induction bs arbitrary: s rule: from_utf8.induct)
  case (1 bs)
  show ?case
  proof (cases "bs = []")
    case False
    with "1.prems" obtain c r t where d: "decode_char bs = Some (c, r)"
      and t: "from_utf8 r = Some t" "s = c # t"
      by (auto simp: from_utf8.simps [of bs] split: option.splits)
    with "1.IH" [OF False d refl t(1)] decode_char_sound [OF d] show ?thesis by simp
  qed (use 1 in simp)
qed

end
