(* ===== verification/GlyphTables.thy ===== *)
theory GlyphTables
  imports Prelude "HOL-Library.Code_Target_Nat"
begin

text \<open>
  The composed-glyph reversal tables of \<^verbatim>\<open>crates/engine/src/telex.rs\<close>, \<^verbatim>\<open>vni.rs\<close> and
  \<^verbatim>\<open>viqr.rs\<close>: each Vietnamese glyph, by its code point, with the keystrokes of the input
  method that produce it, in the order of the source's match arms. A row is a glyph and
  its keys; a glyph outside the table has no keys.
\<close>

definition glyph_keys :: "(uchar \<times> string) list \<Rightarrow> uchar \<Rightarrow> ustr" where
  "glyph_keys rows ch = (case map_of rows ch of Some keys \<Rightarrow> lit keys | None \<Rightarrow> [])"

definition telex_rows :: "(uchar \<times> string) list" where
  "telex_rows = [
     (0xE1, ''as''), (0xE0, ''af''), (0x1EA3, ''ar''), (0xE3, ''ax''),
     (0x1EA1, ''aj''), (0xC1, ''AS''), (0xC0, ''AF''), (0x1EA2, ''AR''),
     (0xC3, ''AX''), (0x1EA0, ''AJ''), (0x103, ''aw''), (0x1EAF, ''aws''),
     (0x1EB1, ''awf''), (0x1EB3, ''awr''), (0x1EB5, ''awx''), (0x1EB7, ''awj''),
     (0x102, ''AW''), (0x1EAE, ''AWS''), (0x1EB0, ''AWF''), (0x1EB2, ''AWR''),
     (0x1EB4, ''AWX''), (0x1EB6, ''AWJ''), (0xE2, ''aa''), (0x1EA5, ''aas''),
     (0x1EA7, ''aaf''), (0x1EA9, ''aar''), (0x1EAB, ''aax''), (0x1EAD, ''aaj''),
     (0xC2, ''AA''), (0x1EA4, ''AAS''), (0x1EA6, ''AAF''), (0x1EA8, ''AAR''),
     (0x1EAA, ''AAX''), (0x1EAC, ''AAJ''), (0x111, ''dd''), (0x110, ''DD''),
     (0xE9, ''es''), (0xE8, ''ef''), (0x1EBB, ''er''), (0x1EBD, ''ex''),
     (0x1EB9, ''ej''), (0xC9, ''ES''), (0xC8, ''EF''), (0x1EBA, ''ER''),
     (0x1EBC, ''EX''), (0x1EB8, ''EJ''), (0xEA, ''ee''), (0x1EBF, ''ees''),
     (0x1EC1, ''eef''), (0x1EC3, ''eer''), (0x1EC5, ''eex''), (0x1EC7, ''eej''),
     (0xCA, ''EE''), (0x1EBE, ''EES''), (0x1EC0, ''EEF''), (0x1EC2, ''EER''),
     (0x1EC4, ''EEX''), (0x1EC6, ''EEJ''), (0xED, ''is''), (0xEC, ''if''),
     (0x1EC9, ''ir''), (0x129, ''ix''), (0x1ECB, ''ij''), (0xCD, ''IS''),
     (0xCC, ''IF''), (0x1EC8, ''IR''), (0x128, ''IX''), (0x1ECA, ''IJ''),
     (0xF3, ''os''), (0xF2, ''of''), (0x1ECF, ''or''), (0xF5, ''ox''),
     (0x1ECD, ''oj''), (0xD3, ''OS''), (0xD2, ''OF''), (0x1ECE, ''OR''),
     (0xD5, ''OX''), (0x1ECC, ''OJ''), (0xF4, ''oo''), (0x1ED1, ''oos''),
     (0x1ED3, ''oof''), (0x1ED5, ''oor''), (0x1ED7, ''oox''), (0x1ED9, ''ooj''),
     (0xD4, ''OO''), (0x1ED0, ''OOS''), (0x1ED2, ''OOF''), (0x1ED4, ''OOR''),
     (0x1ED6, ''OOX''), (0x1ED8, ''OOJ''), (0x1A1, ''ow''), (0x1EDB, ''ows''),
     (0x1EDD, ''owf''), (0x1EDF, ''owr''), (0x1EE1, ''owx''), (0x1EE3, ''owj''),
     (0x1A0, ''OW''), (0x1EDA, ''OWS''), (0x1EDC, ''OWF''), (0x1EDE, ''OWR''),
     (0x1EE0, ''OWX''), (0x1EE2, ''OWJ''), (0xFA, ''us''), (0xF9, ''uf''),
     (0x1EE7, ''ur''), (0x169, ''ux''), (0x1EE5, ''uj''), (0xDA, ''US''),
     (0xD9, ''UF''), (0x1EE6, ''UR''), (0x168, ''UX''), (0x1EE4, ''UJ''),
     (0x1B0, ''uw''), (0x1EE9, ''uws''), (0x1EEB, ''uwf''), (0x1EED, ''uwr''),
     (0x1EEF, ''uwx''), (0x1EF1, ''uwj''), (0x1AF, ''UW''), (0x1EE8, ''UWS''),
     (0x1EEA, ''UWF''), (0x1EEC, ''UWR''), (0x1EEE, ''UWX''), (0x1EF0, ''UWJ''),
     (0xFD, ''ys''), (0x1EF3, ''yf''), (0x1EF7, ''yr''), (0x1EF9, ''yx''),
     (0x1EF5, ''yj''), (0xDD, ''YS''), (0x1EF2, ''YF''), (0x1EF6, ''YR''),
     (0x1EF8, ''YX''), (0x1EF4, ''YJ'')]"

definition telex_chars_from_composed :: "uchar \<Rightarrow> ustr" where
  "telex_chars_from_composed = glyph_keys telex_rows"

definition vni_rows :: "(uchar \<times> string) list" where
  "vni_rows = [
     (0xE1, ''a1''), (0xE0, ''a2''), (0x1EA3, ''a3''), (0xE3, ''a4''),
     (0x1EA1, ''a5''), (0xC1, ''A1''), (0xC0, ''A2''), (0x1EA2, ''A3''),
     (0xC3, ''A4''), (0x1EA0, ''A5''), (0xE2, ''a6''), (0x1EA5, ''a61''),
     (0x1EA7, ''a62''), (0x1EA9, ''a63''), (0x1EAB, ''a64''), (0x1EAD, ''a65''),
     (0xC2, ''A6''), (0x1EA4, ''A61''), (0x1EA6, ''A62''), (0x1EA8, ''A63''),
     (0x1EAA, ''A64''), (0x1EAC, ''A65''), (0x103, ''a8''), (0x1EAF, ''a81''),
     (0x1EB1, ''a82''), (0x1EB3, ''a83''), (0x1EB5, ''a84''), (0x1EB7, ''a85''),
     (0x102, ''A8''), (0x1EAE, ''A81''), (0x1EB0, ''A82''), (0x1EB2, ''A83''),
     (0x1EB4, ''A84''), (0x1EB6, ''A85''), (0x111, ''d9''), (0x110, ''D9''),
     (0xE9, ''e1''), (0xE8, ''e2''), (0x1EBB, ''e3''), (0x1EBD, ''e4''),
     (0x1EB9, ''e5''), (0xC9, ''E1''), (0xC8, ''E2''), (0x1EBA, ''E3''),
     (0x1EBC, ''E4''), (0x1EB8, ''E5''), (0xEA, ''e6''), (0x1EBF, ''e61''),
     (0x1EC1, ''e62''), (0x1EC3, ''e63''), (0x1EC5, ''e64''), (0x1EC7, ''e65''),
     (0xCA, ''E6''), (0x1EBE, ''E61''), (0x1EC0, ''E62''), (0x1EC2, ''E63''),
     (0x1EC4, ''E64''), (0x1EC6, ''E65''), (0xED, ''i1''), (0xEC, ''i2''),
     (0x1EC9, ''i3''), (0x129, ''i4''), (0x1ECB, ''i5''), (0xCD, ''I1''),
     (0xCC, ''I2''), (0x1EC8, ''I3''), (0x128, ''I4''), (0x1ECA, ''I5''),
     (0xF3, ''o1''), (0xF2, ''o2''), (0x1ECF, ''o3''), (0xF5, ''o4''),
     (0x1ECD, ''o5''), (0xD3, ''O1''), (0xD2, ''O2''), (0x1ECE, ''O3''),
     (0xD5, ''O4''), (0x1ECC, ''O5''), (0xF4, ''o6''), (0x1ED1, ''o61''),
     (0x1ED3, ''o62''), (0x1ED5, ''o63''), (0x1ED7, ''o64''), (0x1ED9, ''o65''),
     (0xD4, ''O6''), (0x1ED0, ''O61''), (0x1ED2, ''O62''), (0x1ED4, ''O63''),
     (0x1ED6, ''O64''), (0x1ED8, ''O65''), (0x1A1, ''o7''), (0x1EDB, ''o71''),
     (0x1EDD, ''o72''), (0x1EDF, ''o73''), (0x1EE1, ''o74''), (0x1EE3, ''o75''),
     (0x1A0, ''O7''), (0x1EDA, ''O71''), (0x1EDC, ''O72''), (0x1EDE, ''O73''),
     (0x1EE0, ''O74''), (0x1EE2, ''O75''), (0xFA, ''u1''), (0xF9, ''u2''),
     (0x1EE7, ''u3''), (0x169, ''u4''), (0x1EE5, ''u5''), (0xDA, ''U1''),
     (0xD9, ''U2''), (0x1EE6, ''U3''), (0x168, ''U4''), (0x1EE4, ''U5''),
     (0x1B0, ''u7''), (0x1EE9, ''u71''), (0x1EEB, ''u72''), (0x1EED, ''u73''),
     (0x1EEF, ''u74''), (0x1EF1, ''u75''), (0x1AF, ''U7''), (0x1EE8, ''U71''),
     (0x1EEA, ''U72''), (0x1EEC, ''U73''), (0x1EEE, ''U74''), (0x1EF0, ''U75''),
     (0xFD, ''y1''), (0x1EF3, ''y2''), (0x1EF7, ''y3''), (0x1EF9, ''y4''),
     (0x1EF5, ''y5''), (0xDD, ''Y1''), (0x1EF2, ''Y2''), (0x1EF6, ''Y3''),
     (0x1EF8, ''Y4''), (0x1EF4, ''Y5'')]"

definition vni_chars_from_composed :: "uchar \<Rightarrow> ustr" where
  "vni_chars_from_composed = glyph_keys vni_rows"

definition viqr_rows :: "(uchar \<times> string) list" where
  "viqr_rows = [
     (0xE1, [CHR 0x61, CHR 0x27]), (0xE0, [CHR 0x61, CHR 0x60]), (0x1EA3, ''a?''), (0xE3, ''a~''),
     (0x1EA1, ''a.''), (0xC1, [CHR 0x41, CHR 0x27]), (0xC0, [CHR 0x41, CHR 0x60]), (0x1EA2, ''A?''),
     (0xC3, ''A~''), (0x1EA0, ''A.''), (0x103, ''a(''), (0x1EAF, [CHR 0x61, CHR 0x28, CHR 0x27]),
     (0x1EB1, [CHR 0x61, CHR 0x28, CHR 0x60]), (0x1EB3, ''a(?''), (0x1EB5, ''a(~''), (0x1EB7, ''a(.''),
     (0x102, ''A(''), (0x1EAE, [CHR 0x41, CHR 0x28, CHR 0x27]), (0x1EB0, [CHR 0x41, CHR 0x28, CHR 0x60]), (0x1EB2, ''A(?''),
     (0x1EB4, ''A(~''), (0x1EB6, ''A(.''), (0xE2, ''a^''), (0x1EA5, [CHR 0x61, CHR 0x5E, CHR 0x27]),
     (0x1EA7, [CHR 0x61, CHR 0x5E, CHR 0x60]), (0x1EA9, ''a^?''), (0x1EAB, ''a^~''), (0x1EAD, ''a^.''),
     (0xC2, ''A^''), (0x1EA4, [CHR 0x41, CHR 0x5E, CHR 0x27]), (0x1EA6, [CHR 0x41, CHR 0x5E, CHR 0x60]), (0x1EA8, ''A^?''),
     (0x1EAA, ''A^~''), (0x1EAC, ''A^.''), (0x111, ''dd''), (0x110, ''DD''),
     (0xE9, [CHR 0x65, CHR 0x27]), (0xE8, [CHR 0x65, CHR 0x60]), (0x1EBB, ''e?''), (0x1EBD, ''e~''),
     (0x1EB9, ''e.''), (0xC9, [CHR 0x45, CHR 0x27]), (0xC8, [CHR 0x45, CHR 0x60]), (0x1EBA, ''E?''),
     (0x1EBC, ''E~''), (0x1EB8, ''E.''), (0xEA, ''e^''), (0x1EBF, [CHR 0x65, CHR 0x5E, CHR 0x27]),
     (0x1EC1, [CHR 0x65, CHR 0x5E, CHR 0x60]), (0x1EC3, ''e^?''), (0x1EC5, ''e^~''), (0x1EC7, ''e^.''),
     (0xCA, ''E^''), (0x1EBE, [CHR 0x45, CHR 0x5E, CHR 0x27]), (0x1EC0, [CHR 0x45, CHR 0x5E, CHR 0x60]), (0x1EC2, ''E^?''),
     (0x1EC4, ''E^~''), (0x1EC6, ''E^.''), (0xED, [CHR 0x69, CHR 0x27]), (0xEC, [CHR 0x69, CHR 0x60]),
     (0x1EC9, ''i?''), (0x129, ''i~''), (0x1ECB, ''i.''), (0xCD, [CHR 0x49, CHR 0x27]),
     (0xCC, [CHR 0x49, CHR 0x60]), (0x1EC8, ''I?''), (0x128, ''I~''), (0x1ECA, ''I.''),
     (0xF3, [CHR 0x6F, CHR 0x27]), (0xF2, [CHR 0x6F, CHR 0x60]), (0x1ECF, ''o?''), (0xF5, ''o~''),
     (0x1ECD, ''o.''), (0xD3, [CHR 0x4F, CHR 0x27]), (0xD2, [CHR 0x4F, CHR 0x60]), (0x1ECE, ''O?''),
     (0xD5, ''O~''), (0x1ECC, ''O.''), (0xF4, ''o^''), (0x1ED1, [CHR 0x6F, CHR 0x5E, CHR 0x27]),
     (0x1ED3, [CHR 0x6F, CHR 0x5E, CHR 0x60]), (0x1ED5, ''o^?''), (0x1ED7, ''o^~''), (0x1ED9, ''o^.''),
     (0xD4, ''O^''), (0x1ED0, [CHR 0x4F, CHR 0x5E, CHR 0x27]), (0x1ED2, [CHR 0x4F, CHR 0x5E, CHR 0x60]), (0x1ED4, ''O^?''),
     (0x1ED6, ''O^~''), (0x1ED8, ''O^.''), (0x1A1, ''o+''), (0x1EDB, [CHR 0x6F, CHR 0x2B, CHR 0x27]),
     (0x1EDD, [CHR 0x6F, CHR 0x2B, CHR 0x60]), (0x1EDF, ''o+?''), (0x1EE1, ''o+~''), (0x1EE3, ''o+.''),
     (0x1A0, ''O+''), (0x1EDA, [CHR 0x4F, CHR 0x2B, CHR 0x27]), (0x1EDC, [CHR 0x4F, CHR 0x2B, CHR 0x60]), (0x1EDE, ''O+?''),
     (0x1EE0, ''O+~''), (0x1EE2, ''O+.''), (0xFA, [CHR 0x75, CHR 0x27]), (0xF9, [CHR 0x75, CHR 0x60]),
     (0x1EE7, ''u?''), (0x169, ''u~''), (0x1EE5, ''u.''), (0xDA, [CHR 0x55, CHR 0x27]),
     (0xD9, [CHR 0x55, CHR 0x60]), (0x1EE6, ''U?''), (0x168, ''U~''), (0x1EE4, ''U.''),
     (0x1B0, ''u+''), (0x1EE9, [CHR 0x75, CHR 0x2B, CHR 0x27]), (0x1EEB, [CHR 0x75, CHR 0x2B, CHR 0x60]), (0x1EED, ''u+?''),
     (0x1EEF, ''u+~''), (0x1EF1, ''u+.''), (0x1AF, ''U+''), (0x1EE8, [CHR 0x55, CHR 0x2B, CHR 0x27]),
     (0x1EEA, [CHR 0x55, CHR 0x2B, CHR 0x60]), (0x1EEC, ''U+?''), (0x1EEE, ''U+~''), (0x1EF0, ''U+.''),
     (0xFD, [CHR 0x79, CHR 0x27]), (0x1EF3, [CHR 0x79, CHR 0x60]), (0x1EF7, ''y?''), (0x1EF9, ''y~''),
     (0x1EF5, ''y.''), (0xDD, [CHR 0x59, CHR 0x27]), (0x1EF2, [CHR 0x59, CHR 0x60]), (0x1EF6, ''Y?''),
     (0x1EF8, ''Y~''), (0x1EF4, ''Y.'')]"

definition viqr_chars_from_composed :: "uchar \<Rightarrow> ustr" where
  "viqr_chars_from_composed = glyph_keys viqr_rows"

section \<open>The tables agree with each other\<close>

text \<open>
  A composed glyph is a base letter, possibly a shape mark, possibly a tone. \<open>split_telex\<close>
  reads the parts off a Telex key sequence, and the two translations spell the same parts in
  VNI and VIQR keys. They are the reference the other two tables are checked against.
\<close>

definition telex_tones :: "string" where
  "telex_tones = ''sfrxjSFRXJ''"

fun split_telex :: "string \<Rightarrow> char \<times> string \<times> string" where
  "split_telex [b, k] = (if k \<in> set telex_tones then (b, [], [k]) else (b, [k], []))"
| "split_telex [b, m, t] = (b, [m], [t])"
| "split_telex ks = (CHR 0x00, [], [])"

definition vni_tone :: "char \<Rightarrow> char" where
  "vni_tone t = the (map_of (zip telex_tones ''1234512345'') t)"

definition viqr_tone :: "char \<Rightarrow> char" where
  "viqr_tone t = the (map_of (zip telex_tones (concat (replicate 2
     [CHR 0x27, CHR 0x60, CHR 0x3F, CHR 0x7E, CHR 0x2E]))) t)"

definition vni_mark :: "char \<Rightarrow> char \<Rightarrow> char" where
  "vni_mark b m =
     (if b \<in> set ''dD'' then CHR ''9''
      else if m \<in> set ''wW'' then (if b \<in> set ''aA'' then CHR ''8'' else CHR ''7'')
      else CHR ''6'')"

definition viqr_mark :: "char \<Rightarrow> char \<Rightarrow> char" where
  "viqr_mark b m =
     (if b \<in> set ''dD'' then m
      else if m \<in> set ''wW'' then (if b \<in> set ''aA'' then CHR ''('' else CHR ''+'')
      else CHR 0x5E)"

definition telex_to :: "(char \<Rightarrow> char \<Rightarrow> char) \<Rightarrow> (char \<Rightarrow> char) \<Rightarrow> string \<Rightarrow> string" where
  "telex_to mark tone ks = (case split_telex ks of (b, marks, tones) \<Rightarrow> b # map (mark b) marks @ map tone tones)"

text \<open>The other two tables list the circumflex letters of \<open>a\<close> before or after the breve ones.\<close>

definition swap_a_blocks :: "'a list \<Rightarrow> 'a list" where
  "swap_a_blocks rows = take 10 rows @ take 12 (drop 22 rows) @ take 12 (drop 10 rows) @ drop 34 rows"

lemma set_swap_a_blocks: "set (swap_a_blocks rows) = set rows"
proof -
  have "rows = take 10 rows @ take 12 (drop 10 rows) @ take 12 (drop 22 rows) @ drop 34 rows"
    using append_take_drop_id [of 10 rows] append_take_drop_id [of 12 "drop 10 rows"]
      append_take_drop_id [of 12 "drop 22 rows"] by simp
  from arg_cong [OF this, of set] show ?thesis
    by (simp only: swap_a_blocks_def set_append) blast
qed

lemma map_of_eq_sets:
  assumes "distinct (map fst xs)" "distinct (map fst ys)" "set xs = set ys"
  shows "map_of xs = map_of ys"
  using assms by (metis map_of_inject_set)

lemma map_of_map_apsnd: "map_of (map (apsnd f) xs) c = map_option f (map_of xs c)"
  by (induction xs) auto

lemma telex_rows_distinct: "distinct (map fst telex_rows)"
  by code_simp

lemma telex_keys_distinct: "distinct (map snd telex_rows)"
  by code_simp

lemma vni_rows_distinct: "distinct (map fst vni_rows)"
  by code_simp

lemma vni_rows_eq: "vni_rows = map (apsnd (telex_to vni_mark vni_tone)) (swap_a_blocks telex_rows)"
  by code_simp

lemma viqr_rows_eq: "viqr_rows = map (apsnd (telex_to viqr_mark viqr_tone)) telex_rows"
  by code_simp

lemma vni_rows_translated:
  "map_of vni_rows c = map_option (telex_to vni_mark vni_tone) (map_of telex_rows c)"
proof -
  have "set (map (apsnd (telex_to vni_mark vni_tone)) telex_rows) = set vni_rows"
    by (simp add: vni_rows_eq set_swap_a_blocks)
  then have "map_of (map (apsnd (telex_to vni_mark vni_tone)) telex_rows) = map_of vni_rows"
    by (intro map_of_eq_sets) (simp_all add: vni_rows_distinct telex_rows_distinct)
  then show ?thesis by (metis map_of_map_apsnd)
qed

lemma viqr_rows_translated:
  "map_of viqr_rows c = map_option (telex_to viqr_mark viqr_tone) (map_of telex_rows c)"
  by (simp add: viqr_rows_eq map_of_map_apsnd)

lemma telex_keys_shape:
  "list_all (\<lambda>(c, ks). (length ks = 2 \<or> length ks = 3) \<and> 128 \<le> c \<and>
     list_all (\<lambda>k. is_ascii_alphabetic (of_char k)) ks) telex_rows"
  by code_simp

end
