(* ===== verification/Engine.thy ===== *)
theory Engine
  imports Utf8 GlyphTables
begin

text \<open>
  \<^verbatim>\<open>crates/engine/src/lib.rs\<close>: the wrapper around the \<^verbatim>\<open>vnkey-engine\<close> library. The library
  itself is not part of the repository (a git submodule), so it is a parameter: the record
  \<open>'e vnkey\<close> holds the entry points the wrapper calls, over an engine state \<open>'e\<close> nothing
  else is known of. \<open>toy_vnkey\<close> is one concrete instance, used for witnesses only.
\<close>

datatype input_method = Telex | Vni | Viqr

section \<open>The library as a parameter\<close>

text \<open>\<^verbatim>\<open>vnkey\_engine::ProcessResult\<close>: the fields the wrapper reads.\<close>

record vnkey_result =
  vr_backspaces :: usize
  vr_output :: "u8 list"
  vr_processed :: bool

record 'e vnkey =
  vk_new :: 'e
  vk_set_input_method :: "input_method \<Rightarrow> 'e \<Rightarrow> 'e"
  vk_set_user_key_map :: "int list \<Rightarrow> 'e \<Rightarrow> 'e"
  vk_set_viet_mode :: "bool \<Rightarrow> 'e \<Rightarrow> 'e"
  vk_get_modern_style :: "'e \<Rightarrow> bool"
  vk_set_modern_style :: "bool \<Rightarrow> 'e \<Rightarrow> 'e"
  vk_process :: "uchar \<Rightarrow> 'e \<Rightarrow> vnkey_result \<times> 'e"
  vk_process_backspace :: "'e \<Rightarrow> vnkey_result \<times> 'e"
  vk_reset :: "'e \<Rightarrow> 'e"
  vk_feed_context :: "ustr \<Rightarrow> 'e \<Rightarrow> bool \<times> 'e"
  vk_at_word_beginning :: "'e \<Rightarrow> bool"
  vk_telex_mapping :: "(u8 \<times> int) list"
  vk_normal :: int
  vk_vne_count :: int

section \<open>Key map and glyph reversal\<close>

text \<open>\<^verbatim>\<open>telex\_key\_map\<close>: the loop over the library's mapping, skipping the bracket keys.\<close>

fun telex_key_map_loop :: "bool \<Rightarrow> int \<Rightarrow> (u8 \<times> int) list \<Rightarrow> int list \<Rightarrow> int list" where
  "telex_key_map_loop bracket_shortcuts vne_count [] key_map = key_map"
| "telex_key_map_loop bracket_shortcuts vne_count ((key, action) # entries) key_map =
     (if \<not> bracket_shortcuts \<and> unat key \<in> {91, 93, 123, 125} then
        telex_key_map_loop bracket_shortcuts vne_count entries key_map
      else
        (let key_map1 = key_map[unat key := action];
             key_map2 =
               (if action < vne_count then
                  (if is_ascii_lowercase (unat key) then
                     key_map1[to_ascii_uppercase (unat key) := action]
                   else if is_ascii_uppercase (unat key) then
                     key_map1[to_ascii_lowercase (unat key) := action]
                   else key_map1)
                else key_map1)
         in telex_key_map_loop bracket_shortcuts vne_count entries key_map2))"

definition telex_key_map :: "'e vnkey \<Rightarrow> bool \<Rightarrow> int list" where
  "telex_key_map vk bracket_shortcuts =
     telex_key_map_loop bracket_shortcuts (vk_vne_count vk) (vk_telex_mapping vk)
       (replicate 256 (vk_normal vk))"

definition ascii_passthrough :: "uchar \<Rightarrow> ustr" where
  "ascii_passthrough ch = (if is_ascii_alphabetic ch \<or> is_ascii_digit ch then [ch] else [])"

definition chars_from_composed :: "uchar \<Rightarrow> input_method \<Rightarrow> ustr" where
  "chars_from_composed ch m =
     (let vietnamese =
        (case m of
           Telex \<Rightarrow> telex_chars_from_composed ch
         | Vni \<Rightarrow> vni_chars_from_composed ch
         | Viqr \<Rightarrow> viqr_chars_from_composed ch)
      in if vietnamese \<noteq> [] then vietnamese else ascii_passthrough ch)"

fun context_loop :: "input_method \<Rightarrow> ustr \<Rightarrow> ustr \<Rightarrow> u8 list \<Rightarrow> ustr \<times> u8 list" where
  "context_loop m [] result widths = (result, widths)"
| "context_loop m (ch # chs) result widths =
     (let keys = chars_from_composed ch m
      in if keys \<noteq> [] then context_loop m chs (result @ keys) (widths @ [of_nat (blen keys)])
         else context_loop m chs result widths)"

definition context_from_surrounding :: "ustr \<Rightarrow> input_method \<Rightarrow> ustr \<times> u8 list" where
  "context_from_surrounding t m = context_loop m t [] []"

definition telex_context_from_surrounding :: "ustr \<Rightarrow> ustr \<times> u8 list" where
  "telex_context_from_surrounding t = context_from_surrounding t Telex"

definition vni_context_from_surrounding :: "ustr \<Rightarrow> ustr \<times> u8 list" where
  "vni_context_from_surrounding t = context_from_surrounding t Vni"

section \<open>The wrapper's state and operations\<close>

record process_result =
  pr_backspaces :: usize
  pr_commit :: ustr
  pr_consumed :: bool

text \<open>
  \<open>None\<close> is the source's panic on an output that is not UTF-8. A panic ends the daemon, so
  the operations below continue with the decoded text and say nothing of a run that panicked.
\<close>

definition decode_engine_output :: "u8 list \<Rightarrow> ustr option" where
  "decode_engine_output output = from_utf8 (map unat output)"

definition wrap_result :: "vnkey_result \<Rightarrow> process_result" where
  "wrap_result r =
     \<lparr>pr_backspaces = vr_backspaces r, pr_commit = the (decode_engine_output (vr_output r)),
      pr_consumed = vr_processed r\<rparr>"

record 'e engine_state =
  en_engine :: 'e
  en_method :: input_method
  en_bracket_shortcuts :: bool
  en_modern_style :: bool

definition engine_new_with_options :: "'e vnkey \<Rightarrow> input_method \<Rightarrow> bool \<Rightarrow> 'e engine_state" where
  "engine_new_with_options vk m bracket_shortcuts =
     (let e0 = vk_set_input_method vk m (vk_new vk);
          e1 = (if m = Telex \<and> \<not> bracket_shortcuts
                then vk_set_user_key_map vk (telex_key_map vk False) e0 else e0);
          e2 = vk_set_viet_mode vk True e1
      in \<lparr>en_engine = e2, en_method = m, en_bracket_shortcuts = bracket_shortcuts,
          en_modern_style = vk_get_modern_style vk e2\<rparr>)"

definition engine_new :: "'e vnkey \<Rightarrow> input_method \<Rightarrow> 'e engine_state" where
  "engine_new vk m = engine_new_with_options vk m False"

definition process_key :: "'e vnkey \<Rightarrow> uchar \<Rightarrow> 'e engine_state \<Rightarrow> process_result \<times> 'e engine_state" where
  "process_key vk ch en =
     (let (r, e) = vk_process vk ch (en_engine en) in (wrap_result r, en\<lparr>en_engine := e\<rparr>))"

definition process_backspace :: "'e vnkey \<Rightarrow> 'e engine_state \<Rightarrow> process_result \<times> 'e engine_state" where
  "process_backspace vk en =
     (let (r, e) = vk_process_backspace vk (en_engine en) in (wrap_result r, en\<lparr>en_engine := e\<rparr>))"

definition engine_reset :: "'e vnkey \<Rightarrow> 'e engine_state \<Rightarrow> 'e engine_state" where
  "engine_reset vk en = en\<lparr>en_engine := vk_reset vk (en_engine en)\<rparr>"

definition set_input_method :: "'e vnkey \<Rightarrow> input_method \<Rightarrow> 'e engine_state \<Rightarrow> 'e engine_state" where
  "set_input_method vk m en =
     (let e0 = vk_reset vk (en_engine en);
          e1 = vk_set_input_method vk m e0;
          e2 = vk_set_modern_style vk (en_modern_style en) e1
      in en\<lparr>en_engine := e2, en_method := m\<rparr>)"

definition set_modern_style :: "'e vnkey \<Rightarrow> bool \<Rightarrow> 'e engine_state \<Rightarrow> 'e engine_state" where
  "set_modern_style vk enabled en =
     en\<lparr>en_engine := vk_set_modern_style vk enabled (en_engine en), en_modern_style := enabled\<rparr>"

text \<open>\<^verbatim>\<open>render\<close>: the keys typed into a fresh engine of the same configuration, on a blank screen.\<close>

definition screen_step :: "uchar \<Rightarrow> process_result \<Rightarrow> ustr \<Rightarrow> ustr" where
  "screen_step ch r screen =
     (if pr_consumed r then pop_n (pr_backspaces r) screen @ pr_commit r else screen @ [ch])"

fun render_loop :: "'e vnkey \<Rightarrow> ustr \<Rightarrow> 'e engine_state \<Rightarrow> ustr \<Rightarrow> ustr" where
  "render_loop vk [] scratch screen = screen"
| "render_loop vk (ch # raw) scratch screen =
     (let (r, scratch') = process_key vk ch scratch
      in render_loop vk raw scratch' (screen_step ch r screen))"

definition render :: "'e vnkey \<Rightarrow> 'e engine_state \<Rightarrow> ustr \<Rightarrow> ustr" where
  "render vk en raw =
     (let scratch = set_modern_style vk (en_modern_style en)
            (engine_new_with_options vk (en_method en) (en_bracket_shortcuts en))
      in render_loop vk raw scratch [])"

definition feed_context :: "'e vnkey \<Rightarrow> ustr \<Rightarrow> 'e engine_state \<Rightarrow> bool \<times> 'e engine_state" where
  "feed_context vk t en =
     (let (ctx, _) = context_from_surrounding t (en_method en);
          (ok, e) = vk_feed_context vk ctx (en_engine en)
      in (ok, en\<lparr>en_engine := e\<rparr>))"

definition feed_context_gated :: "'e vnkey \<Rightarrow> ustr \<Rightarrow> 'e engine_state \<Rightarrow> bool \<times> 'e engine_state" where
  "feed_context_gated vk t en =
     (let (ctx, _) = context_from_surrounding t (en_method en)
      in if render vk en ctx \<noteq> t then (False, en)
         else (let (ok, e) = vk_feed_context vk ctx (en_engine en) in (ok, en\<lparr>en_engine := e\<rparr>)))"

definition at_word_beginning :: "'e vnkey \<Rightarrow> 'e engine_state \<Rightarrow> bool" where
  "at_word_beginning vk en = vk_at_word_beginning vk (en_engine en)"

section \<open>Facts about the wrapper\<close>

named_theorems engine_simps \<open>the configuration fields of the engine state\<close>

lemma process_key_frame [engine_simps, simp]:
  "en_method (snd (process_key vk ch en)) = en_method en"
  "en_bracket_shortcuts (snd (process_key vk ch en)) = en_bracket_shortcuts en"
  "en_modern_style (snd (process_key vk ch en)) = en_modern_style en"
  by (simp_all add: process_key_def split: prod.split)

lemma process_backspace_frame [engine_simps, simp]:
  "en_method (snd (process_backspace vk en)) = en_method en"
  "en_bracket_shortcuts (snd (process_backspace vk en)) = en_bracket_shortcuts en"
  "en_modern_style (snd (process_backspace vk en)) = en_modern_style en"
  by (simp_all add: process_backspace_def split: prod.split)

lemma engine_reset_frame [engine_simps, simp]:
  "en_method (engine_reset vk en) = en_method en"
  "en_bracket_shortcuts (engine_reset vk en) = en_bracket_shortcuts en"
  "en_modern_style (engine_reset vk en) = en_modern_style en"
  by (simp_all add: engine_reset_def)

lemma feed_context_frame [engine_simps, simp]:
  "en_method (snd (feed_context vk t en)) = en_method en"
  "en_bracket_shortcuts (snd (feed_context vk t en)) = en_bracket_shortcuts en"
  "en_modern_style (snd (feed_context vk t en)) = en_modern_style en"
  by (simp_all add: feed_context_def split: prod.split)

lemma feed_context_gated_frame [engine_simps, simp]:
  "en_method (snd (feed_context_gated vk t en)) = en_method en"
  "en_bracket_shortcuts (snd (feed_context_gated vk t en)) = en_bracket_shortcuts en"
  "en_modern_style (snd (feed_context_gated vk t en)) = en_modern_style en"
  by (auto simp: feed_context_gated_def split: prod.split)

lemma render_cong:
  "en_method en = en_method en' \<Longrightarrow> en_bracket_shortcuts en = en_bracket_shortcuts en' \<Longrightarrow>
   en_modern_style en = en_modern_style en' \<Longrightarrow> render vk en raw = render vk en' raw"
  by (simp add: render_def)

text \<open>Glyph by glyph, the context is the concatenation of the keys, and the widths are theirs.\<close>

lemma context_loop_eq:
  "context_loop m t r w =
     (r @ concat (map (\<lambda>ch. chars_from_composed ch m) t),
      w @ map (\<lambda>ch. of_nat (blen (chars_from_composed ch m)))
            (filter (\<lambda>ch. chars_from_composed ch m \<noteq> []) t))"
  by (induction t arbitrary: r w) (auto simp: Let_def)

lemma context_from_surrounding_eq:
  "context_from_surrounding t m =
     (concat (map (\<lambda>ch. chars_from_composed ch m) t),
      map (\<lambda>ch. of_nat (blen (chars_from_composed ch m)))
        (filter (\<lambda>ch. chars_from_composed ch m \<noteq> []) t))"
  by (simp add: context_from_surrounding_def context_loop_eq)

lemma map_of_glyph_not_ascii:
  assumes "map_of telex_rows ch = Some ks"
  shows "128 \<le> ch" and "ks \<noteq> []" and "list_all (\<lambda>k. is_ascii_alphabetic (of_char k)) ks"
proof -
  have "(ch, ks) \<in> set telex_rows" using assms by (rule map_of_SomeD)
  with telex_keys_shape show "128 \<le> ch" "ks \<noteq> []" "list_all (\<lambda>k. is_ascii_alphabetic (of_char k)) ks"
    by (auto simp: list_all_iff)
qed

lemma glyph_tables_ascii: "ch < 128 \<Longrightarrow> map_of telex_rows ch = None
    \<and> map_of vni_rows ch = None \<and> map_of viqr_rows ch = None"
  using map_of_glyph_not_ascii(1) [of ch]
  by (cases "map_of telex_rows ch") (force simp: vni_rows_translated viqr_rows_translated)+

lemma chars_from_composed_ascii:
  "is_ascii ch \<Longrightarrow> chars_from_composed ch m = ascii_passthrough ch"
  using glyph_tables_ascii [of ch]
  by (cases m) (simp_all add: chars_from_composed_def is_ascii_def telex_chars_from_composed_def
      vni_chars_from_composed_def viqr_chars_from_composed_def glyph_keys_def)

lemma context_of_ascii:
  "list_all (\<lambda>c. is_ascii_alphabetic c \<or> is_ascii_digit c) t \<Longrightarrow>
     fst (context_from_surrounding t m) = t"
proof (induction t)
  case (Cons c t)
  then have "is_ascii c"
    by (auto simp: is_ascii_def is_ascii_alphabetic_def is_ascii_lowercase_def
        is_ascii_uppercase_def is_ascii_digit_def)
  with Cons show ?case
    by (auto simp: context_from_surrounding_eq chars_from_composed_ascii ascii_passthrough_def)
qed (simp add: context_from_surrounding_eq)

text \<open>The gate: nothing is fed unless the reconstruction renders back to the text.\<close>

lemma feed_context_gated_mismatch:
  "render vk en (fst (context_from_surrounding t (en_method en))) \<noteq> t \<Longrightarrow>
     feed_context_gated vk t en = (False, en)"
  by (cases "context_from_surrounding t (en_method en)") (simp add: feed_context_gated_def)

lemma feed_context_gated_match:
  "render vk en (fst (context_from_surrounding t (en_method en))) = t \<Longrightarrow>
     feed_context_gated vk t en = feed_context vk t en"
  by (cases "context_from_surrounding t (en_method en)") (simp add: feed_context_gated_def feed_context_def)

text \<open>The key map: every bracket key keeps the ordinary action when shortcuts are off.\<close>

lemma length_telex_key_map_loop [simp]:
  "length (telex_key_map_loop br n es km) = length km"
  by (induction br n es km rule: telex_key_map_loop.induct) (simp_all add: Let_def)

lemma telex_key_map_loop_bracket:
  assumes "b \<in> {91, 93, 123, 125}"
  shows "telex_key_map_loop False n es km ! b = km ! b"
proof (induction es arbitrary: km)
  case (Cons e es)
  obtain key action where e: "e = (key, action)" by force
  have "to_ascii_uppercase (unat key) \<noteq> b" if "is_ascii_lowercase (unat key)"
    using that assms by (auto simp: to_ascii_uppercase_def is_ascii_lowercase_def)
  moreover have "to_ascii_lowercase (unat key) \<noteq> b" if "is_ascii_uppercase (unat key)"
    using that assms by (auto simp: to_ascii_lowercase_def is_ascii_uppercase_def)
  moreover have "unat key \<noteq> b" if "unat key \<notin> {91, 93, 123, 125}"
    using that assms by metis
  ultimately show ?case using Cons by (simp add: e Let_def nth_list_update_neq del: insert_iff)
qed simp

section \<open>A concrete engine for witnesses\<close>

text \<open>
  A minimal library: letters are typed through, an \<open>s\<close> after \<open>a\<close> answers
  with one Backspace and the UTF-8 bytes of U+00E1, and everything else ends the word. It is an
  instance of the parameter, not a model of \<^verbatim>\<open>vnkey-engine\<close>.
\<close>

definition toy_process :: "uchar \<Rightarrow> ustr \<Rightarrow> vnkey_result \<times> ustr" where
  "toy_process ch w =
     (if ch = 115 \<and> w \<noteq> [] \<and> last w = 97 then
        (\<lparr>vr_backspaces = 1, vr_output = map of_nat (utf8_encode 0xE1), vr_processed = True\<rparr>,
         butlast w @ [0xE1])
      else if is_ascii_alphabetic ch then
        (\<lparr>vr_backspaces = 0, vr_output = [], vr_processed = False\<rparr>, w @ [ch])
      else (\<lparr>vr_backspaces = 0, vr_output = [], vr_processed = False\<rparr>, []))"

definition toy_vnkey :: "ustr vnkey" where
  "toy_vnkey =
     \<lparr>vk_new = [], vk_set_input_method = (\<lambda>m w. w), vk_set_user_key_map = (\<lambda>k w. w),
      vk_set_viet_mode = (\<lambda>b w. w), vk_get_modern_style = (\<lambda>w. True),
      vk_set_modern_style = (\<lambda>b w. w), vk_process = toy_process,
      vk_process_backspace = (\<lambda>w. (\<lparr>vr_backspaces = 0, vr_output = [], vr_processed = False\<rparr>, butlast w)),
      vk_reset = (\<lambda>w. []), vk_feed_context = (\<lambda>t w. (True, fold (\<lambda>c v. snd (toy_process c v)) t [])),
      vk_at_word_beginning = (\<lambda>w. w = []), vk_telex_mapping = [(91, 1), (115, 2)],
      vk_normal = 0, vk_vne_count = 10\<rparr>"

end
