(* ===== verification/TextHelpers.thy ===== *)
theory TextHelpers
  imports Utf8
begin

text \<open>
  The pure text functions of \<^verbatim>\<open>crates/daemon/src/composer.rs\<close>: the text and the word before a
  cursor given as a byte offset, the conversion of IBus character offsets, and the three
  frame comparisons (\<open>detect_one_char_insertion\<close>, \<open>detect_deletion\<close>,
  \<open>confirms_inserted_char\<close>). The lemmas give each one its meaning in terms of strings.
\<close>

section \<open>Words and cursors\<close>

text \<open>The characters of the source's \<^verbatim>\<open>matches!\<close> list, by code point, in its order.\<close>

definition word_boundary_chars :: "uchar list" where
  "word_boundary_chars =
     [0x2E, 0x2C, 0x3B, 0x3A, 0x21, 0x3F, 0x22, 0x27, 0x201C, 0x201D, 0x2018, 0x2019,
      0x28, 0x29, 0x5B, 0x5D, 0x7B, 0x7D, 0x2F, 0x5C, 0x7C, 0x2026]"

definition is_word_boundary :: "uchar \<Rightarrow> bool" where
  "is_word_boundary c \<longleftrightarrow> is_whitespace c \<or> c = 0 \<or> c \<in> set word_boundary_chars"

definition text_before_cursor :: "ustr \<Rightarrow> u32 \<Rightarrow> ustr" where
  "text_before_cursor t cursor = slice_to t (floor_boundary t (unat cursor))"

definition current_word_before_cursor :: "ustr \<Rightarrow> u32 \<Rightarrow> ustr" where
  "current_word_before_cursor t cursor =
     (let before = text_before_cursor t cursor;
          start = (case List.find (\<lambda>(i, c). is_word_boundary c) (rev (char_indices before)) of
                     Some (i, c) \<Rightarrow> i + len_utf8 c
                   | None \<Rightarrow> 0)
      in slice_from before start)"

definition current_word_before_insertion_point :: "ustr \<Rightarrow> u32 \<Rightarrow> u32 \<Rightarrow> ustr" where
  "current_word_before_insertion_point t cursor anchor =
     current_word_before_cursor t (min cursor anchor)"

definition char_to_byte_offset :: "ustr \<Rightarrow> u32 \<Rightarrow> u32" where
  "char_to_byte_offset t char_idx =
     (if unat char_idx < length (char_indices t)
      then of_nat (fst (char_indices t ! unat char_idx)) else of_nat (blen t))"

definition prefix_after_char_delete :: "ustr \<Rightarrow> usize \<Rightarrow> ustr" where
  "prefix_after_char_delete t backspaces = take (length t - backspaces) t"

section \<open>Comparing a frame with the last one\<close>

definition detect_one_char_insertion :: "ustr \<Rightarrow> u32 \<Rightarrow> ustr \<Rightarrow> u32 \<Rightarrow> bool" where
  "detect_one_char_insertion prev_text prev_cursor t cursor =
     (let prev_cur = unat prev_cursor; cur = unat cursor in
      if blen prev_text < prev_cur \<or> blen t < cur \<or> cur \<le> prev_cur
         \<or> \<not> is_char_boundary prev_text prev_cur \<or> \<not> is_char_boundary t cur
         \<or> \<not> is_char_boundary t prev_cur then False
      else str_to t prev_cur = str_to prev_text prev_cur
         \<and> str_from t cur = str_from prev_text prev_cur
         \<and> length (str_slice t prev_cur cur) = 1)"

definition detect_deletion :: "ustr \<Rightarrow> u32 \<Rightarrow> ustr \<Rightarrow> u32 \<Rightarrow> bool" where
  "detect_deletion prev_text prev_cursor t cursor =
     (let prev_cur = unat prev_cursor; cur = unat cursor in
      if prev_cur < cur \<or> blen t < cur \<or> blen prev_text < prev_cur
         \<or> \<not> is_char_boundary t cur \<or> \<not> is_char_boundary prev_text cur
         \<or> \<not> is_char_boundary prev_text prev_cur then False
      else blen t < blen prev_text
         \<and> str_to t cur = str_to prev_text cur
         \<and> str_from t cur = str_from prev_text prev_cur
         \<and> str_slice prev_text cur prev_cur \<noteq> [])"

text \<open>\<^verbatim>\<open>as\_bytes().get(..i)\<close> and \<^verbatim>\<open>as\_bytes().get(i..)\<close>.\<close>

definition bytes_get_to :: "nat list \<Rightarrow> nat \<Rightarrow> nat list option" where
  "bytes_get_to b i = (if i \<le> length b then Some (take i b) else None)"

definition bytes_get_from :: "nat list \<Rightarrow> nat \<Rightarrow> nat list option" where
  "bytes_get_from b i = (if i \<le> length b then Some (drop i b) else None)"

definition confirms_inserted_char :: "ustr \<Rightarrow> ustr \<Rightarrow> u32 \<Rightarrow> uchar \<Rightarrow> bool" where
  "confirms_inserted_char prev_text t cursor ch =
     (let cur = min (unat cursor) (blen t) in
      if \<not> is_char_boundary t cur then False
      else (let before = slice_to t cur in
            if before = [] then False
            else (let (start, actual) = last (char_indices before) in
                  actual = ch
                  \<and> blen prev_text + len_utf8 ch = blen t
                  \<and> bytes_get_to (bytes_of prev_text) start = bytes_get_to (bytes_of t) start
                  \<and> bytes_get_from (bytes_of prev_text) start = bytes_get_from (bytes_of t) cur)))"

section \<open>What they mean\<close>

named_theorems text_simps \<open>the text functions in terms of prefixes and words\<close>

lemma char_indices_from_append:
  "char_indices_from n (s @ t) = char_indices_from n s @ char_indices_from (n + blen s) t"
  by (induction s arbitrary: n) (auto simp: add.assoc)

lemma char_indices_snoc [text_simps]: "char_indices (s @ [c]) = char_indices s @ [(blen s, c)]"
  by (simp add: char_indices_def char_indices_from_append)

lemma length_char_indices [simp]: "length (char_indices s) = length s"
proof -
  have "length (char_indices_from n s) = length s" for n by (induction s arbitrary: n) auto
  then show ?thesis by (simp add: char_indices_def)
qed

lemma char_indices_nth: "i < length s \<Longrightarrow> char_indices s ! i = (blen (take i s), s ! i)"
proof (induction s rule: rev_induct)
  case (snoc c s)
  then show ?case by (auto simp: text_simps nth_append less_Suc_eq)
qed simp

lemma char_indices_Nil [simp]: "char_indices [] = []"
  by (simp add: char_indices_def)

lemma text_before_cursor_eq [text_simps]: "text_before_cursor t cursor = floor_prefix t (unat cursor)"
  by (simp add: text_before_cursor_def ustr_simps)

definition last_word :: "ustr \<Rightarrow> ustr" where
  "last_word s = rev (takeWhile (\<lambda>c. \<not> is_word_boundary c) (rev s))"

lemma last_word_suffix: "\<exists>p. s = p @ last_word s \<and> (p = [] \<or> is_word_boundary (last p))"
proof -
  let ?w = "takeWhile (\<lambda>c. \<not> is_word_boundary c) (rev s)"
  let ?d = "dropWhile (\<lambda>c. \<not> is_word_boundary c) (rev s)"
  have "s = rev ?d @ rev ?w" by (metis rev_append rev_rev_ident takeWhile_dropWhile_id)
  moreover have "rev ?d = [] \<or> is_word_boundary (last (rev ?d))"
    using hd_dropWhile [of "\<lambda>c. \<not> is_word_boundary c" "rev s"] by (auto simp: last_rev)
  ultimately show ?thesis unfolding last_word_def by blast
qed

lemma last_word_no_boundary: "c \<in> set (last_word s) \<Longrightarrow> \<not> is_word_boundary c"
  by (auto simp: last_word_def dest: set_takeWhileD)

lemma last_word_Nil [simp]: "last_word [] = []"
  by (simp add: last_word_def)

lemma last_word_snoc: "last_word (s @ [c]) = (if is_word_boundary c then [] else last_word s @ [c])"
  by (simp add: last_word_def)

lemma word_start_eq:
  "slice_from s (case List.find (\<lambda>(i, c). is_word_boundary c) (rev (char_indices s)) of
       Some (i, c) \<Rightarrow> i + len_utf8 c | None \<Rightarrow> 0) = last_word s"
proof (induction s rule: rev_induct)
  case Nil
  then show ?case by (simp add: slice_from_def)
next
  case (snoc c s)
  let ?i = "case List.find (\<lambda>(i, c). is_word_boundary c) (rev (char_indices s)) of
       Some (i, c) \<Rightarrow> i + len_utf8 c | None \<Rightarrow> 0"
  show ?case
  proof (cases "is_word_boundary c")
    case True
    have "slice_from (s @ [c]) (blen s + len_utf8 c) = []"
      using slice_from_append [of "s @ [c]" "[]"] by simp
    with True show ?thesis by (simp add: text_simps last_word_snoc)
  next
    case False
    obtain p where p: "s = p @ last_word s" using last_word_suffix by blast
    have "?i = blen p"
    proof -
      have "?i \<le> blen s \<and> is_char_boundary s ?i"
      proof (cases "List.find (\<lambda>(i, c). is_word_boundary c) (rev (char_indices s))")
        case (Some ic)
        then have "ic \<in> set (rev (char_indices s))" by (metis find_Some_iff nth_mem)
        then obtain k where k: "k < length s" "ic = char_indices s ! k"
          by (metis set_rev in_set_conv_nth length_char_indices)
        then have ic: "ic = (blen (take k s), s ! k)" by (simp add: char_indices_nth)
        have len: "blen (take (Suc k) s) = blen (take k s) + len_utf8 (s ! k)"
          using k by (simp add: take_Suc_conv_app_nth)
        have "is_char_boundary (take (Suc k) s @ drop (Suc k) s) (blen (take (Suc k) s))"
          by (rule is_char_boundary_append)
        then have "is_char_boundary s (blen (take k s) + len_utf8 (s ! k))" by (simp add: len)
        moreover have "blen (take (Suc k) s) + blen (drop (Suc k) s) = blen s"
          by (metis append_take_drop_id blen_append)
        then have "blen (take k s) + len_utf8 (s ! k) \<le> blen s" by (simp add: len)
        ultimately have "is_char_boundary s (blen (take k s) + len_utf8 (s ! k))"
          "blen (take k s) + len_utf8 (s ! k) \<le> blen s" by blast+
        with Some ic show ?thesis by simp
      qed simp
      then obtain p' q' where "s = p' @ q'" "blen p' = ?i"
        unfolding is_char_boundary_iff by blast
      then have "slice_from s ?i = q'" by (metis slice_from_append)
      with snoc.IH have "q' = last_word s" by simp
      with \<open>s = p' @ q'\<close> have "s = p' @ last_word s" by (simp only:)
      from trans [OF this [symmetric] p] have "p' @ last_word s = p @ last_word s" .
      then have "p' = p" by (rule append_same_eq [THEN iffD1])
      with \<open>blen p' = ?i\<close> show ?thesis by (simp only:)
    qed
    moreover have "slice_from (s @ [c]) (blen p) = last_word s @ [c]"
      using p slice_from_append [of p "last_word s @ [c]"] by (metis append_assoc)
    ultimately show ?thesis using False by (simp add: text_simps last_word_snoc)
  qed
qed

lemma current_word_before_cursor_eq [text_simps]:
  "current_word_before_cursor t cursor = last_word (floor_prefix t (unat cursor))"
  by (simp add: current_word_before_cursor_def Let_def text_before_cursor_eq word_start_eq)

lemma current_word_whole:
  "blen t < 2 ^ 32 \<Longrightarrow> current_word_before_cursor t (of_nat (blen t)) = last_word t"
  by (simp add: current_word_before_cursor_eq)

lemma prefix_after_char_delete_eq [text_simps]: "prefix_after_char_delete t n = pop_n n t"
  by (simp add: prefix_after_char_delete_def pop_n_def)

lemma char_to_byte_offset_eq:
  assumes "blen t < 2 ^ 32"
  shows "unat (char_to_byte_offset t k) = blen (take (unat k) t)"
proof (cases "unat k < length t")
  case True
  have "blen (take (unat k) t) \<le> blen t" by (metis append_take_drop_id blen_append le_add1)
  with True assms show ?thesis by (simp add: char_to_byte_offset_def char_indices_nth)
next
  case False
  with assms show ?thesis by (simp add: char_to_byte_offset_def)
qed

text \<open>A frame shows one typed character exactly when it is the old text with one character put in.\<close>

lemma str_to_from_recompose:
  "str_to t i = Some p \<Longrightarrow> str_from t i = Some q \<Longrightarrow> t = p @ q"
  by (metis str_from_append str_to_eq_Some option.inject)

lemma detect_one_char_insertion_iff:
  "detect_one_char_insertion prev pc t c \<longleftrightarrow>
     (\<exists>a x b. prev = a @ b \<and> t = a @ x # b \<and> unat pc = blen a \<and> unat c = blen a + len_utf8 x)"
proof
  assume d: "detect_one_char_insertion prev pc t c"
  then obtain a q where t: "t = a @ q" "blen a = unat pc"
    by (auto simp: detect_one_char_insertion_def Let_def is_char_boundary_iff split: if_splits)
  from d obtain y b where t2: "t = y @ b" "blen y = unat c"
    by (auto simp: detect_one_char_insertion_def Let_def is_char_boundary_iff split: if_splits)
  from d have lt: "unat pc < unat c"
    and to: "str_to t (unat pc) = str_to prev (unat pc)"
    and frm: "str_from t (unat c) = str_from prev (unat pc)"
    and one: "length (str_slice t (unat pc) (unat c)) = 1"
    by (auto simp: detect_one_char_insertion_def Let_def split: if_splits)
  have "a = floor_prefix t (unat pc)" "y = floor_prefix t (unat c)"
    using t t2 by (metis floor_prefix_append_blen)+
  with lt obtain z where y: "y = a @ z" using floor_prefix_mono [of "unat pc" "unat c" t] by auto
  have "str_slice t (unat pc) (unat c) = z"
    using t2 y t(2) by (metis append_assoc blen_append str_slice_append)
  with one obtain x where x: "z = [x]" by (cases z) auto
  have "str_to prev (unat pc) = Some a" using to t by (metis str_to_append)
  moreover have "str_from prev (unat pc) = Some b" using frm t2 by (metis str_from_append)
  ultimately have "prev = a @ b" by (rule str_to_from_recompose)
  with x y t2 t show "\<exists>a x b. prev = a @ b \<and> t = a @ x # b \<and> unat pc = blen a \<and> unat c = blen a + len_utf8 x"
    by (intro exI [of _ a] exI [of _ x] exI [of _ b]) auto
next
  assume "\<exists>a x b. prev = a @ b \<and> t = a @ x # b \<and> unat pc = blen a \<and> unat c = blen a + len_utf8 x"
  then obtain a x b where h: "prev = a @ b" "t = a @ x # b" "unat pc = blen a"
      "unat c = blen a + len_utf8 x" by blast
  have 1: "str_slice t (blen a) (blen a + len_utf8 x) = [x]"
    using str_slice_append [of a "[x]" b] h by simp
  have 2: "str_from t (blen a + len_utf8 x) = Some b" "is_char_boundary t (blen a + len_utf8 x)"
    using str_from_append [of "a @ [x]" b] is_char_boundary_append [of "a @ [x]" b] h by simp_all
  have 3: "str_to t (blen a) = Some a" "is_char_boundary t (blen a)"
    using h by (simp_all add: ustr_simps)
  have 4: "str_to prev (blen a) = Some a" "str_from prev (blen a) = Some b"
    "is_char_boundary prev (blen a)" using h by (simp_all add: ustr_simps)
  from 1 2 3 4 h show "detect_one_char_insertion prev pc t c"
    by (simp add: detect_one_char_insertion_def)
qed

lemma detect_deletion_iff:
  "detect_deletion prev pc t c \<longleftrightarrow>
     (\<exists>a d b. prev = a @ d @ b \<and> t = a @ b \<and> d \<noteq> [] \<and> unat c = blen a \<and> unat pc = blen a + blen d)"
proof
  assume d: "detect_deletion prev pc t c"
  then obtain a b where t: "t = a @ b" "blen a = unat c"
    by (auto simp: detect_deletion_def Let_def is_char_boundary_iff split: if_splits)
  from d obtain y r where p: "prev = y @ r" "blen y = unat pc"
    by (auto simp: detect_deletion_def Let_def is_char_boundary_iff split: if_splits)
  from d have le: "unat c \<le> unat pc"
    and to: "str_to t (unat c) = str_to prev (unat c)"
    and frm: "str_from t (unat c) = str_from prev (unat pc)"
    and ne: "str_slice prev (unat c) (unat pc) \<noteq> []"
    by (auto simp: detect_deletion_def Let_def split: if_splits)
  have "str_to prev (unat c) = Some a" using to t by (metis str_to_append)
  then obtain r' where a: "prev = a @ r'" by (auto simp: str_to_eq_Some)
  have "a = floor_prefix prev (unat c)" "y = floor_prefix prev (unat pc)"
    using a t p by (metis floor_prefix_append_blen)+
  with le obtain z where y: "y = a @ z" using floor_prefix_mono [of "unat c" "unat pc" prev] by auto
  have "str_slice prev (unat c) (unat pc) = z"
    using p y t(2) by (metis append_assoc blen_append str_slice_append)
  with ne have z: "z \<noteq> []" by simp
  have "r = b" using frm t p by (metis str_from_append option.inject)
  with z y p t show "\<exists>a d b. prev = a @ d @ b \<and> t = a @ b \<and> d \<noteq> [] \<and> unat c = blen a
      \<and> unat pc = blen a + blen d" by (intro exI [of _ a] exI [of _ z] exI [of _ b]) auto
next
  assume "\<exists>a d b. prev = a @ d @ b \<and> t = a @ b \<and> d \<noteq> [] \<and> unat c = blen a \<and> unat pc = blen a + blen d"
  then obtain a d b where h: "prev = a @ d @ b" "t = a @ b" "d \<noteq> []" "unat c = blen a"
      "unat pc = blen a + blen d" by blast
  have 1: "str_slice prev (blen a) (blen a + blen d) = d" using str_slice_append [of a d b] h by simp
  have 2: "str_from prev (blen a + blen d) = Some b" "is_char_boundary prev (blen a + blen d)"
    using str_from_append [of "a @ d" b] is_char_boundary_append [of "a @ d" b] h by simp_all
  have 3: "str_to t (blen a) = Some a" "is_char_boundary t (blen a)" "str_from t (blen a) = Some b"
    using h by (simp_all add: ustr_simps)
  have 4: "str_to prev (blen a) = Some a" "is_char_boundary prev (blen a)"
    using h by (simp_all add: ustr_simps)
  from 1 2 3 4 h show "detect_deletion prev pc t c" by (simp add: detect_deletion_def)
qed

text \<open>The byte comparison proves a key: the frame is the last text with that very character put in.\<close>

lemma confirms_inserted_char_iff:
  assumes "list_all is_scalar prev" "list_all is_scalar t"
  shows "confirms_inserted_char prev t cursor ch \<longleftrightarrow>
     (\<exists>a b. prev = a @ b \<and> t = a @ ch # b \<and> min (unat cursor) (blen t) = blen a + len_utf8 ch)"
    (is "?l \<longleftrightarrow> ?r")
proof
  define cur where "cur = min (unat cursor) (blen t)"
  assume ?l
  then have bnd: "is_char_boundary t cur" and ne: "slice_to t cur \<noteq> []"
    and l: "case last (char_indices (slice_to t cur)) of (start, actual) \<Rightarrow> actual = ch
        \<and> blen prev + len_utf8 ch = blen t
        \<and> bytes_get_to (bytes_of prev) start = bytes_get_to (bytes_of t) start
        \<and> bytes_get_from (bytes_of prev) start = bytes_get_from (bytes_of t) cur"
    unfolding confirms_inserted_char_def Let_def cur_def [symmetric] by (simp_all split: if_splits)
  from bnd obtain p b where t: "t = p @ b" "blen p = cur" by (auto simp: is_char_boundary_iff)
  have before: "slice_to t cur = p" using t by (metis slice_to_append)
  with ne obtain a x where p: "p = a @ [x]" by (cases p rule: rev_cases) auto
  have facts: "x = ch" "blen prev + len_utf8 ch = blen t"
    "bytes_get_to (bytes_of prev) (blen a) = bytes_get_to (bytes_of t) (blen a)"
    "bytes_get_from (bytes_of prev) (blen a) = bytes_get_from (bytes_of t) cur"
    using l unfolding before p char_indices_snoc by simp_all
  have len: "blen a \<le> blen prev" using facts(1,2) t p by simp
  have "take (blen a) (bytes_of prev) = take (blen a) (bytes_of t)"
    using facts(3) len t p by (simp add: bytes_get_to_def)
  also have "\<dots> = bytes_of a" using t p by simp
  finally have "take (blen a) (bytes_of prev) = bytes_of a" .
  moreover have "drop (blen a) (bytes_of prev) = bytes_of b"
  proof -
    have "drop (blen a) (bytes_of prev) = drop cur (bytes_of t)"
      using facts(4) len t by (simp add: bytes_get_from_def split: if_splits)
    also have "\<dots> = bytes_of b" by (metis t append_eq_conv_conj bytes_of_append length_bytes_of)
    finally show ?thesis .
  qed
  ultimately have "bytes_of prev = bytes_of (a @ b)" by (metis append_take_drop_id bytes_of_append)
  moreover have "list_all is_scalar (a @ b)" using assms(2) t p by simp
  ultimately have "prev = a @ b" using bytes_of_inject [OF assms(1), of "a @ b"] by blast
  with t p facts(1) have "prev = a @ b \<and> t = a @ ch # b \<and> cur = blen a + len_utf8 ch" by simp
  then show ?r unfolding cur_def by blast
next
  assume ?r
  then obtain a b where h: "prev = a @ b" "t = a @ ch # b"
    "min (unat cursor) (blen t) = blen a + len_utf8 ch" by blast
  have t: "t = (a @ [ch]) @ b" using h by simp
  have 1: "slice_to t (blen a + len_utf8 ch) = a @ [ch]"
    "is_char_boundary t (blen a + len_utf8 ch)"
    using slice_to_append [of "a @ [ch]" b] is_char_boundary_append [of "a @ [ch]" b] t by simp_all
  have 2: "bytes_get_to (bytes_of prev) (blen a) = bytes_get_to (bytes_of t) (blen a)"
    by (simp add: bytes_get_to_def h)
  have "drop (blen a + len_utf8 ch) (bytes_of t) = bytes_of b"
    unfolding t by (simp add: length_utf8_encode)
  then have 3: "bytes_get_from (bytes_of prev) (blen a) = bytes_get_from (bytes_of t) (blen a + len_utf8 ch)"
    by (simp add: bytes_get_from_def h length_utf8_encode)
  show ?l unfolding confirms_inserted_char_def Let_def h(3)
    using 1 2 3 h(1,2) by (simp add: text_simps)
qed

end
