(* ===== verification/Shadow.thy ===== *)
theory Shadow
  imports Prelude
begin

text \<open>
  The shadow buffer of \<^verbatim>\<open>crates/edit-strategy/src/shadow.rs\<close>: the daemon's mirror of the text
  before the application's cursor, with the selection extent of the last surrounding-text
  frame. Byte and character counts are \<^typ>\<open>u32\<close> and wrap as the source's do.
\<close>

record shadow_buffer =
  sb_text :: ustr
  sb_last_cursor :: "u32 option"
  sb_selected_before_chars :: usize
  sb_selected_after_bytes :: u32
  sb_selected_after_chars :: u32
  sb_pending_commit :: bool

definition shadow_new :: shadow_buffer where
  "shadow_new = \<lparr>sb_text = [], sb_last_cursor = None, sb_selected_before_chars = 0,
     sb_selected_after_bytes = 0, sb_selected_after_chars = 0, sb_pending_commit = False\<rparr>"

definition shadow_append :: "ustr \<Rightarrow> shadow_buffer \<Rightarrow> shadow_buffer" where
  "shadow_append t sb = sb\<lparr>sb_text := sb_text sb @ t\<rparr>"

text \<open>The counting loop of \<^verbatim>\<open>pop_chars\<close>: it breaks when the shadow runs out.\<close>

fun pop_chars_loop :: "nat \<Rightarrow> ustr \<Rightarrow> u32 \<Rightarrow> u32 \<Rightarrow> ustr \<times> u32 \<times> u32" where
  "pop_chars_loop 0 t byte_count char_count = (t, byte_count, char_count)"
| "pop_chars_loop (Suc n) t byte_count char_count =
     (if t = [] then (t, byte_count, char_count)
      else pop_chars_loop n (butlast t)
             (byte_count + of_nat (len_utf8 (last t))) (char_count + 1))"

definition pop_chars :: "nat \<Rightarrow> shadow_buffer \<Rightarrow> shadow_buffer \<times> u32 \<times> u32" where
  "pop_chars n sb =
     (case pop_chars_loop n (sb_text sb) 0 0 of (t, b, c) \<Rightarrow> (sb\<lparr>sb_text := t\<rparr>, b, c))"

definition shadow_clear :: "shadow_buffer \<Rightarrow> shadow_buffer" where
  "shadow_clear sb = sb\<lparr>sb_text := [], sb_last_cursor := None, sb_selected_before_chars := 0,
     sb_selected_after_bytes := 0, sb_selected_after_chars := 0, sb_pending_commit := False\<rparr>"

definition pop_delete_span :: "usize \<Rightarrow> shadow_buffer \<Rightarrow> shadow_buffer \<times> u32 \<times> u32 \<times> u32 \<times> u32" where
  "pop_delete_span backspaces sb =
     (let before_target = saturating_add backspaces (sb_selected_before_chars sb);
          (sb1, before_bytes, before_chars) = pop_chars before_target sb;
          after_bytes = sb_selected_after_bytes sb1;
          after_chars = sb_selected_after_chars sb1
      in (sb1\<lparr>sb_selected_before_chars := 0, sb_selected_after_bytes := 0,
              sb_selected_after_chars := 0\<rparr>,
          before_bytes, before_chars, after_bytes, after_chars))"

definition observe_surrounding :: "ustr \<Rightarrow> u32 \<Rightarrow> u32 \<Rightarrow> shadow_buffer \<Rightarrow> bool \<times> shadow_buffer" where
  "observe_surrounding text cursor anchor sb =
     (let cursor_boundary = floor_boundary text (unat cursor);
          anchor_boundary = floor_boundary text (unat anchor);
          unexpected_move = (\<not> sb_pending_commit sb \<and>
             (case sb_last_cursor sb of Some l \<Rightarrow> l \<noteq> cursor | None \<Rightarrow> False));
          effective_boundary = min cursor_boundary anchor_boundary;
          sb1 = sb\<lparr>sb_text := slice_to text effective_boundary\<rparr>;
          sb2 = (if anchor_boundary < cursor_boundary then
                   (let selected_before = str_slice text anchor_boundary cursor_boundary in
                    sb1\<lparr>sb_selected_before_chars := length selected_before,
                        sb_selected_after_bytes := 0, sb_selected_after_chars := 0\<rparr>)
                 else if cursor_boundary < anchor_boundary then
                   (let selected_after = str_slice text cursor_boundary anchor_boundary in
                    sb1\<lparr>sb_selected_before_chars := 0,
                        sb_selected_after_bytes := of_nat (blen selected_after),
                        sb_selected_after_chars := of_nat (length selected_after)\<rparr>)
                 else
                   sb1\<lparr>sb_selected_before_chars := 0,
                       sb_selected_after_bytes := 0, sb_selected_after_chars := 0\<rparr>)
      in (unexpected_move, sb2\<lparr>sb_last_cursor := Some cursor, sb_pending_commit := False\<rparr>))"

section \<open>What the operations compute\<close>

named_theorems shadow_simps \<open>the effect of the shadow operations, field by field\<close>

lemma pop_chars_loop_eq:
  "pop_chars_loop n t b c =
     (pop_n n t, b + of_nat (blen (drop (length t - n) t)), c + of_nat (min n (length t)))"
proof (induction n arbitrary: t b c)
  case (Suc n)
  show ?case
  proof (cases t rule: rev_cases)
    case (snoc s x)
    have "drop (length t - Suc n) t = drop (length s - n) s @ [x]"
      using snoc by (simp add: Suc_diff_le)
    then show ?thesis using Suc snoc by (simp add: pop_n_Suc algebra_simps)
  qed simp
qed simp

lemma pop_chars_eq [shadow_simps]:
  "pop_chars n sb =
     (sb\<lparr>sb_text := pop_n n (sb_text sb)\<rparr>,
      of_nat (blen (drop (length (sb_text sb) - n) (sb_text sb))),
      of_nat (min n (length (sb_text sb))))"
  by (simp add: pop_chars_def pop_chars_loop_eq)

lemma pop_delete_span_eq:
  "pop_delete_span backspaces sb =
     (let k = saturating_add backspaces (sb_selected_before_chars sb); t = sb_text sb in
      (sb\<lparr>sb_text := pop_n k t, sb_selected_before_chars := 0, sb_selected_after_bytes := 0,
          sb_selected_after_chars := 0\<rparr>,
       of_nat (blen (drop (length t - k) t)), of_nat (min k (length t)),
       sb_selected_after_bytes sb, sb_selected_after_chars sb))"
  by (simp add: pop_delete_span_def pop_chars_eq Let_def)

lemma saturating_add_small [simp]: "a + b < 2 ^ 64 \<Longrightarrow> saturating_add a b = a + b"
  by (simp add: saturating_add_def usize_max_def)

text \<open>A frame makes the shadow the text before both ends of the selection.\<close>

lemma observe_surrounding_text [shadow_simps]:
  "sb_text (snd (observe_surrounding text cursor anchor sb)) =
     floor_prefix text (min (unat cursor) (unat anchor))"
proof -
  have "slice_to text (min (floor_boundary text (unat cursor)) (floor_boundary text (unat anchor)))
      = floor_prefix text (min (unat cursor) (unat anchor))"
  proof (cases "unat cursor \<le> unat anchor")
    case True
    then have "floor_boundary text (unat cursor) \<le> floor_boundary text (unat anchor)"
      using floor_prefix_mono [of "unat cursor" "unat anchor" "text"]
      by (auto simp: floor_boundary_eq)
    with True show ?thesis by (simp add: min_absorb1 ustr_simps)
  next
    case False
    then have "floor_boundary text (unat anchor) \<le> floor_boundary text (unat cursor)"
      using floor_prefix_mono [of "unat anchor" "unat cursor" "text"]
      by (auto simp: floor_boundary_eq)
    with False show ?thesis by (simp add: min_absorb2 ustr_simps)
  qed
  then show ?thesis by (auto simp: observe_surrounding_def Let_def min_def split: if_splits)
qed

text \<open>The selection on the far side of the cursor is measured exactly.\<close>

lemma observe_surrounding_selected_after:
  assumes "text = p @ sel @ q" "unat cursor = blen p" "unat anchor = blen p + blen sel"
  shows "sb_selected_before_chars (snd (observe_surrounding text cursor anchor sb)) = 0"
    and "sb_selected_after_bytes (snd (observe_surrounding text cursor anchor sb)) = of_nat (blen sel)"
    and "sb_selected_after_chars (snd (observe_surrounding text cursor anchor sb)) = of_nat (length sel)"
proof -
  have a: "floor_prefix text (blen p + blen sel) = p @ sel"
    using floor_prefix_append_blen [of "p @ sel" q] assms(1) by simp
  have c: "floor_prefix text (blen p) = p" using assms(1) by simp
  show "sb_selected_before_chars (snd (observe_surrounding text cursor anchor sb)) = 0"
    "sb_selected_after_bytes (snd (observe_surrounding text cursor anchor sb)) = of_nat (blen sel)"
    "sb_selected_after_chars (snd (observe_surrounding text cursor anchor sb)) = of_nat (length sel)"
    using assms a c str_slice_append [of p sel q]
    by (cases "sel = []"; simp add: observe_surrounding_def Let_def floor_boundary_eq)+
qed

lemma observe_surrounding_selected_before:
  assumes "text = p @ sel @ q" "unat anchor = blen p" "unat cursor = blen p + blen sel"
  shows "sb_selected_before_chars (snd (observe_surrounding text cursor anchor sb)) = length sel"
proof -
  have a: "floor_prefix text (blen p + blen sel) = p @ sel"
    using floor_prefix_append_blen [of "p @ sel" q] assms(1) by simp
  have c: "floor_prefix text (blen p) = p" using assms(1) by simp
  show ?thesis
    using assms a c str_slice_append [of p sel q]
    by (cases "sel = []") (simp_all add: observe_surrounding_def Let_def floor_boundary_eq)
qed

lemma observe_surrounding_marks [shadow_simps]:
  "sb_last_cursor (snd (observe_surrounding text cursor anchor sb)) = Some cursor"
  "sb_pending_commit (snd (observe_surrounding text cursor anchor sb)) = False"
  by (simp_all add: observe_surrounding_def Let_def)

end
