(* ===== verification/EditStrategy.thy ===== *)
theory EditStrategy
  imports Shadow
begin

text \<open>
  \<^verbatim>\<open>crates/edit-strategy/src\<close>: the two edit tiers and the interface they write through.
  \<^verbatim>\<open>lib.rs\<close> gives the key decisions, the modifier mask, the \<^verbatim>\<open>OutputSink\<close> trait (a record of
  operations on the sink's state) and \<^verbatim>\<open>Strategy\<close>; \<open>surrounding_apply\<close> and
  \<open>forward_key_apply\<close> are \<^verbatim>\<open>surrounding.rs\<close> and \<^verbatim>\<open>forward_key.rs\<close>; \<open>detect_method\<close> is
  \<^verbatim>\<open>capability.rs\<close>. The locale \<open>editing_sink\<close> states what a sink promises about the
  document in front of the cursor, and proves once that both tiers keep the shadow equal
  to it; every sink of the program is an interpretation of it.
\<close>

datatype backspace_method = SurroundingText | ForwardKey

datatype delete_unit = Bytes | Chars

datatype key_decision =
    Consumed
  | ForwardRaw
  | Apply (kd_method: backspace_method) (kd_backspaces: usize) (kd_commit: ustr)

datatype key_state = Pressed | Released

section \<open>Modifier masks\<close>

type_synonym modifier_state = u32

definition MOD_SHIFT :: modifier_state where "MOD_SHIFT = 0x01"
definition MOD_CTRL :: modifier_state where "MOD_CTRL = 0x04"
definition MOD_ALT :: modifier_state where "MOD_ALT = 0x08"
definition MOD_SUPER :: modifier_state where "MOD_SUPER = 0x40"

text \<open>\<^verbatim>\<open>bitflags\<close>' \<^verbatim>\<open>contains\<close> and \<^verbatim>\<open>intersects\<close>.\<close>

definition mods_contains :: "modifier_state \<Rightarrow> modifier_state \<Rightarrow> bool" where
  "mods_contains m f \<longleftrightarrow> m AND f = f"

definition mods_intersects :: "modifier_state \<Rightarrow> modifier_state \<Rightarrow> bool" where
  "mods_intersects m f \<longleftrightarrow> m AND f \<noteq> 0"

section \<open>The output sink and the two tiers\<close>

record 's output_sink =
  os_delete_surrounding_text :: "u32 \<Rightarrow> u32 \<Rightarrow> u32 \<Rightarrow> u32 \<Rightarrow> 's \<Rightarrow> 's"
  os_commit_string :: "ustr \<Rightarrow> 's \<Rightarrow> 's"
  os_commit :: "u32 \<Rightarrow> 's \<Rightarrow> 's"
  os_vk_key :: "u32 \<Rightarrow> u32 \<Rightarrow> key_state \<Rightarrow> 's \<Rightarrow> 's"
  os_vk_modifiers :: "u32 \<Rightarrow> u32 \<Rightarrow> u32 \<Rightarrow> u32 \<Rightarrow> 's \<Rightarrow> 's"
  os_vk_commit_char :: "u32 \<Rightarrow> uchar \<Rightarrow> 's \<Rightarrow> bool \<times> 's"
  os_commit_via_keysym :: "u32 \<Rightarrow> u32 \<Rightarrow> ustr \<Rightarrow> 's \<Rightarrow> bool \<times> 's"
  os_commit_key_channel_text :: "u32 \<Rightarrow> u32 \<Rightarrow> ustr \<Rightarrow> 's \<Rightarrow> bool \<times> 's"

text \<open>The trait's default bodies for the two whole-text channels.\<close>

definition default_commit_via_keysym :: "u32 \<Rightarrow> u32 \<Rightarrow> ustr \<Rightarrow> 's \<Rightarrow> bool \<times> 's" where
  "default_commit_via_keysym serial time t s = (False, s)"

definition default_commit_key_channel_text :: "u32 \<Rightarrow> u32 \<Rightarrow> ustr \<Rightarrow> 's \<Rightarrow> bool \<times> 's" where
  "default_commit_key_channel_text serial time t s = (False, s)"

definition KEY_BACKSPACE :: u32 where
  "KEY_BACKSPACE = 14"

text \<open>One synthetic Backspace, pressed and released, and the loop that sends \<open>n\<close> of them.\<close>

definition vk_tap_backspace :: "'s output_sink \<Rightarrow> u32 \<Rightarrow> 's \<Rightarrow> 's" where
  "vk_tap_backspace snk time s =
     os_vk_key snk time KEY_BACKSPACE Released (os_vk_key snk time KEY_BACKSPACE Pressed s)"

fun vk_backspaces :: "'s output_sink \<Rightarrow> u32 \<Rightarrow> nat \<Rightarrow> 's \<Rightarrow> 's" where
  "vk_backspaces snk time 0 s = s"
| "vk_backspaces snk time (Suc n) s =
     vk_backspaces snk time n (vk_tap_backspace snk time s)"

definition surrounding_apply ::
    "'s output_sink \<Rightarrow> usize \<Rightarrow> ustr \<Rightarrow> u32 \<Rightarrow> u32 \<Rightarrow> delete_unit \<Rightarrow>
      shadow_buffer \<times> 's \<Rightarrow> shadow_buffer \<times> 's" where
  "surrounding_apply snk backspaces commit serial time du = (\<lambda>(shadow, s).
     let (shadow1, before_bytes, before_chars, after_bytes, after_chars) =
           pop_delete_span backspaces shadow
     in if 0 < after_bytes \<or> 0 < after_chars then
          (let total_bs = backspaces + 1;
               s1 = vk_backspaces snk time total_bs s;
               s2 = os_commit_string snk commit s1;
               s3 = os_commit snk serial s2
           in ((shadow_append commit shadow1)\<lparr>sb_pending_commit := True\<rparr>, s3))
        else
          (let (emit_before, emit_after) =
                 (case du of Bytes \<Rightarrow> (before_bytes, after_bytes)
                  | Chars \<Rightarrow> (before_chars, after_chars));
               s1 = os_delete_surrounding_text snk emit_before before_chars emit_after after_chars s;
               s2 = os_commit_string snk commit s1;
               s3 = os_commit snk serial s2
           in ((shadow_append commit shadow1)\<lparr>sb_pending_commit := True\<rparr>, s3)))"

definition forward_key_apply ::
    "'s output_sink \<Rightarrow> usize \<Rightarrow> ustr \<Rightarrow> u32 \<Rightarrow> u32 \<Rightarrow> bool \<Rightarrow>
      shadow_buffer \<times> 's \<Rightarrow> shadow_buffer \<times> 's" where
  "forward_key_apply snk backspaces commit serial time prefer_key_channel_commit = (\<lambda>(shadow, s).
     let s1 = vk_backspaces snk time backspaces s;
         (emitted, s2) =
           (if prefer_key_channel_commit
            then os_commit_key_channel_text snk serial time commit s1
            else os_commit_via_keysym snk serial time commit s1);
         s3 = (if emitted then s2 else os_commit snk serial (os_commit_string snk commit s2));
         shadow1 = shadow\<lparr>sb_text := pop_n backspaces (sb_text shadow)\<rparr>
     in ((shadow_append commit shadow1)\<lparr>sb_pending_commit := True\<rparr>, s3))"

record strategy =
  st_method :: backspace_method
  st_shadow :: shadow_buffer
  st_modifiers :: modifier_state

definition strategy_new :: "backspace_method \<Rightarrow> strategy" where
  "strategy_new m = \<lparr>st_method = m, st_shadow = shadow_new, st_modifiers = 0\<rparr>"

definition strategy_apply ::
    "'s output_sink \<Rightarrow> usize \<Rightarrow> ustr \<Rightarrow> u32 \<Rightarrow> u32 \<Rightarrow> delete_unit \<Rightarrow>
      strategy \<times> 's \<Rightarrow> strategy \<times> 's" where
  "strategy_apply snk backspaces commit serial time du = (\<lambda>(st, s).
     let (sh, s') =
       (case st_method st of
          SurroundingText \<Rightarrow>
            surrounding_apply snk backspaces commit serial time du (st_shadow st, s)
        | ForwardKey \<Rightarrow>
            forward_key_apply snk backspaces commit serial time False (st_shadow st, s))
     in (st\<lparr>st_shadow := sh\<rparr>, s'))"

definition strategy_apply_forward_key ::
    "'s output_sink \<Rightarrow> usize \<Rightarrow> ustr \<Rightarrow> u32 \<Rightarrow> u32 \<Rightarrow> strategy \<times> 's \<Rightarrow> strategy \<times> 's" where
  "strategy_apply_forward_key snk backspaces commit serial time = (\<lambda>(st, s).
     let (sh, s') = forward_key_apply snk backspaces commit serial time True (st_shadow st, s)
     in (st\<lparr>st_shadow := sh\<rparr>, s'))"

definition on_surrounding_text :: "ustr \<Rightarrow> u32 \<Rightarrow> u32 \<Rightarrow> strategy \<Rightarrow> strategy" where
  "on_surrounding_text t cursor anchor st =
     st\<lparr>st_shadow := snd (observe_surrounding t cursor anchor (st_shadow st))\<rparr>"

definition reset_shadow :: "strategy \<Rightarrow> strategy" where
  "reset_shadow st = st\<lparr>st_shadow := shadow_clear (st_shadow st)\<rparr>"

definition set_modifiers :: "modifier_state \<Rightarrow> strategy \<Rightarrow> strategy" where
  "set_modifiers m st = st\<lparr>st_modifiers := m\<rparr>"

definition strategy_set_method :: "backspace_method \<Rightarrow> strategy \<Rightarrow> strategy" where
  "strategy_set_method m st = st\<lparr>st_method := m\<rparr>"

definition detect_method :: "bool \<Rightarrow> backspace_method" where
  "detect_method surrounding_text_seen =
     (if surrounding_text_seen then SurroundingText else ForwardKey)"

section \<open>Effect on the shadow\<close>

named_theorems strategy_simps \<open>the effect of the edit tiers on the strategy\<close>

lemma shadow_append_simps [shadow_simps, simp]:
  "sb_text (shadow_append t sb) = sb_text sb @ t"
  "sb_last_cursor (shadow_append t sb) = sb_last_cursor sb"
  "sb_selected_before_chars (shadow_append t sb) = sb_selected_before_chars sb"
  "sb_selected_after_bytes (shadow_append t sb) = sb_selected_after_bytes sb"
  "sb_selected_after_chars (shadow_append t sb) = sb_selected_after_chars sb"
  "sb_pending_commit (shadow_append t sb) = sb_pending_commit sb"
  by (simp_all add: shadow_append_def)

lemma surrounding_apply_shadow:
  "fst (surrounding_apply snk bs commit serial time du (sh, s)) =
     (shadow_append commit (fst (pop_delete_span bs sh)))\<lparr>sb_pending_commit := True\<rparr>"
  by (auto simp: surrounding_apply_def Let_def split: prod.splits delete_unit.splits)

lemma forward_key_apply_shadow:
  "fst (forward_key_apply snk bs commit serial time pk (sh, s)) =
     (shadow_append commit (sh\<lparr>sb_text := pop_n bs (sb_text sh)\<rparr>))\<lparr>sb_pending_commit := True\<rparr>"
  by (auto simp: forward_key_apply_def Let_def split: prod.splits)

lemma strategy_apply_shadow:
  "st_shadow (fst (strategy_apply snk bs commit serial time du (st, s))) =
     (case st_method st of
        SurroundingText \<Rightarrow>
          (shadow_append commit (fst (pop_delete_span bs (st_shadow st))))\<lparr>sb_pending_commit := True\<rparr>
      | ForwardKey \<Rightarrow>
          (shadow_append commit ((st_shadow st)\<lparr>sb_text := pop_n bs (sb_text (st_shadow st))\<rparr>))
            \<lparr>sb_pending_commit := True\<rparr>)"
  using surrounding_apply_shadow [of snk bs commit serial time du "st_shadow st" s]
    forward_key_apply_shadow [of snk bs commit serial time False "st_shadow st" s]
  by (auto simp: strategy_apply_def split: backspace_method.splits prod.splits)

lemma strategy_apply_frame [simp]:
  "st_method (fst (strategy_apply snk bs commit serial time du (st, s))) = st_method st"
  "st_modifiers (fst (strategy_apply snk bs commit serial time du (st, s))) = st_modifiers st"
  by (auto simp: strategy_apply_def split: backspace_method.splits prod.splits)

lemma strategy_apply_forward_key_frame [simp]:
  "st_method (fst (strategy_apply_forward_key snk bs commit serial time (st, s))) = st_method st"
  "st_modifiers (fst (strategy_apply_forward_key snk bs commit serial time (st, s))) = st_modifiers st"
  "st_shadow (fst (strategy_apply_forward_key snk bs commit serial time (st, s))) =
     (shadow_append commit ((st_shadow st)\<lparr>sb_text := pop_n bs (sb_text (st_shadow st))\<rparr>))
       \<lparr>sb_pending_commit := True\<rparr>"
  using forward_key_apply_shadow [of snk bs commit serial time True "st_shadow st" s]
  by (auto simp: strategy_apply_forward_key_def split: prod.splits)

lemma on_surrounding_text_frame [simp]:
  "st_method (on_surrounding_text t c a st) = st_method st"
  "st_modifiers (on_surrounding_text t c a st) = st_modifiers st"
  "sb_text (st_shadow (on_surrounding_text t c a st)) = floor_prefix t (min (unat c) (unat a))"
  by (simp_all add: on_surrounding_text_def shadow_simps)

lemma reset_shadow_frame [simp]:
  "st_method (reset_shadow st) = st_method st"
  "st_modifiers (reset_shadow st) = st_modifiers st"
  "sb_text (st_shadow (reset_shadow st)) = []"
  by (simp_all add: reset_shadow_def shadow_clear_def)

section \<open>What a sink promises\<close>

text \<open>
  \<open>doc\<close> is the text before the application's cursor, \<open>sel\<close> the text selected behind it.
  A sink that defers its output need not take deletions, keys and texts in every state:
  \<open>can_delete\<close>, \<open>can_key\<close> and \<open>can_commit\<close> say when it takes them in order. A sink may type
  a text with keys; \<open>can_type\<close> says for which texts its keys suffice.
\<close>

locale editing_sink =
  fixes snk :: "'s output_sink"
    and doc :: "'s \<Rightarrow> ustr"
    and sel :: "'s \<Rightarrow> ustr"
    and can_delete :: "'s \<Rightarrow> bool"
    and can_key :: "'s \<Rightarrow> bool"
    and can_commit :: "'s \<Rightarrow> bool"
    and can_type :: "ustr \<Rightarrow> bool"
  assumes delete_text: "can_delete s \<Longrightarrow> sel s = [] \<Longrightarrow> doc s = p @ q \<Longrightarrow> blen q < 2 ^ 31 \<Longrightarrow>
      doc (os_delete_surrounding_text snk (of_nat (blen q)) (of_nat (length q)) 0 0 s) = p"
    and delete_can_commit: "can_delete s \<Longrightarrow> can_commit (os_delete_surrounding_text snk n1 n2 n3 n4 s)"
    and backspace_selection: "can_key s \<Longrightarrow> sel s \<noteq> [] \<Longrightarrow> doc (vk_tap_backspace snk time s) = doc s"
    and backspace_text: "can_key s \<Longrightarrow> sel s = [] \<Longrightarrow> doc (vk_tap_backspace snk time s) = butlast (doc s)"
    and backspace_clears: "can_key s \<Longrightarrow> sel (vk_tap_backspace snk time s) = []"
    and backspace_can_key: "can_key s \<Longrightarrow> can_key (vk_tap_backspace snk time s)"
    and key_can_commit: "can_key s \<Longrightarrow> can_commit s"
    and commit_string_text: "can_commit s \<Longrightarrow> doc (os_commit_string snk t s) = doc s @ t"
    and commit_text: "doc (os_commit snk serial s) = doc s"
    and keysym_text: "can_key s \<Longrightarrow> can_type t \<Longrightarrow> os_commit_via_keysym snk serial time t s = (b, s') \<Longrightarrow>
      doc s' = (if b then doc s @ t else doc s) \<and> (b \<or> can_commit s')"
    and key_channel_text: "can_key s \<Longrightarrow> can_type t \<Longrightarrow> os_commit_key_channel_text snk serial time t s = (b, s') \<Longrightarrow>
      doc s' = (if b then doc s @ t else doc s) \<and> (b \<or> can_commit s')"

text \<open>The shadow mirrors the document: everything after \<open>pre\<close> is in it, and so is the selection.\<close>

definition shadow_mirrors :: "ustr \<Rightarrow> shadow_buffer \<Rightarrow> ustr \<Rightarrow> ustr \<Rightarrow> bool" where
  "shadow_mirrors pre sh doc sel \<longleftrightarrow>
     doc = pre @ sb_text sh \<and> blen (sb_text sh) < 2 ^ 31 \<and> blen sel < 2 ^ 31 \<and>
     sb_selected_before_chars sh = 0 \<and> sb_selected_after_bytes sh = of_nat (blen sel) \<and>
     sb_selected_after_chars sh = of_nat (length sel)"

context editing_sink
begin

lemma backspaces_text:
  "can_key s \<Longrightarrow> sel s = [] \<Longrightarrow> doc (vk_backspaces snk time n s) = pop_n n (doc s)"
  by (induction n arbitrary: s)
    (auto simp: backspace_text backspace_clears backspace_can_key pop_n_Suc)

lemma backspaces_can_key: "can_key s \<Longrightarrow> can_key (vk_backspaces snk time n s)"
  by (induction n arbitrary: s) (auto simp: backspace_can_key)

lemma backspaces_selection:
  "can_key s \<Longrightarrow> sel s \<noteq> [] \<Longrightarrow> doc (vk_backspaces snk time (Suc n) s) = pop_n n (doc s)"
  by (simp add: backspaces_text backspace_selection backspace_clears backspace_can_key)

lemma forward_key_apply_doc:
  assumes "can_key s" "sel s = []" "can_type commit"
  shows "doc (snd (forward_key_apply snk bs commit serial time pk (sh, s))) = pop_n bs (doc s) @ commit"
  using assms backspaces_can_key [OF assms(1), of time bs] backspaces_text [OF assms(1,2), of time bs]
  by (auto simp: forward_key_apply_def Let_def commit_string_text commit_text
      dest!: keysym_text [rotated 2] key_channel_text [rotated 2] split: prod.splits if_splits)

lemma surrounding_apply_doc:
  assumes "can_delete s" "can_key s"
    and m: "shadow_mirrors pre sh (doc s) (sel s)" and n: "bs \<le> length (sb_text sh)"
  shows "doc (snd (surrounding_apply snk bs commit serial time Bytes (sh, s)))
    = pre @ pop_n bs (sb_text sh) @ commit"
proof -
  define q where "q = drop (length (sb_text sh) - bs) (sb_text sh)"
  have q: "sb_text sh = pop_n bs (sb_text sh) @ q" unfolding q_def by (rule pop_n_suffix)
  have blen_q: "blen q < 2 ^ 31"
    using m arg_cong [OF q, of blen] by (simp add: shadow_mirrors_def)
  have len: "length q = bs" using n by (simp add: q_def)
  have bs: "bs < 2 ^ 31" using len blen_q length_le_blen [of q] by simp
  show ?thesis
  proof (cases "sel s = []")
    case True
    have "doc s = (pre @ pop_n bs (sb_text sh)) @ q" using m q by (simp add: shadow_mirrors_def)
    note del = delete_text [OF \<open>can_delete s\<close> True this blen_q]
    from True m bs n show ?thesis
      by (simp add: surrounding_apply_def pop_delete_span_eq Let_def shadow_mirrors_def
          commit_string_text commit_text del [unfolded len] q_def [symmetric] min_absorb1
          delete_can_commit [OF assms(1)])
  next
    case False
    then have "0 < blen (sel s)" by simp
    then have "(of_nat (blen (sel s)) :: u32) \<noteq> 0"
      using m by (simp add: shadow_mirrors_def u32_of_nat_eq_0)
    then have "0 < sb_selected_after_bytes sh" using m by (simp add: shadow_mirrors_def word_gt_0)
    with False m bs n show ?thesis
      by (simp add: surrounding_apply_def pop_delete_span_eq Let_def shadow_mirrors_def
          commit_string_text commit_text backspaces_selection pop_n_append \<open>can_key s\<close>
          key_can_commit [OF backspaces_can_key]
          del: vk_backspaces.simps)
  qed
qed

text \<open>Either tier leaves the shadow equal to the document.\<close>

lemma strategy_apply_mirrors:
  assumes "can_delete s" "can_key s"
    and "shadow_mirrors pre (st_shadow st) (doc s) (sel s)"
    and "bs \<le> length (sb_text (st_shadow st))"
    and "st_method st = ForwardKey \<Longrightarrow> sel s = []"
    and "can_type commit"
  shows "doc (snd (strategy_apply snk bs commit serial time Bytes (st, s))) =
      pre @ sb_text (st_shadow (fst (strategy_apply snk bs commit serial time Bytes (st, s))))"
proof (cases "st_method st")
  case SurroundingText
  have k: "saturating_add bs 0 = bs"
    using assms length_le_blen [of "sb_text (st_shadow st)"] by (simp add: shadow_mirrors_def)
  from SurroundingText assms show ?thesis
    using surrounding_apply_doc [OF assms(1-4), of commit serial time]
    by (simp add: strategy_apply_shadow pop_delete_span_eq Let_def shadow_mirrors_def k)
      (auto simp: strategy_apply_def split: prod.split)
next
  case ForwardKey
  with assms show ?thesis
    using forward_key_apply_doc [OF assms(2), of commit bs serial time False "st_shadow st"]
    by (simp add: strategy_apply_shadow shadow_mirrors_def pop_n_append)
      (auto simp: strategy_apply_def split: prod.split)
qed

end

section \<open>Invariants of a sink\<close>

text \<open>What every operation of a sink keeps, an edit keeps.\<close>

locale sink_invariant =
  fixes snk :: "'s output_sink" and holds :: "'s \<Rightarrow> bool"
  assumes delete_holds: "holds s \<Longrightarrow> holds (os_delete_surrounding_text snk n1 n2 n3 n4 s)"
    and commit_string_holds: "holds s \<Longrightarrow> holds (os_commit_string snk t s)"
    and commit_holds: "holds s \<Longrightarrow> holds (os_commit snk serial s)"
    and vk_key_holds: "holds s \<Longrightarrow> holds (os_vk_key snk time key state s)"
    and keysym_holds: "holds s \<Longrightarrow> holds (snd (os_commit_via_keysym snk serial time t s))"
    and key_channel_holds: "holds s \<Longrightarrow> holds (snd (os_commit_key_channel_text snk serial time t s))"
begin

lemma backspaces_holds: "holds s \<Longrightarrow> holds (vk_backspaces snk time n s)"
  by (induction n arbitrary: s) (simp_all add: vk_tap_backspace_def vk_key_holds)

lemma forward_key_apply_holds:
  assumes "holds s"
  shows "holds (snd (forward_key_apply snk bs commit serial time pk (sh, s)))"
  using keysym_holds [OF backspaces_holds [OF assms], of serial time commit time bs]
    key_channel_holds [OF backspaces_holds [OF assms], of serial time commit time bs]
  by (auto simp: forward_key_apply_def Let_def commit_holds commit_string_holds split: prod.split if_split)

lemma surrounding_apply_holds:
  "holds s \<Longrightarrow> holds (snd (surrounding_apply snk bs commit serial time du (sh, s)))"
  by (auto simp: surrounding_apply_def Let_def commit_holds commit_string_holds delete_holds
      backspaces_holds simp del: vk_backspaces.simps split: prod.split)

lemma strategy_apply_holds:
  assumes "holds s"
  shows "holds (snd (strategy_apply snk bs commit serial time du (st, s)))"
    and "holds (snd (strategy_apply_forward_key snk bs commit serial time (st, s)))"
  using surrounding_apply_holds [OF assms, of bs commit serial time du "st_shadow st"]
    forward_key_apply_holds [OF assms, of bs commit serial time False "st_shadow st"]
    forward_key_apply_holds [OF assms, of bs commit serial time True "st_shadow st"]
  by (auto simp: strategy_apply_def strategy_apply_forward_key_def split: prod.split backspace_method.split)

end

end
