(* ===== verification/Quirks.thy ===== *)
theory Quirks
  imports TextHelpers EditStrategy
begin

text \<open>
  \<^verbatim>\<open>crates/daemon/src/quirks\<close>: the two workaround state machines of the composer.
  \<open>firefox_quirk\<close> watches for the surrounding-text echo of a correction and switches the delete
  channel when it comes back stale; \<open>ibus_quirk\<close> counts corrections no frame answered.
\<close>

section \<open>Firefox contenteditable\<close>

record pending_echo =
  pe_expected :: ustr
  pe_delete_echo :: ustr

record firefox_quirk =
  fx_expected_echo :: "pending_echo option"
  fx_delete_unit :: delete_unit
  fx_use_forward_delete :: bool
  fx_forward_sticky :: bool

definition firefox_new :: firefox_quirk where
  "firefox_new = \<lparr>fx_expected_echo = None, fx_delete_unit = Bytes, fx_use_forward_delete = False,
     fx_forward_sticky = False\<rparr>"

definition arm_forward_sticky :: "firefox_quirk \<Rightarrow> firefox_quirk" where
  "arm_forward_sticky fx = fx\<lparr>fx_forward_sticky := True\<rparr>"

definition reset_forward_sticky :: "firefox_quirk \<Rightarrow> firefox_quirk" where
  "reset_forward_sticky fx = fx\<lparr>fx_forward_sticky := False\<rparr>"

definition reset_delete_unit_after_use :: "firefox_quirk \<Rightarrow> firefox_quirk" where
  "reset_delete_unit_after_use fx =
     (if fx_delete_unit fx = Chars then fx\<lparr>fx_delete_unit := Bytes\<rparr> else fx)"

definition record_expected_echo :: "ustr \<Rightarrow> ustr \<Rightarrow> firefox_quirk \<Rightarrow> firefox_quirk" where
  "record_expected_echo expected delete_echo fx =
     fx\<lparr>fx_expected_echo := Some \<lparr>pe_expected = expected, pe_delete_echo = delete_echo\<rparr>\<rparr>"

definition firefox_clear :: "firefox_quirk \<Rightarrow> firefox_quirk" where
  "firefox_clear fx = fx\<lparr>fx_expected_echo := None, fx_delete_unit := Bytes,
     fx_use_forward_delete := False\<rparr>"

definition forget_expected_echo :: "firefox_quirk \<Rightarrow> firefox_quirk" where
  "forget_expected_echo fx = fx\<lparr>fx_expected_echo := None\<rparr>"

definition reset_delete_unit :: "firefox_quirk \<Rightarrow> firefox_quirk" where
  "reset_delete_unit fx = fx\<lparr>fx_expected_echo := None, fx_delete_unit := Bytes,
     fx_use_forward_delete := False\<rparr>"

definition firefox_boundary_chars :: "uchar list" where
  "firefox_boundary_chars = [0x2E, 0x2C, 0x3B, 0x3A, 0x21, 0x3F, 0x29, 0x5D, 0x7D]"

definition firefox_is_word_boundary :: "uchar \<Rightarrow> bool" where
  "firefox_is_word_boundary ch \<longleftrightarrow> is_whitespace ch \<or> ch \<in> set firefox_boundary_chars"

definition firefox_observe_surrounding :: "ustr \<Rightarrow> bool \<Rightarrow> bool \<Rightarrow> firefox_quirk \<Rightarrow> firefox_quirk" where
  "firefox_observe_surrounding before_cursor recent_action retroactive_context fx =
     (case fx_expected_echo fx of
        None \<Rightarrow> fx
      | Some expected_echo \<Rightarrow>
          if before_cursor = pe_expected expected_echo then reset_delete_unit fx
          else if before_cursor \<noteq> pe_delete_echo expected_echo \<and> recent_action then
            (let retroactive_cursor_left_word =
                   (retroactive_context \<and>
                    (case last_char before_cursor of
                       Some ch \<Rightarrow> firefox_is_word_boundary ch | None \<Rightarrow> False));
                 unit = (if retroactive_cursor_left_word then Bytes else Chars)
             in fx\<lparr>fx_delete_unit := unit, fx_use_forward_delete := (unit = Chars),
                   fx_expected_echo := None\<rparr>)
          else if before_cursor \<noteq> pe_delete_echo expected_echo then
            fx\<lparr>fx_expected_echo := None, fx_delete_unit := Bytes, fx_use_forward_delete := False\<rparr>
          else fx)"

definition has_pending_echo :: "firefox_quirk \<Rightarrow> bool" where
  "has_pending_echo fx \<longleftrightarrow> fx_expected_echo fx \<noteq> None"

section \<open>IBus surrounding echoes\<close>

record ibus_quirk =
  iq_surrounding_echo_since_correction :: bool
  iq_surrounding_saw_correction :: bool
  iq_surrounding_corrections_without_echo :: u32

definition ibus_quirk_new :: ibus_quirk where
  "ibus_quirk_new = \<lparr>iq_surrounding_echo_since_correction = False,
     iq_surrounding_saw_correction = False, iq_surrounding_corrections_without_echo = 0\<rparr>"

definition CORRECTIONS_WITHOUT_ECHO_LIMIT :: u32 where
  "CORRECTIONS_WITHOUT_ECHO_LIMIT = 1"

definition ibus_mark_surrounding_frame_seen :: "ibus_quirk \<Rightarrow> ibus_quirk" where
  "ibus_mark_surrounding_frame_seen q = q\<lparr>iq_surrounding_echo_since_correction := True\<rparr>"

definition note_correction_and_should_downgrade :: "ibus_quirk \<Rightarrow> bool \<times> ibus_quirk" where
  "note_correction_and_should_downgrade q =
     (if \<not> iq_surrounding_saw_correction q then
        (False, q\<lparr>iq_surrounding_saw_correction := True, iq_surrounding_echo_since_correction := False\<rparr>)
      else if iq_surrounding_echo_since_correction q then
        (False, q\<lparr>iq_surrounding_corrections_without_echo := 0,
                 iq_surrounding_echo_since_correction := False\<rparr>)
      else
        (let n = iq_surrounding_corrections_without_echo q + 1
         in (CORRECTIONS_WITHOUT_ECHO_LIMIT \<le> n, q\<lparr>iq_surrounding_corrections_without_echo := n\<rparr>)))"

definition ibus_quirk_reset :: "ibus_quirk \<Rightarrow> ibus_quirk" where
  "ibus_quirk_reset q = ibus_quirk_new"

section \<open>Invariants\<close>

named_theorems quirk_simps \<open>the effect of the quirk operations\<close>

text \<open>
  The character unit comes only with the forward channel, so no deletion is ever sent in
  characters. Every operation of the composer on the quirk keeps this.
\<close>

definition firefox_inv :: "firefox_quirk \<Rightarrow> bool" where
  "firefox_inv fx \<longleftrightarrow> (fx_delete_unit fx = Chars \<longrightarrow> fx_use_forward_delete fx)"

lemma firefox_inv_new [simp]: "firefox_inv firefox_new"
  by (simp add: firefox_inv_def firefox_new_def)

lemma firefox_inv_ops [simp]:
  "firefox_inv fx \<Longrightarrow> firefox_inv (arm_forward_sticky fx)"
  "firefox_inv fx \<Longrightarrow> firefox_inv (reset_forward_sticky fx)"
  "firefox_inv fx \<Longrightarrow> firefox_inv (reset_delete_unit_after_use fx)"
  "firefox_inv fx \<Longrightarrow> firefox_inv (record_expected_echo e d fx)"
  "firefox_inv (firefox_clear fx)"
  "firefox_inv fx \<Longrightarrow> firefox_inv (forget_expected_echo fx)"
  "firefox_inv fx \<Longrightarrow> firefox_inv (firefox_observe_surrounding b r c fx)"
  by (auto simp: firefox_inv_def arm_forward_sticky_def reset_forward_sticky_def
      reset_delete_unit_after_use_def record_expected_echo_def firefox_clear_def
      forget_expected_echo_def firefox_observe_surrounding_def reset_delete_unit_def Let_def
      split: option.split)

lemma firefox_observe_sticky [simp, quirk_simps]:
  "fx_forward_sticky (firefox_observe_surrounding b r c fx) = fx_forward_sticky fx"
  by (simp add: firefox_observe_surrounding_def reset_delete_unit_def Let_def split: option.split)

text \<open>The first correction never downgrades; an unanswered later one always does.\<close>

lemma note_correction_downgrades_iff:
  "fst (note_correction_and_should_downgrade q) \<longleftrightarrow>
     iq_surrounding_saw_correction q \<and> \<not> iq_surrounding_echo_since_correction q
     \<and> iq_surrounding_corrections_without_echo q + 1 \<noteq> 0"
  by (auto simp: note_correction_and_should_downgrade_def CORRECTIONS_WITHOUT_ECHO_LIMIT_def Let_def
      word_le_nat_alt unat_gt_0 Suc_le_eq)

end
