(* ===== verification/Composer.thy ===== *)
theory Composer
  imports Engine Quirks
begin

text \<open>
  \<^verbatim>\<open>crates/daemon/src/composer.rs\<close>: the composition state machine. \<open>composer\<close> holds the
  engine, the edit model (strategy, shadow and the last frame), the confirmation state and the
  quirks; one definition per method follows, in the order of the source. The clock is an
  argument \<open>now\<close> of every method that reads it, the engine library and the sink are parameters.
  Methods that only log are left out.
\<close>

section \<open>The edit model\<close>

record edit_model =
  em_strategy :: strategy
  em_prev_text :: ustr
  em_prev_cursor :: u32
  em_prev_anchor :: u32

definition edit_model_new :: "backspace_method \<Rightarrow> edit_model" where
  "edit_model_new m = \<lparr>em_strategy = strategy_new m, em_prev_text = [], em_prev_cursor = 0,
     em_prev_anchor = 0\<rparr>"

definition em_method :: "edit_model \<Rightarrow> backspace_method" where
  "em_method em = st_method (em_strategy em)"

definition em_set_method :: "backspace_method \<Rightarrow> edit_model \<Rightarrow> edit_model" where
  "em_set_method m em = em\<lparr>em_strategy := strategy_set_method m (em_strategy em)\<rparr>"

definition em_set_modifiers :: "modifier_state \<Rightarrow> edit_model \<Rightarrow> edit_model" where
  "em_set_modifiers m em = em\<lparr>em_strategy := set_modifiers m (em_strategy em)\<rparr>"

definition em_reset_composition :: "edit_model \<Rightarrow> edit_model" where
  "em_reset_composition em = em\<lparr>em_strategy := reset_shadow (em_strategy em)\<rparr>"

definition em_shadow_text :: "edit_model \<Rightarrow> ustr" where
  "em_shadow_text em = sb_text (st_shadow (em_strategy em))"

definition em_update_shadow :: "(ustr \<Rightarrow> ustr) \<Rightarrow> edit_model \<Rightarrow> edit_model" where
  "em_update_shadow f em =
     em\<lparr>em_strategy := (em_strategy em)\<lparr>st_shadow := (st_shadow (em_strategy em))
       \<lparr>sb_text := f (sb_text (st_shadow (em_strategy em)))\<rparr>\<rparr>\<rparr>"

definition push_forwarded_char :: "uchar \<Rightarrow> edit_model \<Rightarrow> edit_model" where
  "push_forwarded_char ch = em_update_shadow (\<lambda>t. t @ [ch])"

definition pop_forwarded_char :: "edit_model \<Rightarrow> edit_model" where
  "pop_forwarded_char = em_update_shadow butlast"

definition em_on_surrounding_text :: "ustr \<Rightarrow> u32 \<Rightarrow> u32 \<Rightarrow> edit_model \<Rightarrow> edit_model" where
  "em_on_surrounding_text t cursor anchor em =
     em\<lparr>em_strategy := on_surrounding_text t cursor anchor (em_strategy em)\<rparr>"

definition record_surrounding :: "ustr \<Rightarrow> u32 \<Rightarrow> u32 \<Rightarrow> edit_model \<Rightarrow> edit_model" where
  "record_surrounding t cursor anchor em =
     em\<lparr>em_prev_text := t, em_prev_cursor := cursor, em_prev_anchor := anchor\<rparr>"

definition one_char_insertion_since_prev :: "ustr \<Rightarrow> u32 \<Rightarrow> edit_model \<Rightarrow> bool" where
  "one_char_insertion_since_prev t cursor em =
     detect_one_char_insertion (em_prev_text em) (em_prev_cursor em) t cursor"

definition deletion_since_prev :: "ustr \<Rightarrow> u32 \<Rightarrow> edit_model \<Rightarrow> bool" where
  "deletion_since_prev t cursor em = detect_deletion (em_prev_text em) (em_prev_cursor em) t cursor"

definition em_is_duplicate_frame :: "ustr \<Rightarrow> u32 \<Rightarrow> u32 \<Rightarrow> edit_model \<Rightarrow> bool" where
  "em_is_duplicate_frame t cursor anchor em \<longleftrightarrow>
     t = em_prev_text em \<and> cursor = em_prev_cursor em \<and> anchor = em_prev_anchor em"

definition em_clear_prev_surrounding :: "edit_model \<Rightarrow> edit_model" where
  "em_clear_prev_surrounding em =
     em\<lparr>em_prev_text := [], em_prev_cursor := 0, em_prev_anchor := 0\<rparr>"

definition em_apply ::
    "'s output_sink \<Rightarrow> usize \<Rightarrow> ustr \<Rightarrow> u32 \<Rightarrow> u32 \<Rightarrow> delete_unit \<Rightarrow>
      edit_model \<times> 's \<Rightarrow> edit_model \<times> 's" where
  "em_apply snk backspaces commit serial time du = (\<lambda>(em, s).
     let (st, s') = strategy_apply snk backspaces commit serial time du (em_strategy em, s)
     in (em\<lparr>em_strategy := st\<rparr>, s'))"

definition em_apply_forward_key ::
    "'s output_sink \<Rightarrow> usize \<Rightarrow> ustr \<Rightarrow> u32 \<Rightarrow> u32 \<Rightarrow> edit_model \<times> 's \<Rightarrow> edit_model \<times> 's" where
  "em_apply_forward_key snk backspaces commit serial time = (\<lambda>(em, s).
     let (st, s') = strategy_apply_forward_key snk backspaces commit serial time (em_strategy em, s)
     in (em\<lparr>em_strategy := st\<rparr>, s'))"

section \<open>The composer's state\<close>

definition SURROUNDING_DEAD_STRIKE_LIMIT :: u32 where
  "SURROUNDING_DEAD_STRIKE_LIMIT = 2"

record pending_engine_edit =
  pe_backspaces :: usize
  pe_commit :: ustr
  pe_base_word :: ustr

record pending_raw =
  pw_ch :: uchar
  pw_repairable :: bool
  pw_edit :: "pending_engine_edit option"
  pw_from_frame :: bool

datatype confirmation_state =
    Live
  | LiveConfirmed
  | FrameDerived
  | AwaitingFrame
  | PendingRaw (the_pending: pending_raw)

fun pending_raw_of :: "confirmation_state \<Rightarrow> pending_raw option" where
  "pending_raw_of (PendingRaw p) = Some p"
| "pending_raw_of Live = None"
| "pending_raw_of LiveConfirmed = None"
| "pending_raw_of FrameDerived = None"
| "pending_raw_of AwaitingFrame = None"

definition is_pending_raw :: "confirmation_state \<Rightarrow> bool" where
  "is_pending_raw cs \<longleftrightarrow> pending_raw_of cs \<noteq> None"

definition is_uncertain :: "confirmation_state \<Rightarrow> bool" where
  "is_uncertain cs \<longleftrightarrow> \<not> (cs = Live \<or> cs = LiveConfirmed)"

fun is_frame_derived :: "confirmation_state \<Rightarrow> bool" where
  "is_frame_derived FrameDerived = True"
| "is_frame_derived (PendingRaw p) = pw_from_frame p"
| "is_frame_derived Live = False"
| "is_frame_derived LiveConfirmed = False"
| "is_frame_derived AwaitingFrame = False"

record 'e composer =
  cp_engine :: "'e engine_state"
  cp_last_keystroke_at :: time
  cp_last_input_char :: "uchar option"
  cp_commit_string_functional :: bool
  cp_last_action_at :: time
  cp_surrounding_dead_strikes :: u32
  cp_ibus :: ibus_quirk
  cp_retroactive_context :: bool
  cp_firefox :: firefox_quirk
  cp_bracket_shortcuts :: bool
  cp_confirm_retroactive_edits :: bool
  cp_confirmation :: confirmation_state
  cp_edit :: edit_model

record retro_edit =
  re_backspaces :: usize
  re_commit :: ustr

section \<open>Planning a key\<close>

record feed_key_facts =
  fk_ch :: uchar
  fk_method :: backspace_method
  fk_confirmation_enabled :: bool
  fk_confirmation :: confirmation_state
  fk_previous_was_separator :: bool
  fk_engine_at_word_beginning :: bool
  fk_shadow_word :: ustr

definition cp_method :: "'e composer \<Rightarrow> backspace_method" where
  "cp_method c = em_method (cp_edit c)"

definition shadow_text :: "'e composer \<Rightarrow> ustr" where
  "shadow_text c = em_shadow_text (cp_edit c)"

definition current_shadow_word :: "'e composer \<Rightarrow> ustr" where
  "current_shadow_word c =
     current_word_before_cursor (shadow_text c) (of_nat (blen (shadow_text c)))"

definition capture_facts :: "'e vnkey \<Rightarrow> 'e composer \<Rightarrow> uchar \<Rightarrow> feed_key_facts" where
  "capture_facts vk c ch =
     \<lparr>fk_ch = ch, fk_method = cp_method c,
      fk_confirmation_enabled = cp_confirm_retroactive_edits c,
      fk_confirmation = cp_confirmation c,
      fk_previous_was_separator =
        (case cp_last_input_char c of Some previous \<Rightarrow> \<not> is_ascii_alphabetic previous | None \<Rightarrow> False),
      fk_engine_at_word_beginning = at_word_beginning vk (cp_engine c),
      fk_shadow_word = current_shadow_word c\<rparr>"

record key_start_plan =
  ks_context_uncertain :: bool
  ks_reset_speculation :: bool
  ks_clear_non_alpha_context :: bool
  ks_seed_word :: "ustr option"

datatype key_finish_plan =
    FinishApply usize ustr
  | FinishForward "pending_raw option"

definition plan_key_start :: "feed_key_facts \<Rightarrow> key_start_plan" where
  "plan_key_start facts =
     (let prior_pending = is_pending_raw (fk_confirmation facts);
          context_uncertain = (fk_confirmation_enabled facts \<and>
            fk_method facts = SurroundingText \<and> is_uncertain (fk_confirmation facts));
          seed_word = (if \<not> prior_pending \<and> fk_engine_at_word_beginning facts \<and>
              \<not> fk_previous_was_separator facts \<and> fk_shadow_word facts \<noteq> []
            then Some (fk_shadow_word facts) else None)
      in \<lparr>ks_context_uncertain = context_uncertain, ks_reset_speculation = prior_pending,
          ks_clear_non_alpha_context = (\<not> is_ascii_alphabetic (fk_ch facts)),
          ks_seed_word = seed_word\<rparr>)"

definition plan_key_finish ::
    "uchar \<Rightarrow> bool \<Rightarrow> bool \<Rightarrow> bool \<Rightarrow> process_result \<Rightarrow> ustr \<Rightarrow> key_finish_plan" where
  "plan_key_finish ch context_uncertain prior_pending from_frame result base_word =
     (if pr_consumed result \<and> \<not> context_uncertain
      then FinishApply (pr_backspaces result) (pr_commit result)
      else FinishForward
        (if context_uncertain then
           Some \<lparr>pw_ch = ch, pw_repairable = (\<not> prior_pending),
             pw_edit = (if pr_consumed result
               then Some \<lparr>pe_backspaces = pr_backspaces result, pe_commit = pr_commit result,
                          pe_base_word = base_word\<rparr>
               else None),
             pw_from_frame = from_frame\<rparr>
         else None))"

section \<open>Frame trust policy\<close>

record surrounding_decision =
  sd_trust :: bool
  sd_reseed :: bool

definition surrounding_observe :: "bool \<Rightarrow> bool \<Rightarrow> bool \<Rightarrow> bool \<Rightarrow> bool \<Rightarrow> surrounding_decision" where
  "surrounding_observe recent_action one_char_typed deletion force_reseed shadow_confirmed =
     \<lparr>sd_trust = (\<not> (recent_action \<and> \<not> one_char_typed \<and> \<not> shadow_confirmed \<and> \<not> force_reseed)),
      sd_reseed = (force_reseed \<or> (\<not> one_char_typed \<and> \<not> recent_action \<and> \<not> deletion))\<rparr>"

section \<open>Lifecycle\<close>

definition composer_new ::
    "'e vnkey \<Rightarrow> time \<Rightarrow> input_method \<Rightarrow> backspace_method \<Rightarrow> bool \<Rightarrow> 'e composer" where
  "composer_new vk now m bm bracket_shortcuts =
     \<lparr>cp_engine = engine_new_with_options vk m bracket_shortcuts,
      cp_last_keystroke_at = now, cp_last_input_char = None, cp_commit_string_functional = True,
      cp_last_action_at = now - millis 60000, cp_surrounding_dead_strikes = 0,
      cp_ibus = ibus_quirk_new, cp_retroactive_context = False, cp_firefox = firefox_new,
      cp_bracket_shortcuts = bracket_shortcuts, cp_confirm_retroactive_edits = False,
      cp_confirmation = Live, cp_edit = edit_model_new bm\<rparr>"

definition mark_action :: "time \<Rightarrow> 'e composer \<Rightarrow> 'e composer" where
  "mark_action now c = c\<lparr>cp_last_action_at := now\<rparr>"

definition set_surrounding_confirmation :: "bool \<Rightarrow> 'e composer \<Rightarrow> 'e composer" where
  "set_surrounding_confirmation on c = c\<lparr>cp_confirm_retroactive_edits := on\<rparr>"

definition defer_action :: "time \<Rightarrow> 'e composer \<Rightarrow> 'e composer" where
  "defer_action now c = c\<lparr>cp_last_action_at := now - millis 60000\<rparr>"

definition cp_set_method :: "backspace_method \<Rightarrow> 'e composer \<Rightarrow> 'e composer" where
  "cp_set_method m c =
     (let c1 = c\<lparr>cp_edit := em_set_method m (cp_edit c)\<rparr>
      in if m \<noteq> SurroundingText then c1\<lparr>cp_confirmation := Live\<rparr> else c1)"

definition note_surrounding_liveness :: "ustr \<Rightarrow> u32 \<Rightarrow> 'e composer \<Rightarrow> bool \<times> 'e composer" where
  "note_surrounding_liveness t cursor c =
     (let dead = (t = [] \<and> cursor = 0 \<and> shadow_text c \<noteq> []) in
      if dead then
        (let n = cp_surrounding_dead_strikes c + 1
         in (SURROUNDING_DEAD_STRIKE_LIMIT \<le> n, c\<lparr>cp_surrounding_dead_strikes := n\<rparr>))
      else (False, if t \<noteq> [] then c\<lparr>cp_surrounding_dead_strikes := 0\<rparr> else c))"

definition mark_surrounding_frame_seen :: "'e composer \<Rightarrow> 'e composer" where
  "mark_surrounding_frame_seen c = c\<lparr>cp_ibus := ibus_mark_surrounding_frame_seen (cp_ibus c)\<rparr>"

definition note_surrounding_correction :: "'e composer \<Rightarrow> bool \<times> 'e composer" where
  "note_surrounding_correction c =
     (let (b, q) = note_correction_and_should_downgrade (cp_ibus c) in (b, c\<lparr>cp_ibus := q\<rparr>))"

definition cp_set_modifiers :: "modifier_state \<Rightarrow> 'e composer \<Rightarrow> 'e composer" where
  "cp_set_modifiers m c = c\<lparr>cp_edit := em_set_modifiers m (cp_edit c)\<rparr>"

definition reset_composition_preserving_surrounding :: "'e vnkey \<Rightarrow> 'e composer \<Rightarrow> 'e composer" where
  "reset_composition_preserving_surrounding vk c =
     c\<lparr>cp_engine := engine_reset vk (cp_engine c),
       cp_edit := em_reset_composition (cp_edit c),
       cp_last_input_char := None, cp_retroactive_context := False,
       cp_confirmation := AwaitingFrame,
       cp_firefox := reset_forward_sticky (firefox_clear (cp_firefox c))\<rparr>"

definition full_reset :: "'e vnkey \<Rightarrow> 'e composer \<Rightarrow> 'e composer" where
  "full_reset vk c =
     (let c1 = reset_composition_preserving_surrounding vk c
      in c1\<lparr>cp_edit := em_clear_prev_surrounding (cp_edit c1),
            cp_ibus := ibus_quirk_reset (cp_ibus c1)\<rparr>)"

definition cp_set_input_method :: "'e vnkey \<Rightarrow> input_method \<Rightarrow> 'e composer \<Rightarrow> 'e composer" where
  "cp_set_input_method vk m c =
     (let modern_style = en_modern_style (cp_engine c);
          c1 = full_reset vk c
      in c1\<lparr>cp_engine := set_modern_style vk modern_style
             (engine_new_with_options vk m (cp_bracket_shortcuts c1))\<rparr>)"

definition cp_set_modern_style :: "'e vnkey \<Rightarrow> bool \<Rightarrow> 'e composer \<Rightarrow> 'e composer" where
  "cp_set_modern_style vk enabled c = c\<lparr>cp_engine := set_modern_style vk enabled (cp_engine c)\<rparr>"

text \<open>Seeding: \<^verbatim>\<open>!word.is\_empty() \&\& self.engine.feed\_context\_gated(word)\<close>, short circuit included.\<close>

definition seed_if_nonempty :: "'e vnkey \<Rightarrow> ustr \<Rightarrow> 'e composer \<Rightarrow> 'e composer" where
  "seed_if_nonempty vk word c =
     (if word = [] then c\<lparr>cp_retroactive_context := False\<rparr>
      else (let (ok, en) = feed_context_gated vk word (cp_engine c)
            in c\<lparr>cp_engine := en, cp_retroactive_context := ok\<rparr>))"

definition cp_engine_reset :: "'e vnkey \<Rightarrow> 'e composer \<Rightarrow> 'e composer" where
  "cp_engine_reset vk c = c\<lparr>cp_engine := engine_reset vk (cp_engine c)\<rparr>"

definition refresh_retroactive_context_after_apply :: "'e vnkey \<Rightarrow> usize \<Rightarrow> 'e composer \<Rightarrow> 'e composer" where
  "refresh_retroactive_context_after_apply vk backspaces c =
     (if backspaces = 0 \<or> \<not> cp_retroactive_context c then c
      else (let word = current_shadow_word c
            in seed_if_nonempty vk word (cp_engine_reset vk c)))"

definition check_idle_reset :: "'e vnkey \<Rightarrow> time \<Rightarrow> 'e composer \<Rightarrow> bool \<times> 'e composer" where
  "check_idle_reset vk now c =
     (if as_secs (elapsed now (cp_last_keystroke_at c)) < 2 then (False, c)
      else if cp_method c = SurroundingText then
        (True, if cp_confirmation c \<noteq> LiveConfirmed then c\<lparr>cp_confirmation := AwaitingFrame\<rparr> else c)
      else
        (True, (cp_engine_reset vk c)\<lparr>cp_edit := em_reset_composition (cp_edit c),
           cp_last_input_char := None, cp_retroactive_context := False\<rparr>))"

section \<open>Keys\<close>

definition feed_key :: "'e vnkey \<Rightarrow> time \<Rightarrow> uchar \<Rightarrow> 'e composer \<Rightarrow> key_decision \<times> 'e composer" where
  "feed_key vk now ch c =
     (let facts = capture_facts vk c ch;
          start = plan_key_start facts;
          c1 = (if ks_reset_speculation start
                then (cp_engine_reset vk c)\<lparr>cp_retroactive_context := False\<rparr> else c);
          c2 = (if ks_clear_non_alpha_context start
                then c1\<lparr>cp_retroactive_context := False, cp_firefox := firefox_clear (cp_firefox c1)\<rparr>
                else c1);
          c3 = (case ks_seed_word start of
                  Some word \<Rightarrow>
                    (let (ok, en) = feed_context_gated vk word (cp_engine c2)
                     in c2\<lparr>cp_engine := en, cp_retroactive_context := ok\<rparr>)
                | None \<Rightarrow> c2);
          (result, en) = process_key vk ch (cp_engine c3);
          c4 = c3\<lparr>cp_engine := en, cp_last_input_char := Some ch, cp_last_keystroke_at := now\<rparr>;
          base_word = current_shadow_word c4;
          prior_pending = is_pending_raw (fk_confirmation facts)
      in case plan_key_finish ch (ks_context_uncertain start) prior_pending
                (is_frame_derived (fk_confirmation facts)) result base_word of
           FinishApply backspaces commit \<Rightarrow>
             (Apply (cp_method c4) backspaces commit, c4\<lparr>cp_confirmation := Live\<rparr>)
         | FinishForward pending \<Rightarrow>
             (ForwardRaw,
              c4\<lparr>cp_edit := push_forwarded_char ch (cp_edit c4),
                 cp_firefox := firefox_clear (cp_firefox c4),
                 cp_confirmation := (case pending of Some p \<Rightarrow> PendingRaw p | None \<Rightarrow> Live)\<rparr>))"

definition unrecord_forwarded_char :: "'e vnkey \<Rightarrow> 'e composer \<Rightarrow> 'e composer" where
  "unrecord_forwarded_char vk c =
     (let pending = cp_confirmation c;
          c1 = c\<lparr>cp_edit := pop_forwarded_char (cp_edit c), cp_confirmation := Live\<rparr>
      in case pending_raw_of pending of
           Some p \<Rightarrow>
             (if pw_edit p \<noteq> None then (cp_engine_reset vk c1)\<lparr>cp_retroactive_context := False\<rparr> else c1)
         | None \<Rightarrow> c1)"

definition feed_backspace :: "'e vnkey \<Rightarrow> time \<Rightarrow> 'e composer \<Rightarrow> key_decision \<times> 'e composer" where
  "feed_backspace vk now c =
     (let (r, en) = process_backspace vk (cp_engine c);
          c1 = c\<lparr>cp_engine := en\<rparr>
      in if pr_consumed r then
           (Apply (cp_method c1) (pr_backspaces r) (pr_commit r), c1\<lparr>cp_last_keystroke_at := now\<rparr>)
         else
           (let deleted_visible = last_char (shadow_text c1);
                c2 = c1\<lparr>cp_edit := pop_forwarded_char (cp_edit c1)\<rparr>;
                c3 = (if 0 < pr_backspaces r \<and>
                         (case deleted_visible of Some ch \<Rightarrow> \<not> is_ascii ch | None \<Rightarrow> False)
                      then (cp_engine_reset vk c2)\<lparr>cp_retroactive_context := False\<rparr> else c2)
            in (ForwardRaw,
                c3\<lparr>cp_last_keystroke_at := now, cp_firefox := firefox_clear (cp_firefox c3)\<rparr>)))"

section \<open>Applying an edit\<close>

definition composer_apply ::
    "'e vnkey \<Rightarrow> 's output_sink \<Rightarrow> usize \<Rightarrow> ustr \<Rightarrow> u32 \<Rightarrow> 'e composer \<times> 's \<Rightarrow> 'e composer \<times> 's" where
  "composer_apply vk snk backspaces commit time = (\<lambda>(c, s).
     let (em, s') = em_apply snk backspaces commit 0 time Bytes (cp_edit c, s)
     in (refresh_retroactive_context_after_apply vk backspaces (c\<lparr>cp_edit := em\<rparr>), s'))"

definition multibyte_retroactive_revert :: "usize \<Rightarrow> ustr \<Rightarrow> 'e composer \<Rightarrow> bool" where
  "multibyte_retroactive_revert backspaces commit c =
     (let before = shadow_text c in
      cp_retroactive_context c \<and> 0 < backspaces \<and> str_is_ascii commit \<and> backspaces < length before
      \<and> list_ex (\<lambda>x. 1 < len_utf8 x) (take backspaces (rev before)))"

definition apply_to_sink_inner ::
    "'e vnkey \<Rightarrow> 's output_sink \<Rightarrow> usize \<Rightarrow> ustr \<Rightarrow> u32 \<Rightarrow> u32 \<Rightarrow> bool \<Rightarrow>
      'e composer \<times> 's \<Rightarrow> 'e composer \<times> 's" where
  "apply_to_sink_inner vk snk backspaces commit serial time preserve_engine = (\<lambda>(c, s).
     let before = shadow_text c;
         delete_echo = prefix_after_char_delete before backspaces;
         du = fx_delete_unit (cp_firefox c);
         quirk_requests_forward = fx_use_forward_delete (cp_firefox c);
         c1 = (if quirk_requests_forward
               then c\<lparr>cp_firefox := arm_forward_sticky (cp_firefox c)\<rparr> else c);
         used_forward_key = (quirk_requests_forward \<or> fx_forward_sticky (cp_firefox c1)
           \<or> multibyte_retroactive_revert backspaces commit c1);
         (c2, s2) =
           (if used_forward_key then
              (let (em, s') = em_apply_forward_key snk backspaces commit serial time (cp_edit c1, s)
               in (c1\<lparr>cp_edit := em\<rparr>, s'))
            else
              (let (em, s') = em_apply snk backspaces commit serial time du (cp_edit c1, s)
               in (c1\<lparr>cp_edit := em,
                      cp_firefox := reset_delete_unit_after_use (cp_firefox c1)\<rparr>, s')));
         c3 = (if \<not> preserve_engine then refresh_retroactive_context_after_apply vk backspaces c2
               else c2);
         c4 = (if 0 < backspaces \<and> cp_method c3 = SurroundingText
               then c3\<lparr>cp_firefox :=
                 record_expected_echo (shadow_text c3) delete_echo (cp_firefox c3)\<rparr>
               else c3)
     in (c4, s2))"

definition apply_to_sink ::
    "'e vnkey \<Rightarrow> 's output_sink \<Rightarrow> usize \<Rightarrow> ustr \<Rightarrow> u32 \<Rightarrow> u32 \<Rightarrow>
      'e composer \<times> 's \<Rightarrow> 'e composer \<times> 's" where
  "apply_to_sink vk snk backspaces commit serial time =
     apply_to_sink_inner vk snk backspaces commit serial time False"

definition apply_confirmed_repair_to_sink ::
    "'e vnkey \<Rightarrow> 's output_sink \<Rightarrow> usize \<Rightarrow> ustr \<Rightarrow> u32 \<Rightarrow> u32 \<Rightarrow>
      'e composer \<times> 's \<Rightarrow> 'e composer \<times> 's" where
  "apply_confirmed_repair_to_sink vk snk backspaces commit serial time cs =
     (let (c1, s1) = apply_to_sink_inner vk snk backspaces commit serial time True cs
      in (c1\<lparr>cp_firefox := forget_expected_echo (cp_firefox c1)\<rparr>, s1))"

section \<open>Surrounding frames\<close>

definition revalidate_live_confirmation :: "ustr \<Rightarrow> 'e composer \<Rightarrow> 'e composer" where
  "revalidate_live_confirmation before_cursor c =
     (if cp_confirmation c = LiveConfirmed \<and> before_cursor \<noteq> shadow_text c
      then c\<lparr>cp_confirmation := AwaitingFrame\<rparr> else c)"

text \<open>The frame becomes the shadow and the last frame; the key is the last input.\<close>

definition sync_frame :: "ustr \<Rightarrow> u32 \<Rightarrow> u32 \<Rightarrow> uchar \<Rightarrow> 'e composer \<Rightarrow> 'e composer" where
  "sync_frame t cursor anchor ch c =
     c\<lparr>cp_edit := record_surrounding t cursor anchor (em_on_surrounding_text t cursor anchor (cp_edit c)),
       cp_last_input_char := Some ch\<rparr>"

definition frame_derived_or_live :: "'e composer \<Rightarrow> 'e composer" where
  "frame_derived_or_live c =
     c\<lparr>cp_confirmation := (if cp_retroactive_context c then FrameDerived else Live)\<rparr>"

fun common_prefix_chars :: "ustr \<Rightarrow> ustr \<Rightarrow> nat" where
  "common_prefix_chars (a # as) (b # bs) = (if a = b then Suc (common_prefix_chars as bs) else 0)"
| "common_prefix_chars as bs = 0"

definition repair_between :: "ustr \<Rightarrow> ustr \<Rightarrow> retro_edit option" where
  "repair_between screen_word desired =
     (let prefix_chars = common_prefix_chars screen_word desired;
          backspaces = length screen_word - prefix_chars;
          commit = drop prefix_chars desired
      in if backspaces = 0 \<and> commit = [] then None
         else Some \<lparr>re_backspaces = backspaces, re_commit = commit\<rparr>)"

text \<open>The part of \<open>confirm_pending_raw_key\<close> that re-derives the edit by replaying the key.\<close>

definition replay_raw_key ::
    "'e vnkey \<Rightarrow> ustr \<Rightarrow> u32 \<Rightarrow> u32 \<Rightarrow> uchar \<Rightarrow> ustr \<Rightarrow> 'e composer \<Rightarrow> retro_edit option \<times> 'e composer" where
  "replay_raw_key vk t cursor anchor ch base_word c =
     (let c1 = cp_engine_reset vk c;
          (seeded, en1) = (if base_word = [] then (False, cp_engine c1)
                           else feed_context_gated vk base_word (cp_engine c1));
          (replay, en2) = (if seeded then apfst Some (process_key vk ch en1) else (None, en1));
          c2 = sync_frame t cursor anchor ch (c1\<lparr>cp_engine := en2\<rparr>);
          screen_word = base_word @ [ch]
      in case replay of
           None \<Rightarrow>
             (None, frame_derived_or_live (seed_if_nonempty vk screen_word (cp_engine_reset vk c2)))
         | Some r \<Rightarrow>
             (let c3 = c2\<lparr>cp_retroactive_context := True, cp_confirmation := FrameDerived\<rparr>
              in if \<not> pr_consumed r then (None, c3)
                 else (repair_between screen_word
                         (pop_n (pr_backspaces r) base_word @ pr_commit r), c3)))"

definition confirm_pending_raw_key ::
    "'e vnkey \<Rightarrow> ustr \<Rightarrow> u32 \<Rightarrow> u32 \<Rightarrow> ustr \<Rightarrow> 'e composer \<Rightarrow> retro_edit option \<times> 'e composer" where
  "confirm_pending_raw_key vk t cursor anchor before_cursor c =
     (case pending_raw_of (cp_confirmation c) of
        None \<Rightarrow> (None, c)
      | Some pending \<Rightarrow>
         (if before_cursor = [] then (None, c)
          else (let (raw_index, actual_ch) = last (char_indices before_cursor); ch = pw_ch pending in
           if actual_ch \<noteq> ch then (None, c)
           else
            (let document_changed = (t \<noteq> em_prev_text (cp_edit c));
                 insertion_proven =
                   (confirms_inserted_char (em_prev_text (cp_edit c)) t cursor ch
                    \<or> (before_cursor = shadow_text c \<and> document_changed));
                 stripped = slice_to before_cursor raw_index;
                 base_word = current_word_before_cursor stripped (of_nat (blen stripped));
                 actual_word = current_word_before_cursor before_cursor (of_nat (blen before_cursor))
             in if \<not> insertion_proven \<or> \<not> pw_repairable pending then
                  (None, frame_derived_or_live (seed_if_nonempty vk actual_word
                     (cp_engine_reset vk (sync_frame t cursor anchor ch c))))
                else
                  (case pw_edit pending of
                     Some stash \<Rightarrow>
                       (if pe_base_word stash = base_word then
                          (Some \<lparr>re_backspaces = pe_backspaces stash + 1, re_commit = pe_commit stash\<rparr>,
                           (sync_frame t cursor anchor ch c)
                             \<lparr>cp_retroactive_context := True, cp_confirmation := FrameDerived\<rparr>)
                        else replay_raw_key vk t cursor anchor ch base_word c)
                   | None \<Rightarrow> replay_raw_key vk t cursor anchor ch base_word c)))))"

text \<open>The tail of \<open>apply_surrounding\<close> once the frame is trusted.\<close>

definition apply_trusted_frame ::
    "'e vnkey \<Rightarrow> ustr \<Rightarrow> u32 \<Rightarrow> u32 \<Rightarrow> bool \<Rightarrow> bool \<Rightarrow> bool \<Rightarrow> 'e composer \<Rightarrow> 'e composer" where
  "apply_trusted_frame vk t cursor anchor shadow_confirmed deletion reseed c =
     (let c1 = c\<lparr>cp_edit := em_on_surrounding_text t cursor anchor (cp_edit c)\<rparr>;
          preserve_frame_derived = is_frame_derived (cp_confirmation c1);
          confirm_live = (shadow_confirmed \<and> \<not> is_pending_raw (cp_confirmation c1));
          had_pending_edit =
            (case pending_raw_of (cp_confirmation c1) of
               Some p \<Rightarrow> pw_edit p \<noteq> None | None \<Rightarrow> False);
          c2 = c1\<lparr>cp_confirmation :=
                 (if preserve_frame_derived then FrameDerived
                  else if confirm_live then LiveConfirmed else Live)\<rparr>;
          c3 = (if had_pending_edit
                then (cp_engine_reset vk c2)\<lparr>cp_retroactive_context := False\<rparr> else c2);
          c4 = (if deletion then
                  (if \<not> shadow_confirmed
                   then (cp_engine_reset vk c3)\<lparr>cp_retroactive_context := False,
                          cp_confirmation := Live, cp_last_input_char := None\<rparr>
                   else c3)
                else if reseed then
                  (frame_derived_or_live
                     (seed_if_nonempty vk (current_word_before_insertion_point t cursor anchor)
                       (cp_engine_reset vk c3)))\<lparr>cp_last_input_char := None\<rparr>
                else c3)
      in c4\<lparr>cp_edit := record_surrounding t cursor anchor (cp_edit c4)\<rparr>)"

text \<open>The part of \<open>apply_surrounding\<close> after the confirmation of a raw key.\<close>

definition classify_frame ::
    "'e vnkey \<Rightarrow> ustr \<Rightarrow> u32 \<Rightarrow> u32 \<Rightarrow> bool \<Rightarrow> bool \<Rightarrow> bool \<Rightarrow> ustr \<Rightarrow> 'e composer \<Rightarrow> 'e composer" where
  "classify_frame vk t cursor anchor force_reseed recent_action one_char_typed before_cursor c =
     (let shadow_confirmed = (before_cursor = shadow_text c);
          deletion = (deletion_since_prev t cursor (cp_edit c) \<or> shadow_confirmed);
          decision = surrounding_observe recent_action one_char_typed deletion force_reseed shadow_confirmed;
          c1 = c\<lparr>cp_firefox := firefox_observe_surrounding before_cursor recent_action
                 (cp_retroactive_context c) (cp_firefox c)\<rparr>;
          c2 = (if fx_use_forward_delete (cp_firefox c1) \<or> fx_forward_sticky (cp_firefox c1)
                then c1\<lparr>cp_commit_string_functional := False\<rparr> else c1)
      in if \<not> sd_trust decision then c2
         else apply_trusted_frame vk t cursor anchor shadow_confirmed deletion (sd_reseed decision) c2)"

definition apply_surrounding ::
    "'e vnkey \<Rightarrow> time \<Rightarrow> ustr \<Rightarrow> u32 \<Rightarrow> u32 \<Rightarrow> bool \<Rightarrow> 'e composer \<Rightarrow> retro_edit option \<times> 'e composer" where
  "apply_surrounding vk now t cursor anchor force_reseed c =
     (let recent_action = (elapsed now (cp_last_action_at c) < millis 150);
          one_char_typed = one_char_insertion_since_prev t cursor (cp_edit c);
          before_cursor = text_before_cursor t cursor;
          c1 = revalidate_live_confirmation before_cursor c
      in if is_pending_raw (cp_confirmation c1) \<and> cursor = anchor then
           (case confirm_pending_raw_key vk t cursor anchor before_cursor c1 of
              (Some repair, c2) \<Rightarrow> (Some repair, c2)
            | (None, c2) \<Rightarrow>
                (if \<not> is_pending_raw (cp_confirmation c2) then (None, c2)
                 else (None, classify_frame vk t cursor anchor force_reseed recent_action
                         one_char_typed before_cursor c2)))
         else (None, classify_frame vk t cursor anchor force_reseed recent_action
                 one_char_typed before_cursor c1))"

definition observe_surrounding_bytes ::
    "'e vnkey \<Rightarrow> time \<Rightarrow> ustr \<Rightarrow> u32 \<Rightarrow> u32 \<Rightarrow> bool \<Rightarrow> 'e composer \<Rightarrow> retro_edit option \<times> 'e composer" where
  "observe_surrounding_bytes vk now t cursor anchor force_reseed c =
     apply_surrounding vk now t cursor anchor force_reseed c"

definition observe_surrounding_chars ::
    "'e vnkey \<Rightarrow> time \<Rightarrow> ustr \<Rightarrow> u32 \<Rightarrow> u32 \<Rightarrow> 'e composer \<Rightarrow> 'e composer" where
  "observe_surrounding_chars vk now t cursor anchor c =
     snd (apply_surrounding vk now t (char_to_byte_offset t cursor) (char_to_byte_offset t anchor)
            False c)"

definition is_duplicate_frame :: "ustr \<Rightarrow> u32 \<Rightarrow> u32 \<Rightarrow> 'e composer \<Rightarrow> bool" where
  "is_duplicate_frame t cursor anchor c = em_is_duplicate_frame t cursor anchor (cp_edit c)"

definition should_skip_surrounding_frame ::
    "ustr \<Rightarrow> u32 \<Rightarrow> u32 \<Rightarrow> bool \<Rightarrow> bool \<Rightarrow> 'e composer \<Rightarrow> bool \<times> 'e composer" where
  "should_skip_surrounding_frame t cursor anchor activate deactivate c =
     (let c1 = revalidate_live_confirmation (text_before_cursor t cursor) c
      in (\<not> activate \<and> \<not> deactivate \<and> \<not> has_pending_echo (cp_firefox c1)
            \<and> is_duplicate_frame t cursor anchor c1, c1))"

definition clear_prev_surrounding :: "'e composer \<Rightarrow> 'e composer" where
  "clear_prev_surrounding c = c\<lparr>cp_edit := em_clear_prev_surrounding (cp_edit c)\<rparr>"

end
