(* ===== verification/ComposerLemmas.thy ===== *)
theory ComposerLemmas
  imports Composer
begin

text \<open>
  The lemmas of the composer: what each operation leaves alone (\<open>composer_simps\<close>), the
  invariant \<open>composer_inv\<close> and the step relation \<open>composer_step\<close> it is inductive for, the
  meaning of a key, of an edit and of a frame.
\<close>

named_theorems composer_simps \<open>frame and effect rules of the composer's operations\<close>

section \<open>The edit model\<close>

lemma edit_model_frame [simp, composer_simps]:
  "em_method (em_set_method m em) = m"
  "em_method (em_set_modifiers k em) = em_method em"
  "em_method (em_reset_composition em) = em_method em"
  "em_method (push_forwarded_char ch em) = em_method em"
  "em_method (pop_forwarded_char em) = em_method em"
  "em_method (em_on_surrounding_text t cu an em) = em_method em"
  "em_method (record_surrounding t cu an em) = em_method em"
  "em_method (em_clear_prev_surrounding em) = em_method em"
  "em_method (edit_model_new m) = m"
  by (simp_all add: em_method_def em_set_method_def strategy_set_method_def em_set_modifiers_def
      set_modifiers_def em_reset_composition_def push_forwarded_char_def pop_forwarded_char_def
      em_update_shadow_def em_on_surrounding_text_def record_surrounding_def
      em_clear_prev_surrounding_def edit_model_new_def strategy_new_def)

lemma edit_model_shadow [simp, composer_simps]:
  "em_shadow_text (em_set_method m em) = em_shadow_text em"
  "em_shadow_text (em_set_modifiers k em) = em_shadow_text em"
  "em_shadow_text (em_reset_composition em) = []"
  "em_shadow_text (push_forwarded_char ch em) = em_shadow_text em @ [ch]"
  "em_shadow_text (pop_forwarded_char em) = butlast (em_shadow_text em)"
  "em_shadow_text (em_on_surrounding_text t cu an em) = floor_prefix t (min (unat cu) (unat an))"
  "em_shadow_text (record_surrounding t cu an em) = em_shadow_text em"
  "em_shadow_text (em_clear_prev_surrounding em) = em_shadow_text em"
  by (simp_all add: em_shadow_text_def em_set_method_def strategy_set_method_def
      em_set_modifiers_def set_modifiers_def em_reset_composition_def push_forwarded_char_def
      pop_forwarded_char_def em_update_shadow_def em_on_surrounding_text_def
      record_surrounding_def em_clear_prev_surrounding_def)

lemma em_apply_frame [simp, composer_simps]:
  "em_method (fst (em_apply snk bs commit serial time du (em, s))) = em_method em"
  "em_method (fst (em_apply_forward_key snk bs commit serial time (em, s))) = em_method em"
  "em_prev_text (fst (em_apply snk bs commit serial time du (em, s))) = em_prev_text em"
  "em_prev_text (fst (em_apply_forward_key snk bs commit serial time (em, s))) = em_prev_text em"
  using strategy_apply_frame(1) [of snk bs commit serial time du "em_strategy em" s]
    strategy_apply_forward_key_frame(1) [of snk bs commit serial time "em_strategy em" s]
  by (auto simp: em_apply_def em_apply_forward_key_def em_method_def
      simp del: strategy_apply_frame strategy_apply_forward_key_frame split: prod.splits)

lemma em_apply_shadow:
  "em_shadow_text (fst (em_apply snk bs commit serial time du (em, s))) =
     (case em_method em of
        SurroundingText \<Rightarrow>
          pop_n (saturating_add bs (sb_selected_before_chars (st_shadow (em_strategy em))))
            (em_shadow_text em) @ commit
      | ForwardKey \<Rightarrow> pop_n bs (em_shadow_text em) @ commit)"
  using strategy_apply_shadow [of snk bs commit serial time du "em_strategy em" s]
  by (auto simp: em_apply_def em_method_def em_shadow_text_def pop_delete_span_eq Let_def
      split: prod.splits backspace_method.splits)

lemma em_apply_forward_key_shadow [simp]:
  "em_shadow_text (fst (em_apply_forward_key snk bs commit serial time (em, s))) =
     pop_n bs (em_shadow_text em) @ commit"
  using strategy_apply_forward_key_frame(3) [of snk bs commit serial time "em_strategy em" s]
  by (auto simp: em_apply_forward_key_def em_shadow_text_def
      simp del: strategy_apply_forward_key_frame split: prod.splits)

section \<open>Seeding and resetting\<close>

lemma seed_if_nonempty_frame [simp, composer_simps]:
  "cp_edit (seed_if_nonempty vk w c) = cp_edit c"
  "cp_confirmation (seed_if_nonempty vk w c) = cp_confirmation c"
  "cp_firefox (seed_if_nonempty vk w c) = cp_firefox c"
  "cp_last_input_char (seed_if_nonempty vk w c) = cp_last_input_char c"
  "cp_bracket_shortcuts (seed_if_nonempty vk w c) = cp_bracket_shortcuts c"
  "cp_confirm_retroactive_edits (seed_if_nonempty vk w c) = cp_confirm_retroactive_edits c"
  "cp_commit_string_functional (seed_if_nonempty vk w c) = cp_commit_string_functional c"
  "cp_surrounding_dead_strikes (seed_if_nonempty vk w c) = cp_surrounding_dead_strikes c"
  "cp_last_action_at (seed_if_nonempty vk w c) = cp_last_action_at c"
  "cp_last_keystroke_at (seed_if_nonempty vk w c) = cp_last_keystroke_at c"
  "cp_ibus (seed_if_nonempty vk w c) = cp_ibus c"
  "en_bracket_shortcuts (cp_engine (seed_if_nonempty vk w c)) = en_bracket_shortcuts (cp_engine c)"
  using feed_context_gated_frame(2) [of vk w "cp_engine c"]
  by (auto simp: seed_if_nonempty_def simp del: feed_context_gated_frame split: prod.splits)

lemma cp_engine_reset_frame [simp, composer_simps]:
  "cp_edit (cp_engine_reset vk c) = cp_edit c"
  "cp_confirmation (cp_engine_reset vk c) = cp_confirmation c"
  "cp_firefox (cp_engine_reset vk c) = cp_firefox c"
  "cp_last_input_char (cp_engine_reset vk c) = cp_last_input_char c"
  "cp_bracket_shortcuts (cp_engine_reset vk c) = cp_bracket_shortcuts c"
  "cp_confirm_retroactive_edits (cp_engine_reset vk c) = cp_confirm_retroactive_edits c"
  "cp_commit_string_functional (cp_engine_reset vk c) = cp_commit_string_functional c"
  "cp_surrounding_dead_strikes (cp_engine_reset vk c) = cp_surrounding_dead_strikes c"
  "cp_last_action_at (cp_engine_reset vk c) = cp_last_action_at c"
  "cp_last_keystroke_at (cp_engine_reset vk c) = cp_last_keystroke_at c"
  "cp_ibus (cp_engine_reset vk c) = cp_ibus c"
  "cp_retroactive_context (cp_engine_reset vk c) = cp_retroactive_context c"
  "cp_engine (cp_engine_reset vk c) = engine_reset vk (cp_engine c)"
  by (simp_all add: cp_engine_reset_def)

lemma refresh_frame [simp, composer_simps]:
  "cp_edit (refresh_retroactive_context_after_apply vk bs c) = cp_edit c"
  "cp_confirmation (refresh_retroactive_context_after_apply vk bs c) = cp_confirmation c"
  "cp_firefox (refresh_retroactive_context_after_apply vk bs c) = cp_firefox c"
  "cp_last_input_char (refresh_retroactive_context_after_apply vk bs c) = cp_last_input_char c"
  "cp_bracket_shortcuts (refresh_retroactive_context_after_apply vk bs c) = cp_bracket_shortcuts c"
  "cp_confirm_retroactive_edits (refresh_retroactive_context_after_apply vk bs c) =
     cp_confirm_retroactive_edits c"
  "cp_commit_string_functional (refresh_retroactive_context_after_apply vk bs c) =
     cp_commit_string_functional c"
  "en_bracket_shortcuts (cp_engine (refresh_retroactive_context_after_apply vk bs c)) =
     en_bracket_shortcuts (cp_engine c)"
  by (simp_all add: refresh_retroactive_context_after_apply_def Let_def)

section \<open>The invariant\<close>

text \<open>
  A raw key awaits its frame only on the surrounding-text tier with confirmation on, and it is
  the last character typed; the engine has the composer's bracket setting; the Firefox quirk is
  consistent.
\<close>

definition composer_inv :: "'e composer \<Rightarrow> bool" where
  "composer_inv c \<longleftrightarrow>
     firefox_inv (cp_firefox c) \<and>
     en_bracket_shortcuts (cp_engine c) = cp_bracket_shortcuts c \<and>
     (\<forall>p. cp_confirmation c = PendingRaw p \<longrightarrow>
        cp_method c = SurroundingText \<and> cp_confirm_retroactive_edits c \<and>
        cp_last_input_char c = Some (pw_ch p))"

lemma composer_invI:
  "firefox_inv (cp_firefox c) \<Longrightarrow> en_bracket_shortcuts (cp_engine c) = cp_bracket_shortcuts c \<Longrightarrow>
   (\<And>p. cp_confirmation c = PendingRaw p \<Longrightarrow>
      cp_method c = SurroundingText \<and> cp_confirm_retroactive_edits c \<and>
      cp_last_input_char c = Some (pw_ch p)) \<Longrightarrow> composer_inv c"
  by (simp add: composer_inv_def)

lemma composer_invD:
  "composer_inv c \<Longrightarrow> firefox_inv (cp_firefox c)"
  "composer_inv c \<Longrightarrow> en_bracket_shortcuts (cp_engine c) = cp_bracket_shortcuts c"
  "composer_inv c \<Longrightarrow> cp_confirmation c = PendingRaw p \<Longrightarrow> cp_method c = SurroundingText"
  "composer_inv c \<Longrightarrow> cp_confirmation c = PendingRaw p \<Longrightarrow> cp_confirm_retroactive_edits c"
  "composer_inv c \<Longrightarrow> cp_confirmation c = PendingRaw p \<Longrightarrow> cp_last_input_char c = Some (pw_ch p)"
  by (simp_all add: composer_inv_def)

text \<open>Operations that touch neither the confirmation nor what it depends on.\<close>

definition same_confirmation :: "'e composer \<Rightarrow> 'e composer \<Rightarrow> bool" where
  "same_confirmation c c' \<longleftrightarrow>
     cp_confirmation c' = cp_confirmation c \<and> cp_method c' = cp_method c \<and>
     cp_confirm_retroactive_edits c' = cp_confirm_retroactive_edits c \<and>
     cp_last_input_char c' = cp_last_input_char c \<and>
     cp_bracket_shortcuts c' = cp_bracket_shortcuts c \<and>
     en_bracket_shortcuts (cp_engine c') = en_bracket_shortcuts (cp_engine c) \<and>
     (firefox_inv (cp_firefox c) \<longrightarrow> firefox_inv (cp_firefox c'))"

lemma same_confirmation_inv: "composer_inv c \<Longrightarrow> same_confirmation c c' \<Longrightarrow> composer_inv c'"
  by (auto simp: composer_inv_def same_confirmation_def)

lemma engine_new_bracket [simp]:
  "en_bracket_shortcuts (engine_new_with_options vk m b) = b"
  "en_method (engine_new_with_options vk m b) = m"
  by (simp_all add: engine_new_with_options_def Let_def)

lemma set_modern_style_frame [simp]:
  "en_bracket_shortcuts (set_modern_style vk e en) = en_bracket_shortcuts en"
  "en_method (set_modern_style vk e en) = en_method en"
  "en_modern_style (set_modern_style vk e en) = e"
  by (simp_all add: set_modern_style_def)

lemma composer_inv_new: "composer_inv (composer_new vk now m bm br)"
  by (simp add: composer_inv_def composer_new_def)

lemma composer_inv_simple [intro]:
  assumes "composer_inv c"
  shows "composer_inv (mark_action now c)"
    and "composer_inv (set_surrounding_confirmation True c)"
    and "composer_inv (defer_action now c)"
    and "composer_inv (cp_set_method m c)"
    and "composer_inv (snd (note_surrounding_liveness t cu c))"
    and "composer_inv (mark_surrounding_frame_seen c)"
    and "composer_inv (snd (note_surrounding_correction c))"
    and "composer_inv (cp_set_modifiers k c)"
    and "composer_inv (full_reset vk c)"
    and "composer_inv (reset_composition_preserving_surrounding vk c)"
    and "composer_inv (cp_set_input_method vk im c)"
    and "composer_inv (cp_set_modern_style vk e c)"
    and "composer_inv (snd (check_idle_reset vk now c))"
    and "composer_inv (clear_prev_surrounding c)"
  using assms
  by (auto simp: composer_inv_def mark_action_def set_surrounding_confirmation_def defer_action_def
      cp_set_method_def Let_def note_surrounding_liveness_def mark_surrounding_frame_seen_def
      note_surrounding_correction_def cp_set_modifiers_def full_reset_def cp_method_def
      reset_composition_preserving_surrounding_def cp_set_input_method_def
      cp_set_modern_style_def check_idle_reset_def clear_prev_surrounding_def
      split: prod.splits)

section \<open>Keys\<close>

text \<open>The engine's answer to a key, after the seeding \<open>feed_key\<close> does first.\<close>

definition key_context :: "'e vnkey \<Rightarrow> uchar \<Rightarrow> 'e composer \<Rightarrow> 'e composer" where
  "key_context vk ch c =
     (let start = plan_key_start (capture_facts vk c ch);
          c1 = (if ks_reset_speculation start
                then (cp_engine_reset vk c)\<lparr>cp_retroactive_context := False\<rparr> else c);
          c2 = (if ks_clear_non_alpha_context start
                then c1\<lparr>cp_retroactive_context := False, cp_firefox := firefox_clear (cp_firefox c1)\<rparr>
                else c1)
      in (case ks_seed_word start of
            Some word \<Rightarrow>
              (let (ok, en) = feed_context_gated vk word (cp_engine c2)
               in c2\<lparr>cp_engine := en, cp_retroactive_context := ok\<rparr>)
          | None \<Rightarrow> c2))"

definition key_result :: "'e vnkey \<Rightarrow> uchar \<Rightarrow> 'e composer \<Rightarrow> process_result" where
  "key_result vk ch c = fst (process_key vk ch (cp_engine (key_context vk ch c)))"

definition context_uncertain :: "'e composer \<Rightarrow> bool" where
  "context_uncertain c \<longleftrightarrow> cp_confirm_retroactive_edits c \<and> cp_method c = SurroundingText \<and>
     is_uncertain (cp_confirmation c)"

lemma ks_context_uncertain_eq [simp]:
  "ks_context_uncertain (plan_key_start (capture_facts vk c ch)) = context_uncertain c"
  by (simp add: plan_key_start_def capture_facts_def Let_def context_uncertain_def)

lemma feed_context_gated_bracket:
  "feed_context_gated vk t en = (ok, en') \<Longrightarrow> en_bracket_shortcuts en' = en_bracket_shortcuts en"
  using feed_context_gated_frame(2) [of vk t en] by simp

lemma key_context_frame [simp, composer_simps]:
  "cp_edit (key_context vk ch c) = cp_edit c"
  "cp_confirm_retroactive_edits (key_context vk ch c) = cp_confirm_retroactive_edits c"
  "cp_bracket_shortcuts (key_context vk ch c) = cp_bracket_shortcuts c"
  "cp_commit_string_functional (key_context vk ch c) = cp_commit_string_functional c"
  "cp_ibus (key_context vk ch c) = cp_ibus c"
  "en_bracket_shortcuts (cp_engine (key_context vk ch c)) = en_bracket_shortcuts (cp_engine c)"
  "firefox_inv (cp_firefox c) \<Longrightarrow> firefox_inv (cp_firefox (key_context vk ch c))"
  by (auto simp: key_context_def Let_def dest!: feed_context_gated_bracket
      split: option.split prod.split)

lemma current_shadow_word_cong [simp]:
  "current_shadow_word (c\<lparr>cp_engine := en\<rparr>) = current_shadow_word c"
  "current_shadow_word (c\<lparr>cp_last_input_char := l\<rparr>) = current_shadow_word c"
  "current_shadow_word (c\<lparr>cp_last_keystroke_at := k\<rparr>) = current_shadow_word c"
  "current_shadow_word (key_context vk ch c) = current_shadow_word c"
  by (simp_all add: current_shadow_word_def shadow_text_def)

text \<open>\<open>feed_key\<close> in one equation.\<close>

lemma feed_key_eq:
  "feed_key vk now ch c =
     (let c4 = (key_context vk ch c)
            \<lparr>cp_engine := snd (process_key vk ch (cp_engine (key_context vk ch c))),
             cp_last_input_char := Some ch, cp_last_keystroke_at := now\<rparr>
      in case plan_key_finish ch (context_uncertain c) (is_pending_raw (cp_confirmation c))
                (is_frame_derived (cp_confirmation c)) (key_result vk ch c) (current_shadow_word c) of
           FinishApply backspaces commit \<Rightarrow>
             (Apply (cp_method c) backspaces commit, c4\<lparr>cp_confirmation := Live\<rparr>)
         | FinishForward pending \<Rightarrow>
             (ForwardRaw,
              c4\<lparr>cp_edit := push_forwarded_char ch (cp_edit c),
                 cp_firefox := firefox_clear (cp_firefox (key_context vk ch c)),
                 cp_confirmation := (case pending of Some p \<Rightarrow> PendingRaw p | None \<Rightarrow> Live)\<rparr>))"
proof -
  have 1: "fk_confirmation (capture_facts vk c ch) = cp_confirmation c"
    by (simp add: capture_facts_def)
  show ?thesis
    unfolding feed_key_def Let_def 1 key_context_def [unfolded Let_def, symmetric]
      ks_context_uncertain_eq
    by (simp add: key_result_def cp_method_def split: prod.split key_finish_plan.split)
qed

lemma feed_key_apply:
  assumes "pr_consumed (key_result vk ch c)" "\<not> context_uncertain c"
  shows "feed_key vk now ch c =
    (Apply (cp_method c) (pr_backspaces (key_result vk ch c)) (pr_commit (key_result vk ch c)),
     (key_context vk ch c)
       \<lparr>cp_engine := snd (process_key vk ch (cp_engine (key_context vk ch c))),
        cp_last_input_char := Some ch, cp_last_keystroke_at := now, cp_confirmation := Live\<rparr>)"
  using assms by (simp add: feed_key_eq Let_def plan_key_finish_def)

lemma feed_key_forward:
  assumes "\<not> pr_consumed (key_result vk ch c) \<or> context_uncertain c"
  shows "fst (feed_key vk now ch c) = ForwardRaw"
    and "cp_edit (snd (feed_key vk now ch c)) = push_forwarded_char ch (cp_edit c)"
    and "cp_last_input_char (snd (feed_key vk now ch c)) = Some ch"
    and "cp_confirmation (snd (feed_key vk now ch c)) =
      (if context_uncertain c then
         PendingRaw \<lparr>pw_ch = ch, pw_repairable = (\<not> is_pending_raw (cp_confirmation c)),
           pw_edit = (if pr_consumed (key_result vk ch c)
             then Some \<lparr>pe_backspaces = pr_backspaces (key_result vk ch c),
                        pe_commit = pr_commit (key_result vk ch c),
                        pe_base_word = current_shadow_word c\<rparr>
             else None),
           pw_from_frame = is_frame_derived (cp_confirmation c)\<rparr>
       else Live)"
  using assms by (auto simp: feed_key_eq Let_def plan_key_finish_def)

lemma feed_key_frame [simp, composer_simps]:
  "cp_method (snd (feed_key vk now ch c)) = cp_method c"
  "cp_confirm_retroactive_edits (snd (feed_key vk now ch c)) = cp_confirm_retroactive_edits c"
  "cp_bracket_shortcuts (snd (feed_key vk now ch c)) = cp_bracket_shortcuts c"
  "cp_commit_string_functional (snd (feed_key vk now ch c)) = cp_commit_string_functional c"
  "en_bracket_shortcuts (cp_engine (snd (feed_key vk now ch c))) = en_bracket_shortcuts (cp_engine c)"
  "cp_last_input_char (snd (feed_key vk now ch c)) = Some ch"
  "cp_last_keystroke_at (snd (feed_key vk now ch c)) = now"
  "firefox_inv (cp_firefox c) \<Longrightarrow> firefox_inv (cp_firefox (snd (feed_key vk now ch c)))"
  by (simp_all add: feed_key_eq Let_def cp_method_def split: key_finish_plan.split)

lemma composer_inv_feed_key [intro]:
  assumes "composer_inv c"
  shows "composer_inv (snd (feed_key vk now ch c))"
proof (cases "pr_consumed (key_result vk ch c) \<and> \<not> context_uncertain c")
  case True
  with assms show ?thesis
    by (intro composer_invI) (auto simp: composer_invD feed_key_apply)
next
  case False
  then have f: "\<not> pr_consumed (key_result vk ch c) \<or> context_uncertain c" by simp
  from assms show ?thesis
    by (intro composer_invI)
      (auto simp: composer_invD feed_key_forward(4) [OF f] context_uncertain_def split: if_splits)
qed

lemma process_backspace_bracket:
  "process_backspace vk en = (r, en') \<Longrightarrow> en_bracket_shortcuts en' = en_bracket_shortcuts en"
  using process_backspace_frame(2) [of vk en] by simp

lemma feed_backspace_frame [simp, composer_simps]:
  "cp_method (snd (feed_backspace vk now c)) = cp_method c"
  "cp_confirmation (snd (feed_backspace vk now c)) = cp_confirmation c"
  "cp_confirm_retroactive_edits (snd (feed_backspace vk now c)) = cp_confirm_retroactive_edits c"
  "cp_bracket_shortcuts (snd (feed_backspace vk now c)) = cp_bracket_shortcuts c"
  "cp_commit_string_functional (snd (feed_backspace vk now c)) = cp_commit_string_functional c"
  "cp_last_input_char (snd (feed_backspace vk now c)) = cp_last_input_char c"
  "en_bracket_shortcuts (cp_engine (snd (feed_backspace vk now c))) = en_bracket_shortcuts (cp_engine c)"
  "firefox_inv (cp_firefox c) \<Longrightarrow> firefox_inv (cp_firefox (snd (feed_backspace vk now c)))"
  by (auto simp: feed_backspace_def Let_def cp_method_def dest!: process_backspace_bracket
      split: prod.split)

lemma unrecord_frame [simp, composer_simps]:
  "cp_method (unrecord_forwarded_char vk c) = cp_method c"
  "cp_confirmation (unrecord_forwarded_char vk c) = Live"
  "cp_bracket_shortcuts (unrecord_forwarded_char vk c) = cp_bracket_shortcuts c"
  "cp_commit_string_functional (unrecord_forwarded_char vk c) = cp_commit_string_functional c"
  "en_bracket_shortcuts (cp_engine (unrecord_forwarded_char vk c)) = en_bracket_shortcuts (cp_engine c)"
  "cp_firefox (unrecord_forwarded_char vk c) = cp_firefox c"
  "shadow_text (unrecord_forwarded_char vk c) = butlast (shadow_text c)"
  by (simp_all add: unrecord_forwarded_char_def Let_def cp_method_def shadow_text_def split: option.split)

section \<open>Edits\<close>

lemma composer_apply_frame [simp, composer_simps]:
  "same_confirmation c (fst (composer_apply vk snk bs commit time (c, s)))"
  "cp_commit_string_functional (fst (composer_apply vk snk bs commit time (c, s))) =
     cp_commit_string_functional c"
  "shadow_text (fst (composer_apply vk snk bs commit time (c, s))) =
     em_shadow_text (fst (em_apply snk bs commit 0 time Bytes (cp_edit c, s)))"
  "snd (composer_apply vk snk bs commit time (c, s)) =
     snd (em_apply snk bs commit 0 time Bytes (cp_edit c, s))"
  using em_apply_frame(1) [where snk = snk and bs = bs and commit = commit and serial = 0
      and time = time and du = Bytes and em = "cp_edit c" and s = s]
  by (cases "em_apply snk bs commit 0 time Bytes (cp_edit c, s)";
      simp add: composer_apply_def same_confirmation_def cp_method_def shadow_text_def
      del: em_apply_frame)+

text \<open>The channel an edit takes, decided before anything is sent.\<close>

definition uses_forward_key :: "usize \<Rightarrow> ustr \<Rightarrow> 'e composer \<Rightarrow> bool" where
  "uses_forward_key bs commit c \<longleftrightarrow> fx_use_forward_delete (cp_firefox c) \<or>
     fx_forward_sticky (cp_firefox c) \<or> multibyte_retroactive_revert bs commit c"

definition channel_apply ::
    "'s output_sink \<Rightarrow> usize \<Rightarrow> ustr \<Rightarrow> u32 \<Rightarrow> u32 \<Rightarrow> 'e composer \<Rightarrow> 's \<Rightarrow> edit_model \<times> 's" where
  "channel_apply snk bs commit serial time c s =
     (if uses_forward_key bs commit c then em_apply_forward_key snk bs commit serial time (cp_edit c, s)
      else em_apply snk bs commit serial time (fx_delete_unit (cp_firefox c)) (cp_edit c, s))"

lemma channel_apply_method [simp]:
  "em_method (fst (channel_apply snk bs commit serial time c s)) = em_method (cp_edit c)"
  by (simp add: channel_apply_def)

lemma multibyte_sticky [simp]:
  "multibyte_retroactive_revert bs commit (c\<lparr>cp_firefox := f\<rparr>) = multibyte_retroactive_revert bs commit c"
  by (simp add: multibyte_retroactive_revert_def shadow_text_def Let_def)

text \<open>The composer right after the edit is sent, and what \<open>apply_to_sink_inner\<close> makes of it.\<close>

definition edited :: "'s output_sink \<Rightarrow> usize \<Rightarrow> ustr \<Rightarrow> u32 \<Rightarrow> u32 \<Rightarrow> 's \<Rightarrow> 'e composer \<Rightarrow> 'e composer" where
  "edited snk bs commit serial time s c =
     (let fx = (if fx_use_forward_delete (cp_firefox c) then arm_forward_sticky (cp_firefox c)
                else cp_firefox c)
      in c\<lparr>cp_edit := fst (channel_apply snk bs commit serial time c s),
           cp_firefox := (if uses_forward_key bs commit c then fx else reset_delete_unit_after_use fx)\<rparr>)"

lemma apply_to_sink_inner_eq:
  "apply_to_sink_inner vk snk bs commit serial time pe (c, s) =
     (let c3 = (if pe then edited snk bs commit serial time s c
                else refresh_retroactive_context_after_apply vk bs (edited snk bs commit serial time s c))
      in (if 0 < bs \<and> cp_method c = SurroundingText
          then c3\<lparr>cp_firefox := record_expected_echo (shadow_text c3)
                 (pop_n bs (shadow_text c)) (cp_firefox c3)\<rparr>
          else c3,
          snd (channel_apply snk bs commit serial time c s)))"
proof -
  obtain em s' where ch: "channel_apply snk bs commit serial time c s = (em, s')" by force
  have m': "cp_method (refresh_retroactive_context_after_apply vk bs x) = cp_method x" for x
    by (simp add: cp_method_def)
  let ?c1 = "if fx_use_forward_delete (cp_firefox c)
    then c\<lparr>cp_firefox := arm_forward_sticky (cp_firefox c)\<rparr> else c"
  have u: "(fx_use_forward_delete (cp_firefox c) \<or> fx_forward_sticky (cp_firefox ?c1)
      \<or> multibyte_retroactive_revert bs commit ?c1) = uses_forward_key bs commit c"
    by (auto simp: uses_forward_key_def)
  have e: "cp_edit ?c1 = cp_edit c" by simp
  have c2: "(if uses_forward_key bs commit c then
       (let (em, s') = em_apply_forward_key snk bs commit serial time (cp_edit c, s)
        in (?c1\<lparr>cp_edit := em\<rparr>, s'))
     else
       (let (em, s') = em_apply snk bs commit serial time (fx_delete_unit (cp_firefox c)) (cp_edit c, s)
        in (?c1\<lparr>cp_edit := em, cp_firefox := reset_delete_unit_after_use (cp_firefox ?c1)\<rparr>, s')))
     = (edited snk bs commit serial time s c, s')"
  proof (cases "uses_forward_key bs commit c")
    case True
    with ch have "em_apply_forward_key snk bs commit serial time (cp_edit c, s) = (em, s')"
      by (simp add: channel_apply_def)
    moreover have "?c1\<lparr>cp_edit := em\<rparr> = edited snk bs commit serial time s c"
      by (rule composer.equality) (simp_all add: edited_def ch Let_def True)
    ultimately show ?thesis using True by simp
  next
    case False
    with ch have "em_apply snk bs commit serial time (fx_delete_unit (cp_firefox c)) (cp_edit c, s) = (em, s')"
      by (simp add: channel_apply_def)
    moreover have "?c1\<lparr>cp_edit := em, cp_firefox := reset_delete_unit_after_use (cp_firefox ?c1)\<rparr>
        = edited snk bs commit serial time s c"
      by (rule composer.equality) (simp_all add: edited_def ch Let_def False)
    ultimately show ?thesis using False by simp
  qed
  have m2: "cp_method (edited snk bs commit serial time s c) = cp_method c"
    by (simp add: cp_method_def edited_def Let_def)
  show ?thesis
    unfolding apply_to_sink_inner_def prod.case Let_def u e c2 [unfolded Let_def]
    by (simp add: ch m' m2 prefix_after_char_delete_eq)
qed

lemma edited_frame [simp, composer_simps]:
  "cp_edit (edited snk bs commit serial time s c) = fst (channel_apply snk bs commit serial time c s)"
  "cp_confirmation (edited snk bs commit serial time s c) = cp_confirmation c"
  "cp_confirm_retroactive_edits (edited snk bs commit serial time s c) = cp_confirm_retroactive_edits c"
  "cp_last_input_char (edited snk bs commit serial time s c) = cp_last_input_char c"
  "cp_bracket_shortcuts (edited snk bs commit serial time s c) = cp_bracket_shortcuts c"
  "cp_commit_string_functional (edited snk bs commit serial time s c) = cp_commit_string_functional c"
  "cp_engine (edited snk bs commit serial time s c) = cp_engine c"
  "firefox_inv (cp_firefox c) \<Longrightarrow> firefox_inv (cp_firefox (edited snk bs commit serial time s c))"
  by (simp_all add: edited_def Let_def)

lemma apply_to_sink_inner_edit:
  "cp_edit (fst (apply_to_sink_inner vk snk bs commit serial time pe (c, s))) =
     fst (channel_apply snk bs commit serial time c s)"
  "snd (apply_to_sink_inner vk snk bs commit serial time pe (c, s)) =
     snd (channel_apply snk bs commit serial time c s)"
  by (simp_all add: apply_to_sink_inner_eq Let_def)

lemma apply_to_sink_inner_same:
  "same_confirmation c (fst (apply_to_sink_inner vk snk bs commit serial time pe (c, s)))"
  "cp_commit_string_functional (fst (apply_to_sink_inner vk snk bs commit serial time pe (c, s))) =
     cp_commit_string_functional c"
  by (simp_all add: apply_to_sink_inner_eq Let_def same_confirmation_def cp_method_def)

context sink_invariant
begin

lemma apply_to_sink_inner_holds:
  assumes "holds s"
  shows "holds (snd (apply_to_sink_inner vk snk bs commit serial time pe (c, s)))"
  unfolding apply_to_sink_inner_edit
  using strategy_apply_holds [OF assms]
  by (simp add: channel_apply_def em_apply_def em_apply_forward_key_def case_prod_beta)

lemma apply_to_sink_holds:
  "holds s \<Longrightarrow> holds (snd (apply_to_sink vk snk bs commit serial time (c, s)))"
  "holds s \<Longrightarrow> holds (snd (apply_confirmed_repair_to_sink vk snk bs commit serial time (c, s)))"
  by (simp_all add: apply_to_sink_def apply_confirmed_repair_to_sink_def case_prod_beta
      apply_to_sink_inner_holds)

end

lemma apply_to_sink_same:
  "same_confirmation c (fst (apply_to_sink vk snk bs commit serial time (c, s)))"
  "cp_commit_string_functional (fst (apply_to_sink vk snk bs commit serial time (c, s))) =
     cp_commit_string_functional c"
  by (simp_all add: apply_to_sink_def apply_to_sink_inner_same)

lemma apply_confirmed_repair_same:
  "same_confirmation c (fst (apply_confirmed_repair_to_sink vk snk bs commit serial time (c, s)))"
  "cp_commit_string_functional (fst (apply_confirmed_repair_to_sink vk snk bs commit serial time (c, s)))
     = cp_commit_string_functional c"
  using apply_to_sink_inner_same [where vk = vk and snk = snk and bs = bs and commit = commit
      and serial = serial and time = time and pe = True and c = c and s = s]
  by (auto simp: apply_confirmed_repair_to_sink_def same_confirmation_def cp_method_def split: prod.splits)

section \<open>Frames\<close>

lemma sync_frame_frame [simp, composer_simps]:
  "cp_method (sync_frame t cu an ch c) = cp_method c"
  "shadow_text (sync_frame t cu an ch c) = floor_prefix t (min (unat cu) (unat an))"
  "em_prev_text (cp_edit (sync_frame t cu an ch c)) = t"
  "cp_engine (sync_frame t cu an ch c) = cp_engine c"
  "cp_firefox (sync_frame t cu an ch c) = cp_firefox c"
  "cp_bracket_shortcuts (sync_frame t cu an ch c) = cp_bracket_shortcuts c"
  "cp_confirm_retroactive_edits (sync_frame t cu an ch c) = cp_confirm_retroactive_edits c"
  "cp_confirmation (sync_frame t cu an ch c) = cp_confirmation c"
  "cp_last_input_char (sync_frame t cu an ch c) = Some ch"
  "cp_commit_string_functional (sync_frame t cu an ch c) = cp_commit_string_functional c"
  by (simp_all add: sync_frame_def cp_method_def shadow_text_def record_surrounding_def
      em_method_def em_on_surrounding_text_def em_shadow_text_def)

lemma frame_derived_or_live_frame [simp, composer_simps]:
  "cp_edit (frame_derived_or_live c) = cp_edit c"
  "cp_engine (frame_derived_or_live c) = cp_engine c"
  "cp_firefox (frame_derived_or_live c) = cp_firefox c"
  "cp_bracket_shortcuts (frame_derived_or_live c) = cp_bracket_shortcuts c"
  "cp_confirm_retroactive_edits (frame_derived_or_live c) = cp_confirm_retroactive_edits c"
  "cp_last_input_char (frame_derived_or_live c) = cp_last_input_char c"
  "cp_commit_string_functional (frame_derived_or_live c) = cp_commit_string_functional c"
  "is_pending_raw (cp_confirmation (frame_derived_or_live c)) = False"
  "cp_retroactive_context (frame_derived_or_live c) = cp_retroactive_context c"
  by (simp_all add: frame_derived_or_live_def is_pending_raw_def)

text \<open>
  Operations that keep the tier and end a confirmation instead of starting one: the pending
  key, if there still is one, is the same.
\<close>

definition settles :: "'e composer \<Rightarrow> 'e composer \<Rightarrow> bool" where
  "settles c c' \<longleftrightarrow>
     cp_method c' = cp_method c \<and>
     cp_confirm_retroactive_edits c' = cp_confirm_retroactive_edits c \<and>
     cp_bracket_shortcuts c' = cp_bracket_shortcuts c \<and>
     en_bracket_shortcuts (cp_engine c') = en_bracket_shortcuts (cp_engine c) \<and>
     (firefox_inv (cp_firefox c) \<longrightarrow> firefox_inv (cp_firefox c')) \<and>
     (is_pending_raw (cp_confirmation c') \<longrightarrow>
        cp_confirmation c' = cp_confirmation c \<and> cp_last_input_char c' = cp_last_input_char c) \<and>
     (\<not> cp_commit_string_functional c \<longrightarrow> \<not> cp_commit_string_functional c')"

lemma is_pending_raw_iff: "is_pending_raw cs \<longleftrightarrow> (\<exists>p. cs = PendingRaw p)"
  by (cases cs) (auto simp: is_pending_raw_def)

lemma pending_raw_of_Some: "pending_raw_of cs = Some p \<longleftrightarrow> cs = PendingRaw p"
  by (cases cs) auto

lemma settles_refl [simp, intro]: "settles c c"
  by (simp add: settles_def)

lemma settles_trans: "settles c c' \<Longrightarrow> settles c' c'' \<Longrightarrow> settles c c''"
  by (auto simp: settles_def)

lemma settles_inv: "composer_inv c \<Longrightarrow> settles c c' \<Longrightarrow> composer_inv c'"
  by (auto simp: composer_inv_def settles_def is_pending_raw_iff)

lemma settles_revalidate: "settles c (revalidate_live_confirmation b c)"
  by (auto simp: revalidate_live_confirmation_def settles_def is_pending_raw_def cp_method_def)

lemma process_key_bracket:
  "process_key vk ch en = (r, en') \<Longrightarrow> en_bracket_shortcuts en' = en_bracket_shortcuts en"
  using process_key_frame(2) [of vk ch en] by simp

lemma cp_method_cong [simp]:
  "cp_method (seed_if_nonempty vk w c) = cp_method c"
  "cp_method (cp_engine_reset vk c) = cp_method c"
  "cp_method (frame_derived_or_live c) = cp_method c"
  "cp_method (c\<lparr>cp_engine := en\<rparr>) = cp_method c"
  "cp_method (c\<lparr>cp_retroactive_context := b\<rparr>) = cp_method c"
  "cp_method (c\<lparr>cp_confirmation := cs\<rparr>) = cp_method c"
  "cp_method (c\<lparr>cp_last_input_char := l\<rparr>) = cp_method c"
  "cp_method (c\<lparr>cp_firefox := fx\<rparr>) = cp_method c"
  "cp_method (c\<lparr>cp_commit_string_functional := b\<rparr>) = cp_method c"
  by (simp_all add: cp_method_def)

lemma replay_raw_key_unseeded:
  assumes "w = [] \<or> feed_context_gated vk w (engine_reset vk (cp_engine c)) = (False, en1)"
  shows "replay_raw_key vk t cu an ch w c =
    (None, frame_derived_or_live (seed_if_nonempty vk (w @ [ch]) (cp_engine_reset vk
      (sync_frame t cu an ch ((cp_engine_reset vk c)
        \<lparr>cp_engine := (if w = [] then engine_reset vk (cp_engine c) else en1)\<rparr>)))))"
  using assms by (auto simp: replay_raw_key_def Let_def)

lemma replay_raw_key_seeded:
  assumes "w \<noteq> []" "feed_context_gated vk w (engine_reset vk (cp_engine c)) = (True, en1)"
    "process_key vk ch en1 = (r, en2)"
  shows "replay_raw_key vk t cu an ch w c =
    (if pr_consumed r then repair_between (w @ [ch]) (pop_n (pr_backspaces r) w @ pr_commit r) else None,
     (sync_frame t cu an ch ((cp_engine_reset vk c)\<lparr>cp_engine := en2\<rparr>))
       \<lparr>cp_retroactive_context := True, cp_confirmation := FrameDerived\<rparr>)"
  using assms by (simp add: replay_raw_key_def Let_def)

lemma replay_raw_key_cases:
  obtains (unseeded) en1 where
      "w = [] \<or> feed_context_gated vk w (engine_reset vk (cp_engine c)) = (False, en1)"
    | (seeded) en1 r en2 where "w \<noteq> []"
      "feed_context_gated vk w (engine_reset vk (cp_engine c)) = (True, en1)"
      "process_key vk ch en1 = (r, en2)"
proof (cases "w = [] \<or> \<not> fst (feed_context_gated vk w (engine_reset vk (cp_engine c)))")
  case True
  then show ?thesis by (metis prod.collapse unseeded)
next
  case False
  then show ?thesis by (metis prod.collapse seeded)
qed

lemma settles_replay: "settles c (snd (replay_raw_key vk t cu an ch w c))"
proof (cases rule: replay_raw_key_cases [where w = w and vk = vk and c = c and ch = ch])
  case (unseeded en1)
  then have "en_bracket_shortcuts (if w = [] then engine_reset vk (cp_engine c) else en1)
      = en_bracket_shortcuts (cp_engine c)"
    by (auto dest: feed_context_gated_bracket)
  then show ?thesis
    unfolding replay_raw_key_unseeded [OF unseeded] by (simp add: settles_def)
next
  case (seeded en1 r en2)
  then have "en_bracket_shortcuts en2 = en_bracket_shortcuts (cp_engine c)"
    by (auto dest!: feed_context_gated_bracket process_key_bracket)
  then show ?thesis
    unfolding replay_raw_key_seeded [OF seeded] by (simp add: settles_def is_pending_raw_def)
qed

lemma settles_confirm: "settles c (snd (confirm_pending_raw_key vk t cu an b c))"
proof -
  have 1: "settles c (frame_derived_or_live (seed_if_nonempty vk w (cp_engine_reset vk (sync_frame t cu an ch c))))"
    for w ch by (simp add: settles_def)
  have 2: "settles c ((sync_frame t cu an ch c)\<lparr>cp_retroactive_context := True, cp_confirmation := FrameDerived\<rparr>)"
    for ch by (simp add: settles_def is_pending_raw_def)
  show ?thesis
    by (auto simp: confirm_pending_raw_key_def Let_def 1 2 settles_replay split: option.split prod.split)
qed

lemma settles_trusted: "settles c (apply_trusted_frame vk t cu an sc d r c)"
  by (simp add: apply_trusted_frame_def Let_def settles_def is_pending_raw_def cp_method_def
      frame_derived_or_live_def split: option.split)

lemma settles_classify: "settles c (classify_frame vk t cu an fr ra oc b c)"
proof -
  let ?c1 = "c\<lparr>cp_firefox := firefox_observe_surrounding b ra (cp_retroactive_context c) (cp_firefox c)\<rparr>"
  have 1: "settles c ?c1" "settles c (?c1\<lparr>cp_commit_string_functional := False\<rparr>)"
    by (simp_all add: settles_def)
  show ?thesis
    by (auto simp: classify_frame_def Let_def intro: 1 settles_trans [OF _ settles_trusted] simp del: fun_upd_apply)
qed

lemma settles_apply_surrounding: "settles c (snd (apply_surrounding vk now t cu an fr c))"
proof -
  note r = settles_revalidate [of c "text_before_cursor t cu"]
  have "settles c c2" if "confirm_pending_raw_key vk t cu an b
      (revalidate_live_confirmation (text_before_cursor t cu) c) = (x, c2)" for b x c2
    using settles_trans [OF r settles_confirm [of _ vk t cu an b]] that by (metis snd_conv)
  then show ?thesis
    by (auto simp: apply_surrounding_def Let_def intro: settles_trans [OF r settles_classify]
        settles_trans [OF _ settles_classify] split: prod.split option.split)
qed

section \<open>Steps and reachable states\<close>

text \<open>
  One step is one call of a public method with any arguments. A caller switches confirmation
  on, never off (\<^verbatim>\<open>transport/wayland.rs\<close> is the only one).
\<close>

inductive composer_step :: "'e vnkey \<Rightarrow> 's output_sink \<Rightarrow> 'e composer \<Rightarrow> 'e composer \<Rightarrow> bool"
  for vk :: "'e vnkey" and snk :: "'s output_sink" where
  step_key: "composer_step vk snk c (snd (feed_key vk now ch c))"
| step_backspace: "composer_step vk snk c (snd (feed_backspace vk now c))"
| step_unrecord: "composer_step vk snk c (unrecord_forwarded_char vk c)"
| step_apply: "composer_step vk snk c (fst (composer_apply vk snk bs commit time (c, s)))"
| step_apply_to_sink: "composer_step vk snk c (fst (apply_to_sink vk snk bs commit serial time (c, s)))"
| step_repair: "composer_step vk snk c
    (fst (apply_confirmed_repair_to_sink vk snk bs commit serial time (c, s)))"
| step_frame_bytes: "composer_step vk snk c (snd (observe_surrounding_bytes vk now t cu an fr c))"
| step_frame_chars: "composer_step vk snk c (observe_surrounding_chars vk now t cu an c)"
| step_skip: "composer_step vk snk c (snd (should_skip_surrounding_frame t cu an ac de c))"
| step_idle: "composer_step vk snk c (snd (check_idle_reset vk now c))"
| step_liveness: "composer_step vk snk c (snd (note_surrounding_liveness t cu c))"
| step_frame_seen: "composer_step vk snk c (mark_surrounding_frame_seen c)"
| step_correction: "composer_step vk snk c (snd (note_surrounding_correction c))"
| step_mark: "composer_step vk snk c (mark_action now c)"
| step_defer: "composer_step vk snk c (defer_action now c)"
| step_confirmation: "composer_step vk snk c (set_surrounding_confirmation True c)"
| step_method: "composer_step vk snk c (cp_set_method m c)"
| step_modifiers: "composer_step vk snk c (cp_set_modifiers k c)"
| step_input_method: "composer_step vk snk c (cp_set_input_method vk im c)"
| step_modern_style: "composer_step vk snk c (cp_set_modern_style vk e c)"
| step_full_reset: "composer_step vk snk c (full_reset vk c)"
| step_reset: "composer_step vk snk c (reset_composition_preserving_surrounding vk c)"
| step_clear_prev: "composer_step vk snk c (clear_prev_surrounding c)"

inductive_simps composer_step_iff: "composer_step vk snk c c'"
inductive_cases composer_stepE [elim]: "composer_step vk snk c c'"

inductive composer_reachable :: "'e vnkey \<Rightarrow> 's output_sink \<Rightarrow> 'e composer \<Rightarrow> bool"
  for vk :: "'e vnkey" and snk :: "'s output_sink" where
  reach_new: "composer_reachable vk snk (composer_new vk now m bm br)"
| reach_step: "composer_reachable vk snk c \<Longrightarrow> composer_step vk snk c c' \<Longrightarrow>
    composer_reachable vk snk c'"

lemma composer_inv_step:
  assumes "composer_inv c" "composer_step vk snk c c'"
  shows "composer_inv c'"
  using assms(2)
proof cases
  case step_backspace
  with assms(1) show ?thesis by (simp add: composer_inv_def)
next
  case step_unrecord
  with assms(1) show ?thesis
    by (simp add: composer_inv_def)
next
  case step_apply
  with assms(1) show ?thesis by (metis same_confirmation_inv composer_apply_frame(1))
next
  case step_apply_to_sink
  with assms(1) show ?thesis by (metis same_confirmation_inv apply_to_sink_same(1))
next
  case step_repair
  with assms(1) show ?thesis by (metis same_confirmation_inv apply_confirmed_repair_same(1))
next
  case step_frame_bytes
  with assms(1) show ?thesis
    unfolding observe_surrounding_bytes_def by (metis settles_inv settles_apply_surrounding)
next
  case step_frame_chars
  with assms(1) show ?thesis
    unfolding observe_surrounding_chars_def by (metis settles_inv settles_apply_surrounding)
next
  case step_skip
  with assms(1) settles_revalidate show ?thesis
    by (auto simp: should_skip_surrounding_frame_def Let_def intro: settles_inv)
qed (use assms(1) in auto)

lemma commit_string_step:
  assumes "composer_step vk snk c c'" "\<not> cp_commit_string_functional c"
  shows "\<not> cp_commit_string_functional c'"
  using assms(1)
proof cases
  case step_frame_bytes
  with assms(2) settles_apply_surrounding show ?thesis
    unfolding observe_surrounding_bytes_def settles_def by metis
next
  case step_frame_chars
  with assms(2) settles_apply_surrounding show ?thesis
    unfolding observe_surrounding_chars_def settles_def by metis
next
  case step_skip
  with assms(2) settles_revalidate show ?thesis
    unfolding should_skip_surrounding_frame_def settles_def by (metis snd_conv)
qed (use assms(2) in \<open>auto simp: apply_to_sink_same apply_confirmed_repair_same mark_action_def
    set_surrounding_confirmation_def defer_action_def cp_set_method_def Let_def
    note_surrounding_liveness_def mark_surrounding_frame_seen_def note_surrounding_correction_def
    cp_set_modifiers_def full_reset_def reset_composition_preserving_surrounding_def
    cp_set_input_method_def cp_set_modern_style_def check_idle_reset_def clear_prev_surrounding_def
    split: prod.splits\<close>)

end
