(* ===== verification/ComposerFrames.thy ===== *)
theory ComposerFrames
  imports ComposerLemmas
begin

text \<open>
  What a surrounding-text frame does to the composer (dropped whole, or taken over whole), what
  a repair derived from a frame does to the word on screen, and the composer's side of the sink
  contract: an applied edit keeps the shadow equal to the document.
\<close>

section \<open>Repairs\<close>

lemma common_prefix_take:
  "take (common_prefix_chars s d) s = take (common_prefix_chars s d) d"
  by (induction s d rule: common_prefix_chars.induct) auto

lemma common_prefix_le:
  "common_prefix_chars s d \<le> length s" "common_prefix_chars s d \<le> length d"
  by (induction s d rule: common_prefix_chars.induct) auto

text \<open>The repair turns the screen word into the desired one; there is none when they agree.\<close>

lemma repair_between_Some:
  assumes "repair_between s d = Some re"
  shows "pop_n (re_backspaces re) s @ re_commit re = d" and "re_backspaces re \<le> length s"
proof -
  from assms have re: "re_backspaces re = length s - common_prefix_chars s d"
    "re_commit re = drop (common_prefix_chars s d) d"
    by (auto simp: repair_between_def Let_def split: if_splits)
  have "length s - (length s - common_prefix_chars s d) = common_prefix_chars s d"
    using common_prefix_le(1) [of s d] by simp
  then show "pop_n (re_backspaces re) s @ re_commit re = d"
    by (simp add: re pop_n_def common_prefix_take)
  show "re_backspaces re \<le> length s" by (simp add: re)
qed

lemma repair_between_None: "repair_between s d = None \<longleftrightarrow> s = d"
proof
  assume n: "repair_between s d = None"
  then have "length s \<le> common_prefix_chars s d" "drop (common_prefix_chars s d) d = []"
    by (auto simp: repair_between_def Let_def split: if_splits)
  then have "take (common_prefix_chars s d) s = s" "take (common_prefix_chars s d) d = d" by auto
  with common_prefix_take [of s d] show "s = d" by simp
next
  have "common_prefix_chars s s = length s" by (induction s) auto
  then show "s = d \<Longrightarrow> repair_between s d = None" by (auto simp: repair_between_def Let_def)
qed

text \<open>
  The engine edit a repair realises: the one stashed with the key, or the one replaying the key
  on the word the frame shows.
\<close>

definition engine_edit :: "'e vnkey \<Rightarrow> 'e composer \<Rightarrow> pending_raw \<Rightarrow> ustr \<Rightarrow> usize \<Rightarrow> ustr \<Rightarrow> bool" where
  "engine_edit vk c p w n commit \<longleftrightarrow>
     pw_edit p = Some \<lparr>pe_backspaces = n, pe_commit = commit, pe_base_word = w\<rparr> \<or>
     (\<exists>en1. w \<noteq> [] \<and> feed_context_gated vk w (engine_reset vk (cp_engine c)) = (True, en1) \<and>
        fst (process_key vk (pw_ch p) en1) = \<lparr>pr_backspaces = n, pr_commit = commit, pr_consumed = True\<rparr>)"

lemma confirm_no_pending:
  "\<not> is_pending_raw (cp_confirmation c) \<Longrightarrow> confirm_pending_raw_key vk t cu an b c = (None, c)"
  by (simp add: confirm_pending_raw_key_def is_pending_raw_def)

lemma confirm_other_char:
  "cp_confirmation c = PendingRaw p \<Longrightarrow> b = [] \<or> last b \<noteq> pw_ch p \<Longrightarrow>
     confirm_pending_raw_key vk t cu an b c = (None, c)"
  by (cases b rule: rev_cases) (auto simp: confirm_pending_raw_key_def text_simps)

definition insertion_proven :: "ustr \<Rightarrow> u32 \<Rightarrow> ustr \<Rightarrow> uchar \<Rightarrow> 'e composer \<Rightarrow> bool" where
  "insertion_proven t cu b ch c \<longleftrightarrow>
     confirms_inserted_char (em_prev_text (cp_edit c)) t cu ch
     \<or> (b = shadow_text c \<and> t \<noteq> em_prev_text (cp_edit c))"

lemma confirm_matching_char:
  assumes "cp_confirmation c = PendingRaw p" "b = x @ [pw_ch p]" "blen b < 2 ^ 32"
  shows "confirm_pending_raw_key vk t cu an b c =
    (if \<not> insertion_proven t cu b (pw_ch p) c \<or> \<not> pw_repairable p then
       (None, frame_derived_or_live (seed_if_nonempty vk (last_word b)
          (cp_engine_reset vk (sync_frame t cu an (pw_ch p) c))))
     else (case pw_edit p of
         Some stash \<Rightarrow>
           (if pe_base_word stash = last_word x then
              (Some \<lparr>re_backspaces = pe_backspaces stash + 1, re_commit = pe_commit stash\<rparr>,
               (sync_frame t cu an (pw_ch p) c)
                 \<lparr>cp_retroactive_context := True, cp_confirmation := FrameDerived\<rparr>)
            else replay_raw_key vk t cu an (pw_ch p) (last_word x) c)
       | None \<Rightarrow> replay_raw_key vk t cu an (pw_ch p) (last_word x) c))"
proof -
  have s: "slice_to b (blen x) = x" using assms(2) by (simp add: ustr_simps)
  have w: "current_word_before_cursor b (of_nat (blen b)) = last_word b"
    "current_word_before_cursor x (of_nat (blen x)) = last_word x"
    using assms(2,3) by (simp_all only: current_word_whole) (rule current_word_whole, simp)
  have li: "last (char_indices b) = (blen x, pw_ch p)" using assms(2) by (simp add: text_simps)
  have "b \<noteq> []" using assms(2) by simp
  with assms(1) show ?thesis
    by (auto simp: confirm_pending_raw_key_def li s w insertion_proven_def Let_def split: option.split)
qed

lemma replay_raw_key_repair:
  assumes "replay_raw_key vk t cu an ch w c = (Some re, c')"
  obtains en1 n commit where "w \<noteq> []"
    "feed_context_gated vk w (engine_reset vk (cp_engine c)) = (True, en1)"
    "fst (process_key vk ch en1) = \<lparr>pr_backspaces = n, pr_commit = commit, pr_consumed = True\<rparr>"
    "pop_n (re_backspaces re) (w @ [ch]) @ re_commit re = pop_n n w @ commit"
    "re_backspaces re \<le> length w + 1"
proof (cases rule: replay_raw_key_cases [where w = w and vk = vk and c = c and ch = ch])
  case (unseeded en1)
  with assms show ?thesis by (simp add: replay_raw_key_unseeded [OF unseeded])
next
  case (seeded en1 r en2)
  with assms have "pr_consumed r"
    and rb: "repair_between (w @ [ch]) (pop_n (pr_backspaces r) w @ pr_commit r) = Some re"
    by (auto simp: replay_raw_key_seeded [OF seeded] split: if_splits)
  moreover have "r = \<lparr>pr_backspaces = pr_backspaces r, pr_commit = pr_commit r, pr_consumed = True\<rparr>"
    using \<open>pr_consumed r\<close> by simp
  ultimately show ?thesis
    using that [of en1 "pr_backspaces r" "pr_commit r"] repair_between_Some [OF rb] seeded
    by simp
qed

text \<open>
  A frame yields a repair only for a pending key it shows in front of the cursor, and the
  repair makes of the word on screen what the engine makes of the word without the key.
\<close>

lemma confirm_repair:
  assumes "confirm_pending_raw_key vk t cu an b c = (Some re, c')" "blen b < 2 ^ 32"
  obtains p x n commit where "cp_confirmation c = PendingRaw p" "pw_repairable p"
    "b = x @ [pw_ch p]" "insertion_proven t cu b (pw_ch p) c"
    "engine_edit vk c p (last_word x) n commit"
    "pop_n (re_backspaces re) (last_word x @ [pw_ch p]) @ re_commit re = pop_n n (last_word x) @ commit"
proof -
  from assms(1) have "is_pending_raw (cp_confirmation c)"
    by (metis confirm_no_pending option.distinct(1) prod.inject)
  then obtain p where p: "cp_confirmation c = PendingRaw p" by (auto simp: is_pending_raw_iff)
  with assms(1) have "\<not> (b = [] \<or> last b \<noteq> pw_ch p)"
    by (metis confirm_other_char option.distinct(1) prod.inject)
  then obtain x where b: "b = x @ [pw_ch p]" by (cases b rule: rev_cases) auto
  note m = confirm_matching_char [OF p b assms(2), of vk t cu an]
  from assms(1) have pr: "insertion_proven t cu b (pw_ch p) c" "pw_repairable p"
    unfolding m by (auto split: if_splits)
  show ?thesis
  proof (cases "\<exists>stash. pw_edit p = Some stash \<and> pe_base_word stash = last_word x")
    case True
    then obtain stash where st: "pw_edit p = Some stash" "pe_base_word stash = last_word x" by blast
    with assms(1) pr have "re = \<lparr>re_backspaces = pe_backspaces stash + 1, re_commit = pe_commit stash\<rparr>"
      unfolding m by simp
    moreover have "engine_edit vk c p (last_word x) (pe_backspaces stash) (pe_commit stash)"
      using st by (simp add: engine_edit_def)
    ultimately show ?thesis using that [OF p pr(2) b pr(1)] by (simp add: pop_n_Suc)
  next
    case False
    with assms(1) pr have "replay_raw_key vk t cu an (pw_ch p) (last_word x) c = (Some re, c')"
      unfolding m by (auto split: option.splits)
    then obtain en1 n commit where "last_word x \<noteq> []"
      "feed_context_gated vk (last_word x) (engine_reset vk (cp_engine c)) = (True, en1)"
      "fst (process_key vk (pw_ch p) en1) = \<lparr>pr_backspaces = n, pr_commit = commit, pr_consumed = True\<rparr>"
      "pop_n (re_backspaces re) (last_word x @ [pw_ch p]) @ re_commit re = pop_n n (last_word x) @ commit"
      by (rule replay_raw_key_repair)
    moreover from this have "engine_edit vk c p (last_word x) n commit"
      by (auto simp: engine_edit_def)
    ultimately show ?thesis using that [OF p pr(2) b pr(1)] by blast
  qed
qed

section \<open>Frames: dropped whole or taken over whole\<close>

text \<open>What the composer keeps of the application: shadow, last frame, engine, last key.\<close>

definition frame_untouched :: "'e composer \<Rightarrow> 'e composer \<Rightarrow> bool" where
  "frame_untouched c c' \<longleftrightarrow> cp_edit c' = cp_edit c \<and> cp_engine c' = cp_engine c \<and>
     cp_retroactive_context c' = cp_retroactive_context c \<and>
     cp_last_input_char c' = cp_last_input_char c"

definition frame_synced :: "ustr \<Rightarrow> u32 \<Rightarrow> u32 \<Rightarrow> 'e composer \<Rightarrow> bool" where
  "frame_synced t cu an c \<longleftrightarrow> shadow_text c = floor_prefix t (min (unat cu) (unat an)) \<and>
     is_duplicate_frame t cu an c \<and> \<not> is_pending_raw (cp_confirmation c)"

lemma is_duplicate_record [simp]:
  "em_is_duplicate_frame t cu an (record_surrounding t cu an em)"
  by (simp add: em_is_duplicate_frame_def record_surrounding_def)

lemma trusted_synced: "frame_synced t cu an (apply_trusted_frame vk t cu an sc d r c)"
  by (simp add: apply_trusted_frame_def Let_def frame_synced_def shadow_text_def
      is_duplicate_frame_def is_pending_raw_def frame_derived_or_live_def split: option.split)

lemma sync_frame_duplicate:
  "cp_edit c' = cp_edit (sync_frame t cu an ch c) \<Longrightarrow> is_duplicate_frame t cu an c'"
  "cp_edit c' = cp_edit (sync_frame t cu an ch c) \<Longrightarrow>
     shadow_text c' = floor_prefix t (min (unat cu) (unat an))"
  by (simp_all add: is_duplicate_frame_def sync_frame_def shadow_text_def)

lemma sync_frame_cong [simp]:
  "cp_edit (sync_frame t cu an ch (c\<lparr>cp_engine := en\<rparr>)) = cp_edit (sync_frame t cu an ch c)"
  "cp_edit (sync_frame t cu an ch (cp_engine_reset vk c)) = cp_edit (sync_frame t cu an ch c)"
  by (simp_all add: sync_frame_def)

lemma replay_synced: "frame_synced t cu an (snd (replay_raw_key vk t cu an ch w c))"
proof -
  have e: "cp_edit (snd (replay_raw_key vk t cu an ch w c)) = cp_edit (sync_frame t cu an ch c)"
    "\<not> is_pending_raw (cp_confirmation (snd (replay_raw_key vk t cu an ch w c)))"
    by (cases rule: replay_raw_key_cases [where w = w and vk = vk and c = c and ch = ch];
        simp add: replay_raw_key_unseeded replay_raw_key_seeded is_pending_raw_def
          frame_derived_or_live_def)+
  show ?thesis
    using sync_frame_duplicate [OF e(1)] e(2) by (simp add: frame_synced_def)
qed

lemma confirm_synced:
  assumes "cp_confirmation c = PendingRaw p" "b = x @ [pw_ch p]" "blen b < 2 ^ 32"
  shows "frame_synced t cu an (snd (confirm_pending_raw_key vk t cu an b c))"
proof -
  have 1: "frame_synced t cu an (frame_derived_or_live (seed_if_nonempty vk w
      (cp_engine_reset vk (sync_frame t cu an ch c))))" for w ch
    using sync_frame_duplicate [of "frame_derived_or_live (seed_if_nonempty vk w
      (cp_engine_reset vk (sync_frame t cu an ch c)))" t cu an ch c]
    by (simp add: frame_synced_def)
  have 2: "frame_synced t cu an ((sync_frame t cu an ch c)
      \<lparr>cp_retroactive_context := True, cp_confirmation := FrameDerived\<rparr>)" for ch
    using sync_frame_duplicate [of "(sync_frame t cu an ch c)
      \<lparr>cp_retroactive_context := True, cp_confirmation := FrameDerived\<rparr>" t cu an ch c]
    by (simp add: frame_synced_def is_pending_raw_def)
  show ?thesis
    unfolding confirm_matching_char [OF assms]
    by (auto simp: 1 2 replay_synced split: option.split)
qed

text \<open>The generic gate: a recent frame that is neither a typed key nor the shadow is dropped.\<close>

definition stale_echo :: "bool \<Rightarrow> bool \<Rightarrow> bool \<Rightarrow> ustr \<Rightarrow> 'e composer \<Rightarrow> bool" where
  "stale_echo recent_action one_char_typed force_reseed b c \<longleftrightarrow>
     recent_action \<and> \<not> one_char_typed \<and> \<not> force_reseed \<and> b \<noteq> shadow_text c"

lemma classify_untouched:
  "stale_echo ra oc fr b c \<Longrightarrow> frame_untouched c (classify_frame vk t cu an fr ra oc b c)"
  by (simp add: stale_echo_def classify_frame_def Let_def surrounding_observe_def frame_untouched_def)

lemma classify_synced:
  "\<not> stale_echo ra oc fr b c \<Longrightarrow> frame_synced t cu an (classify_frame vk t cu an fr ra oc b c)"
  by (auto simp: stale_echo_def classify_frame_def Let_def surrounding_observe_def trusted_synced)

lemma revalidate_untouched [simp]:
  "cp_edit (revalidate_live_confirmation b c) = cp_edit c"
  "cp_engine (revalidate_live_confirmation b c) = cp_engine c"
  "cp_retroactive_context (revalidate_live_confirmation b c) = cp_retroactive_context c"
  "cp_last_input_char (revalidate_live_confirmation b c) = cp_last_input_char c"
  "shadow_text (revalidate_live_confirmation b c) = shadow_text c"
  "cp_confirmation (revalidate_live_confirmation b c) = PendingRaw p \<longleftrightarrow>
     cp_confirmation c = PendingRaw p"
  "is_pending_raw (cp_confirmation (revalidate_live_confirmation b c)) =
     is_pending_raw (cp_confirmation c)"
  by (auto simp: revalidate_live_confirmation_def shadow_text_def is_pending_raw_def)

text \<open>The frame shows the pending key right in front of an unselected cursor.\<close>

definition shows_pending :: "u32 \<Rightarrow> u32 \<Rightarrow> ustr \<Rightarrow> 'e composer \<Rightarrow> bool" where
  "shows_pending cu an b c \<longleftrightarrow> cu = an \<and> b \<noteq> [] \<and>
     (case cp_confirmation c of PendingRaw p \<Rightarrow> last b = pw_ch p | _ \<Rightarrow> False)"

definition drops_frame :: "time \<Rightarrow> ustr \<Rightarrow> u32 \<Rightarrow> u32 \<Rightarrow> bool \<Rightarrow> 'e composer \<Rightarrow> bool" where
  "drops_frame now t cu an fr c \<longleftrightarrow>
     \<not> shows_pending cu an (text_before_cursor t cu) c \<and>
     stale_echo (elapsed now (cp_last_action_at c) < millis 150)
       (one_char_insertion_since_prev t cu (cp_edit c)) fr (text_before_cursor t cu) c"

lemma blen_text_before_cursor: "blen (text_before_cursor t cu) < 2 ^ 32"
proof -
  have "unat cu < 2 ^ 32" using unsigned_less [of cu] by simp
  with blen_floor_prefix_le [of t "unat cu"] show ?thesis by (simp add: text_before_cursor_eq)
qed

lemma apply_surrounding_cases:
  shows "shows_pending cu an (text_before_cursor t cu) c \<Longrightarrow>
      apply_surrounding vk now t cu an fr c =
        confirm_pending_raw_key vk t cu an (text_before_cursor t cu)
          (revalidate_live_confirmation (text_before_cursor t cu) c)" (is "?p \<Longrightarrow> ?A")
    and "\<not> shows_pending cu an (text_before_cursor t cu) c \<Longrightarrow>
      apply_surrounding vk now t cu an fr c =
        (None, classify_frame vk t cu an fr (elapsed now (cp_last_action_at c) < millis 150)
           (one_char_insertion_since_prev t cu (cp_edit c)) (text_before_cursor t cu)
           (revalidate_live_confirmation (text_before_cursor t cu) c))" (is "?n \<Longrightarrow> ?B")
proof -
  let ?b = "text_before_cursor t cu"
  let ?c1 = "revalidate_live_confirmation ?b c"
  {
    assume ?p
    then obtain p where p: "cp_confirmation c = PendingRaw p" "?b \<noteq> []" "last ?b = pw_ch p" "cu = an"
      by (auto simp: shows_pending_def split: confirmation_state.splits)
    then have p1: "cp_confirmation ?c1 = PendingRaw p" by simp
    obtain x where x: "?b = x @ [pw_ch p]" using p by (metis append_butlast_last_id)
    have "\<not> is_pending_raw (cp_confirmation (snd (confirm_pending_raw_key vk t cu an ?b ?c1)))"
      using confirm_synced [OF p1 x blen_text_before_cursor] by (simp add: frame_synced_def)
    moreover have "is_pending_raw (cp_confirmation ?c1)" using p1 by (auto simp: is_pending_raw_iff)
    ultimately show ?A
      using p(4)
      by (cases "confirm_pending_raw_key vk t cu an ?b ?c1")
        (auto simp: apply_surrounding_def Let_def split: option.split)
  next
    assume n: ?n
    show ?B
    proof (cases "is_pending_raw (cp_confirmation ?c1) \<and> cu = an")
      case True
      then obtain p where p: "cp_confirmation ?c1 = PendingRaw p" by (auto simp: is_pending_raw_iff)
      with n True have "?b = [] \<or> last ?b \<noteq> pw_ch p" by (auto simp: shows_pending_def)
      from confirm_other_char [OF p this] True show ?thesis
        by (simp add: apply_surrounding_def Let_def)
    next
      case False
      then show ?thesis by (auto simp: apply_surrounding_def Let_def)
    qed
  }
qed

lemma apply_surrounding_dropped:
  assumes "drops_frame now t cu an fr c"
  shows "fst (apply_surrounding vk now t cu an fr c) = None"
    and "frame_untouched c (snd (apply_surrounding vk now t cu an fr c))"
proof -
  let ?c1 = "revalidate_live_confirmation (text_before_cursor t cu) c"
  from assms have n: "\<not> shows_pending cu an (text_before_cursor t cu) c"
    and s: "stale_echo (elapsed now (cp_last_action_at c) < millis 150)
       (one_char_insertion_since_prev t cu (cp_edit c)) fr (text_before_cursor t cu) ?c1"
    by (simp_all add: drops_frame_def stale_echo_def)
  show "fst (apply_surrounding vk now t cu an fr c) = None"
    by (simp add: apply_surrounding_cases(2) [OF n])
  show "frame_untouched c (snd (apply_surrounding vk now t cu an fr c))"
    using classify_untouched [OF s, of vk t cu an]
    by (simp add: apply_surrounding_cases(2) [OF n] frame_untouched_def)
qed

lemma apply_surrounding_taken:
  assumes "\<not> drops_frame now t cu an fr c"
  shows "frame_synced t cu an (snd (apply_surrounding vk now t cu an fr c))"
proof (cases "shows_pending cu an (text_before_cursor t cu) c")
  case True
  then obtain p where p: "cp_confirmation c = PendingRaw p" "text_before_cursor t cu \<noteq> []"
    "last (text_before_cursor t cu) = pw_ch p"
    by (auto simp: shows_pending_def split: confirmation_state.splits)
  then have "text_before_cursor t cu = butlast (text_before_cursor t cu) @ [pw_ch p]"
    by (metis append_butlast_last_id)
  from confirm_synced [OF _ this blen_text_before_cursor,
      of "revalidate_live_confirmation (text_before_cursor t cu) c"] p(1) show ?thesis
    by (simp add: apply_surrounding_cases(1) [OF True])
next
  case False
  with assms have "\<not> stale_echo (elapsed now (cp_last_action_at c) < millis 150)
       (one_char_insertion_since_prev t cu (cp_edit c)) fr (text_before_cursor t cu)
       (revalidate_live_confirmation (text_before_cursor t cu) c)"
    by (simp add: drops_frame_def stale_echo_def)
  from classify_synced [OF this] show ?thesis by (simp add: apply_surrounding_cases(2) [OF False])
qed

section \<open>Edits against the sink contract\<close>

abbreviation composer_shadow :: "'e composer \<Rightarrow> shadow_buffer" where
  "composer_shadow c \<equiv> st_shadow (em_strategy (cp_edit c))"

text \<open>Deletions go out in bytes or as Backspaces: the character unit implies the key channel.\<close>

lemma channel_apply_bytes:
  assumes "firefox_inv (cp_firefox c)"
  shows "channel_apply snk bs commit serial time c s =
     (if uses_forward_key bs commit c then em_apply_forward_key snk bs commit serial time (cp_edit c, s)
      else em_apply snk bs commit serial time Bytes (cp_edit c, s))"
  using assms
  by (cases "fx_delete_unit (cp_firefox c)")
    (auto simp: channel_apply_def firefox_inv_def uses_forward_key_def)

context editing_sink
begin

lemma em_apply_mirrors:
  assumes "can_delete s" "can_key s"
    and "shadow_mirrors pre (st_shadow (em_strategy em)) (doc s) (sel s)"
    and "bs \<le> length (em_shadow_text em)"
    and "em_method em = ForwardKey \<Longrightarrow> sel s = []"
    and "can_type commit"
  shows "doc (snd (em_apply snk bs commit serial time Bytes (em, s))) =
    pre @ em_shadow_text (fst (em_apply snk bs commit serial time Bytes (em, s)))"
proof -
  obtain st s' where "strategy_apply snk bs commit serial time Bytes (em_strategy em, s) = (st, s')"
    by force
  with strategy_apply_mirrors [of s pre "em_strategy em" bs commit serial time] assms show ?thesis
    by (simp add: em_apply_def em_shadow_text_def em_method_def)
qed

lemma em_apply_forward_key_mirrors:
  assumes "can_key s" "sel s = []" "doc s = pre @ em_shadow_text em" "bs \<le> length (em_shadow_text em)"
    and "can_type commit"
  shows "doc (snd (em_apply_forward_key snk bs commit serial time (em, s))) =
    pre @ em_shadow_text (fst (em_apply_forward_key snk bs commit serial time (em, s)))"
proof -
  obtain sh s' where r: "forward_key_apply snk bs commit serial time True (st_shadow (em_strategy em), s)
      = (sh, s')" by force
  then have "snd (em_apply_forward_key snk bs commit serial time (em, s)) = s'"
    by (simp add: em_apply_forward_key_def strategy_apply_forward_key_def)
  then show ?thesis
    using forward_key_apply_doc [OF assms(1,2,5), of bs serial time True "st_shadow (em_strategy em)"]
      assms(3,4) by (simp add: r pop_n_append)
qed

lemma composer_apply_mirrors:
  assumes "can_delete s" "can_key s"
    and "shadow_mirrors pre (composer_shadow c) (doc s) (sel s)"
    and "bs \<le> length (shadow_text c)"
    and "cp_method c = ForwardKey \<Longrightarrow> sel s = []"
    and "can_type commit"
  shows "doc (snd (composer_apply vk snk bs commit time (c, s))) =
    pre @ shadow_text (fst (composer_apply vk snk bs commit time (c, s)))"
  unfolding composer_apply_frame(3,4)
  using em_apply_mirrors [of s pre "cp_edit c" bs commit 0 time] assms
  by (simp add: shadow_text_def cp_method_def)

lemma apply_to_sink_inner_mirrors:
  assumes "can_delete s" "can_key s" "firefox_inv (cp_firefox c)"
    and m: "shadow_mirrors pre (composer_shadow c) (doc s) (sel s)"
    and "bs \<le> length (shadow_text c)"
    and "cp_method c = ForwardKey \<or> uses_forward_key bs commit c \<Longrightarrow> sel s = []"
    and "can_type commit"
  shows "doc (snd (apply_to_sink_inner vk snk bs commit serial time pe (c, s))) =
    pre @ shadow_text (fst (apply_to_sink_inner vk snk bs commit serial time pe (c, s)))"
proof -
  have d: "doc s = pre @ em_shadow_text (cp_edit c)"
    using m by (simp add: shadow_mirrors_def em_shadow_text_def)
  show ?thesis
    unfolding shadow_text_def apply_to_sink_inner_edit channel_apply_bytes [OF assms(3)]
    using em_apply_mirrors [of s pre "cp_edit c" bs commit serial time]
      em_apply_forward_key_mirrors [of s pre "cp_edit c" bs commit serial time] assms d
    by (simp add: shadow_text_def cp_method_def)
qed

end

section \<open>The liveness watchdog\<close>

text \<open>A run of frames: the strikes are the dead frames since the last frame with text.\<close>

fun watch_frames :: "(ustr \<times> u32) list \<Rightarrow> 'e composer \<Rightarrow> bool list \<times> 'e composer" where
  "watch_frames [] c = ([], c)"
| "watch_frames ((t, cu) # fs) c =
     (let (b, c1) = note_surrounding_liveness t cu c; (bs, c2) = watch_frames fs c1 in (b # bs, c2))"

fun strikes_after :: "nat \<Rightarrow> (ustr \<times> u32) list \<Rightarrow> nat" where
  "strikes_after n [] = n"
| "strikes_after n ((t, cu) # fs) =
     strikes_after (if t \<noteq> [] then 0 else if cu = 0 then n + 1 else n) fs"

lemma liveness_shadow [simp]:
  "shadow_text (snd (note_surrounding_liveness t cu c)) = shadow_text c"
  "cp_engine (snd (note_surrounding_liveness t cu c)) = cp_engine c"
  by (simp_all add: note_surrounding_liveness_def Let_def shadow_text_def)

lemma watch_frames_Cons:
  "snd (watch_frames ((t, cu) # fs) c) = snd (watch_frames fs (snd (note_surrounding_liveness t cu c)))"
  by (cases "note_surrounding_liveness t cu c";
      cases "watch_frames fs (snd (note_surrounding_liveness t cu c))") simp

lemma watch_frames_strikes:
  assumes "shadow_text c \<noteq> []" "cp_surrounding_dead_strikes c = of_nat n"
  shows "cp_surrounding_dead_strikes (snd (watch_frames fs c)) = of_nat (strikes_after n fs)"
  using assms
proof (induction fs arbitrary: c n)
  case (Cons f fs)
  obtain t cu where f: "f = (t, cu)" by force
  have "cp_surrounding_dead_strikes (snd (note_surrounding_liveness t cu c))
      = of_nat (if t \<noteq> [] then 0 else if cu = 0 then n + 1 else n)"
    using Cons.prems by (simp add: note_surrounding_liveness_def Let_def)
  moreover have "shadow_text (snd (note_surrounding_liveness t cu c)) \<noteq> []"
    using Cons.prems by simp
  ultimately show ?case
    unfolding f watch_frames_Cons strikes_after.simps by (rule Cons.IH [rotated])
qed simp

lemma strikes_after_bound: "strikes_after n fs \<le> n + length fs"
  by (induction n fs rule: strikes_after.induct) (auto intro: order_trans)

lemma watch_frames_verdict:
  assumes "shadow_text c \<noteq> []" "cp_surrounding_dead_strikes c = of_nat n" "n + length fs < 2 ^ 32 - 1"
  shows "fst (note_surrounding_liveness t cu (snd (watch_frames fs c))) \<longleftrightarrow>
    t = [] \<and> cu = 0 \<and> 1 \<le> strikes_after n fs"
proof -
  let ?c = "snd (watch_frames fs c)"
  have sh: "shadow_text (snd (watch_frames fs d)) = shadow_text d" for d :: "'a composer"
  proof (induction fs arbitrary: d)
    case (Cons f fs)
    then show ?case by (cases f) (simp only: watch_frames_Cons liveness_shadow)
  qed simp
  have st: "cp_surrounding_dead_strikes ?c + 1 = of_nat (Suc (strikes_after n fs))"
    using watch_frames_strikes [OF assms(1,2), of fs] by simp
  have "Suc (strikes_after n fs) < 2 ^ 32" using strikes_after_bound [of n fs] assms(3) by simp
  then have "(2 \<le> cp_surrounding_dead_strikes ?c + 1) = (2 \<le> Suc (strikes_after n fs))"
    unfolding st word_le_nat_alt by (simp del: of_nat_Suc)
  then show ?thesis
    using assms(1) sh [of c]
    by (auto simp: note_surrounding_liveness_def Let_def SURROUNDING_DEAD_STRIKE_LIMIT_def)
qed

end
