(* ===== verification/Config.thy ===== *)
theory Config
  imports Engine
begin

text \<open>
  \<^verbatim>\<open>crates/daemon/src/config.rs\<close> and \<^verbatim>\<open>logging.rs\<close>: the configuration record with its
  defaults, the environment overrides of \<open>load_from\<close>, and the validation of log directives.
  Reading and parsing the TOML file is the file system's and the \<^verbatim>\<open>toml\<close> crate's; its outcome is
  an argument.
\<close>

section \<open>The configuration\<close>

datatype method_config = TelexConfig | VniConfig | ViqrConfig

definition to_engine :: "method_config \<Rightarrow> input_method" where
  "to_engine m = (case m of TelexConfig \<Rightarrow> Telex | VniConfig \<Rightarrow> Vni | ViqrConfig \<Rightarrow> Viqr)"

record config =
  cf_method :: method_config
  cf_enable_wayland :: bool
  cf_log_level :: ustr
  cf_log_path :: ustr
  cf_log_modules :: "ustr list"
  cf_enable_evdev_grab :: bool
  cf_bracket_shortcuts :: bool
  cf_ibus_requested :: bool
  cf_modern_style :: bool
  cf_evdev_grab_hooks :: "ustr list"
  cf_config_path :: "ustr option"

definition default_log_level :: ustr where
  "default_log_level = lit ''error''"

definition default_log_path :: ustr where
  "default_log_path = lit ''/dev/stdout''"

definition config_default :: config where
  "config_default =
     \<lparr>cf_method = TelexConfig, cf_enable_wayland = True, cf_log_level = default_log_level,
      cf_log_path = default_log_path, cf_log_modules = [], cf_enable_evdev_grab = False,
      cf_bracket_shortcuts = False, cf_ibus_requested = False, cf_modern_style = True,
      cf_evdev_grab_hooks = [], cf_config_path = None\<rparr>"

definition parse_directive_list :: "ustr \<Rightarrow> ustr list" where
  "parse_directive_list raw = filter (\<lambda>s. s \<noteq> []) (map str_trim (str_split 44 raw))"

text \<open>The truthy heuristic of the boolean overrides.\<close>

definition truthy :: "ustr \<Rightarrow> bool" where
  "truthy v \<longleftrightarrow> str_lower (str_trim v) \<in> {lit ''1'', lit ''true'', lit ''yes'', lit ''on''}"

text \<open>
  \<^verbatim>\<open>DAKLAK\_METHOD\<close> is lowercased by the Unicode \<^verbatim>\<open>to\_lowercase\<close>; only ASCII letters lowercase to
  the letters of the two names, so the ASCII mapping decides the same.
\<close>

definition method_of_env :: "ustr \<Rightarrow> method_config" where
  "method_of_env m =
     (if str_lower m = lit ''vni'' then VniConfig
      else if str_lower m = lit ''viqr'' then ViqrConfig else TelexConfig)"

definition apply_env :: "(string \<Rightarrow> ustr option) \<Rightarrow> config \<Rightarrow> config" where
  "apply_env env cfg0 =
     (let cfg1 = (case env ''DAKLAK_METHOD'' of Some m \<Rightarrow> cfg0\<lparr>cf_method := method_of_env m\<rparr> | None \<Rightarrow> cfg0);
          cfg2 = (case env ''DAKLAK_ENABLE_WAYLAND'' of
                    Some v \<Rightarrow> cfg1\<lparr>cf_enable_wayland := truthy v\<rparr> | None \<Rightarrow> cfg1);
          cfg3 = (case env ''DAKLAK_LOG_LEVEL'' of Some v \<Rightarrow> cfg2\<lparr>cf_log_level := v\<rparr> | None \<Rightarrow> cfg2);
          cfg4 = (case env ''DAKLAK_LOG_PATH'' of Some v \<Rightarrow> cfg3\<lparr>cf_log_path := v\<rparr> | None \<Rightarrow> cfg3);
          cfg5 = (case env ''DAKLAK_LOG_MODULES'' of
                    Some v \<Rightarrow> cfg4\<lparr>cf_log_modules := parse_directive_list v\<rparr> | None \<Rightarrow> cfg4);
          cfg6 = (case env ''DAKLAK_ENABLE_EVDEV_GRAB'' of
                    Some v \<Rightarrow> cfg5\<lparr>cf_enable_evdev_grab := truthy v\<rparr> | None \<Rightarrow> cfg5);
          cfg7 = (case env ''DAKLAK_BRACKET_SHORTCUTS'' of
                    Some v \<Rightarrow> cfg6\<lparr>cf_bracket_shortcuts := truthy v\<rparr> | None \<Rightarrow> cfg6)
      in (case env ''DAKLAK_MODERN_STYLE'' of
            Some v \<Rightarrow> cfg7\<lparr>cf_modern_style := truthy v\<rparr> | None \<Rightarrow> cfg7))"

text \<open>
  \<open>load_from\<close>: \<open>load_file\<close> and \<open>load_default_file\<close> are the outcomes of reading and parsing
  (the latter \<open>None\<close> when there is no file); an error ends the load.
\<close>

definition load_from ::
    "(ustr \<Rightarrow> 'err + config) \<Rightarrow> ('err + config option) \<Rightarrow> ustr option \<Rightarrow> (string \<Rightarrow> ustr option) \<Rightarrow>
      ustr option \<Rightarrow> 'err + config" where
  "load_from load_file load_default_file default_config_path env path =
     (case (case path of
              Some p \<Rightarrow> load_file p
            | None \<Rightarrow>
                (case load_default_file of
                   Inl e \<Rightarrow> Inl e
                 | Inr (Some cfg) \<Rightarrow> Inr cfg
                 | Inr None \<Rightarrow> Inr (config_default\<lparr>cf_config_path := default_config_path\<rparr>))) of
        Inl e \<Rightarrow> Inl e
      | Inr cfg \<Rightarrow>
          (let cfg1 = (case path of
                 Some p \<Rightarrow> if cf_config_path cfg = None then cfg\<lparr>cf_config_path := Some p\<rparr> else cfg
               | None \<Rightarrow> cfg)
           in Inr (apply_env env cfg1)))"

section \<open>Log directives\<close>

datatype log_error = InvalidLevel ustr | InvalidDirective ustr | EmptyTarget ustr

definition normalize_level :: "ustr \<Rightarrow> log_error + ustr" where
  "normalize_level raw =
     (let l = str_lower (str_trim raw) in
      if l = lit ''error'' then Inr (lit ''error'')
      else if l = lit ''info'' then Inr (lit ''info'')
      else if l = lit ''debug'' then Inr (lit ''trace'')
      else Inl (InvalidLevel l))"

definition normalize_directive :: "ustr \<Rightarrow> log_error + ustr" where
  "normalize_directive raw0 =
     (let raw = str_trim raw0 in
      if raw = [] then Inr []
      else (case str_split_once 61 raw of
              None \<Rightarrow> Inl (InvalidDirective raw)
            | Some (target0, level) \<Rightarrow>
                (let target = str_trim target0 in
                 if target = [] then Inl (EmptyTarget raw)
                 else (case normalize_level level of
                         Inl e \<Rightarrow> Inl e
                       | Inr l \<Rightarrow> Inr (target @ [61] @ l)))))"

fun build_directives_loop :: "ustr list \<Rightarrow> ustr list \<Rightarrow> log_error + ustr list" where
  "build_directives_loop [] directives = Inr directives"
| "build_directives_loop (m # ms) directives =
     (case normalize_directive m of
        Inl e \<Rightarrow> Inl e
      | Inr d \<Rightarrow> build_directives_loop ms (if d = [] then directives else directives @ [d]))"

definition build_directives :: "ustr \<Rightarrow> ustr list \<Rightarrow> log_error + ustr" where
  "build_directives log_level log_modules =
     (case normalize_level log_level of
        Inl e \<Rightarrow> Inl e
      | Inr l \<Rightarrow>
          (case build_directives_loop log_modules [l] of
             Inl e \<Rightarrow> Inl e
           | Inr ds \<Rightarrow> Inr (str_join [44] ds)))"

section \<open>Facts\<close>

lemma str_trim_nonempty_no_ws:
  "str_trim s \<noteq> [] \<Longrightarrow> \<not> is_whitespace (hd (str_trim s)) \<and> \<not> is_whitespace (last (str_trim s))"
proof -
  let ?a = "dropWhile is_whitespace s"
  let ?b = "dropWhile is_whitespace (rev ?a)"
  assume "str_trim s \<noteq> []"
  then have ne: "?b \<noteq> []" by (simp add: str_trim_def)
  then have 1: "\<not> is_whitespace (hd ?b)" by (metis hd_dropWhile)
  obtain x where "rev ?a = x @ ?b" by (metis takeWhile_dropWhile_id)
  then have "?a = rev ?b @ rev x" by (metis rev_append rev_rev_ident)
  with ne have "hd ?a = hd (rev ?b)" "?a \<noteq> []"
    by (metis hd_append rev_is_Nil_conv, metis append_is_Nil_conv rev_is_Nil_conv)
  then have "\<not> is_whitespace (hd (rev ?b))" by (metis hd_dropWhile)
  with 1 ne show ?thesis by (simp add: str_trim_def last_rev)
qed

lemma parse_directive_list_clean:
  assumes "d \<in> set (parse_directive_list raw)"
  shows "d \<noteq> []" and "44 \<notin> set d" and "\<not> is_whitespace (hd d)" and "\<not> is_whitespace (last d)"
proof -
  from assms obtain w where w: "w \<in> set (str_split 44 raw)" "d = str_trim w" "d \<noteq> []"
    by (auto simp: parse_directive_list_def)
  then have "44 \<notin> set w" by (auto dest: str_split_no_sep)
  moreover have "set d \<subseteq> set w"
    unfolding w(2) str_trim_def by (auto dest!: set_dropWhileD)
  ultimately show "44 \<notin> set d" by blast
  from w show "d \<noteq> []" by simp
  from w str_trim_nonempty_no_ws [of w] show "\<not> is_whitespace (hd d)" "\<not> is_whitespace (last d)" by simp_all
qed

lemma normalize_level_range:
  "normalize_level raw = Inr l \<Longrightarrow> l \<in> {lit ''error'', lit ''info'', lit ''trace''}"
  by (auto simp: normalize_level_def Let_def split: if_splits)

text \<open>A directive that passes is \<open>target=level\<close> with a real target and one of the three levels.\<close>

lemma normalize_directive_shape:
  assumes "normalize_directive raw = Inr d" "d \<noteq> []"
  obtains target level where "d = target @ [61] @ level" "target \<noteq> []" "61 \<notin> set target"
    "level \<in> {lit ''error'', lit ''info'', lit ''trace''}"
proof -
  from assms obtain target0 level l where s: "str_split_once 61 (str_trim raw) = Some (target0, level)"
    "str_trim target0 \<noteq> []" "normalize_level level = Inr l" "d = str_trim target0 @ [61] @ l"
    by (auto simp: normalize_directive_def Let_def split: if_splits option.splits sum.splits prod.splits)
  from s(1) have "61 \<notin> set target0" by (simp add: str_split_once_Some)
  then have "61 \<notin> set (str_trim target0)"
    unfolding str_trim_def by (auto dest!: set_dropWhileD)
  with s normalize_level_range [OF s(3)] that show ?thesis by blast
qed

end
