(* ===== verification/Daemon.thy ===== *)
theory Daemon
  imports ComposerFrames Config
begin

text \<open>
  \<^verbatim>\<open>crates/daemon/src/handler.rs\<close> with the glue of the IBus and evdev transports
  (\<^verbatim>\<open>transport/ibus.rs\<close>, \<^verbatim>\<open>transport/evdev.rs\<close>) and the Wayland handler
  (\<^verbatim>\<open>transport/wayland.rs\<close>): the daemon with its router, the gates every key passes, and the
  life of a session. The atomic flags are plain fields, the configuration channel is the change
  not yet seen, and the Wayland context is a record of what the handler reads of it.
\<close>

section \<open>State\<close>

record config_change =
  cc_method :: method_config
  cc_modern_style :: bool
  cc_enable_evdev_grab :: bool

definition config_change_default :: config_change where
  "config_change_default = \<lparr>cc_method = TelexConfig, cc_modern_style = True, cc_enable_evdev_grab = False\<rparr>"

definition no_change_from :: "config_change \<Rightarrow> config_change \<Rightarrow> bool" where
  "no_change_from a b \<longleftrightarrow> cc_method a = cc_method b \<and> cc_modern_style a = cc_modern_style b"

definition KEY_ESC :: u32 where
  "KEY_ESC = 1"

definition NAV_KEYS :: "u32 list" where
  "NAV_KEYS = [105, 106, 103, 108, 102, 107, 104, 109]"

definition shortcut_mods :: modifier_state where
  "shortcut_mods = MOD_CTRL OR MOD_ALT OR MOD_SUPER"

record 'e router =
  rt_modifiers :: modifier_state
  rt_current_active :: bool
  rt_synthetic_active :: bool
  rt_composer :: "'e composer option"
  rt_focused_app_id :: "ustr option"
  rt_last_enabled :: bool

definition router_new :: "'e router" where
  "router_new = \<lparr>rt_modifiers = 0, rt_current_active = False, rt_synthetic_active = False,
     rt_composer = None, rt_focused_app_id = None, rt_last_enabled = True\<rparr>"

record 'e daemon =
  dm_config :: config
  dm_router :: "'e router"
  dm_enabled :: bool
  dm_suspended :: bool
  dm_config_change_rx :: "config_change option"
  dm_last_config :: config_change

definition daemon_new :: "config \<Rightarrow> bool \<Rightarrow> config_change option \<Rightarrow> 'e daemon" where
  "daemon_new cfg enabled rx =
     \<lparr>dm_config = cfg, dm_router = router_new, dm_enabled = enabled, dm_suspended = False,
      dm_config_change_rx = rx,
      dm_last_config = \<lparr>cc_method = cf_method cfg, cc_modern_style = cf_modern_style cfg,
        cc_enable_evdev_grab = cf_enable_evdev_grab cfg\<rparr>\<rparr>"

text \<open>\<^verbatim>\<open>if let Some(w) = self.router.composer.as\_mut()\<close>: run an operation on the live composer.\<close>

definition on_composer :: "('e composer \<Rightarrow> 'e composer) \<Rightarrow> 'e daemon \<Rightarrow> 'e daemon" where
  "on_composer f d = d\<lparr>dm_router := (dm_router d)\<lparr>rt_composer := map_option f (rt_composer (dm_router d))\<rparr>\<rparr>"

abbreviation dm_composer :: "'e daemon \<Rightarrow> 'e composer option" where
  "dm_composer d \<equiv> rt_composer (dm_router d)"

section \<open>Gates\<close>

definition sync_enabled_edge :: "'e vnkey \<Rightarrow> 'e daemon \<Rightarrow> bool \<times> 'e daemon" where
  "sync_enabled_edge vk d =
     (let now_enabled = dm_enabled d;
          d1 = (if rt_last_enabled (dm_router d) \<and> \<not> now_enabled
                then on_composer (full_reset vk) d else d)
      in (now_enabled, d1\<lparr>dm_router := (dm_router d1)\<lparr>rt_last_enabled := now_enabled\<rparr>\<rparr>))"

definition sync_config :: "'e vnkey \<Rightarrow> 'e daemon \<Rightarrow> 'e daemon" where
  "sync_config vk d0 =
     (case dm_config_change_rx d0 of
        None \<Rightarrow> d0
      | Some change \<Rightarrow>
          (let d = d0\<lparr>dm_config_change_rx := None\<rparr> in
           if no_change_from change (dm_last_config d) then d
           else
             (let d1 = (if cc_method change \<noteq> cc_method (dm_last_config d)
                    then on_composer (cp_set_input_method vk (to_engine (cc_method change)))
                           (d\<lparr>dm_config := (dm_config d)\<lparr>cf_method := cc_method change\<rparr>\<rparr>)
                    else d);
                  d2 = (if cc_modern_style change \<noteq> cc_modern_style (dm_last_config d1)
                    then on_composer (cp_set_modern_style vk (cc_modern_style change))
                           (d1\<lparr>dm_config := (dm_config d1)\<lparr>cf_modern_style := cc_modern_style change\<rparr>\<rparr>)
                    else d1)
              in d2\<lparr>dm_last_config := change\<rparr>)))"

definition handle_char :: "'e vnkey \<Rightarrow> time \<Rightarrow> uchar \<Rightarrow> 'e daemon \<Rightarrow> key_decision \<times> 'e daemon" where
  "handle_char vk now ch d0 =
     (let d = sync_config vk d0 in
      case dm_composer d of
        Some w \<Rightarrow> (let (k, w') = feed_key vk now ch w in (k, on_composer (\<lambda>_. w') d))
      | None \<Rightarrow> (ForwardRaw, d))"

definition handle_backspace :: "'e vnkey \<Rightarrow> time \<Rightarrow> 'e daemon \<Rightarrow> key_decision \<times> 'e daemon" where
  "handle_backspace vk now d0 =
     (let d = sync_config vk d0 in
      case dm_composer d of
        Some w \<Rightarrow> (let (k, w') = feed_backspace vk now w in (k, on_composer (\<lambda>_. w') d))
      | None \<Rightarrow> (ForwardRaw, d))"

definition reset_and_defer :: "'e vnkey \<Rightarrow> time \<Rightarrow> 'e composer \<Rightarrow> 'e composer" where
  "reset_and_defer vk now w = defer_action now (full_reset vk w)"

section \<open>IBus\<close>

definition dm_process_key ::
    "'e vnkey \<Rightarrow> time \<Rightarrow> u32 \<Rightarrow> uchar option \<Rightarrow> 'e daemon \<Rightarrow> key_decision \<times> 'e daemon" where
  "dm_process_key vk now key ch d0 =
     (let d1 = sync_config vk d0;
          d2 = on_composer (\<lambda>w. snd (check_idle_reset vk now w)) d1;
          (enabled, d3) = sync_enabled_edge vk d2
      in if \<not> enabled then (ForwardRaw, d3)
         else if dm_suspended d3 then (ForwardRaw, on_composer (full_reset vk) d3)
         else if mods_intersects (rt_modifiers (dm_router d3)) shortcut_mods then
           (ForwardRaw, on_composer (reset_and_defer vk now) d3)
         else if key \<in> set NAV_KEYS then (ForwardRaw, on_composer (reset_and_defer vk now) d3)
         else if dm_composer d3 = None then (ForwardRaw, d3)
         else if key = KEY_BACKSPACE then handle_backspace vk now d3
         else if key = KEY_ESC then (ForwardRaw, on_composer (defer_action now) d3)
         else
           (let d4 = on_composer (mark_action now) d3 in
            case ch of
              None \<Rightarrow> (ForwardRaw, on_composer (reset_and_defer vk now) d4)
            | Some c \<Rightarrow> handle_char vk now c d4))"

definition apply_with_sink ::
    "'e vnkey \<Rightarrow> 's output_sink \<Rightarrow> usize \<Rightarrow> ustr \<Rightarrow> u32 \<Rightarrow> 'e daemon \<times> 's \<Rightarrow> 'e daemon \<times> 's" where
  "apply_with_sink vk snk backspaces commit time = (\<lambda>(d, s).
     case dm_composer d of
       None \<Rightarrow> (d, s)
     | Some w \<Rightarrow>
         (let (downgrade, w1) =
                (if 0 < backspaces \<and> cp_method w = SurroundingText
                 then note_surrounding_correction w else (False, w));
              w2 = (if downgrade then cp_set_method ForwardKey w1 else w1);
              (w3, s') = composer_apply vk snk backspaces commit time (w2, s)
          in (on_composer (\<lambda>_. w3) d, s')))"

definition ibus_observe_composer :: "'e vnkey \<Rightarrow> time \<Rightarrow> ustr \<Rightarrow> u32 \<Rightarrow> u32 \<Rightarrow> 'e composer \<Rightarrow> 'e composer" where
  "ibus_observe_composer vk now t cursor anchor w =
     (let w1 = mark_surrounding_frame_seen w;
          (dead, w2) = (if cp_method w1 = SurroundingText
                        then note_surrounding_liveness t cursor w1 else (False, w1));
          w3 = (if dead then (cp_set_method ForwardKey w2)\<lparr>cp_commit_string_functional := False\<rparr> else w2);
          (skip, w4) = should_skip_surrounding_frame t cursor anchor False False w3
      in if skip then w4 else observe_surrounding_chars vk now t cursor anchor w4)"

definition dm_observe_surrounding :: "'e vnkey \<Rightarrow> time \<Rightarrow> ustr \<Rightarrow> u32 \<Rightarrow> u32 \<Rightarrow> 'e daemon \<Rightarrow> 'e daemon" where
  "dm_observe_surrounding vk now t cursor anchor = on_composer (ibus_observe_composer vk now t cursor anchor)"

definition session_composer :: "'e vnkey \<Rightarrow> time \<Rightarrow> backspace_method \<Rightarrow> 'e daemon \<Rightarrow> 'e composer" where
  "session_composer vk now m d =
     cp_set_modifiers (rt_modifiers (dm_router d))
       (cp_set_modern_style vk (cf_modern_style (dm_config d))
         (composer_new vk now (to_engine (cf_method (dm_config d))) m
           (cf_bracket_shortcuts (dm_config d))))"

definition activate_ibus :: "'e vnkey \<Rightarrow> time \<Rightarrow> backspace_method \<Rightarrow> 'e daemon \<Rightarrow> 'e daemon" where
  "activate_ibus vk now m d =
     (if rt_current_active (dm_router d) then d
      else d\<lparr>dm_router := (dm_router d)\<lparr>rt_composer := Some (session_composer vk now m d),
               rt_current_active := True\<rparr>\<rparr>)"

definition deactivate_ibus :: "'e vnkey \<Rightarrow> 'e daemon \<Rightarrow> 'e daemon" where
  "deactivate_ibus vk d0 =
     (let d = on_composer (full_reset vk) d0
      in d\<lparr>dm_router := (dm_router d)\<lparr>rt_composer := None, rt_current_active := False\<rparr>\<rparr>)"

definition update_ibus_method :: "backspace_method \<Rightarrow> 'e daemon \<Rightarrow> 'e daemon" where
  "update_ibus_method want =
     on_composer (\<lambda>w. if cp_method w \<noteq> want then cp_set_method want w else w)"

definition dm_set_modifiers :: "modifier_state \<Rightarrow> 'e daemon \<Rightarrow> 'e daemon" where
  "dm_set_modifiers m d0 =
     (let d = d0\<lparr>dm_router := (dm_router d0)\<lparr>rt_modifiers := m\<rparr>\<rparr>
      in on_composer (cp_set_modifiers m) d)"

definition dm_full_reset :: "'e vnkey \<Rightarrow> 'e daemon \<Rightarrow> 'e daemon" where
  "dm_full_reset vk = on_composer (full_reset vk)"

section \<open>Evdev\<close>

definition activate_evdev :: "'e vnkey \<Rightarrow> time \<Rightarrow> 'e daemon \<Rightarrow> 'e daemon" where
  "activate_evdev vk now d =
     d\<lparr>dm_router := (dm_router d)\<lparr>rt_current_active := True, rt_synthetic_active := True,
         rt_composer := Some (session_composer vk now ForwardKey d)\<rparr>\<rparr>"

definition evdev_handle_char :: "'e vnkey \<Rightarrow> time \<Rightarrow> uchar \<Rightarrow> 'e daemon \<Rightarrow> key_decision \<times> 'e daemon" where
  "evdev_handle_char vk now ch d =
     (let (enabled, d1) = sync_enabled_edge vk d
      in if \<not> enabled then (ForwardRaw, d1) else handle_char vk now ch d1)"

definition evdev_handle_backspace :: "'e vnkey \<Rightarrow> time \<Rightarrow> 'e daemon \<Rightarrow> key_decision \<times> 'e daemon" where
  "evdev_handle_backspace vk now d =
     (let (enabled, d1) = sync_enabled_edge vk d
      in if \<not> enabled then (ForwardRaw, d1) else handle_backspace vk now d1)"

definition clear_session :: "'e daemon \<Rightarrow> 'e daemon" where
  "clear_session d =
     d\<lparr>dm_router := (dm_router d)\<lparr>rt_current_active := False, rt_synthetic_active := False,
         rt_composer := None, rt_focused_app_id := None\<rparr>\<rparr>"

definition clear_last_input_char :: "'e daemon \<Rightarrow> 'e daemon" where
  "clear_last_input_char = on_composer (\<lambda>w. w\<lparr>cp_last_input_char := None\<rparr>)"

definition check_idle_reset_window :: "'e vnkey \<Rightarrow> time \<Rightarrow> 'e daemon \<Rightarrow> 'e daemon" where
  "check_idle_reset_window vk now = on_composer (\<lambda>w. snd (check_idle_reset vk now w))"

section \<open>Wayland\<close>

record frame_snapshot =
  fs_activate :: bool
  fs_deactivate :: bool
  fs_surrounding_text :: "(ustr \<times> u32 \<times> u32) option"
  fs_purpose :: u32
  fs_app_id :: "ustr option"
  fs_is_xwayland :: bool

text \<open>
  What the handler reads of \<^verbatim>\<open>AdapterCtx\<close>: the serial and raw modifiers, whether the key is a
  repeat, the profile's two bits it uses, the keymap's verdict on a level, and the sink the
  adapter builds for an edit from the held key and the state of \<^verbatim>\<open>commit\_string\<close>, or
  \<open>None\<close> when a proxy is missing and \<^verbatim>\<open>with\_sink\<close> runs nothing.
\<close>

type_synonym raw_mods = "u32 \<times> u32 \<times> u32 \<times> u32"

record 's adapter_ctx =
  cx_serial :: u32
  cx_raw_mods :: raw_mods
  cx_is_repeat :: bool
  cx_has_keysym_commit :: bool
  cx_has_vk_keyboard :: bool
  cx_is_level_shifted :: "u32 \<Rightarrow> uchar \<Rightarrow> bool"
  cx_sink :: "raw_mods \<Rightarrow> u32 option \<Rightarrow> bool \<Rightarrow> 's output_sink option"
  cx_vk_key_press_unstamped :: "u32 \<Rightarrow> u32 \<Rightarrow> 's \<Rightarrow> 's"

definition wl_activate :: "'e vnkey \<Rightarrow> time \<Rightarrow> frame_snapshot \<Rightarrow> 'e daemon \<Rightarrow> 'e daemon" where
  "wl_activate vk now frame d0 =
     (let d = d0\<lparr>dm_router := (dm_router d0)\<lparr>rt_current_active := True,
               rt_focused_app_id := fs_app_id frame\<rparr>\<rparr>;
          m = detect_method (fs_surrounding_text frame \<noteq> None);
          c = composer_new vk now (to_engine (cf_method (dm_config d))) m (cf_bracket_shortcuts (dm_config d));
          c1 = cp_set_modern_style vk (cf_modern_style (dm_config d)) c;
          c2 = set_surrounding_confirmation True c1;
          c3 = cp_set_modifiers (rt_modifiers (dm_router d)) c2
      in d\<lparr>dm_router := (dm_router d)\<lparr>rt_composer := Some c3\<rparr>\<rparr>)"

text \<open>The surrounding-text part of a done frame, on the live composer.\<close>

definition wl_surrounding ::
    "'e vnkey \<Rightarrow> time \<Rightarrow> 's adapter_ctx \<Rightarrow> bool \<Rightarrow> bool \<Rightarrow> ustr \<Rightarrow> u32 \<Rightarrow> u32 \<Rightarrow>
      'e composer \<times> 's \<Rightarrow> 'e composer \<times> 's" where
  "wl_surrounding vk now ctx activate deactivate t cursor anchor = (\<lambda>(w, s).
     let (dead, w1) = (if \<not> activate \<and> cp_method w = SurroundingText
                       then note_surrounding_liveness t cursor w else (False, w));
         w2 = (if dead then (cp_set_method ForwardKey w1)\<lparr>cp_commit_string_functional := False\<rparr> else w1);
         (skip, w3) = should_skip_surrounding_frame t cursor anchor activate deactivate w2
     in if skip then (w3, s)
        else
          (let w4 = (if \<not> activate \<and> cp_method w3 = ForwardKey then
                       (if detect_method True = SurroundingText
                        then cp_set_method (detect_method True) w3 else w3)
                     else w3);
               (repair, w5) = observe_surrounding_bytes vk now t cursor anchor activate w4
           in case repair of
                None \<Rightarrow> (w5, s)
              | Some re \<Rightarrow>
                  (case cx_sink ctx (cx_raw_mods ctx) None (cp_commit_string_functional w5) of
                     None \<Rightarrow> (w5, s)
                   | Some snk \<Rightarrow>
                       apply_confirmed_repair_to_sink vk snk
                         (re_backspaces re) (re_commit re) (cx_serial ctx) 0 (w5, s))))"

definition on_done_frame ::
    "'e vnkey \<Rightarrow> time \<Rightarrow> 's adapter_ctx \<Rightarrow> frame_snapshot \<Rightarrow> 'e daemon \<times> 's \<Rightarrow> 'e daemon \<times> 's" where
  "on_done_frame vk now ctx frame = (\<lambda>(d0, s).
     let d1 = sync_config vk d0;
         d2 = (if fs_activate frame \<and> rt_synthetic_active (dm_router d1) then clear_session d1 else d1);
         activate = (fs_activate frame \<and> \<not> rt_current_active (dm_router d2));
         deactivate = (fs_deactivate frame \<and> rt_current_active (dm_router d2));
         d3 = (if activate then wl_activate vk now frame d2
               else if deactivate then
                 d2\<lparr>dm_router := (dm_router d2)\<lparr>rt_current_active := False, rt_composer := None,
                      rt_focused_app_id := None\<rparr>\<rparr>
               else d2)
     in case dm_composer d3 of
          None \<Rightarrow> (d3, s)
        | Some w \<Rightarrow>
            (case fs_surrounding_text frame of
               Some (t, cursor, anchor) \<Rightarrow>
                 (let (w', s') = wl_surrounding vk now ctx activate deactivate t cursor anchor (w, s)
                  in (on_composer (\<lambda>_. w') d3, s'))
             | None \<Rightarrow>
                 ((if \<not> activate \<and> \<not> deactivate then on_composer clear_prev_surrounding d3 else d3), s)))"

definition wl_reset_and_defer :: "'e vnkey \<Rightarrow> time \<Rightarrow> 'e composer \<Rightarrow> 'e composer" where
  "wl_reset_and_defer vk now w = defer_action now (reset_composition_preserving_surrounding vk w)"

definition on_key_pressed ::
    "'e vnkey \<Rightarrow> time \<Rightarrow> 's adapter_ctx \<Rightarrow> u32 \<Rightarrow> u32 \<Rightarrow> uchar option \<Rightarrow>
      'e daemon \<times> 's \<Rightarrow> key_decision \<times> 'e daemon \<times> 's" where
  "on_key_pressed vk now ctx time key ch = (\<lambda>(d0, s).
     let d1 = sync_config vk d0;
         repeat = cx_is_repeat ctx;
         d2 = (if \<not> repeat then on_composer (\<lambda>w. snd (check_idle_reset vk now w)) d1 else d1);
         now_enabled = dm_enabled d2;
         d3 = (if \<not> repeat then snd (sync_enabled_edge vk d2) else d2)
     in if \<not> now_enabled then (ForwardRaw, d3, s)
        else if dm_suspended d3 then (ForwardRaw, on_composer (full_reset vk) d3, s)
        else if mods_intersects (rt_modifiers (dm_router d3)) shortcut_mods then
          (Consumed, if \<not> repeat then on_composer (wl_reset_and_defer vk now) d3 else d3,
           cx_vk_key_press_unstamped ctx time key s)
        else if key \<in> set NAV_KEYS then
          (Consumed, if \<not> repeat then on_composer (wl_reset_and_defer vk now) d3 else d3,
           cx_vk_key_press_unstamped ctx time key s)
        else if dm_composer d3 = None then (ForwardRaw, d3, s)
        else if key = KEY_BACKSPACE then
          (let (k, d4) = handle_backspace vk now d3 in (k, d4, s))
        else
          (let d4 = on_composer (mark_action now) d3 in
           case ch of
             None \<Rightarrow> (ForwardRaw, d4, s)
           | Some c \<Rightarrow>
               (let (decision, d5) = handle_char vk now c d4 in
                if decision = ForwardRaw \<and> cx_has_keysym_commit ctx \<and> cx_is_level_shifted ctx key c
                   \<and> \<not> is_control c then
                  (let d6 = on_composer (unrecord_forwarded_char vk) d5;
                       m = (case dm_composer d6 of Some w \<Rightarrow> cp_method w | None \<Rightarrow> ForwardKey)
                   in (Apply m 0 [c], d6, s))
                else (decision, d5, s))))"

definition apply_pending ::
    "'e vnkey \<Rightarrow> 's adapter_ctx \<Rightarrow> u32 \<Rightarrow> usize \<Rightarrow> ustr \<Rightarrow> raw_mods \<Rightarrow> u32 option \<Rightarrow>
      'e daemon \<times> 's \<Rightarrow> 'e daemon \<times> 's" where
  "apply_pending vk ctx time backspaces commit raw_mods held_user_kc = (\<lambda>(d, s).
     case dm_composer d of
       None \<Rightarrow> (d, s)
     | Some w \<Rightarrow>
         (case cx_sink ctx raw_mods held_user_kc (cp_commit_string_functional w) of
            None \<Rightarrow> (d, s)
          | Some snk \<Rightarrow>
              (let (w', s') = apply_to_sink vk snk backspaces commit (cx_serial ctx) time (w, s)
               in (on_composer (\<lambda>_. w') d, s'))))"

definition on_modifiers :: "modifier_state \<Rightarrow> 'e daemon \<Rightarrow> 'e daemon" where
  "on_modifiers m d = dm_set_modifiers m d"

definition on_focus_changed ::
    "'e vnkey \<Rightarrow> time \<Rightarrow> 's adapter_ctx \<Rightarrow> ustr option \<Rightarrow> 'e daemon \<Rightarrow> 'e daemon" where
  "on_focus_changed vk now ctx app_id d =
     (let vk_available = cx_has_vk_keyboard ctx;
          matched = (app_id \<noteq> None \<and> vk_available);
          synthetic_target_changed =
            (rt_synthetic_active (dm_router d) \<and> matched \<and> rt_focused_app_id (dm_router d) \<noteq> app_id)
      in if matched \<and> (\<not> rt_current_active (dm_router d) \<or> synthetic_target_changed) then
           d\<lparr>dm_router := (dm_router d)\<lparr>rt_current_active := True, rt_synthetic_active := True,
               rt_focused_app_id := app_id,
               rt_composer := Some ((session_composer vk now ForwardKey d)
                 \<lparr>cp_commit_string_functional := False\<rparr>)\<rparr>\<rparr>
         else if rt_synthetic_active (dm_router d) \<and> \<not> matched then clear_session d
         else d)"

end
