(* ===== verification/IbusAdapter.thy ===== *)
theory IbusAdapter
  imports Daemon
begin

text \<open>
  \<^verbatim>\<open>crates/ibus-adapter/src\<close>: the buffering sink (\<^verbatim>\<open>sink.rs\<close>), the key translation
  (\<^verbatim>\<open>keyval.rs\<close>), the IBusText value (\<^verbatim>\<open>ibus\_text.rs\<close>), the address discovery (\<^verbatim>\<open>bus.rs\<close>) and
  the D-Bus engine (\<^verbatim>\<open>engine.rs\<close>), whose handlers return the signals they emit before they
  answer. \<open>client_step\<close> is what a client does with those signals; over it the sink is an
  interpretation of \<open>editing_sink\<close>.
\<close>

section \<open>Key translation\<close>

definition XK_BACKSPACE :: u32 where "XK_BACKSPACE = 0xff08"

definition IBUS_SHIFT_MASK :: u32 where "IBUS_SHIFT_MASK = 0x1"
definition IBUS_CONTROL_MASK :: u32 where "IBUS_CONTROL_MASK = 0x4"
definition IBUS_MOD1_MASK :: u32 where "IBUS_MOD1_MASK = 0x8"
definition IBUS_MOD4_MASK :: u32 where "IBUS_MOD4_MASK = 0x40"
definition IBUS_FORWARD_MASK :: u32 where "IBUS_FORWARD_MASK = 0x2000000"
definition IBUS_RELEASE_MASK :: u32 where "IBUS_RELEASE_MASK = 0x40000000"

definition char_from_u32 :: "u32 \<Rightarrow> uchar option" where
  "char_from_u32 w = (if is_scalar (unat w) then Some (unat w) else None)"

definition keyval_to_char :: "u32 \<Rightarrow> uchar option" where
  "keyval_to_char keyval =
     (if keyval AND 0xff000000 = 0x01000000 then char_from_u32 (keyval AND 0x00ffffff)
      else if (0x0020 \<le> keyval \<and> keyval \<le> 0x00ff) \<or> (0x0100 \<le> keyval \<and> keyval \<le> 0x02ff)
      then char_from_u32 keyval else None)"

definition x11_to_evdev :: "u32 \<Rightarrow> u32" where
  "x11_to_evdev x11_kc = (if x11_kc < 8 then 0 else x11_kc - 8)"

definition keyval_to_evdev :: "u32 \<Rightarrow> u32 \<Rightarrow> u32" where
  "keyval_to_evdev keyval keycode =
     (if keyval = XK_BACKSPACE then 14
      else if keyval = 0xff51 then 105
      else if keyval = 0xff53 then 106
      else if keyval = 0xff52 then 103
      else if keyval = 0xff54 then 108
      else if keyval = 0xff50 then 102
      else if keyval = 0xff57 then 107
      else if keyval = 0xff55 then 104
      else if keyval = 0xff56 then 109
      else keycode)"

definition evdev_to_keyval :: "u32 \<Rightarrow> u32" where
  "evdev_to_keyval evdev_kc = (if evdev_kc = 14 then XK_BACKSPACE else 0)"

definition ibus_state_to_modifiers :: "u32 \<Rightarrow> modifier_state" where
  "ibus_state_to_modifiers state =
     (if state AND IBUS_SHIFT_MASK \<noteq> 0 then MOD_SHIFT else 0)
     OR (if state AND IBUS_CONTROL_MASK \<noteq> 0 then MOD_CTRL else 0)
     OR (if state AND IBUS_MOD1_MASK \<noteq> 0 then MOD_ALT else 0)
     OR (if state AND IBUS_MOD4_MASK \<noteq> 0 then MOD_SUPER else 0)"

section \<open>The buffering sink\<close>

record pending_delete =
  pd_offset :: "32 word"
  pd_n_chars :: u32

record pending_forward =
  pf_keyval :: u32
  pf_keycode :: u32
  pf_state :: u32

record ibus_sink =
  ik_commits :: "ustr list"
  ik_deletes :: "pending_delete list"
  ik_forwards :: "pending_forward list"

definition ibus_sink_new :: ibus_sink where
  "ibus_sink_new = \<lparr>ik_commits = [], ik_deletes = [], ik_forwards = []\<rparr>"

definition ibus_vk_key :: "u32 \<Rightarrow> u32 \<Rightarrow> key_state \<Rightarrow> ibus_sink \<Rightarrow> ibus_sink" where
  "ibus_vk_key time key_code state s =
     (let keyval = (if key_code = 14 then XK_BACKSPACE else evdev_to_keyval key_code) in
      if keyval = 0 then s
      else s\<lparr>ik_forwards := ik_forwards s @
        [\<lparr>pf_keyval = keyval, pf_keycode = key_code,
          pf_state = IBUS_FORWARD_MASK OR (case state of Pressed \<Rightarrow> 0 | Released \<Rightarrow> IBUS_RELEASE_MASK)\<rparr>]\<rparr>)"

definition ibus_output :: "ibus_sink output_sink" where
  "ibus_output =
     \<lparr>os_delete_surrounding_text = (\<lambda>before_bytes before_chars after_bytes after_chars s.
        s\<lparr>ik_deletes := ik_deletes s @
          [\<lparr>pd_offset = - before_chars, pd_n_chars = before_chars + after_chars\<rparr>]\<rparr>),
      os_commit_string = (\<lambda>t s. if t \<noteq> [] then s\<lparr>ik_commits := ik_commits s @ [t]\<rparr> else s),
      os_commit = (\<lambda>serial s. s),
      os_vk_key = ibus_vk_key,
      os_vk_modifiers = (\<lambda>d la lo g s. s),
      os_vk_commit_char = (\<lambda>time c s. (False, s)),
      os_commit_via_keysym = default_commit_via_keysym,
      os_commit_key_channel_text = (\<lambda>serial time t s. (False, s))\<rparr>"

section \<open>IBusText\<close>

text \<open>The variant values the adapter builds and reads; dictionaries and arrays are the empty ones.\<close>

datatype zvalue = VStr ustr | VDict | VArray | VStructure "zvalue list" | VValue zvalue | VOther

definition ibus_attr_list :: zvalue where
  "ibus_attr_list = VStructure [VStr (lit ''IBusAttrList''), VDict, VArray]"

definition ibus_text :: "ustr \<Rightarrow> zvalue" where
  "ibus_text t = VStructure [VStr (lit ''IBusText''), VDict, VStr t, VValue ibus_attr_list]"

definition extract_ibus_text_string :: "zvalue \<Rightarrow> ustr option" where
  "extract_ibus_text_string v =
     (let inner = (case v of VValue boxed \<Rightarrow> boxed | _ \<Rightarrow> v) in
      case inner of
        VStructure fs \<Rightarrow>
          (if length fs < 3 then None
           else (case fs ! 2 of VStr s \<Rightarrow> Some s | _ \<Rightarrow> None))
      | _ \<Rightarrow> None)"

section \<open>The D-Bus engine\<close>

datatype ibus_signal =
    DeleteSurroundingText "32 word" u32
  | ForwardKeyEvent u32 u32 u32
  | CommitText zvalue
  | RequireSurroundingText

definition IBUS_CAP_SURROUNDING_TEXT :: u32 where "IBUS_CAP_SURROUNDING_TEXT = 0x20"

record 'e ibus_engine =
  ib_daemon :: "'e daemon"
  ib_has_surrounding :: bool
  ib_caps_cleared_surrounding :: bool
  ib_client_app_id :: "ustr option"

definition ibus_engine_new :: "'e daemon \<Rightarrow> 'e ibus_engine" where
  "ibus_engine_new d =
     \<lparr>ib_daemon = d, ib_has_surrounding = True, ib_caps_cleared_surrounding = False,
      ib_client_app_id = None\<rparr>"

text \<open>The order in which an applied edit's buffers are emitted.\<close>

definition flush_sink :: "ibus_sink \<Rightarrow> ibus_signal list" where
  "flush_sink s =
     map (\<lambda>d. DeleteSurroundingText (pd_offset d) (pd_n_chars d)) (ik_deletes s)
     @ map (\<lambda>f. ForwardKeyEvent (pf_keyval f) (pf_keycode f) (pf_state f)) (ik_forwards s)
     @ map (\<lambda>t. CommitText (ibus_text t)) (ik_commits s)"

definition process_key_event ::
    "'e vnkey \<Rightarrow> time \<Rightarrow> u32 \<Rightarrow> u32 \<Rightarrow> u32 \<Rightarrow> 'e ibus_engine \<Rightarrow>
      bool \<times> ibus_signal list \<times> 'e ibus_engine" where
  "process_key_event vk now keyval keycode state en =
     (if state AND IBUS_RELEASE_MASK \<noteq> 0 then (False, [], en)
      else
        (let evdev = keyval_to_evdev keyval keycode;
             ch = keyval_to_char keyval;
             d1 = dm_set_modifiers (ibus_state_to_modifiers state) (ib_daemon en);
             (decision, d2) = dm_process_key vk now evdev ch d1
         in case decision of
              ForwardRaw \<Rightarrow> (False, [], en\<lparr>ib_daemon := d2\<rparr>)
            | Consumed \<Rightarrow> (True, [], en\<lparr>ib_daemon := d2\<rparr>)
            | Apply m backspaces commit \<Rightarrow>
                (let (d3, sink) = apply_with_sink vk ibus_output backspaces commit 0 (d2, ibus_sink_new)
                 in (True, flush_sink sink, en\<lparr>ib_daemon := d3\<rparr>))))"

definition method_for_capability :: "bool \<Rightarrow> backspace_method" where
  "method_for_capability has_surrounding = (if has_surrounding then SurroundingText else ForwardKey)"

definition should_upgrade_on_surrounding :: "bool \<Rightarrow> bool \<Rightarrow> bool" where
  "should_upgrade_on_surrounding has_surrounding caps_cleared_surrounding \<longleftrightarrow>
     \<not> has_surrounding \<and> \<not> caps_cleared_surrounding"

definition do_focus_in ::
    "'e vnkey \<Rightarrow> time \<Rightarrow> ustr option \<Rightarrow> 'e ibus_engine \<Rightarrow> ibus_signal list \<times> 'e ibus_engine" where
  "do_focus_in vk now app_id en =
     (let en1 = en\<lparr>ib_client_app_id := app_id, ib_caps_cleared_surrounding := False\<rparr>
      in ([RequireSurroundingText],
          en1\<lparr>ib_daemon := activate_ibus vk now (method_for_capability (ib_has_surrounding en1))
            (ib_daemon en1)\<rparr>))"

definition do_focus_out :: "'e vnkey \<Rightarrow> 'e ibus_engine \<Rightarrow> 'e ibus_engine" where
  "do_focus_out vk en =
     en\<lparr>ib_client_app_id := None, ib_daemon := deactivate_ibus vk (ib_daemon en)\<rparr>"

definition focus_in :: "'e vnkey \<Rightarrow> time \<Rightarrow> 'e ibus_engine \<Rightarrow> ibus_signal list \<times> 'e ibus_engine" where
  "focus_in vk now = do_focus_in vk now None"

definition focus_in_id ::
    "'e vnkey \<Rightarrow> time \<Rightarrow> ustr \<Rightarrow> 'e ibus_engine \<Rightarrow> ibus_signal list \<times> 'e ibus_engine" where
  "focus_in_id vk now client =
     do_focus_in vk now (if client = [] then None else Some (map to_ascii_lowercase client))"

definition ibus_reset :: "'e vnkey \<Rightarrow> 'e ibus_engine \<Rightarrow> 'e ibus_engine" where
  "ibus_reset vk en = en\<lparr>ib_daemon := dm_full_reset vk (ib_daemon en)\<rparr>"

definition ibus_enable :: "'e ibus_engine \<Rightarrow> ibus_signal list \<times> 'e ibus_engine" where
  "ibus_enable en = ([RequireSurroundingText], en)"

definition ibus_disable :: "'e vnkey \<Rightarrow> 'e ibus_engine \<Rightarrow> 'e ibus_engine" where
  "ibus_disable vk en = en\<lparr>ib_daemon := deactivate_ibus vk (ib_daemon en)\<rparr>"

definition set_capabilities :: "u32 \<Rightarrow> 'e ibus_engine \<Rightarrow> 'e ibus_engine" where
  "set_capabilities caps en =
     (let has_surrounding = (caps AND IBUS_CAP_SURROUNDING_TEXT \<noteq> 0)
      in en\<lparr>ib_has_surrounding := has_surrounding, ib_caps_cleared_surrounding := \<not> has_surrounding,
            ib_daemon := update_ibus_method (method_for_capability has_surrounding) (ib_daemon en)\<rparr>)"

definition set_surrounding_text ::
    "'e vnkey \<Rightarrow> time \<Rightarrow> zvalue \<Rightarrow> u32 \<Rightarrow> u32 \<Rightarrow> 'e ibus_engine \<Rightarrow> 'e ibus_engine" where
  "set_surrounding_text vk now v cursor_pos anchor_pos en =
     (case extract_ibus_text_string v of
        None \<Rightarrow> en
      | Some t \<Rightarrow>
          (let en1 =
             (if should_upgrade_on_surrounding (ib_has_surrounding en) (ib_caps_cleared_surrounding en)
              then en\<lparr>ib_has_surrounding := True,
                      ib_daemon := update_ibus_method SurroundingText (ib_daemon en)\<rparr>
              else en)
           in en1\<lparr>ib_daemon := dm_observe_surrounding vk now t cursor_pos anchor_pos (ib_daemon en1)\<rparr>))"

section \<open>What a client does with the signals\<close>

text \<open>
  The client's text around its cursor: before it, selected behind it, after that. The cursor
  stands at the near end of the selection.
\<close>

record client =
  cl_before :: ustr
  cl_sel :: ustr
  cl_after :: ustr

definition client_insert :: "ustr \<Rightarrow> client \<Rightarrow> client" where
  "client_insert t k = k\<lparr>cl_before := cl_before k @ t, cl_sel := []\<rparr>"

definition client_backspace :: "client \<Rightarrow> client" where
  "client_backspace k =
     (if cl_sel k \<noteq> [] then k\<lparr>cl_sel := []\<rparr> else k\<lparr>cl_before := butlast (cl_before k)\<rparr>)"

text \<open>Delete \<open>n\<close> characters from \<open>offset\<close> (signed) relative to the cursor; out of range, nothing.\<close>

definition client_delete :: "int \<Rightarrow> nat \<Rightarrow> client \<Rightarrow> client" where
  "client_delete offset n k =
     (let start = int (length (cl_before k)) + offset in
      if start < 0 \<or> 0 < offset then k
      else (let i = nat start; rest = i + n - length (cl_before k)
            in k\<lparr>cl_before := take i (cl_before k) @ drop (i + n) (cl_before k),
                 cl_sel := drop rest (cl_sel k),
                 cl_after := drop (rest - length (cl_sel k)) (cl_after k)\<rparr>))"

fun client_step :: "ibus_signal \<Rightarrow> client \<Rightarrow> client" where
  "client_step (DeleteSurroundingText offset n) k = client_delete (sint offset) (unat n) k"
| "client_step (ForwardKeyEvent keyval keycode state) k =
     (if keyval = XK_BACKSPACE \<and> state AND IBUS_RELEASE_MASK = 0 then client_backspace k else k)"
| "client_step (CommitText v) k =
     (case extract_ibus_text_string v of Some t \<Rightarrow> client_insert t k | None \<Rightarrow> k)"
| "client_step RequireSurroundingText k = k"

definition replay :: "ibus_signal list \<Rightarrow> client \<Rightarrow> client" where
  "replay sigs k = fold client_step sigs k"

definition ibus_doc :: "client \<Rightarrow> ibus_sink \<Rightarrow> ustr" where
  "ibus_doc k s = cl_before (replay (flush_sink s) k)"

definition ibus_sel :: "client \<Rightarrow> ibus_sink \<Rightarrow> ustr" where
  "ibus_sel k s = cl_sel (replay (flush_sink s) k)"

text \<open>The buffers are flushed in a fixed order, so an operation must not come after a later one.\<close>

definition ibus_can_key :: "ibus_sink \<Rightarrow> bool" where
  "ibus_can_key s \<longleftrightarrow> ik_commits s = []"

definition ibus_can_delete :: "ibus_sink \<Rightarrow> bool" where
  "ibus_can_delete s \<longleftrightarrow> ik_commits s = [] \<and> ik_forwards s = []"

lemma extract_ibus_text [simp]: "extract_ibus_text_string (ibus_text t) = Some t"
  by (simp add: extract_ibus_text_string_def ibus_text_def)

lemma replay_append [simp]: "replay (a @ b) k = replay b (replay a k)"
  by (simp add: replay_def)

lemma replay_single [simp]: "replay [a] k = client_step a k" "replay [a, b] k = client_step b (client_step a k)"
  "replay [] k = k"
  by (simp_all add: replay_def)

lemma flush_delete:
  "ibus_can_delete s \<Longrightarrow> flush_sink (os_delete_surrounding_text ibus_output bb bc ab ac s) =
     flush_sink s @ [DeleteSurroundingText (- bc) (bc + ac)]"
  by (simp add: flush_sink_def ibus_can_delete_def ibus_output_def)

lemma flush_tap:
  "ibus_can_key s \<Longrightarrow> flush_sink (vk_tap_backspace ibus_output time s) =
     flush_sink s @ [ForwardKeyEvent XK_BACKSPACE 14 IBUS_FORWARD_MASK,
       ForwardKeyEvent XK_BACKSPACE 14 (IBUS_FORWARD_MASK OR IBUS_RELEASE_MASK)]"
  "ibus_can_key s \<Longrightarrow> ibus_can_key (vk_tap_backspace ibus_output time s)"
  by (simp_all add: flush_sink_def ibus_can_key_def ibus_output_def vk_tap_backspace_def ibus_vk_key_def
      KEY_BACKSPACE_def XK_BACKSPACE_def)

lemma flush_commit:
  "flush_sink (os_commit_string ibus_output t s) =
     flush_sink s @ (if t = [] then [] else [CommitText (ibus_text t)])"
  by (simp add: flush_sink_def ibus_output_def)

lemma replay_tap:
  "ibus_can_key s \<Longrightarrow> replay (flush_sink (vk_tap_backspace ibus_output time s)) k =
     client_backspace (replay (flush_sink s) k)"
  by (simp add: flush_tap IBUS_FORWARD_MASK_def IBUS_RELEASE_MASK_def)

lemma sint_minus_of_nat:
  assumes "n < 2 ^ 31"
  shows "sint (- (of_nat n :: 32 word)) = - int n"
proof -
  have "sint (word_of_int (- int n) :: 32 word) = (- int n + 2 ^ 31) mod 2 ^ 32 - 2 ^ 31"
    by (simp only: int_word_sint) simp
  also have "\<dots> = - int n" using assms by simp
  finally show ?thesis by simp
qed

lemma client_delete_before:
  assumes "cl_sel k = []" "cl_before k = p @ q"
  shows "cl_before (client_delete (- int (length q)) (length q) k) = p"
    and "cl_sel (client_delete (- int (length q)) (length q) k) = []"
  using assms by (simp_all add: client_delete_def Let_def)

interpretation ibus: editing_sink ibus_output "ibus_doc k" "ibus_sel k" ibus_can_delete ibus_can_key
  "\<lambda>_. True" "\<lambda>_. True" for k
proof unfold_locales
  fix s p q time
  assume "ibus_can_delete s" "ibus_sel k s = []" "ibus_doc k s = p @ q" "blen q < 2 ^ 31"
  moreover have "length q < 2 ^ 31" using \<open>blen q < 2 ^ 31\<close> length_le_blen [of q] by simp
  moreover from this have "unat (of_nat (length q) :: u32) = length q"
    by (intro unat_of_nat_u32) simp
  ultimately show "ibus_doc k (os_delete_surrounding_text ibus_output (of_nat (blen q)) (of_nat (length q)) 0 0 s) = p"
    using client_delete_before [where q = q and p = p and k = "replay (flush_sink s) k"]
    by (simp add: ibus_doc_def ibus_sel_def flush_delete sint_minus_of_nat)
next
  fix s time
  assume "ibus_can_key s" "ibus_sel k s \<noteq> []"
  then show "ibus_doc k (vk_tap_backspace ibus_output time s) = ibus_doc k s"
    by (simp add: ibus_doc_def ibus_sel_def replay_tap client_backspace_def)
next
  fix s time
  assume "ibus_can_key s" "ibus_sel k s = []"
  then show "ibus_doc k (vk_tap_backspace ibus_output time s) = butlast (ibus_doc k s)"
    by (simp add: ibus_doc_def ibus_sel_def replay_tap client_backspace_def)
next
  fix s time
  assume "ibus_can_key s"
  then show "ibus_sel k (vk_tap_backspace ibus_output time s) = []"
    by (simp add: ibus_sel_def replay_tap client_backspace_def)
next
  fix s time
  show "ibus_can_key s \<Longrightarrow> ibus_can_key (vk_tap_backspace ibus_output time s)" by (rule flush_tap)
next
  fix t s
  show "ibus_doc k (os_commit_string ibus_output t s) = ibus_doc k s @ t"
    by (simp add: ibus_doc_def flush_commit client_insert_def)
next
  fix serial s
  show "ibus_doc k (os_commit ibus_output serial s) = ibus_doc k s" by (simp add: ibus_output_def)
next
  fix serial time t s b s'
  show "os_commit_via_keysym ibus_output serial time t s = (b, s') \<Longrightarrow>
      ibus_doc k s' = (if b then ibus_doc k s @ t else ibus_doc k s) \<and> (b \<or> True)"
    by (simp add: ibus_output_def default_commit_via_keysym_def)
  show "os_commit_key_channel_text ibus_output serial time t s = (b, s') \<Longrightarrow>
      ibus_doc k s' = (if b then ibus_doc k s @ t else ibus_doc k s) \<and> (b \<or> True)"
    by (simp add: ibus_output_def)
qed simp_all

end
