(* ===== verification/DaemonLemmas.thy ===== *)
theory DaemonLemmas
  imports Daemon
begin

text \<open>
  The daemon's lemmas: handlers that keep the session (\<open>same_session\<close>) and those that change it,
  the step relation of each transport with its invariant, and what the key gates decide.
\<close>

section \<open>Composer operations used by the handlers\<close>

definition keeps :: "'e composer \<Rightarrow> 'e composer \<Rightarrow> bool" where
  "keeps c c' \<longleftrightarrow> (composer_inv c \<longrightarrow> composer_inv c') \<and>
     cp_confirm_retroactive_edits c' = cp_confirm_retroactive_edits c \<and>
     (\<not> cp_commit_string_functional c \<longrightarrow> \<not> cp_commit_string_functional c')"

lemma keeps_refl [simp, intro]: "keeps c c"
  by (simp add: keeps_def)

lemma keeps_trans [trans]: "keeps a b \<Longrightarrow> keeps b c \<Longrightarrow> keeps a c"
  by (auto simp: keeps_def)

named_theorems keeps_intros \<open>operations that keep the composer's invariant and configuration\<close>

lemma same_confirmation_keeps:
  "same_confirmation c c' \<Longrightarrow> cp_commit_string_functional c' = cp_commit_string_functional c \<Longrightarrow> keeps c c'"
  by (auto simp: keeps_def same_confirmation_inv) (simp add: same_confirmation_def)+

lemma settles_keeps: "settles c c' \<Longrightarrow> keeps c c'"
  by (auto simp: keeps_def settles_inv) (simp add: settles_def)+

lemma keeps_simple [keeps_intros, simp, intro]:
  "keeps c (mark_action now c)"
  "keeps c (defer_action now c)"
  "keeps c (cp_set_method m c)"
  "keeps c (snd (note_surrounding_liveness t cu c))"
  "keeps c (mark_surrounding_frame_seen c)"
  "keeps c (snd (note_surrounding_correction c))"
  "keeps c (cp_set_modifiers k c)"
  "keeps c (full_reset vk c)"
  "keeps c (reset_composition_preserving_surrounding vk c)"
  "keeps c (cp_set_input_method vk im c)"
  "keeps c (cp_set_modern_style vk e c)"
  "keeps c (snd (check_idle_reset vk now c))"
  "keeps c (clear_prev_surrounding c)"
  unfolding keeps_def
  by (intro conjI impI composer_inv_simple; assumption?;
      simp add: mark_action_def defer_action_def cp_set_method_def Let_def
        note_surrounding_liveness_def mark_surrounding_frame_seen_def note_surrounding_correction_def
        cp_set_modifiers_def full_reset_def reset_composition_preserving_surrounding_def
        cp_set_input_method_def cp_set_modern_style_def check_idle_reset_def
        clear_prev_surrounding_def split: prod.split)+

lemma keeps_keys [keeps_intros, simp, intro]:
  "keeps c (snd (feed_key vk now ch c))"
  "keeps c (snd (feed_backspace vk now c))"
  by (auto simp: keeps_def composer_inv_feed_key) (simp add: composer_inv_def)

lemma keeps_unrecord [keeps_intros, simp, intro]: "keeps c (unrecord_forwarded_char vk c)"
proof -
  have "cp_confirm_retroactive_edits (unrecord_forwarded_char vk c) = cp_confirm_retroactive_edits c"
    by (simp add: unrecord_forwarded_char_def Let_def split: option.split)
  then show ?thesis by (simp add: keeps_def composer_inv_def)
qed

lemma keeps_edits [keeps_intros, simp, intro]:
  "keeps c (fst (composer_apply vk snk bs commit time (c, s)))"
  "keeps c (fst (apply_to_sink vk snk bs commit serial time (c, s)))"
  "keeps c (fst (apply_confirmed_repair_to_sink vk snk bs commit serial time (c, s)))"
  by (intro same_confirmation_keeps composer_apply_frame apply_to_sink_same apply_confirmed_repair_same)+

lemma keeps_frames [keeps_intros, simp, intro]:
  "keeps c (snd (observe_surrounding_bytes vk now t cu an fr c))"
  "keeps c (observe_surrounding_chars vk now t cu an c)"
  "keeps c (snd (should_skip_surrounding_frame t cu an ac de c))"
  by (simp_all add: observe_surrounding_bytes_def observe_surrounding_chars_def
      should_skip_surrounding_frame_def Let_def settles_keeps settles_apply_surrounding settles_revalidate)

lemma keeps_dead [keeps_intros, simp, intro]:
  "keeps c ((cp_set_method ForwardKey c)\<lparr>cp_commit_string_functional := False\<rparr>)"
proof -
  have "composer_inv c \<Longrightarrow> composer_inv (cp_set_method ForwardKey c)" by (rule composer_inv_simple)
  then show ?thesis by (auto simp: keeps_def composer_inv_def cp_set_method_def Let_def)
qed

lemma keeps_resets [keeps_intros, simp, intro]:
  "keeps c (reset_and_defer vk now c)"
  "keeps c (wl_reset_and_defer vk now c)"
  unfolding reset_and_defer_def wl_reset_and_defer_def by (rule keeps_trans; rule keeps_simple)+

lemma keeps_ibus_observe [keeps_intros, simp, intro]:
  "keeps w (ibus_observe_composer vk now t cu an w)"
proof -
  let ?w1 = "mark_surrounding_frame_seen w"
  obtain dead w2 where l: "(if cp_method ?w1 = SurroundingText
      then note_surrounding_liveness t cu ?w1 else (False, ?w1)) = (dead, w2)" by force
  have "keeps ?w1 w2" using arg_cong [OF l, of snd] by (auto split: if_splits)
  then have 2: "keeps w w2" by (rule keeps_trans [OF keeps_simple(5)])
  let ?w3 = "if dead then (cp_set_method ForwardKey w2)\<lparr>cp_commit_string_functional := False\<rparr> else w2"
  have 3: "keeps w ?w3" using keeps_trans [OF 2 keeps_dead] 2 by simp
  obtain skip w4 where k: "should_skip_surrounding_frame t cu an False False ?w3 = (skip, w4)" by force
  have 4: "keeps w w4" using keeps_trans [OF 3 keeps_frames(3)] k by (metis snd_conv)
  have "ibus_observe_composer vk now t cu an w = (if skip then w4 else observe_surrounding_chars vk now t cu an w4)"
    unfolding ibus_observe_composer_def Let_def l prod.case k by simp
  then show ?thesis using 4 keeps_trans [OF 4 keeps_frames(2)] by simp
qed

lemma keeps_wl_surrounding [keeps_intros, simp, intro]:
  "keeps w (fst (wl_surrounding vk now ctx ac de t cu an (w, s)))"
proof -
  obtain dead w1 where l: "(if \<not> ac \<and> cp_method w = SurroundingText
      then note_surrounding_liveness t cu w else (False, w)) = (dead, w1)" by force
  have 1: "keeps w w1" using arg_cong [OF l, of snd] by (auto split: if_splits)
  let ?w2 = "if dead then (cp_set_method ForwardKey w1)\<lparr>cp_commit_string_functional := False\<rparr> else w1"
  have 2: "keeps w ?w2" using keeps_trans [OF 1 keeps_dead] 1 by simp
  obtain skip w3 where k: "should_skip_surrounding_frame t cu an ac de ?w2 = (skip, w3)" by force
  have 3: "keeps w w3" using keeps_trans [OF 2 keeps_frames(3)] k by (metis snd_conv)
  let ?w4 = "if \<not> ac \<and> cp_method w3 = ForwardKey then
      (if detect_method True = SurroundingText then cp_set_method (detect_method True) w3 else w3) else w3"
  have 4: "keeps w ?w4" using keeps_trans [OF 3 keeps_simple(3)] 3 by simp
  obtain repair w5 where o5: "observe_surrounding_bytes vk now t cu an ac ?w4 = (repair, w5)" by force
  have 5: "keeps w w5" using keeps_trans [OF 4 keeps_frames(1)] o5 by (metis snd_conv)
  have "fst (wl_surrounding vk now ctx ac de t cu an (w, s)) =
      (if skip then w3 else
        (case repair of None \<Rightarrow> w5 | Some re \<Rightarrow>
           (case cx_sink ctx (cx_raw_mods ctx) None (cp_commit_string_functional w5) of
              None \<Rightarrow> w5
            | Some snk \<Rightarrow> fst (apply_confirmed_repair_to_sink vk snk
                (re_backspaces re) (re_commit re) (cx_serial ctx) 0 (w5, s)))))"
    unfolding wl_surrounding_def Let_def prod.case l k o5 by (simp split: option.split)
  then show ?thesis using 3 5 by (auto intro: keeps_trans [OF 5] split: option.split)
qed

section \<open>Handlers that keep the session\<close>

definition same_session :: "'e daemon \<Rightarrow> 'e daemon \<Rightarrow> bool" where
  "same_session d d' \<longleftrightarrow>
     rt_current_active (dm_router d') = rt_current_active (dm_router d) \<and>
     rt_synthetic_active (dm_router d') = rt_synthetic_active (dm_router d) \<and>
     rel_option keeps (dm_composer d) (dm_composer d')"

lemma rel_option_keeps_refl [simp, intro]: "rel_option keeps x x"
  by (cases x) auto

lemma rel_option_keeps_trans: "rel_option keeps x y \<Longrightarrow> rel_option keeps y z \<Longrightarrow> rel_option keeps x z"
  by (cases x; cases y; cases z) (auto intro: keeps_trans)

lemma same_session_refl [simp, intro]: "same_session d d"
  by (simp add: same_session_def)

lemma same_session_trans [trans]: "same_session a b \<Longrightarrow> same_session b c \<Longrightarrow> same_session a c"
  by (auto simp: same_session_def intro: rel_option_keeps_trans)

lemma same_session_on_composer [intro]:
  "(\<And>w. dm_composer d = Some w \<Longrightarrow> keeps w (f w)) \<Longrightarrow> same_session d (on_composer f d)"
  by (cases "dm_composer d") (auto simp: same_session_def on_composer_def)

lemma same_session_update [simp]:
  "same_session d (x\<lparr>dm_config := k\<rparr>) = same_session d x"
  "same_session d (x\<lparr>dm_last_config := l\<rparr>) = same_session d x"
  "same_session d (x\<lparr>dm_config_change_rx := r\<rparr>) = same_session d x"
  "same_session d (x\<lparr>dm_router := (dm_router x)\<lparr>rt_last_enabled := b\<rparr>\<rparr>) = same_session d x"
  "same_session d (x\<lparr>dm_router := (dm_router x)\<lparr>rt_modifiers := k'\<rparr>\<rparr>) = same_session d x"
  by (simp_all add: same_session_def)

lemma same_session_sync_enabled: "same_session d (snd (sync_enabled_edge vk d))"
  by (auto simp: sync_enabled_edge_def Let_def)

lemma same_session_sync_config: "same_session d (sync_config vk d)"
proof (cases "dm_config_change_rx d")
  case (Some change)
  let ?d = "d\<lparr>dm_config_change_rx := None\<rparr>"
  let ?d1 = "if cc_method change \<noteq> cc_method (dm_last_config ?d)
     then on_composer (cp_set_input_method vk (to_engine (cc_method change)))
            (?d\<lparr>dm_config := (dm_config ?d)\<lparr>cf_method := cc_method change\<rparr>\<rparr>) else ?d"
  let ?d2 = "if cc_modern_style change \<noteq> cc_modern_style (dm_last_config ?d1)
     then on_composer (cp_set_modern_style vk (cc_modern_style change))
            (?d1\<lparr>dm_config := (dm_config ?d1)\<lparr>cf_modern_style := cc_modern_style change\<rparr>\<rparr>) else ?d1"
  have oc: "same_session d (on_composer f x)" if "same_session d x" "\<And>w. keeps w (f w)" for f x
    using that by (metis same_session_trans same_session_on_composer)
  have 1: "same_session d ?d1" by (auto intro!: oc)
  have 2: "same_session d ?d2"
  proof (cases "cc_modern_style change \<noteq> cc_modern_style (dm_last_config ?d1)")
    case True
    have "same_session d (on_composer (cp_set_modern_style vk (cc_modern_style change))
        (?d1\<lparr>dm_config := (dm_config ?d1)\<lparr>cf_modern_style := cc_modern_style change\<rparr>\<rparr>))"
      by (rule oc) (simp_all only: same_session_update 1 keeps_simple)
    with True show ?thesis by (simp only: if_True simp_thms)
  next
    case False
    with 1 show ?thesis by (simp only: if_False)
  qed
  have "sync_config vk d = (if no_change_from change (dm_last_config ?d) then ?d
      else ?d2\<lparr>dm_last_config := change\<rparr>)"
    by (simp only: sync_config_def Some Let_def option.case)
  moreover have "same_session d (?d2\<lparr>dm_last_config := change\<rparr>)"
    by (simp only: same_session_update 2)
  ultimately show ?thesis by (simp only: split: if_split) simp
qed (simp add: sync_config_def)

lemma keeps_keysD:
  "feed_key vk now ch w = (k, w') \<Longrightarrow> keeps w w'"
  "feed_backspace vk now w = (k, w') \<Longrightarrow> keeps w w'"
  by (metis keeps_keys(1) snd_conv, metis keeps_keys(2) snd_conv)

lemma same_session_handle_char: "same_session d (snd (handle_char vk now ch d))"
proof -
  have "same_session (sync_config vk d) (snd (handle_char vk now ch d))"
    by (auto simp: handle_char_def Let_def intro!: same_session_on_composer
        dest: keeps_keysD split: option.split prod.split)
  then show ?thesis by (rule same_session_trans [OF same_session_sync_config])
qed

lemma same_session_handle_backspace: "same_session d (snd (handle_backspace vk now d))"
proof -
  have "same_session (sync_config vk d) (snd (handle_backspace vk now d))"
    by (auto simp: handle_backspace_def Let_def intro!: same_session_on_composer
        dest: keeps_keysD split: option.split prod.split)
  then show ?thesis by (rule same_session_trans [OF same_session_sync_config])
qed

lemma dm_composer_on_composer [simp]:
  "dm_composer (on_composer f d) = map_option f (dm_composer d)"
  by (simp add: on_composer_def)

lemma on_composer_router [simp]:
  "rt_current_active (dm_router (on_composer f d)) = rt_current_active (dm_router d)"
  "rt_synthetic_active (dm_router (on_composer f d)) = rt_synthetic_active (dm_router d)"
  "rt_modifiers (dm_router (on_composer f d)) = rt_modifiers (dm_router d)"
  "rt_last_enabled (dm_router (on_composer f d)) = rt_last_enabled (dm_router d)"
  "dm_enabled (on_composer f d) = dm_enabled d"
  "dm_suspended (on_composer f d) = dm_suspended d"
  "dm_config (on_composer f d) = dm_config d"
  by (simp_all add: on_composer_def)

lemma same_session_sync_enabledD:
  "sync_enabled_edge vk d = (b, d') \<Longrightarrow> same_session d d'"
  by (metis same_session_sync_enabled snd_conv)

lemma same_session_process_key: "same_session d (snd (dm_process_key vk now key ch d))"
proof -
  define d2 where "d2 = on_composer (\<lambda>w. snd (check_idle_reset vk now w)) (sync_config vk d)"
  obtain enabled d3 where e: "sync_enabled_edge vk d2 = (enabled, d3)" by force
  have "same_session d d2"
    unfolding d2_def by (rule same_session_trans [OF same_session_sync_config]) auto
  then have 3: "same_session d d3" by (rule same_session_trans [OF _ same_session_sync_enabledD [OF e]])
  have f: "same_session d (on_composer f d3)" if "\<And>w. keeps w (f w)" for f
    using that by (auto intro!: same_session_trans [OF 3])
  have g: "same_session d (on_composer (reset_and_defer vk now) (on_composer (mark_action now) d3))"
    "same_session d (snd (handle_char vk now c (on_composer (mark_action now) d3)))" for c
    by (rule same_session_trans [OF f]; auto intro: same_session_handle_char)+
  have h: "same_session d (snd (handle_backspace vk now d3))"
    by (rule same_session_trans [OF 3 same_session_handle_backspace])
  show ?thesis
    unfolding dm_process_key_def Let_def d2_def [symmetric] e prod.case
    by (simp add: 3 f g h split: option.split)
qed

lemma same_session_apply_with_sink:
  "same_session d (fst (apply_with_sink vk snk bs commit time (d, s)))"
proof (cases "dm_composer d")
  case (Some w)
  obtain dg w1 where l: "(if 0 < bs \<and> cp_method w = SurroundingText
      then note_surrounding_correction w else (False, w)) = (dg, w1)" by force
  have 1: "keeps w w1" using arg_cong [OF l, of snd] by (auto split: if_splits)
  let ?w2 = "if dg then cp_set_method ForwardKey w1 else w1"
  have 2: "keeps w ?w2" using 1 keeps_trans [OF 1] by auto
  obtain w3 s' where a: "composer_apply vk snk bs commit time (?w2, s) = (w3, s')" by force
  have "keeps ?w2 w3" using arg_cong [OF a, of fst] by (metis fst_conv keeps_edits(1))
  then have "keeps w w3" by (rule keeps_trans [OF 2])
  moreover have "fst (apply_with_sink vk snk bs commit time (d, s)) = on_composer (\<lambda>_. w3) d"
    unfolding apply_with_sink_def prod.case Some option.case l Let_def a by simp
  ultimately show ?thesis using Some by (auto intro!: same_session_on_composer)
qed (simp add: apply_with_sink_def)

lemma same_session_apply_pending:
  "same_session d (fst (apply_pending vk ctx time bs commit rm hk (d, s)))"
proof (cases "dm_composer d")
  case (Some w)
  show ?thesis
  proof (cases "cx_sink ctx rm hk (cp_commit_string_functional w)")
    case None
    with Some show ?thesis by (simp add: apply_pending_def)
  next
    case snk: (Some snk)
    obtain w' s' where a: "apply_to_sink vk snk bs commit (cx_serial ctx) time (w, s) = (w', s')" by force
    have "keeps w w'" using arg_cong [OF a, of fst] by (metis fst_conv keeps_edits(2))
    moreover have "fst (apply_pending vk ctx time bs commit rm hk (d, s)) = on_composer (\<lambda>_. w') d"
      unfolding apply_pending_def prod.case Some option.case snk Let_def a by simp
    ultimately show ?thesis using Some by (auto intro!: same_session_on_composer)
  qed
qed (simp add: apply_pending_def)

lemma same_session_key_pressed:
  "same_session d (fst (snd (on_key_pressed vk now ctx time key ch (d, s))))"
proof -
  define d2 where "d2 = (if \<not> cx_is_repeat ctx
      then on_composer (\<lambda>w. snd (check_idle_reset vk now w)) (sync_config vk d) else sync_config vk d)"
  define d3 where "d3 = (if \<not> cx_is_repeat ctx then snd (sync_enabled_edge vk d2) else d2)"
  have "same_session d (on_composer (\<lambda>w. snd (check_idle_reset vk now w)) (sync_config vk d))"
    by (rule same_session_trans [OF same_session_sync_config]) auto
  then have 2: "same_session d d2" by (simp add: d2_def same_session_sync_config)
  have 3: "same_session d d3"
    unfolding d3_def using 2 same_session_trans [OF 2 same_session_sync_enabled] by simp
  have f: "same_session d (on_composer f d3)" if "\<And>w. keeps w (f w)" for f
    using that by (auto intro!: same_session_trans [OF 3])
  have m: "same_session d (on_composer (mark_action now) d3)" by (rule f) simp
  have g: "same_session d d5"
    if "handle_char vk now c (on_composer (mark_action now) d3) = (k, d5)" for c k d5
    using same_session_trans [OF m same_session_handle_char] that by (metis snd_conv)
  have u: "same_session d (on_composer (unrecord_forwarded_char vk) d5)"
    if "handle_char vk now c (on_composer (mark_action now) d3) = (k, d5)" for c k d5
    by (rule same_session_trans [OF g [OF that]]) auto
  have h: "same_session d d4" if "handle_backspace vk now d3 = (k, d4)" for k d4
    using same_session_trans [OF 3 same_session_handle_backspace] that by (metis snd_conv)
  show ?thesis
    unfolding on_key_pressed_def Let_def prod.case d2_def [symmetric] d3_def [symmetric]
    by (auto simp: 3 f g u h split: option.split prod.split)
qed

section \<open>The invariant of a transport's daemon\<close>

datatype transport = WaylandTransport | IbusTransport | EvdevTransport

text \<open>
  There is a composer exactly while a session is active, it satisfies its invariant, and only
  Wayland defers edits to a confirming frame.
\<close>

definition daemon_inv :: "transport \<Rightarrow> 'e daemon \<Rightarrow> bool" where
  "daemon_inv T d \<longleftrightarrow>
     (rt_current_active (dm_router d) \<longleftrightarrow> dm_composer d \<noteq> None) \<and>
     (\<forall>w. dm_composer d = Some w \<longrightarrow>
        composer_inv w \<and> (T \<noteq> WaylandTransport \<longrightarrow> \<not> cp_confirm_retroactive_edits w))"

lemma daemon_inv_same_session: "daemon_inv T d \<Longrightarrow> same_session d d' \<Longrightarrow> daemon_inv T d'"
  by (cases "dm_composer d"; cases "dm_composer d'") (auto simp: daemon_inv_def same_session_def keeps_def)

lemma daemon_inv_flags [simp]:
  "daemon_inv T (d\<lparr>dm_enabled := b\<rparr>) = daemon_inv T d"
  "daemon_inv T (d\<lparr>dm_suspended := b\<rparr>) = daemon_inv T d"
  "daemon_inv T (d\<lparr>dm_config_change_rx := r\<rparr>) = daemon_inv T d"
  by (simp_all add: daemon_inv_def)

lemma daemon_inv_new: "daemon_inv T (daemon_new cfg en rx)"
  by (simp add: daemon_inv_def daemon_new_def router_new_def)

lemma daemon_inv_none:
  "\<not> rt_current_active (dm_router d) \<Longrightarrow> dm_composer d = None \<Longrightarrow> daemon_inv T d"
  by (simp add: daemon_inv_def)

lemma session_composer_fresh:
  "composer_inv (session_composer vk now m d)"
  "\<not> cp_confirm_retroactive_edits (session_composer vk now m d)"
  "cp_method (session_composer vk now m d) = m"
  unfolding session_composer_def
  by (intro composer_inv_simple composer_inv_new)
    (simp_all add: cp_set_modifiers_def cp_set_modern_style_def composer_new_def cp_method_def)

lemma daemon_inv_wl_activate: "daemon_inv WaylandTransport (wl_activate vk now frame d)"
  by (simp add: daemon_inv_def wl_activate_def Let_def composer_inv_simple composer_inv_new)

lemma daemon_inv_done_frame:
  assumes "daemon_inv WaylandTransport d"
  shows "daemon_inv WaylandTransport (fst (on_done_frame vk now ctx frame (d, s)))"
proof -
  define d1 where "d1 = sync_config vk d"
  define d2 where "d2 = (if fs_activate frame \<and> rt_synthetic_active (dm_router d1) then clear_session d1 else d1)"
  define act where "act \<longleftrightarrow> fs_activate frame \<and> \<not> rt_current_active (dm_router d2)"
  define deact where "deact \<longleftrightarrow> fs_deactivate frame \<and> rt_current_active (dm_router d2)"
  define d3 where "d3 = (if act then wl_activate vk now frame d2
      else if deact then d2\<lparr>dm_router := (dm_router d2)\<lparr>rt_current_active := False,
        rt_composer := None, rt_focused_app_id := None\<rparr>\<rparr> else d2)"
  have 1: "daemon_inv WaylandTransport d1"
    unfolding d1_def by (rule daemon_inv_same_session [OF assms same_session_sync_config])
  have 2: "daemon_inv WaylandTransport d2"
    using 1 by (simp add: d2_def clear_session_def daemon_inv_none)
  have 3: "daemon_inv WaylandTransport d3"
    using 2 by (simp add: d3_def daemon_inv_wl_activate daemon_inv_none)
  have f: "daemon_inv WaylandTransport (on_composer f d3)"
    if "\<And>w. dm_composer d3 = Some w \<Longrightarrow> keeps w (f w)" for f
    using that by (intro daemon_inv_same_session [OF 3] same_session_on_composer)
  have w: "daemon_inv WaylandTransport (on_composer (\<lambda>_. w') d3)"
    if "dm_composer d3 = Some w" "wl_surrounding vk now ctx act deact t cu an (w, s) = (w', s')" for w w' t cu an s'
    using that keeps_wl_surrounding [of w vk now ctx act deact t cu an s] by (intro f) simp
  show ?thesis
    unfolding on_done_frame_def Let_def prod.case d1_def [symmetric] d2_def [symmetric]
      act_def [symmetric] deact_def [symmetric] d3_def [symmetric]
    by (auto simp: 3 f w split: option.split prod.split)
qed

inductive daemon_step ::
    "'e vnkey \<Rightarrow> 's output_sink \<Rightarrow> transport \<Rightarrow> 'e daemon \<Rightarrow> 'e daemon \<Rightarrow> bool"
  for vk :: "'e vnkey" and snk :: "'s output_sink" where
  ds_enabled: "daemon_step vk snk T d (d\<lparr>dm_enabled := b\<rparr>)"
| ds_suspended: "daemon_step vk snk T d (d\<lparr>dm_suspended := b\<rparr>)"
| ds_config: "daemon_step vk snk T d (d\<lparr>dm_config_change_rx := Some change\<rparr>)"
| ds_modifiers: "daemon_step vk snk T d (dm_set_modifiers m d)"
| ds_done_frame: "daemon_step vk snk WaylandTransport d (fst (on_done_frame vk now ctx frame (d, s :: 's)))"
| ds_key_pressed: "daemon_step vk snk WaylandTransport d
    (fst (snd (on_key_pressed vk now ctx time key ch (d, s :: 's))))"
| ds_apply_pending: "daemon_step vk snk WaylandTransport d
    (fst (apply_pending vk ctx time bs commit rm hk (d, s :: 's)))"
| ds_focus: "daemon_step vk snk WaylandTransport d
    (on_focus_changed vk now (ctx :: 's adapter_ctx) app_id d)"
| ds_process_key: "daemon_step vk snk IbusTransport d (snd (dm_process_key vk now key ch d))"
| ds_apply_with_sink: "daemon_step vk snk IbusTransport d (fst (apply_with_sink vk snk bs commit time (d, s)))"
| ds_observe: "daemon_step vk snk IbusTransport d (dm_observe_surrounding vk now t cu an d)"
| ds_activate_ibus: "daemon_step vk snk IbusTransport d (activate_ibus vk now m d)"
| ds_deactivate_ibus: "daemon_step vk snk IbusTransport d (deactivate_ibus vk d)"
| ds_update_method: "daemon_step vk snk IbusTransport d (update_ibus_method m d)"
| ds_full_reset: "T \<noteq> WaylandTransport \<Longrightarrow> daemon_step vk snk T d (dm_full_reset vk d)"
| ds_activate_evdev: "daemon_step vk snk EvdevTransport d (activate_evdev vk now d)"
| ds_evdev_char: "daemon_step vk snk EvdevTransport d (snd (evdev_handle_char vk now c d))"
| ds_evdev_backspace: "daemon_step vk snk EvdevTransport d (snd (evdev_handle_backspace vk now d))"
| ds_clear_session: "daemon_step vk snk EvdevTransport d (clear_session d)"
| ds_clear_last: "daemon_step vk snk EvdevTransport d (clear_last_input_char d)"
| ds_idle: "daemon_step vk snk EvdevTransport d (check_idle_reset_window vk now d)"

inductive_cases daemon_stepE: "daemon_step vk snk T d d'"

inductive daemon_reachable :: "'e vnkey \<Rightarrow> 's output_sink \<Rightarrow> transport \<Rightarrow> 'e daemon \<Rightarrow> bool"
  for vk :: "'e vnkey" and snk :: "'s output_sink" and T :: transport where
  dr_new: "daemon_reachable vk snk T (daemon_new cfg en rx)"
| dr_step: "daemon_reachable vk snk T d \<Longrightarrow> daemon_step vk snk T d d' \<Longrightarrow> daemon_reachable vk snk T d'"

lemma daemon_inv_clear_last:
  "daemon_inv EvdevTransport d \<Longrightarrow> daemon_inv EvdevTransport (clear_last_input_char d)"
  by (auto simp: daemon_inv_def clear_last_input_char_def composer_inv_def cp_method_def)

lemma daemon_inv_focus:
  "daemon_inv WaylandTransport d \<Longrightarrow> daemon_inv WaylandTransport (on_focus_changed vk now ctx a d)"
proof -
  have "composer_inv (c\<lparr>cp_commit_string_functional := False\<rparr>) = composer_inv c" for c :: "'a composer"
    by (simp add: composer_inv_def)
  then show "daemon_inv WaylandTransport d \<Longrightarrow> ?thesis"
    by (simp add: on_focus_changed_def Let_def clear_session_def daemon_inv_none)
      (simp add: daemon_inv_def session_composer_fresh)
qed

lemma same_session_evdev:
  "same_session d (snd (evdev_handle_char vk now c d))"
  "same_session d (snd (evdev_handle_backspace vk now d))"
proof -
  obtain b d1 where e: "sync_enabled_edge vk d = (b, d1)" by force
  note 1 = same_session_sync_enabledD [OF e]
  show "same_session d (snd (evdev_handle_char vk now c d))"
    using same_session_trans [OF 1 same_session_handle_char] 1 by (simp add: evdev_handle_char_def e)
  show "same_session d (snd (evdev_handle_backspace vk now d))"
    using same_session_trans [OF 1 same_session_handle_backspace] 1 by (simp add: evdev_handle_backspace_def e)
qed

lemma same_session_ibus:
  "same_session d (dm_observe_surrounding vk now t cu an d)"
  "same_session d (update_ibus_method m d)"
  "same_session d (dm_set_modifiers k d)"
  "same_session d (dm_full_reset vk d)"
  "same_session d (check_idle_reset_window vk now d)"
proof -
  have 1: "same_session d (d\<lparr>dm_router := (dm_router d)\<lparr>rt_modifiers := k\<rparr>\<rparr>)" by simp
  show "same_session d (dm_set_modifiers k d)"
    unfolding dm_set_modifiers_def Let_def by (rule same_session_trans [OF 1]) auto
qed (auto simp: dm_observe_surrounding_def update_ibus_method_def dm_full_reset_def
    check_idle_reset_window_def)

lemma daemon_inv_step:
  assumes "daemon_inv T d" "daemon_step vk snk T d d'"
  shows "daemon_inv T d'"
proof -
  note inv = daemon_inv_same_session
  note kept = inv [OF _ same_session_ibus(1)] inv [OF _ same_session_ibus(2)]
    inv [OF _ same_session_ibus(3)] inv [OF _ same_session_ibus(4)] inv [OF _ same_session_ibus(5)]
    inv [OF _ same_session_evdev(1)] inv [OF _ same_session_evdev(2)]
    inv [OF _ same_session_process_key] inv [OF _ same_session_apply_with_sink]
    inv [OF _ same_session_apply_pending] inv [OF _ same_session_key_pressed]
  show ?thesis using assms(2)
  proof cases
    case ds_done_frame
    with assms(1) daemon_inv_done_frame show ?thesis by metis
  next
    case ds_focus
    with assms(1) daemon_inv_focus show ?thesis by metis
  next
    case ds_clear_last
    with assms(1) daemon_inv_clear_last show ?thesis by metis
  next
    case ds_activate_ibus
    with assms(1) show ?thesis by (auto simp: activate_ibus_def daemon_inv_def session_composer_fresh)
  next
    case ds_activate_evdev
    then show ?thesis by (auto simp: activate_evdev_def daemon_inv_def session_composer_fresh)
  next
    case ds_deactivate_ibus
    then show ?thesis by (simp add: deactivate_ibus_def Let_def daemon_inv_none)
  next
    case ds_clear_session
    then show ?thesis by (simp add: clear_session_def daemon_inv_none)
  qed (use assms(1) in \<open>auto intro: kept\<close>)
qed

end
