(* ===== verification/IbusSession.thy ===== *)
theory IbusSession
  imports IbusAdapter DaemonLemmas "HOL-Library.Sublist"
begin

text \<open>
  An IBus session end to end: the engine of \<open>IbusAdapter\<close> beside the client it types into.
  \<open>ibus_typing\<close> interleaves key events, truthful surrounding frames, focus changes,
  capabilities, resets and configuration changes; the invariant is that the composer's shadow
  is always a suffix of the text in front of the client's cursor.
\<close>

section \<open>The shadow of a daemon\<close>

named_theorems shadow_intros \<open>operations that keep or drop the shadow\<close>

definition unselected :: "shadow_buffer \<Rightarrow> bool" where
  "unselected sh \<longleftrightarrow> sb_selected_before_chars sh = 0 \<and> sb_selected_after_bytes sh = 0 \<and>
     sb_selected_after_chars sh = 0"

definition quiet :: "'e composer \<Rightarrow> 'e composer \<Rightarrow> bool" where
  "quiet c c' \<longleftrightarrow> (shadow_text c' = shadow_text c \<or> shadow_text c' = []) \<and>
     (unselected (composer_shadow c) \<longrightarrow> unselected (composer_shadow c'))"

definition dshadow :: "'e daemon \<Rightarrow> ustr" where
  "dshadow d = (case dm_composer d of None \<Rightarrow> [] | Some w \<Rightarrow> shadow_text w)"

definition dunselected :: "'e daemon \<Rightarrow> bool" where
  "dunselected d \<longleftrightarrow> (\<forall>w. dm_composer d = Some w \<longrightarrow> unselected (composer_shadow w))"

definition dquiet :: "'e daemon \<Rightarrow> 'e daemon \<Rightarrow> bool" where
  "dquiet d d' \<longleftrightarrow> rel_option quiet (dm_composer d) (dm_composer d') \<and>
     dm_enabled d' = dm_enabled d \<and> rt_modifiers (dm_router d') = rt_modifiers (dm_router d)"

lemma quiet_refl [simp, intro]: "quiet c c"
  by (simp add: quiet_def)

lemma quiet_trans [trans]: "quiet a b \<Longrightarrow> quiet b c \<Longrightarrow> quiet a c"
  by (auto simp: quiet_def)

lemma quiet_edit: "cp_edit c' = cp_edit c \<Longrightarrow> quiet c c'"
  by (simp add: quiet_def shadow_text_def)

lemma quiet_reset: "cp_edit c' = em_reset_composition e \<or>
    cp_edit c' = em_clear_prev_surrounding (em_reset_composition e) \<Longrightarrow>
    quiet c c' \<and> shadow_text c' = []"
  by (auto simp: quiet_def shadow_text_def em_shadow_text_def unselected_def em_reset_composition_def
      reset_shadow_def shadow_clear_def em_clear_prev_surrounding_def)

lemma full_reset_quiet [simp, intro, shadow_intros]:
  "quiet c (full_reset vk c)" "shadow_text (full_reset vk c) = []"
  "quiet c (reset_and_defer vk now c)" "shadow_text (reset_and_defer vk now c) = []"
  "quiet c (cp_set_input_method vk im c)"
  using quiet_reset [where c = c and c' = "full_reset vk c" and e = "cp_edit c"]
    quiet_reset [where c = c and c' = "reset_and_defer vk now c" and e = "cp_edit c"]
    quiet_reset [where c = c and c' = "cp_set_input_method vk im c" and e = "cp_edit c"]
  by (simp_all add: full_reset_def reset_composition_preserving_surrounding_def reset_and_defer_def
      defer_action_def cp_set_input_method_def Let_def)

lemma quiet_set [simp, intro, shadow_intros]:
  "quiet c (mark_action now c)" "quiet c (defer_action now c)" "quiet c (cp_set_modern_style vk b c)"
  "quiet c (cp_set_modifiers m c)" "quiet c (cp_set_method bm c)"
  "quiet c (snd (note_surrounding_correction c))" "quiet c (mark_surrounding_frame_seen c)"
  "quiet c (snd (note_surrounding_liveness t cu c))"
  "quiet c (snd (should_skip_surrounding_frame t cu an ac de c))"
  by (simp_all add: quiet_def shadow_text_def em_shadow_text_def mark_action_def defer_action_def
      cp_set_modern_style_def cp_set_modifiers_def em_set_modifiers_def set_modifiers_def
      cp_set_method_def em_set_method_def strategy_set_method_def Let_def
      note_surrounding_correction_def mark_surrounding_frame_seen_def note_surrounding_liveness_def
      should_skip_surrounding_frame_def revalidate_live_confirmation_def split: prod.split)

lemma quiet_idle [simp, intro, shadow_intros]: "quiet c (snd (check_idle_reset vk now c))"
  by (auto simp: check_idle_reset_def intro: quiet_edit quiet_reset [THEN conjunct1])

lemma feed_key_shadow:
  "feed_key vk now ch c = (k, c') \<Longrightarrow>
     (k = ForwardRaw \<and> shadow_text c' = shadow_text c @ [ch]
        \<and> (unselected (composer_shadow c) \<longrightarrow> unselected (composer_shadow c'))
      \<or> (\<exists>m bs t. k = Apply m bs t) \<and> quiet c c')"
  unfolding feed_key_eq Let_def
  by (auto simp: shadow_text_def quiet_def unselected_def push_forwarded_char_def em_update_shadow_def
      em_shadow_text_def split: key_finish_plan.splits)

lemma feed_backspace_shadow:
  "feed_backspace vk now c = (k, c') \<Longrightarrow>
     (k = ForwardRaw \<and> shadow_text c' = butlast (shadow_text c)
        \<and> (unselected (composer_shadow c) \<longrightarrow> unselected (composer_shadow c'))
      \<or> (\<exists>m bs t. k = Apply m bs t) \<and> quiet c c')"
  unfolding feed_backspace_def Let_def
  by (auto simp: shadow_text_def quiet_def unselected_def pop_forwarded_char_def em_update_shadow_def
      em_shadow_text_def split: prod.splits if_splits)

section \<open>The daemon's handlers\<close>

lemma dquiet_refl [simp, intro]: "dquiet d d"
  by (simp add: dquiet_def option.rel_refl)

lemma dquiet_trans [trans]: "dquiet a b \<Longrightarrow> dquiet b c \<Longrightarrow> dquiet a c"
  unfolding dquiet_def
  by (cases "dm_composer a"; cases "dm_composer b"; cases "dm_composer c") (auto intro: quiet_trans)

lemma dquiet_on_composer [intro]: "(\<And>w. quiet w (f w)) \<Longrightarrow> dquiet d (on_composer f d)"
  by (cases "dm_composer d") (simp_all add: dquiet_def)

lemma dquietD:
  assumes "dquiet d d'"
  shows "dshadow d' = dshadow d \<or> dshadow d' = []" and "dunselected d \<Longrightarrow> dunselected d'"
    and "dm_enabled d' = dm_enabled d" and "rt_modifiers (dm_router d') = rt_modifiers (dm_router d)"
    and "dm_composer d' = None \<longleftrightarrow> dm_composer d = None"
  using assms unfolding dquiet_def dshadow_def dunselected_def
  by (cases "dm_composer d"; cases "dm_composer d'"; auto simp: quiet_def)+

lemma dquiet_update [simp]:
  "dquiet d (x\<lparr>dm_config := k\<rparr>) = dquiet d x"
  "dquiet d (x\<lparr>dm_last_config := l\<rparr>) = dquiet d x"
  "dquiet d (x\<lparr>dm_config_change_rx := r\<rparr>) = dquiet d x"
  "dquiet d (x\<lparr>dm_router := (dm_router x)\<lparr>rt_last_enabled := b\<rparr>\<rparr>) = dquiet d x"
  by (simp_all add: dquiet_def)

lemma dquiet_sync_enabled: "sync_enabled_edge vk d = (b, d') \<Longrightarrow> dquiet d d' \<and> b = dm_enabled d"
  by (auto simp: sync_enabled_edge_def Let_def intro!: dquiet_on_composer)

lemma dquiet_sync_config: "dquiet d (sync_config vk d)"
proof (cases "dm_config_change_rx d")
  case (Some change)
  define d0 where "d0 = d\<lparr>dm_config_change_rx := None\<rparr>"
  define d1 where "d1 = (if cc_method change \<noteq> cc_method (dm_last_config d0)
      then on_composer (cp_set_input_method vk (to_engine (cc_method change)))
             (d0\<lparr>dm_config := (dm_config d0)\<lparr>cf_method := cc_method change\<rparr>\<rparr>) else d0)"
  define d2 where "d2 = (if cc_modern_style change \<noteq> cc_modern_style (dm_last_config d1)
      then on_composer (cp_set_modern_style vk (cc_modern_style change))
             (d1\<lparr>dm_config := (dm_config d1)\<lparr>cf_modern_style := cc_modern_style change\<rparr>\<rparr>) else d1)"
  have "dquiet d d0" by (simp add: d0_def)
  also have "dquiet d0 d1"
    by (cases "dm_composer d0") (simp_all add: d1_def dquiet_def quiet_def [symmetric])
  also have "dquiet d1 d2"
    by (cases "dm_composer d1") (simp_all add: d2_def dquiet_def)
  finally have "dquiet d d2" .
  moreover have "sync_config vk d = (if no_change_from change (dm_last_config d0) then d0
      else d2\<lparr>dm_last_config := change\<rparr>)"
    unfolding sync_config_def Some option.case Let_def d0_def [symmetric]
    unfolding d1_def [symmetric] unfolding d2_def [symmetric] ..
  ultimately show ?thesis by (simp add: d0_def)
qed (simp add: sync_config_def)

lemma dshadow_on_composer_reset [simp]:
  "dshadow (on_composer (full_reset vk) d) = []"
  "dshadow (on_composer (reset_and_defer vk now) d) = []"
  by (simp_all add: dshadow_def split: option.split)

text \<open>What a key does to the shadow, by the decision the daemon takes.\<close>

definition key_effect :: "u32 \<Rightarrow> uchar option \<Rightarrow> key_decision \<Rightarrow> 'e daemon \<Rightarrow> 'e daemon \<Rightarrow> bool" where
  "key_effect key ch k d d' \<longleftrightarrow>
     dm_enabled d' = dm_enabled d \<and> (dunselected d \<longrightarrow> dunselected d') \<and>
     (case k of
        Apply m bs t \<Rightarrow> (dshadow d' = dshadow d \<or> dshadow d' = []) \<and> dm_composer d' \<noteq> None
      | ForwardRaw \<Rightarrow>
          dshadow d' = []
          \<or> key = KEY_ESC \<and> dshadow d' = dshadow d
          \<or> key = KEY_BACKSPACE \<and> dshadow d' = butlast (dshadow d)
          \<or> (\<exists>c. key \<noteq> KEY_ESC \<and> key \<noteq> KEY_BACKSPACE \<and> ch = Some c \<and>
                (dshadow d' = dshadow d @ [c] \<or> dshadow d' = [c]))
      | Consumed \<Rightarrow> False)"

lemma handle_char_effect:
  assumes "handle_char vk now c d = (k, d')" "key \<noteq> KEY_ESC" "key \<noteq> KEY_BACKSPACE"
  shows "key_effect key (Some c) k d d'"
proof -
  note q = dquietD [OF dquiet_sync_config [where vk = vk and d = d]]
  show ?thesis
  proof (cases "dm_composer (sync_config vk d)")
    case None
    with assms q(2,3) show ?thesis
      by (auto simp: handle_char_def Let_def key_effect_def dshadow_def)
  next
    case (Some w)
    obtain w' where w: "feed_key vk now c w = (k, w')" and d': "d' = on_composer (\<lambda>_. w') (sync_config vk d)"
      using assms(1) Some by (auto simp: handle_char_def Let_def split: prod.splits)
    have "dshadow (sync_config vk d) = shadow_text w" "dshadow d' = shadow_text w'"
      "dunselected (sync_config vk d) = unselected (composer_shadow w)"
      "dunselected d' = unselected (composer_shadow w')" "dm_enabled d' = dm_enabled d"
      "dm_composer d' \<noteq> None"
      using Some q(3) by (simp_all add: d' dshadow_def dunselected_def)
    with feed_key_shadow [OF w] q(1,2) assms(2,3) show ?thesis
      by (auto simp: key_effect_def quiet_def)
  qed
qed

lemma handle_backspace_effect:
  assumes "handle_backspace vk now d = (k, d')"
  shows "key_effect KEY_BACKSPACE ch k d d'"
proof -
  note q = dquietD [OF dquiet_sync_config [where vk = vk and d = d]]
  show ?thesis
  proof (cases "dm_composer (sync_config vk d)")
    case None
    with assms q(2,3) show ?thesis
      by (auto simp: handle_backspace_def Let_def key_effect_def dshadow_def)
  next
    case (Some w)
    obtain w' where w: "feed_backspace vk now w = (k, w')" and d': "d' = on_composer (\<lambda>_. w') (sync_config vk d)"
      using assms(1) Some by (auto simp: handle_backspace_def Let_def split: prod.splits)
    have "dshadow (sync_config vk d) = shadow_text w" "dshadow d' = shadow_text w'"
      "dunselected (sync_config vk d) = unselected (composer_shadow w)"
      "dunselected d' = unselected (composer_shadow w')" "dm_enabled d' = dm_enabled d"
      "dm_composer d' \<noteq> None"
      using Some q(3) by (simp_all add: d' dshadow_def dunselected_def)
    with feed_backspace_shadow [OF w] q(1,2) show ?thesis
      by (auto simp: key_effect_def quiet_def)
  qed
qed

lemma key_effect_quiet:
  assumes "dquiet d e" "key_effect key ch k e d'"
  shows "key_effect key ch k d d'"
  using dquietD [OF assms(1)] assms(2) unfolding key_effect_def
  by (auto split: key_decision.splits)

lemma process_key_effect:
  assumes "dm_enabled d" "dm_process_key vk now key ch d = (k, d')"
  shows "key_effect key ch k d d'"
proof -
  define d1 where "d1 = sync_config vk d"
  define d2 where "d2 = on_composer (\<lambda>w. snd (check_idle_reset vk now w)) d1"
  obtain en d3 where en: "sync_enabled_edge vk d2 = (en, d3)" by (cases "sync_enabled_edge vk d2")
  have "dquiet d d1" by (simp add: d1_def dquiet_sync_config)
  also have "dquiet d1 d2" unfolding d2_def by (rule dquiet_on_composer) simp
  also have "dquiet d2 d3" using dquiet_sync_enabled [OF en] by simp
  finally have q: "dquiet d d3" .
  have on: "en" using dquiet_sync_enabled [OF en] dquietD(3) [OF \<open>dquiet d1 d2\<close>]
      dquietD(3) [OF \<open>dquiet d d1\<close>] assms(1) by simp
  have reset: "key_effect key ch ForwardRaw d3 (on_composer (full_reset vk) d3)"
    "key_effect key ch ForwardRaw d3 (on_composer (reset_and_defer vk now) d3)"
    using dquietD [OF dquiet_on_composer [where d = d3 and f = "full_reset vk"]]
      dquietD [OF dquiet_on_composer [where d = d3 and f = "reset_and_defer vk now"]]
    by (auto simp: key_effect_def)
  have "key_effect key ch k d3 d'"
  proof -
    define d4 where "d4 = on_composer (mark_action now) d3"
    have q4: "dquiet d3 d4" unfolding d4_def by (rule dquiet_on_composer) simp
    note eq = assms(2) [unfolded dm_process_key_def Let_def, folded d1_def, folded d2_def,
        unfolded en prod.case, folded d4_def]
    have none: "ch = None \<Longrightarrow> key_effect key ch ForwardRaw d3 (on_composer (reset_and_defer vk now) d4)"
      using dquietD [OF dquiet_trans [OF q4 dquiet_on_composer [where f = "reset_and_defer vk now"]]]
      by (auto simp: key_effect_def)
    have esc: "key = KEY_ESC \<Longrightarrow> key_effect key ch ForwardRaw d3 (on_composer (defer_action now) d3)"
      using dquietD [OF dquiet_on_composer [where d = d3 and f = "defer_action now"]]
      by (auto simp: key_effect_def)
    have gone: "dm_composer d3 = None \<Longrightarrow> key_effect key ch ForwardRaw d3 d3"
      by (simp add: key_effect_def dshadow_def)
    show ?thesis
      using eq on reset none esc gone handle_backspace_effect [where d = d3]
        key_effect_quiet [OF q4 handle_char_effect [where d = d4]]
      by (auto split: if_splits option.splits)
  qed
  with q show ?thesis by (rule key_effect_quiet)
qed


section \<open>The session\<close>

text \<open>What the client does with a key the engine leaves to it. Shortcuts, navigation and keys
  without a character may do anything that leaves nothing selected.\<close>

definition client_key :: "u32 \<Rightarrow> u32 \<Rightarrow> u32 \<Rightarrow> client \<Rightarrow> client \<Rightarrow> bool" where
  "client_key keyval keycode state k k' \<longleftrightarrow>
     (let key = keyval_to_evdev keyval keycode in
      if state AND IBUS_RELEASE_MASK \<noteq> 0 then k' = k
      else if mods_intersects (ibus_state_to_modifiers state) shortcut_mods \<or> key \<in> set NAV_KEYS
      then cl_sel k' = []
      else if key = KEY_BACKSPACE then k' = client_backspace k
      else if key = KEY_ESC then k' = k
      else (case keyval_to_char keyval of
              Some c \<Rightarrow> k' = client_insert [c] k | None \<Rightarrow> cl_sel k' = []))"

text \<open>The edit an engine asks for fits in what the composer knows of the text.\<close>

definition edit_fits :: "'e vnkey \<Rightarrow> time \<Rightarrow> u32 \<Rightarrow> u32 \<Rightarrow> u32 \<Rightarrow> 'e ibus_engine \<Rightarrow> bool" where
  "edit_fits vk now keyval keycode state en \<longleftrightarrow>
     (case dm_process_key vk now (keyval_to_evdev keyval keycode) (keyval_to_char keyval)
             (dm_set_modifiers (ibus_state_to_modifiers state) (ib_daemon en)) of
        (Apply m bs commit, d) \<Rightarrow> bs \<le> length (dshadow d)
      | _ \<Rightarrow> True)"

inductive ibus_typing ::
    "'e vnkey \<Rightarrow> 'e ibus_engine \<times> client \<Rightarrow> 'e ibus_engine \<times> client \<Rightarrow> bool" for vk :: "'e vnkey" where
  it_handled: "process_key_event vk now keyval keycode state en = (True, sigs, en') \<Longrightarrow>
      edit_fits vk now keyval keycode state en \<Longrightarrow> blen (cl_before k) < 2 ^ 31 \<Longrightarrow>
      ibus_typing vk (en, k) (en', replay sigs k)"
| it_left: "process_key_event vk now keyval keycode state en = (False, sigs, en') \<Longrightarrow>
      client_key keyval keycode state k k' \<Longrightarrow> ibus_typing vk (en, k) (en', k')"
| it_frame: "blen (cl_before k @ cl_after k) < 2 ^ 32 \<Longrightarrow> n = of_nat (length (cl_before k)) \<Longrightarrow>
      ibus_typing vk (en, k)
        (set_surrounding_text vk now (ibus_text (cl_before k @ cl_after k)) n n en, k)"
| it_caps: "ibus_typing vk (en, k) (set_capabilities caps en, k)"
| it_focus_in: "ibus_typing vk (en, k) (snd (do_focus_in vk now app_id en), k)"
| it_focus_out: "cl_sel k' = [] \<Longrightarrow> ibus_typing vk (en, k) (do_focus_out vk en, k')"
| it_disable: "cl_sel k' = [] \<Longrightarrow> ibus_typing vk (en, k) (ibus_disable vk en, k')"
| it_reset: "cl_sel k' = [] \<Longrightarrow> ibus_typing vk (en, k) (ibus_reset vk en, k')"
| it_config: "ibus_typing vk (en, k)
      (en\<lparr>ib_daemon := (ib_daemon en)\<lparr>dm_config_change_rx := Some change\<rparr>\<rparr>, k)"
| it_suspend: "ibus_typing vk (en, k) (en\<lparr>ib_daemon := (ib_daemon en)\<lparr>dm_suspended := b\<rparr>\<rparr>, k)"

inductive_cases ibus_typingE: "ibus_typing vk (en, k) p"

definition session_inv :: "'e ibus_engine \<times> client \<Rightarrow> bool" where
  "session_inv p \<longleftrightarrow> (case p of (en, k) \<Rightarrow>
     dm_enabled (ib_daemon en) \<and> daemon_inv IbusTransport (ib_daemon en) \<and>
     dunselected (ib_daemon en) \<and> suffix (dshadow (ib_daemon en)) (cl_before k) \<and> cl_sel k = [])"


lemma process_key_gated:
  assumes "dm_enabled d" "mods_intersects (rt_modifiers (dm_router d)) shortcut_mods \<or> key \<in> set NAV_KEYS"
    and "dm_process_key vk now key ch d = (k, d')"
  shows "k = ForwardRaw \<and> dshadow d' = []"
proof -
  define d1 where "d1 = sync_config vk d"
  define d2 where "d2 = on_composer (\<lambda>w. snd (check_idle_reset vk now w)) d1"
  obtain en d3 where en: "sync_enabled_edge vk d2 = (en, d3)" by (cases "sync_enabled_edge vk d2")
  have "dquiet d d1" by (simp add: d1_def dquiet_sync_config)
  also have "dquiet d1 d2" unfolding d2_def by (rule dquiet_on_composer) simp
  also have "dquiet d2 d3" using dquiet_sync_enabled [OF en] by simp
  finally have q: "dquiet d d3" .
  have on: "en" using dquiet_sync_enabled [OF en] dquietD(3) [OF \<open>dquiet d1 d2\<close>]
      dquietD(3) [OF \<open>dquiet d d1\<close>] assms(1) by simp
  note eq = assms(3) [unfolded dm_process_key_def Let_def, folded d1_def, folded d2_def,
      unfolded en prod.case]
  show ?thesis
    using eq on dquietD(4) [OF q] assms(2) by (auto split: if_splits)
qed

lemma set_modifiers_shadow [simp]:
  "dshadow (dm_set_modifiers m d) = dshadow d"
  "dunselected (dm_set_modifiers m d) = dunselected d"
  "dm_enabled (dm_set_modifiers m d) = dm_enabled d"
  "rt_modifiers (dm_router (dm_set_modifiers m d)) = m"
  by (auto simp: dshadow_def dunselected_def dm_set_modifiers_def Let_def cp_set_modifiers_def
      em_set_modifiers_def set_modifiers_def shadow_text_def em_shadow_text_def split: option.splits)

lemma strategy_apply_unselected:
  "unselected (st_shadow st) \<Longrightarrow>
     unselected (st_shadow (fst (strategy_apply snk bs t serial time du (st, s))))"
  by (simp add: strategy_apply_shadow unselected_def pop_delete_span_eq Let_def
      split: backspace_method.splits)

lemma composer_apply_unselected:
  assumes "unselected (composer_shadow c)"
  shows "unselected (composer_shadow (fst (composer_apply vk snk bs t time (c, s))))"
  using strategy_apply_unselected [OF assms, of snk bs t 0 time Bytes s]
  by (auto simp: composer_apply_def em_apply_def split: prod.splits)

lemma ibus_edit_suffix:
  assumes "apply_with_sink vk ibus_output bs commit 0 (d, ibus_sink_new) = (d', sink)"
    and "dunselected d" "suffix (dshadow d) (cl_before k)" "cl_sel k = []" "blen (cl_before k) < 2 ^ 31"
    and "bs \<le> length (dshadow d)"
  shows "suffix (dshadow d') (cl_before (replay (flush_sink sink) k)) \<and> dunselected d' \<and>
    (dm_composer d \<noteq> None \<longrightarrow>
       cl_before (replay (flush_sink sink) k) = pop_n bs (cl_before k) @ commit)"
proof (cases "dm_composer d")
  case None
  with assms(1) show ?thesis by (auto simp: apply_with_sink_def dshadow_def dunselected_def)
next
  case (Some w)
  obtain downgrade w1 where w1: "(if 0 < bs \<and> cp_method w = SurroundingText
      then note_surrounding_correction w else (False, w)) = (downgrade, w1)"
    by (meson surj_pair)
  define w2 where "w2 = (if downgrade then cp_set_method ForwardKey w1 else w1)"
  have "quiet w w1" "shadow_text w1 = shadow_text w"
    using arg_cong [OF w1, of snd]
    by (auto simp: note_surrounding_correction_def shadow_text_def split: prod.splits if_splits
        intro: quiet_edit)
  moreover have "quiet w1 w2" "shadow_text w2 = shadow_text w1"
    by (auto simp: w2_def cp_set_method_def shadow_text_def Let_def em_shadow_text_def em_set_method_def
        strategy_set_method_def quiet_def)
  ultimately have q: "shadow_text w2 = shadow_text w" "unselected (composer_shadow w2)"
    using assms(2) Some by (auto simp: quiet_def dunselected_def)
  obtain w3 s3 where w3: "composer_apply vk ibus_output bs commit 0 (w2, ibus_sink_new) = (w3, s3)"
    by (meson surj_pair)
  have d': "d' = on_composer (\<lambda>_. w3) d" "sink = s3"
    using assms(1) Some w1 w3 by (auto simp: apply_with_sink_def Let_def w2_def split: prod.splits)
  obtain pre where pre: "cl_before k = pre @ shadow_text w2"
    using assms(3) Some q by (auto simp: suffix_def dshadow_def)
  have "blen (shadow_text w2) < 2 ^ 31" using assms(5) by (simp add: pre)
  then have "shadow_mirrors pre (composer_shadow w2) (ibus_doc k ibus_sink_new) (ibus_sel k ibus_sink_new)"
    using pre q(2) assms(4)
    by (simp add: shadow_mirrors_def ibus_doc_def ibus_sel_def ibus_sink_new_def flush_sink_def
        unselected_def shadow_text_def em_shadow_text_def)
  from ibus.composer_apply_mirrors [OF _ _ this, of bs vk commit 0, unfolded w3 fst_conv snd_conv]
  have "ibus_doc k s3 = pre @ shadow_text w3"
    using assms(4,6) q(1) Some
    by (simp add: ibus_can_delete_def ibus_can_key_def ibus_sink_new_def dshadow_def ibus_sel_def flush_sink_def)
  moreover have "unselected (composer_shadow w3)"
    using composer_apply_unselected [OF q(2), of vk ibus_output bs commit 0 ibus_sink_new] w3 by simp
  moreover have "shadow_text w3 = pop_n bs (shadow_text w2) @ commit"
  proof -
    have "bs < 2 ^ 31"
      using assms(6) Some q(1) \<open>blen (shadow_text w2) < 2 ^ 31\<close> length_le_blen [of "shadow_text w2"]
      by (simp add: dshadow_def)
    then have "saturating_add bs 0 = bs" by simp
    moreover have "shadow_text w3 =
        em_shadow_text (fst (em_apply ibus_output bs commit 0 0 Bytes (cp_edit w2, ibus_sink_new)))"
      using arg_cong [OF w3, of fst]
      by (auto simp: composer_apply_def shadow_text_def split: prod.splits)
    ultimately show ?thesis
      using q(2) by (simp add: em_apply_shadow unselected_def shadow_text_def split: backspace_method.split)
  qed
  moreover have "pop_n bs (cl_before k) = pre @ pop_n bs (shadow_text w2)"
    using assms(6) Some q(1) by (simp add: pre pop_n_append dshadow_def)
  ultimately show ?thesis
    using Some d' by (simp add: dshadow_def dunselected_def ibus_doc_def suffix_def)
qed


lemma observed_unselected:
  "unselected (st_shadow (em_strategy (em_on_surrounding_text t cu cu em)))"
  by (simp add: em_on_surrounding_text_def on_surrounding_text_def observe_surrounding_def Let_def
      unselected_def)

lemma trusted_edit:
  "cp_edit (apply_trusted_frame vk t cu an sc d r c) =
     record_surrounding t cu an (em_on_surrounding_text t cu an (cp_edit c))"
  by (simp add: apply_trusted_frame_def Let_def frame_derived_or_live_def split: option.split)

lemma apply_surrounding_unselected:
  assumes "\<not> is_pending_raw (cp_confirmation c)" "unselected (composer_shadow c)"
  shows "unselected (composer_shadow (snd (apply_surrounding vk now t cu cu fr c)))"
proof -
  have "\<not> shows_pending cu cu (text_before_cursor t cu) c"
    using assms(1) by (auto simp: shows_pending_def is_pending_raw_def split: confirmation_state.splits)
  then show ?thesis
    using assms(2) observed_unselected
    by (simp add: apply_surrounding_cases(2) classify_frame_def Let_def trusted_edit record_surrounding_def)
qed

lemma client_sel_step: "cl_sel k = [] \<Longrightarrow> cl_sel (client_step sig k) = []"
  by (cases sig) (simp_all add: client_delete_def client_backspace_def client_insert_def Let_def
      split: option.split)

lemma client_sel_replay: "cl_sel k = [] \<Longrightarrow> cl_sel (replay sigs k) = []"
  by (induction sigs arbitrary: k) (simp_all add: replay_def client_sel_step)

text \<open>A truthful frame: either it changes nothing or the shadow becomes the text it shows.\<close>

lemma observe_suffix:
  assumes "composer_inv w" "\<not> cp_confirm_retroactive_edits w" "unselected (composer_shadow w)"
    and "suffix (shadow_text w) b" "blen (b @ a) < 2 ^ 32" "n = of_nat (length b)"
  shows "suffix (shadow_text (ibus_observe_composer vk now (b @ a) n n w)) b \<and>
    unselected (composer_shadow (ibus_observe_composer vk now (b @ a) n n w))"
proof -
  define w1 where "w1 = mark_surrounding_frame_seen w"
  obtain dead w2 where w2: "(if cp_method w1 = SurroundingText
      then note_surrounding_liveness (b @ a) n w1 else (False, w1)) = (dead, w2)" by (meson surj_pair)
  define w3 where "w3 = (if dead then (cp_set_method ForwardKey w2)\<lparr>cp_commit_string_functional := False\<rparr> else w2)"
  obtain skip w4 where w4: "should_skip_surrounding_frame (b @ a) n n False False w3 = (skip, w4)"
    by (meson surj_pair)
  have "cp_edit w2 = cp_edit w"
    using arg_cong [OF w2, of snd]
    by (auto simp: w1_def mark_surrounding_frame_seen_def note_surrounding_liveness_def Let_def
        split: if_splits)
  then have w3: "composer_shadow w3 = composer_shadow w"
    by (auto simp: w3_def cp_set_method_def Let_def em_set_method_def strategy_set_method_def)
  have w4e: "cp_edit w4 = cp_edit w3"
    using arg_cong [OF w4, of snd]
    by (auto simp: should_skip_surrounding_frame_def revalidate_live_confirmation_def Let_def)
  have s4: "shadow_text w4 = shadow_text w" "unselected (composer_shadow w4)"
    using w3 w4e assms(3) by (simp_all add: shadow_text_def em_shadow_text_def)
  have "n = of_nat (length b)" by (rule assms(6))
  have "length b < 2 ^ 32" using assms(5) length_le_blen [of b] by simp
  then have un: "unat n = length b" using assms(6) by (simp add: unat_of_nat_u32)
  define cu where "cu = char_to_byte_offset (b @ a) n"
  have cu: "unat cu = blen b" using char_to_byte_offset_eq [OF assms(5), of n] un by (simp add: cu_def)
  have eq: "ibus_observe_composer vk now (b @ a) n n w =
      (if skip then w4 else snd (apply_surrounding vk now (b @ a) cu cu False w4))"
    unfolding ibus_observe_composer_def Let_def w1_def [symmetric] w2 prod.case
    unfolding w3_def [symmetric] w4 prod.case observe_surrounding_chars_def cu_def [symmetric] ..
  show ?thesis
  proof (cases skip)
    case True
    then show ?thesis using s4 assms(4) by (simp add: eq)
  next
    case False
    show ?thesis
    proof (cases "drops_frame now (b @ a) cu cu False w4")
      case True
      with apply_surrounding_dropped(2) [OF True] s4 assms(4) False show ?thesis
        by (simp add: eq frame_untouched_def shadow_text_def)
    next
      case taken: False
      have "\<not> is_pending_raw (cp_confirmation w)"
        using assms(1,2) by (auto simp: is_pending_raw_iff dest: composer_invD(4))
      moreover have "is_pending_raw (cp_confirmation w4) \<Longrightarrow> is_pending_raw (cp_confirmation w)"
      proof -
        have "is_pending_raw (cp_confirmation w4) = is_pending_raw (cp_confirmation w3)"
          using arg_cong [OF w4, of snd] by (auto simp: should_skip_surrounding_frame_def Let_def)
        moreover have "cp_confirmation w2 = cp_confirmation w"
          using arg_cong [OF w2, of snd]
          by (auto simp: w1_def mark_surrounding_frame_seen_def note_surrounding_liveness_def Let_def
              split: if_splits)
        ultimately show "is_pending_raw (cp_confirmation w4) \<Longrightarrow> is_pending_raw (cp_confirmation w)"
          by (auto simp: w3_def cp_set_method_def Let_def is_pending_raw_def split: if_splits)
      qed
      ultimately have "unselected (composer_shadow (snd (apply_surrounding vk now (b @ a) cu cu False w4)))"
        using apply_surrounding_unselected s4(2) by blast
      moreover have "shadow_text (snd (apply_surrounding vk now (b @ a) cu cu False w4)) = b"
        using apply_surrounding_taken [OF taken, of vk] cu by (simp add: frame_synced_def)
      ultimately show ?thesis using False by (simp add: eq)
    qed
  qed
qed


lemma observe_session:
  assumes "daemon_inv IbusTransport d" "dunselected d" "suffix (dshadow d) b" "blen (b @ a) < 2 ^ 32"
    and "n = of_nat (length b)"
  shows "suffix (dshadow (dm_observe_surrounding vk now (b @ a) n n d)) b \<and>
    dunselected (dm_observe_surrounding vk now (b @ a) n n d)"
proof (cases "dm_composer d")
  case None
  then show ?thesis by (simp add: dm_observe_surrounding_def dshadow_def dunselected_def)
next
  case (Some w)
  have "composer_inv w" "\<not> cp_confirm_retroactive_edits w"
    using assms(1) Some by (auto simp: daemon_inv_def)
  from observe_suffix [OF this _ _ assms(4,5), of vk now] Some assms(2,3) show ?thesis
    by (simp add: dm_observe_surrounding_def dshadow_def dunselected_def)
qed

lemma set_method_shadow:
  "composer_shadow (cp_set_method m c) = composer_shadow c"
  by (simp add: cp_set_method_def Let_def em_set_method_def strategy_set_method_def)

lemma update_method_composer:
  "dm_composer (update_ibus_method m d) =
     map_option (\<lambda>w. if cp_method w \<noteq> m then cp_set_method m w else w) (dm_composer d)"
  by (simp add: update_ibus_method_def)

lemma update_method_shadow [simp]:
  "dshadow (update_ibus_method m d) = dshadow d"
  "dunselected (update_ibus_method m d) = dunselected d"
  "dm_enabled (update_ibus_method m d) = dm_enabled d"
proof -
  show "dshadow (update_ibus_method m d) = dshadow d"
    by (cases "dm_composer d")
      (simp_all add: dshadow_def update_method_composer shadow_text_def em_shadow_text_def set_method_shadow)
  show "dunselected (update_ibus_method m d) = dunselected d"
    by (cases "dm_composer d") (simp_all add: dunselected_def update_method_composer set_method_shadow)
  show "dm_enabled (update_ibus_method m d) = dm_enabled d"
    by (simp add: update_ibus_method_def)
qed

lemma dm_enabled_observe [simp]: "dm_enabled (dm_observe_surrounding vk now t cu an d) = dm_enabled d"
  by (simp add: dm_observe_surrounding_def)

lemma dm_full_reset_shadow [simp]:
  "dshadow (dm_full_reset vk d) = []" "dm_enabled (dm_full_reset vk d) = dm_enabled d"
  by (simp_all add: dm_full_reset_def)

lemma deactivate_shadow [simp]:
  "dshadow (deactivate_ibus vk d) = []" "dunselected (deactivate_ibus vk d)"
  "dm_enabled (deactivate_ibus vk d) = dm_enabled d"
  by (simp_all add: deactivate_ibus_def Let_def dshadow_def dunselected_def)

lemma activate_enabled [simp]: "dm_enabled (activate_ibus vk now m d) = dm_enabled d"
  by (simp add: activate_ibus_def)

lemma flag_shadow [simp]:
  "dshadow (d\<lparr>dm_config_change_rx := r\<rparr>) = dshadow d"
  "dunselected (d\<lparr>dm_config_change_rx := r\<rparr>) = dunselected d"
  "dshadow (d\<lparr>dm_suspended := b\<rparr>) = dshadow d"
  "dunselected (d\<lparr>dm_suspended := b\<rparr>) = dunselected d"
  by (simp_all add: dshadow_def dunselected_def)

lemma dunselected_full_reset: "dunselected d \<Longrightarrow> dunselected (dm_full_reset vk d)"
  unfolding dm_full_reset_def by (rule dquietD(2) [OF dquiet_on_composer]) auto

lemma activate_session:
  "dunselected d \<Longrightarrow> dunselected (activate_ibus vk now m d)"
  "suffix (dshadow d) b \<Longrightarrow> suffix (dshadow (activate_ibus vk now m d)) b"
  by (simp_all add: activate_ibus_def dunselected_def dshadow_def session_composer_def composer_new_def
      cp_set_modern_style_def cp_set_modifiers_def em_set_modifiers_def set_modifiers_def
      edit_model_new_def strategy_new_def shadow_new_def unselected_def shadow_text_def
      em_shadow_text_def)

lemmas ibus_daemon_steps =
  daemon_inv_step [OF _ ds_process_key] daemon_inv_step [OF _ ds_apply_with_sink]
  daemon_inv_step [OF _ ds_observe] daemon_inv_step [OF _ ds_activate_ibus]
  daemon_inv_step [OF _ ds_deactivate_ibus] daemon_inv_step [OF _ ds_update_method]
  daemon_inv_step [OF _ ds_full_reset [of IbusTransport]] daemon_inv_step [OF _ ds_modifiers]

lemma suffix_insert: "suffix s b \<Longrightarrow> suffix (s @ [c]) (b @ [c])" "suffix [c] (b @ [c])"
  by (auto simp: suffix_def)

lemma suffix_butlast: "suffix s b \<Longrightarrow> suffix (butlast s) (butlast b)"
  by (cases "s = []") (auto simp: suffix_def butlast_append)

text \<open>One key, handled or left to the client.\<close>

lemma key_handled_session:
  assumes inv: "session_inv (en, k)"
    and key: "process_key_event vk now keyval keycode state en = (True, sigs, en')"
    and fits: "edit_fits vk now keyval keycode state en" and small: "blen (cl_before k) < 2 ^ 31"
  shows "session_inv (en', replay sigs k)"
    and "\<exists>m bs commit. fst (dm_process_key vk now (keyval_to_evdev keyval keycode)
        (keyval_to_char keyval) (dm_set_modifiers (ibus_state_to_modifiers state) (ib_daemon en)))
        = Apply m bs commit \<and>
      cl_before (replay sigs k) = pop_n bs (cl_before k) @ commit"
proof -
  define d1 where "d1 = dm_set_modifiers (ibus_state_to_modifiers state) (ib_daemon en)"
  obtain decision d2 where pk: "dm_process_key vk now (keyval_to_evdev keyval keycode)
      (keyval_to_char keyval) d1 = (decision, d2)" by (meson surj_pair)
  have d1: "dm_enabled d1" "daemon_inv IbusTransport d1" "dunselected d1" "suffix (dshadow d1) (cl_before k)"
    using inv by (auto simp: session_inv_def d1_def intro: ibus_daemon_steps)
  have eff: "key_effect (keyval_to_evdev keyval keycode) (keyval_to_char keyval) decision d1 d2"
    by (rule process_key_effect [OF d1(1) pk])
  have d2: "daemon_inv IbusTransport d2"
    using ibus_daemon_steps(1) [OF d1(2)] pk by (metis snd_conv)
  obtain m bs commit where dec: "decision = Apply m bs commit"
    using key eff pk by (cases decision)
      (auto simp: process_key_event_def Let_def d1_def key_effect_def split: if_splits)
  obtain d3 sink where sink: "apply_with_sink vk ibus_output bs commit 0 (d2, ibus_sink_new) = (d3, sink)"
    by (meson surj_pair)
  have out: "en' = en\<lparr>ib_daemon := d3\<rparr>" "sigs = flush_sink sink"
    using key pk dec sink by (auto simp: process_key_event_def Let_def d1_def split: if_splits)
  have sd: "suffix (dshadow d2) (cl_before k)" "dunselected d2" "dm_enabled d2"
    using eff d1 by (auto simp: key_effect_def dec)
  have n: "bs \<le> length (dshadow d2)" using fits pk dec by (simp add: edit_fits_def d1_def)
  have sel: "cl_sel k = []" using inv by (simp add: session_inv_def)
  note r = ibus_edit_suffix [OF sink sd(2,1) sel small n]
  have "daemon_inv IbusTransport d3" using ibus_daemon_steps(2) [OF d2] sink by (metis fst_conv)
  moreover have "dm_enabled d3"
    using sink sd(3) by (auto simp: apply_with_sink_def Let_def split: option.splits prod.splits)
  ultimately show "session_inv (en', replay sigs k)"
    using r client_sel_replay [OF sel] by (simp add: session_inv_def out)
  have "dm_composer d2 \<noteq> None" using eff by (simp add: key_effect_def dec)
  with r show "\<exists>m bs commit. fst (dm_process_key vk now (keyval_to_evdev keyval keycode)
        (keyval_to_char keyval) (dm_set_modifiers (ibus_state_to_modifiers state) (ib_daemon en)))
        = Apply m bs commit \<and>
      cl_before (replay sigs k) = pop_n bs (cl_before k) @ commit"
    using pk dec by (auto simp: out d1_def)
qed

lemma key_left_session:
  assumes inv: "session_inv (en, k)"
    and key: "process_key_event vk now keyval keycode state en = (False, sigs, en')"
    and client: "client_key keyval keycode state k k'"
  shows "session_inv (en', k')"
proof (cases "state AND IBUS_RELEASE_MASK \<noteq> 0")
  case True
  with assms show ?thesis by (auto simp: process_key_event_def client_key_def Let_def)
next
  case False
  define key' where "key' = keyval_to_evdev keyval keycode"
  define d1 where "d1 = dm_set_modifiers (ibus_state_to_modifiers state) (ib_daemon en)"
  obtain decision d2 where pk: "dm_process_key vk now key' (keyval_to_char keyval) d1 = (decision, d2)"
    by (meson surj_pair)
  have d1: "dm_enabled d1" "daemon_inv IbusTransport d1" "dunselected d1" "suffix (dshadow d1) (cl_before k)"
    and sel: "cl_sel k = []"
    using inv by (auto simp: session_inv_def d1_def intro: ibus_daemon_steps)
  have eff: "key_effect key' (keyval_to_char keyval) decision d1 d2"
    by (rule process_key_effect [OF d1(1) pk])
  have d2: "daemon_inv IbusTransport d2"
    using ibus_daemon_steps(1) [OF d1(2)] pk by (metis snd_conv)
  have dec: "decision = ForwardRaw"
    using key eff pk False by (cases decision)
      (auto simp: process_key_event_def Let_def d1_def key'_def key_effect_def split: prod.splits)
  have out: "en' = en\<lparr>ib_daemon := d2\<rparr>"
    using key pk dec False by (simp add: process_key_event_def Let_def d1_def key'_def)
  have "suffix (dshadow d2) (cl_before k') \<and> cl_sel k' = []"
  proof (cases "mods_intersects (ibus_state_to_modifiers state) shortcut_mods \<or> key' \<in> set NAV_KEYS")
    case gated: True
    with process_key_gated [OF d1(1) _ pk] client False show ?thesis
      by (auto simp: d1_def client_key_def Let_def key'_def [symmetric])
  next
    case open': False
    have c: "(if key' = KEY_BACKSPACE then k' = client_backspace k
        else if key' = KEY_ESC then k' = k
        else (case keyval_to_char keyval of
                Some c \<Rightarrow> k' = client_insert [c] k | None \<Rightarrow> cl_sel k' = []))"
      using client open' False unfolding client_key_def Let_def key'_def [symmetric] by simp
    have e: "dshadow d2 = [] \<or> key' = KEY_ESC \<and> dshadow d2 = dshadow d1
        \<or> key' = KEY_BACKSPACE \<and> dshadow d2 = butlast (dshadow d1)
        \<or> (\<exists>c. key' \<noteq> KEY_ESC \<and> key' \<noteq> KEY_BACKSPACE \<and> keyval_to_char keyval = Some c \<and>
              (dshadow d2 = dshadow d1 @ [c] \<or> dshadow d2 = [c]))"
      using eff by (simp add: key_effect_def dec)
    have neq: "KEY_ESC \<noteq> KEY_BACKSPACE" by (simp add: KEY_ESC_def KEY_BACKSPACE_def)
    have "cl_sel k' = []"
      using c sel by (auto simp: client_backspace_def client_insert_def split: if_splits option.splits)
    moreover have "suffix (dshadow d2) (cl_before k')"
      using c e sel d1(4) neq suffix_butlast [OF d1(4)] suffix_insert
      by (auto simp: client_backspace_def client_insert_def split: if_splits)
    ultimately show ?thesis by simp
  qed
  with d2 eff d1 show ?thesis by (simp add: session_inv_def out key_effect_def)
qed


lemma session_inv_step:
  assumes "ibus_typing vk p q" "session_inv p"
  shows "session_inv q"
  using assms
proof (induction rule: ibus_typing.induct)
  case (it_frame k n en now)
  have d: "daemon_inv IbusTransport (ib_daemon en)" "dunselected (ib_daemon en)"
    "suffix (dshadow (ib_daemon en)) (cl_before k)"
    using it_frame(3) by (simp_all add: session_inv_def)
  have "session_inv (en\<lparr>ib_daemon := dm_observe_surrounding vk now (cl_before k @ cl_after k) n n d'\<rparr>, k)"
    if "daemon_inv IbusTransport d'" "dunselected d'" "suffix (dshadow d') (cl_before k)" "dm_enabled d'"
    for d' and en :: "'a ibus_engine"
    using observe_session [OF that(1-3) it_frame(1,2), of vk now] that(4) it_frame(3)
      ibus_daemon_steps(3) [OF that(1)]
    by (simp add: session_inv_def)
  note obs = this
  have u: "daemon_inv IbusTransport (update_ibus_method SurroundingText (ib_daemon en))"
    by (rule ibus_daemon_steps(6) [OF d(1)])
  have e: "dm_enabled (ib_daemon en)" using it_frame(3) by (simp add: session_inv_def)
  show ?case
  proof (cases "should_upgrade_on_surrounding (ib_has_surrounding en) (ib_caps_cleared_surrounding en)")
    case True
    with obs [OF u, of "en\<lparr>ib_has_surrounding := True\<rparr>"] d(2,3) e show ?thesis
      by (simp add: set_surrounding_text_def)
  next
    case False
    with obs [OF d(1-3) e, of en] show ?thesis by (simp add: set_surrounding_text_def)
  qed
next
  case (it_handled now keyval keycode state en sigs en' k)
  show ?case by (rule key_handled_session(1) [OF it_handled(4,1,2,3)])
next
  case (it_left now keyval keycode state en sigs en' k k')
  show ?case by (rule key_left_session [OF it_left(3,1,2)])
next
  case (it_caps en k caps)
  then show ?case by (simp add: session_inv_def set_capabilities_def Let_def ibus_daemon_steps(6))
next
  case (it_focus_in en k now app_id)
  then show ?case by (simp add: session_inv_def do_focus_in_def ibus_daemon_steps(4) activate_session)
next
  case (it_focus_out k' en k)
  then show ?case by (simp add: session_inv_def do_focus_out_def ibus_daemon_steps(5))
next
  case (it_disable k' en k)
  then show ?case by (simp add: session_inv_def ibus_disable_def ibus_daemon_steps(5))
next
  case (it_reset k' en k)
  then show ?case by (simp add: session_inv_def ibus_reset_def ibus_daemon_steps(7) dunselected_full_reset)
qed (simp_all add: session_inv_def)

lemma session_inv_new:
  "cl_sel k = [] \<Longrightarrow> session_inv (ibus_engine_new (daemon_new cfg True rx), k)"
  using daemon_inv_new [of IbusTransport cfg True rx]
  by (simp add: session_inv_def ibus_engine_new_def dshadow_def dunselected_def)
    (simp add: daemon_new_def router_new_def)


lemma session_inv_run: "(ibus_typing vk)\<^sup>*\<^sup>* p q \<Longrightarrow> session_inv p \<Longrightarrow> session_inv q"
  by (induction rule: rtranclp_induct) (auto intro: session_inv_step)

section \<open>Properties\<close>

text \<open>A run of the stand-in engine: focus, then the keys a (left to the client) and s (an edit).\<close>

definition demo_start :: "ustr ibus_engine" where
  "demo_start = ibus_engine_new (daemon_new config_default True None)"

definition demo_focused :: "ustr ibus_engine" where
  "demo_focused = snd (do_focus_in toy_vnkey 0 None demo_start)"

definition demo_typed :: "ustr ibus_engine" where
  "demo_typed = snd (snd (process_key_event toy_vnkey 1 0x61 30 0 demo_focused))"

definition demo_client :: client where
  "demo_client = \<lparr>cl_before = [0x62], cl_sel = [], cl_after = [0x7A]\<rparr>"

abbreviation demo_edit :: "bool \<times> ibus_signal list \<times> ustr ibus_engine" where
  "demo_edit \<equiv> process_key_event toy_vnkey 2 0x73 31 0 demo_typed"

lemma demo_left: "fst (process_key_event toy_vnkey 1 0x61 30 0 demo_focused) = False"
  by code_simp

lemma demo_client_key: "client_key 0x61 30 0 demo_client (client_insert [0x61] demo_client)"
  by (simp add: client_key_def keyval_to_evdev_def mods_intersects_def shortcut_mods_def
      ibus_state_to_modifiers_def NAV_KEYS_def KEY_BACKSPACE_def KEY_ESC_def keyval_to_char_def
      char_from_u32_def is_scalar_def XK_BACKSPACE_def)

lemma demo_fits: "edit_fits toy_vnkey 2 0x73 31 0 demo_typed"
  by code_simp

lemma demo_edit_eq:
  "case demo_edit of (handled, sigs, en) \<Rightarrow>
     handled \<and> sigs = [DeleteSurroundingText (- 1) 1, CommitText (ibus_text [0xE1])]
     \<and> dshadow (ib_daemon en) = [0xE1]"
  by code_simp

lemma demo_replay:
  "cl_before (replay (fst (snd demo_edit)) (client_insert [0x61] demo_client)) = [0x62, 0xE1]"
  using demo_edit_eq
  by (auto simp: client_delete_def client_insert_def demo_client_def split: prod.splits)

lemma demo_run:
  "(ibus_typing toy_vnkey)\<^sup>*\<^sup>* (demo_start, demo_client) (demo_typed, client_insert [0x61] demo_client)"
proof -
  have 1: "ibus_typing toy_vnkey (demo_start, demo_client) (demo_focused, demo_client)"
    unfolding demo_focused_def by (rule it_focus_in)
  have 2: "ibus_typing toy_vnkey (demo_focused, demo_client) (demo_typed, client_insert [0x61] demo_client)"
    by (rule it_left [OF _ demo_client_key, where now = 1
          and sigs = "fst (snd (process_key_event toy_vnkey 1 0x61 30 0 demo_focused))"])
      (simp add: prod_eq_iff demo_left demo_typed_def)
  from 1 2 show ?thesis by (meson converse_rtranclp_into_rtranclp rtranclp.rtrancl_refl)
qed

text \<open>
  C1: However key events, truthful frames, focus changes, capability and configuration changes
  interleave in an IBus session, the text the composer believes to be in front of the cursor is
  a suffix of the text that is there, provided each edit stays within that text and nothing is
  selected.
\<close>

theorem ibus_shadow_suffix:
  assumes "(ibus_typing vk)\<^sup>*\<^sup>* (ibus_engine_new (daemon_new cfg True rx), k0) (en, k)"
    and "cl_sel k0 = []"
  shows "suffix (dshadow (ib_daemon en)) (cl_before k)"
  using session_inv_run [OF assms(1) session_inv_new [OF assms(2)]] by (simp add: session_inv_def)

theorem ibus_shadow_suffix_witness:
  "suffix (dshadow (ib_daemon (snd (snd demo_edit))))
     (cl_before (replay (fst (snd demo_edit)) (client_insert [0x61] demo_client)))
   \<and> dshadow (ib_daemon (snd (snd demo_edit))) = [0xE1]"
proof -
  have "ibus_typing toy_vnkey (demo_typed, client_insert [0x61] demo_client)
      (snd (snd demo_edit), replay (fst (snd demo_edit)) (client_insert [0x61] demo_client))"
    using demo_edit_eq
    by (intro it_handled [OF _ demo_fits])
      (auto simp: client_insert_def demo_client_def len_utf8_def split: prod.splits)
  with demo_run have "(ibus_typing toy_vnkey)\<^sup>*\<^sup>* (demo_start, demo_client)
      (snd (snd demo_edit), replay (fst (snd demo_edit)) (client_insert [0x61] demo_client))"
    by (rule rtranclp.rtrancl_into_rtrancl)
  from ibus_shadow_suffix [OF this [unfolded demo_start_def]] demo_edit_eq show ?thesis
    by (auto simp: demo_client_def split: prod.splits)
qed





end
