(* ===== verification/ComposerProperties.thy ===== *)
theory ComposerProperties
  imports IbusSession
begin

text \<open>
  What the composer and the daemon promise: their invariants over every reachable state, the
  decision for a key, the classification of a surrounding frame, the repair of a raw key, the
  liveness watchdog, the idle policy and the gates.
\<close>

section \<open>Invariants\<close>

lemma composer_reachable_inv: "composer_reachable vk snk c \<Longrightarrow> composer_inv c"
  by (induction rule: composer_reachable.induct) (auto intro: composer_inv_new composer_inv_step)

lemma daemon_reachable_inv: "daemon_reachable vk snk T d \<Longrightarrow> daemon_inv T d"
  by (induction rule: daemon_reachable.induct) (auto intro: daemon_inv_new daemon_inv_step)

text \<open>A composer of the stand-in engine that has forwarded one key without a trusted frame.\<close>

definition demo_fresh :: "ustr composer" where
  "demo_fresh = composer_new toy_vnkey 0 Telex SurroundingText False"

definition demo_awaiting :: "ustr composer" where
  "demo_awaiting = full_reset toy_vnkey (set_surrounding_confirmation True demo_fresh)"

definition demo_pending :: "ustr composer" where
  "demo_pending = snd (feed_key toy_vnkey 1 0x61 demo_awaiting)"

lemma demo_reachable:
  "composer_reachable toy_vnkey ibus_output demo_fresh"
  "composer_reachable toy_vnkey ibus_output demo_awaiting"
  "composer_reachable toy_vnkey ibus_output demo_pending"
proof -
  show 1: "composer_reachable toy_vnkey ibus_output demo_fresh"
    unfolding demo_fresh_def by (rule reach_new)
  show 2: "composer_reachable toy_vnkey ibus_output demo_awaiting"
    unfolding demo_awaiting_def by (rule reach_step [OF reach_step [OF 1 step_confirmation] step_full_reset])
  show "composer_reachable toy_vnkey ibus_output demo_pending"
    unfolding demo_pending_def by (rule reach_step [OF 2 step_key])
qed

text \<open>
  C3: In every reachable composer a raw key awaits confirmation only on the surrounding-text tier
  with confirmation switched on, and it is the last key typed; the engine keeps the session's
  bracket setting; and the Firefox quirk asks for the character unit only when the deletion
  goes through forwarded keys.
\<close>

theorem composer_invariant:
  assumes "composer_reachable vk snk c"
  shows "(cp_confirmation c = PendingRaw p \<longrightarrow> cp_method c = SurroundingText \<and>
      cp_confirm_retroactive_edits c \<and> cp_last_input_char c = Some (pw_ch p))
    \<and> en_bracket_shortcuts (cp_engine c) = cp_bracket_shortcuts c
    \<and> (fx_delete_unit (cp_firefox c) = Chars \<longrightarrow> fx_use_forward_delete (cp_firefox c))"
  using composer_reachable_inv [OF assms] by (auto simp: composer_inv_def firefox_inv_def)

theorem composer_invariant_witness:
  "cp_confirmation demo_pending = PendingRaw \<lparr>pw_ch = 0x61, pw_repairable = True, pw_edit = None,
      pw_from_frame = False\<rparr> \<and> cp_last_input_char demo_pending = Some 0x61"
proof -
  have "cp_confirmation demo_pending = PendingRaw \<lparr>pw_ch = 0x61, pw_repairable = True,
      pw_edit = None, pw_from_frame = False\<rparr>" by code_simp
  then show ?thesis
    using composer_invariant [OF demo_reachable(3), of
      "\<lparr>pw_ch = 0x61, pw_repairable = True, pw_edit = None, pw_from_frame = False\<rparr>"] by simp
qed

text \<open>
  C4: In every reachable daemon a session is active exactly when there is a composer, that composer
  satisfies its invariant, and only the Wayland transport ever has confirmation on.
\<close>

theorem daemon_invariant:
  assumes "daemon_reachable vk snk T d"
  shows "(rt_current_active (dm_router d) \<longleftrightarrow> dm_composer d \<noteq> None)
    \<and> (\<forall>w. dm_composer d = Some w \<longrightarrow> composer_inv w
          \<and> (cp_confirm_retroactive_edits w \<longrightarrow> T = WaylandTransport))"
  using daemon_reachable_inv [OF assms] by (auto simp: daemon_inv_def)

theorem daemon_invariant_witness:
  "dm_composer (activate_evdev toy_vnkey 0 (daemon_new config_default True None)) \<noteq> None"
proof -
  let ?d = "activate_evdev toy_vnkey 0 (daemon_new config_default True None)"
  have "daemon_reachable toy_vnkey ibus_output EvdevTransport ?d"
    by (rule dr_step [OF dr_new ds_activate_evdev])
  from daemon_invariant [OF this] show ?thesis by (simp add: activate_evdev_def)
qed

section \<open>Keys\<close>

text \<open>
  C15: A key becomes an edit exactly when the engine consumes it and the context is certain; the
  shadow is then left to the edit. Otherwise it is forwarded and pushed onto the shadow, and in an
  uncertain context it is remembered with the edit the engine wanted.
\<close>

theorem feed_key_branches:
  "let (d, c') = feed_key vk now ch c; r = key_result vk ch c in
   cp_last_input_char c' = Some ch \<and> cp_last_keystroke_at c' = now \<and> cp_method c' = cp_method c \<and>
   (if pr_consumed r \<and> \<not> context_uncertain c then
      d = Apply (cp_method c) (pr_backspaces r) (pr_commit r) \<and>
      cp_edit c' = cp_edit c \<and> cp_confirmation c' = Live
    else
      d = ForwardRaw \<and> shadow_text c' = shadow_text c @ [ch] \<and>
      cp_confirmation c' =
        (if context_uncertain c then
           PendingRaw \<lparr>pw_ch = ch, pw_repairable = (\<not> is_pending_raw (cp_confirmation c)),
             pw_edit = (if pr_consumed r then
                Some \<lparr>pe_backspaces = pr_backspaces r, pe_commit = pr_commit r,
                      pe_base_word = current_shadow_word c\<rparr> else None),
             pw_from_frame = is_frame_derived (cp_confirmation c)\<rparr>
         else Live))"
proof (cases "pr_consumed (key_result vk ch c) \<and> \<not> context_uncertain c")
  case True
  then show ?thesis by (simp add: feed_key_apply) (simp add: cp_method_def)
next
  case False
  then have n: "\<not> pr_consumed (key_result vk ch c) \<or> context_uncertain c" by blast
  obtain d c' where e: "feed_key vk now ch c = (d, c')" by (meson surj_pair)
  note f = feed_key_forward [OF n, of now, unfolded e fst_conv snd_conv]
    feed_key_frame(1,6,7) [of vk now ch c, unfolded e snd_conv]
  have "shadow_text c' = shadow_text c @ [ch]" by (simp add: shadow_text_def f(2))
  with False f show ?thesis by (simp add: e Let_def)
qed



section \<open>Surrounding frames\<close>

text \<open>
  C17: A surrounding frame is taken whole or not at all. A stale echo changes neither engine, shadow
  nor the last frame and asks for no repair; every other frame makes the shadow the text before
  the selection, becomes the last frame, and settles any raw key.
\<close>

theorem frame_all_or_nothing:
  "if drops_frame now t cu an fr c
   then fst (apply_surrounding vk now t cu an fr c) = None
        \<and> frame_untouched c (snd (apply_surrounding vk now t cu an fr c))
   else frame_synced t cu an (snd (apply_surrounding vk now t cu an fr c))"
  using apply_surrounding_dropped apply_surrounding_taken by auto

lemma revalidate_engine_edit [simp]:
  "engine_edit vk (revalidate_live_confirmation b c) p w n t = engine_edit vk c p w n t"
  "insertion_proven t' cu b' ch (revalidate_live_confirmation b c) = insertion_proven t' cu b' ch c"
  by (simp_all add: engine_edit_def insertion_proven_def)

text \<open>
  C16: A repair is ordered only for the pending key itself, typed once and proven inserted right in
  front of the cursor, and applied to the word on screen it produces exactly what the engine's
  edit of that key gives on the word before it.
\<close>

theorem repair_matches_engine:
  assumes "apply_surrounding vk now t cu an fr c = (Some re, c')"
  shows "\<exists>p x n commit. cp_confirmation c = PendingRaw p \<and> pw_repairable p \<and> cu = an
    \<and> text_before_cursor t cu = x @ [pw_ch p]
    \<and> insertion_proven t cu (text_before_cursor t cu) (pw_ch p) c
    \<and> engine_edit vk c p (last_word x) n commit
    \<and> pop_n (re_backspaces re) (last_word x @ [pw_ch p]) @ re_commit re
        = pop_n n (last_word x) @ commit"
proof -
  have s: "shows_pending cu an (text_before_cursor t cu) c"
    using assms apply_surrounding_cases(2) [of cu an t c vk now fr] by (cases "shows_pending cu an (text_before_cursor t cu) c") auto
  from assms have "confirm_pending_raw_key vk t cu an (text_before_cursor t cu)
      (revalidate_live_confirmation (text_before_cursor t cu) c) = (Some re, c')"
    by (simp add: apply_surrounding_cases(1) [OF s])
  then show ?thesis
  proof (rule confirm_repair [OF _ blen_text_before_cursor])
    fix p x n commit
    assume "cp_confirmation (revalidate_live_confirmation (text_before_cursor t cu) c) = PendingRaw p"
      "pw_repairable p" "text_before_cursor t cu = x @ [pw_ch p]"
      "insertion_proven t cu (text_before_cursor t cu) (pw_ch p)
         (revalidate_live_confirmation (text_before_cursor t cu) c)"
      "engine_edit vk (revalidate_live_confirmation (text_before_cursor t cu) c) p (last_word x) n commit"
      "pop_n (re_backspaces re) (last_word x @ [pw_ch p]) @ re_commit re = pop_n n (last_word x) @ commit"
    with s show ?thesis by (auto simp: shows_pending_def)
  qed
qed

text \<open>The frame a is known, the key s comes before its frame, and the frame then shows as.\<close>

definition demo_unsure :: "ustr composer" where
  "demo_unsure = snd (feed_key toy_vnkey 2 0x73 (snd (feed_key toy_vnkey 1 0x61
     (snd (apply_surrounding toy_vnkey 0 [] 0 0 True demo_awaiting)))
     \<lparr>cp_confirmation := AwaitingFrame\<rparr>))"

abbreviation demo_repair :: "retro_edit option \<times> ustr composer" where
  "demo_repair \<equiv> apply_surrounding toy_vnkey 3 [0x61, 0x73] 2 2 False demo_unsure"

lemma demo_repair_eq: "fst demo_repair = Some \<lparr>re_backspaces = 2, re_commit = [0xE1]\<rparr>"
  by code_simp

theorem repair_matches_engine_witness:
  "\<exists>p x n commit. cp_confirmation demo_unsure = PendingRaw p
     \<and> text_before_cursor [0x61, 0x73] 2 = x @ [pw_ch p]
     \<and> pop_n 2 (last_word x @ [pw_ch p]) @ [0xE1] = pop_n n (last_word x) @ commit"
proof -
  have "demo_repair = (Some \<lparr>re_backspaces = 2, re_commit = [0xE1]\<rparr>, snd demo_repair)"
    using demo_repair_eq by (simp add: prod_eq_iff)
  from repair_matches_engine [OF this] show ?thesis by auto
qed



text \<open>
  The watchdog declares the surrounding channel dead exactly at the second empty frame with
  the cursor at 0 since the last frame that carried text, while the shadow holds text.
\<close>

theorem surrounding_watchdog:
  assumes "shadow_text c \<noteq> []" "cp_surrounding_dead_strikes c = 0" "length fs < 2 ^ 31"
  shows "fst (note_surrounding_liveness t cu (snd (watch_frames fs c))) \<longleftrightarrow>
    t = [] \<and> cu = 0 \<and> 1 \<le> strikes_after 0 fs"
  by (rule watch_frames_verdict) (use assms in auto)

theorem surrounding_watchdog_witness:
  "fst (note_surrounding_liveness [] 0 (snd (watch_frames [([0x61], 1), ([], 0)] demo_pending)))
   \<and> \<not> fst (note_surrounding_liveness [] 0 (snd (watch_frames [([], 0), ([0x61], 1)] demo_pending)))"
proof -
  have "shadow_text demo_pending \<noteq> []" "cp_surrounding_dead_strikes demo_pending = 0" by code_simp+
  note w = surrounding_watchdog [OF this]
  show ?thesis
    using w [of "[([0x61], 1), ([], 0)]" "[]" 0] w [of "[([], 0), ([0x61], 1)]" "[]" 0] by simp
qed

lemma commit_string_run:
  "(composer_step vk snk)\<^sup>*\<^sup>* c c' \<Longrightarrow> \<not> cp_commit_string_functional c \<Longrightarrow>
     \<not> cp_commit_string_functional c'"
  by (induction rule: rtranclp_induct) (auto dest: commit_string_step)

text \<open>
  Once a client was found to drop committed strings it is never trusted with them again:
  no sequence of the composer's operations sets the flag back.
\<close>

theorem commit_string_ratchet:
  assumes "(composer_step vk snk)\<^sup>*\<^sup>* c c'" "cp_commit_string_functional c'"
  shows "cp_commit_string_functional c"
  using commit_string_run [OF assms(1)] assms(2) by blast

theorem commit_string_ratchet_witness: "cp_commit_string_functional demo_fresh"
proof -
  have "(composer_step toy_vnkey ibus_output)\<^sup>*\<^sup>* demo_fresh (set_surrounding_confirmation True demo_fresh)"
    by (rule r_into_rtranclp) (rule step_confirmation)
  moreover have "cp_commit_string_functional (set_surrounding_confirmation True demo_fresh)"
    by (simp add: set_surrounding_confirmation_def demo_fresh_def composer_new_def)
  ultimately show ?thesis by (rule commit_string_ratchet)
qed

section \<open>The daemon's gates\<close>





text \<open>
  On IBus a correction on the surrounding tier switches the session to forwarded keys exactly
  when an earlier correction is on record, no frame has come back since, and the count of
  unanswered corrections is not zero; a bare commit never does.
\<close>

theorem ibus_downgrade_iff:
  assumes "dm_composer d = Some w" "cp_method w = SurroundingText"
    and "apply_with_sink vk snk bs commit time (d, s) = (d', s')"
  shows "\<exists>w'. dm_composer d' = Some w' \<and>
    (cp_method w' = ForwardKey \<longleftrightarrow>
       0 < bs \<and> iq_surrounding_saw_correction (cp_ibus w)
       \<and> \<not> iq_surrounding_echo_since_correction (cp_ibus w)
       \<and> iq_surrounding_corrections_without_echo (cp_ibus w) + 1 \<noteq> 0)"
proof -
  obtain downgrade w1 where w1: "(if 0 < bs \<and> cp_method w = SurroundingText
      then note_surrounding_correction w else (False, w)) = (downgrade, w1)" by (meson surj_pair)
  define w2 where "w2 = (if downgrade then cp_set_method ForwardKey w1 else w1)"
  obtain w3 s3 where w3: "composer_apply vk snk bs commit time (w2, s) = (w3, s3)" by (meson surj_pair)
  have d': "dm_composer d' = Some w3"
    using assms(1,3) w1 w3 by (auto simp: apply_with_sink_def Let_def w2_def split: prod.splits)
  have down: "downgrade \<longleftrightarrow> 0 < bs \<and> iq_surrounding_saw_correction (cp_ibus w)
      \<and> \<not> iq_surrounding_echo_since_correction (cp_ibus w)
      \<and> iq_surrounding_corrections_without_echo (cp_ibus w) + 1 \<noteq> 0"
    using arg_cong [OF w1, of fst] assms(2) note_correction_downgrades_iff [of "cp_ibus w"]
    by (auto simp: note_surrounding_correction_def split: prod.splits if_splits)
  have "cp_edit w1 = cp_edit w"
    using arg_cong [OF w1, of snd] by (auto simp: note_surrounding_correction_def split: prod.splits if_splits)
  then have "cp_method w2 = (if downgrade then ForwardKey else SurroundingText)"
    using assms(2) by (simp add: w2_def cp_set_method_def cp_method_def Let_def)
  moreover have "cp_method w3 = cp_method w2"
    using arg_cong [OF w3, of fst]
    by (auto simp: composer_apply_def cp_method_def split: prod.splits) (metis em_apply_frame(1) fst_conv)
  ultimately show ?thesis using d' down by auto
qed


text \<open>The stand-in session after one correction that no frame has answered.\<close>

definition demo_corrected :: "ustr daemon" where
  "demo_corrected = fst (apply_with_sink toy_vnkey ibus_output 1 [0xE1] 0 (ib_daemon demo_typed, ibus_sink_new))"

lemma demo_corrected_eq:
  "case dm_composer demo_corrected of None \<Rightarrow> False | Some w \<Rightarrow>
     cp_method w = SurroundingText \<and> iq_surrounding_saw_correction (cp_ibus w)
     \<and> \<not> iq_surrounding_echo_since_correction (cp_ibus w)
     \<and> iq_surrounding_corrections_without_echo (cp_ibus w) + 1 \<noteq> 0"
  by code_simp

theorem ibus_downgrade_iff_witness:
  "\<exists>w'. dm_composer (fst (apply_with_sink toy_vnkey ibus_output 1 [0xE1] 0
      (demo_corrected, ibus_sink_new))) = Some w' \<and> cp_method w' = ForwardKey"
proof -
  obtain w where w: "dm_composer demo_corrected = Some w" "cp_method w = SurroundingText"
    "iq_surrounding_saw_correction (cp_ibus w)" "\<not> iq_surrounding_echo_since_correction (cp_ibus w)"
    "iq_surrounding_corrections_without_echo (cp_ibus w) + 1 \<noteq> 0"
    using demo_corrected_eq by (auto split: option.splits)
  from ibus_downgrade_iff [OF w(1,2) prod.collapse [symmetric], of toy_vnkey ibus_output 1 "[0xE1]" 0
      ibus_sink_new] w(3-5)
  show ?thesis by auto
qed

end
