(* ===== verification/Keymap.thy ===== *)
theory Keymap
  imports GlyphTables
begin

text \<open>
  \<^verbatim>\<open>crates/keymap/src/lib.rs\<close>: the synthetic keymap. The inventory tables and \<open>char_to_emit\<close>
  say which key and modifiers produce a character, \<open>symbol_row\<close> and the text functions say what
  the generated xkb keymap binds, and \<open>plan_mod_dance\<close> plans the modifiers around one key.
  What libxkbcommon makes of the text is not modelled; the level selection of the
  \<^verbatim>\<open>EIGHT\_LEVEL\<close> type is the one the source's table documents (\<open>level_of_mods\<close>).
\<close>

unbundle bit_operations_syntax

section \<open>Inventory\<close>

definition SAFE_KEYCODES :: "u16 list" where
  "SAFE_KEYCODES = [85, 86, 89, 90, 91, 93, 94, 124,
     183, 184, 185, 186, 187, 188, 189,
     122, 123]"

definition SAFE_KEYCODE_NAMES :: "string list" where
  "SAFE_KEYCODE_NAMES =
     [''ZEHA'', ''LSGT'', ''AB11'', ''KATA'', ''HIRA'', ''HKTG'', ''MUHE'', ''AE13'',
      ''FK13'', ''FK14'', ''FK15'', ''FK16'', ''FK17'', ''FK18'', ''FK19'',
      ''HNGL'', ''HJCV'']"

definition LEVEL5_SHIFT_EVDEV :: u16 where "LEVEL5_SHIFT_EVDEV = 92"

definition MOD_SHIFT_XKB :: u32 where "MOD_SHIFT_XKB = 0x01"
definition MOD_LEVEL3 :: u32 where "MOD_LEVEL3 = 0x80"
definition MOD_LEVEL5 :: u32 where "MOD_LEVEL5 = 0x20"

record emit_spec =
  es_keycode :: u32
  es_mods :: u32

definition VN_LOWER :: "uchar list" where
  "VN_LOWER =
     [0xE0, 0xE1, 0x1EA3, 0xE3, 0x1EA1, 0xE2, 0x1EA7, 0x1EA5, 0x1EA9, 0x1EAB,
      0x1EAD, 0x103, 0x1EB1, 0x1EAF, 0x1EB3, 0x1EB5, 0x1EB7, 0xE8, 0xE9, 0x1EBB,
      0x1EBD, 0x1EB9, 0xEA, 0x1EC1, 0x1EBF, 0x1EC3, 0x1EC5, 0x1EC7, 0xEC, 0xED,
      0x1EC9, 0x129, 0x1ECB, 0xF2, 0xF3, 0x1ECF, 0xF5, 0x1ECD, 0xF4, 0x1ED3,
      0x1ED1, 0x1ED5, 0x1ED7, 0x1ED9, 0x1A1, 0x1EDD, 0x1EDB, 0x1EDF, 0x1EE1, 0x1EE3,
      0xF9, 0xFA, 0x1EE7, 0x169, 0x1EE5, 0x1B0, 0x1EEB, 0x1EE9, 0x1EED, 0x1EEF,
      0x1EF1, 0x1EF3, 0xFD, 0x1EF7, 0x1EF9, 0x1EF5, 0x111]"

definition VN_UPPER :: "uchar list" where
  "VN_UPPER =
     [0xC0, 0xC1, 0x1EA2, 0xC3, 0x1EA0, 0xC2, 0x1EA6, 0x1EA4, 0x1EA8, 0x1EAA,
      0x1EAC, 0x102, 0x1EB0, 0x1EAE, 0x1EB2, 0x1EB4, 0x1EB6, 0xC8, 0xC9, 0x1EBA,
      0x1EBC, 0x1EB8, 0xCA, 0x1EC0, 0x1EBE, 0x1EC2, 0x1EC4, 0x1EC6, 0xCC, 0xCD,
      0x1EC8, 0x128, 0x1ECA, 0xD2, 0xD3, 0x1ECE, 0xD5, 0x1ECC, 0xD4, 0x1ED2,
      0x1ED0, 0x1ED4, 0x1ED6, 0x1ED8, 0x1A0, 0x1EDC, 0x1EDA, 0x1EDE, 0x1EE0, 0x1EE2,
      0xD9, 0xDA, 0x1EE6, 0x168, 0x1EE4, 0x1AF, 0x1EEA, 0x1EE8, 0x1EEC, 0x1EEE,
      0x1EF0, 0x1EF2, 0xDD, 0x1EF6, 0x1EF8, 0x1EF4, 0x110]"

definition slots_needed :: nat where
  "slots_needed = (length VN_LOWER + 3) div 4"

definition slot_keycode :: "nat \<Rightarrow> u16" where
  "slot_keycode slot = SAFE_KEYCODES ! slot"

definition daklak_slot_keycodes :: "u16 list" where
  "daklak_slot_keycodes = SAFE_KEYCODES"

definition level_mods :: "nat \<Rightarrow> u32" where
  "level_mods lv =
     (if lv = 1 then 0
      else if lv = 2 then MOD_SHIFT_XKB
      else if lv = 3 then MOD_LEVEL3
      else if lv = 4 then MOD_SHIFT_XKB OR MOD_LEVEL3
      else if lv = 5 then MOD_LEVEL5
      else if lv = 6 then MOD_SHIFT_XKB OR MOD_LEVEL5
      else if lv = 7 then MOD_LEVEL3 OR MOD_LEVEL5
      else if lv = 8 then MOD_SHIFT_XKB OR MOD_LEVEL3 OR MOD_LEVEL5
      else 0)"

text \<open>\<^verbatim>\<open>iter().position(|x| x == c)\<close>.\<close>

fun position :: "'a list \<Rightarrow> 'a \<Rightarrow> nat option" where
  "position [] x = None"
| "position (y # ys) x = (if y = x then Some 0 else map_option Suc (position ys x))"

definition locate_vn :: "uchar \<Rightarrow> (nat \<times> nat) option" where
  "locate_vn c =
     (case position VN_LOWER c of
        Some i \<Rightarrow> Some (i div 4, (i mod 4) * 2 + 1)
      | None \<Rightarrow>
          (case position VN_UPPER c of
             Some i \<Rightarrow> Some (i div 4, (i mod 4) * 2 + 2)
           | None \<Rightarrow> None))"

definition ascii_rows :: "(uchar \<times> u32 \<times> u32) list" where
  "ascii_rows =
     [(0x61, 30, 0), (0x62, 48, 0), (0x63, 46, 0), (0x64, 32, 0), (0x65, 18, 0),
      (0x66, 33, 0), (0x67, 34, 0), (0x68, 35, 0), (0x69, 23, 0), (0x6A, 36, 0),
      (0x6B, 37, 0), (0x6C, 38, 0), (0x6D, 50, 0), (0x6E, 49, 0), (0x6F, 24, 0),
      (0x70, 25, 0), (0x71, 16, 0), (0x72, 19, 0), (0x73, 31, 0), (0x74, 20, 0),
      (0x75, 22, 0), (0x76, 47, 0), (0x77, 17, 0), (0x78, 45, 0), (0x79, 21, 0),
      (0x7A, 44, 0), (0x41, 30, MOD_SHIFT_XKB), (0x42, 48, MOD_SHIFT_XKB), (0x43, 46, MOD_SHIFT_XKB), (0x44, 32, MOD_SHIFT_XKB),
      (0x45, 18, MOD_SHIFT_XKB), (0x46, 33, MOD_SHIFT_XKB), (0x47, 34, MOD_SHIFT_XKB), (0x48, 35, MOD_SHIFT_XKB), (0x49, 23, MOD_SHIFT_XKB),
      (0x4A, 36, MOD_SHIFT_XKB), (0x4B, 37, MOD_SHIFT_XKB), (0x4C, 38, MOD_SHIFT_XKB), (0x4D, 50, MOD_SHIFT_XKB), (0x4E, 49, MOD_SHIFT_XKB),
      (0x4F, 24, MOD_SHIFT_XKB), (0x50, 25, MOD_SHIFT_XKB), (0x51, 16, MOD_SHIFT_XKB), (0x52, 19, MOD_SHIFT_XKB), (0x53, 31, MOD_SHIFT_XKB),
      (0x54, 20, MOD_SHIFT_XKB), (0x55, 22, MOD_SHIFT_XKB), (0x56, 47, MOD_SHIFT_XKB), (0x57, 17, MOD_SHIFT_XKB), (0x58, 45, MOD_SHIFT_XKB),
      (0x59, 21, MOD_SHIFT_XKB), (0x5A, 44, MOD_SHIFT_XKB), (0x31, 2, 0), (0x32, 3, 0), (0x33, 4, 0),
      (0x34, 5, 0), (0x35, 6, 0), (0x36, 7, 0), (0x37, 8, 0), (0x38, 9, 0),
      (0x39, 10, 0), (0x30, 11, 0), (0x21, 2, MOD_SHIFT_XKB), (0x40, 3, MOD_SHIFT_XKB), (0x23, 4, MOD_SHIFT_XKB),
      (0x24, 5, MOD_SHIFT_XKB), (0x25, 6, MOD_SHIFT_XKB), (0x5E, 7, MOD_SHIFT_XKB), (0x26, 8, MOD_SHIFT_XKB), (0x2A, 9, MOD_SHIFT_XKB),
      (0x28, 10, MOD_SHIFT_XKB), (0x29, 11, MOD_SHIFT_XKB), (0x20, 57, 0), (0x2D, 12, 0), (0x5F, 12, MOD_SHIFT_XKB),
      (0x3D, 13, 0), (0x2B, 13, MOD_SHIFT_XKB), (0x5B, 26, 0), (0x7B, 26, MOD_SHIFT_XKB), (0x5D, 27, 0),
      (0x7D, 27, MOD_SHIFT_XKB), (0x3B, 39, 0), (0x3A, 39, MOD_SHIFT_XKB), (0x27, 40, 0), (0x22, 40, MOD_SHIFT_XKB),
      (0x60, 41, 0), (0x7E, 41, MOD_SHIFT_XKB), (0x5C, 43, 0), (0x7C, 43, MOD_SHIFT_XKB), (0x2C, 51, 0),
      (0x3C, 51, MOD_SHIFT_XKB), (0x2E, 52, 0), (0x3E, 52, MOD_SHIFT_XKB), (0x2F, 53, 0), (0x3F, 53, MOD_SHIFT_XKB)]"

definition ascii_evdev :: "uchar \<Rightarrow> (u32 \<times> u32) option" where
  "ascii_evdev c = map_of ascii_rows c"

definition char_to_emit :: "uchar \<Rightarrow> emit_spec option" where
  "char_to_emit c =
     (case locate_vn c of
        Some (slot, level) \<Rightarrow>
          Some \<lparr>es_keycode = of_nat (unat (slot_keycode slot)), es_mods = level_mods level\<rparr>
      | None \<Rightarrow>
          (case ascii_evdev c of
             Some (kc, mods) \<Rightarrow> Some \<lparr>es_keycode = kc, es_mods = mods\<rparr>
           | None \<Rightarrow> None))"

definition vn_pairs :: nat where
  "vn_pairs = length VN_LOWER"

definition plan_mod_dance :: "u32 \<Rightarrow> u32 \<Rightarrow> (u32 \<times> u32) option" where
  "plan_mod_dance dep spec_mods = (if spec_mods = 0 then None else Some (dep OR spec_mods, dep))"

section \<open>The generated keymap\<close>

definition VOID_SYMBOL :: nat where
  "VOID_SYMBOL = 0xFFFFFF"

text \<open>The eight keysyms of slot \<open>i\<close>: four lower/upper pairs, padded.\<close>

definition symbol_row :: "nat \<Rightarrow> nat list" where
  "symbol_row i =
     concat (map (\<lambda>j. if i * 4 + j < length VN_LOWER
                      then [VN_LOWER ! (i * 4 + j), VN_UPPER ! (i * 4 + j)]
                      else [VOID_SYMBOL, VOID_SYMBOL]) [0..<4])"

definition hex_digit :: "nat \<Rightarrow> char" where
  "hex_digit d = ''0123456789ABCDEF'' ! d"

fun hex_digits :: "nat \<Rightarrow> string" where
  "hex_digits n = (if n < 16 then [hex_digit n] else hex_digits (n div 16) @ [hex_digit (n mod 16)])"

declare hex_digits.simps [simp del]

definition hex4 :: "nat \<Rightarrow> string" where
  "hex4 n = replicate (4 - length (hex_digits n)) (CHR ''0'') @ hex_digits n"

definition keysym_text :: "nat \<Rightarrow> string" where
  "keysym_text ks = (if ks = VOID_SYMBOL then ''VoidSymbol'' else CHR ''U'' # hex4 ks)"

fun join_text :: "string list \<Rightarrow> string" where
  "join_text [] = []"
| "join_text [w] = w"
| "join_text (w # v # ws) = w @ '', '' @ join_text (v # ws)"

definition row_text :: "nat \<Rightarrow> string" where
  "row_text i = join_text (map keysym_text (symbol_row i))"

definition nl :: string where
  "nl = [CHR 0x0A]"

definition append_symbol_rows :: "string \<Rightarrow> string" where
  \<open>append_symbol_rows indent =
     concat (map (\<lambda>(i, kc_name). indent @ ''  replace key <'' @ kc_name
         @ ''> { type[Group1] = "EIGHT_LEVEL", [ '' @ row_text i @ '' ] };'' @ nl)
       (zip [0..<slots_needed] SAFE_KEYCODE_NAMES))\<close>

definition append_symbols_section :: "string \<Rightarrow> string \<Rightarrow> bool \<Rightarrow> string" where
  \<open>append_symbols_section indent section_name include_base =
     indent @ ''xkb_symbols "'' @ section_name @ ''" {'' @ nl
     @ (if include_base then indent @ ''  include "pc+us+inet(evdev)"'' @ nl else [])
     @ indent @ ''  name[Group1] = "Daklak Vietnamese";'' @ nl
     @ indent @ ''  replace key <RALT> { type[Group1] = "ONE_LEVEL", [ ISO_Level3_Shift ] };'' @ nl
     @ indent @ ''  modifier_map Mod5 { <RALT> };'' @ nl
     @ indent @ ''  replace key <HENK> { type[Group1] = "ONE_LEVEL", [ ISO_Level5_Shift ] };'' @ nl
     @ indent @ ''  modifier_map Mod3 { <HENK> };'' @ nl
     @ append_symbol_rows indent
     @ indent @ ''};'' @ nl\<close>

definition keymap_text :: string where
  \<open>keymap_text =
     ''xkb_keymap {'' @ nl
     @ ''  xkb_keycodes "evdev+daklak" {'' @ nl
     @ ''    include "evdev+aliases(qwerty)"'' @ nl
     @ ''  };'' @ nl
     @ ''  xkb_types "complete" { include "complete" };'' @ nl
     @ ''  xkb_compat "complete" { include "complete" };'' @ nl
     @ append_symbols_section ''  '' ''pc+us+daklak'' True
     @ ''};'' @ nl\<close>

definition symbols_text :: string where
  \<open>symbols_text =
     ''default partial alphanumeric_keys'' @ nl
     @ append_symbols_section [] ''basic'' True
     @ nl
     @ ''partial alphanumeric_keys'' @ nl
     @ append_symbols_section [] ''overlay'' False\<close>

definition rules_text :: string where
  \<open>rules_text =
     ''// daklak xkb rules overlay '' @ map char_of [0xE2::nat, 0x80, 0x94]
     @ '' install at ~/.config/xkb/rules/evdev'' @ nl
     @ ''// Pulls in the stock evdev ruleset, then registers the daklak:vn option.'' @ nl
     @ ''! include %S/evdev'' @ nl
     @ nl
     @ ''! option = symbols'' @ nl
     @ ''  daklak:vn  =  +daklak_vn(overlay)'' @ nl\<close>

section \<open>What the keymap decodes\<close>

text \<open>The level a modifier mask selects in an \<^verbatim>\<open>EIGHT\_LEVEL\<close> key, counted from 0.\<close>

definition level_of_mods :: "u32 \<Rightarrow> nat" where
  "level_of_mods m =
     (if m AND MOD_SHIFT_XKB \<noteq> 0 then 1 else 0) + (if m AND MOD_LEVEL3 \<noteq> 0 then 2 else 0)
     + (if m AND MOD_LEVEL5 \<noteq> 0 then 4 else 0)"

definition decode_slot :: "u32 \<Rightarrow> u32 \<Rightarrow> uchar option" where
  "decode_slot kc mods =
     (case position (map (\<lambda>k. of_nat (unat k)) SAFE_KEYCODES) kc of
        None \<Rightarrow> None
      | Some i \<Rightarrow>
          (let ks = symbol_row i ! level_of_mods mods in if ks = VOID_SYMBOL then None else Some ks))"

definition vietnamese :: "uchar list" where
  "vietnamese = VN_LOWER @ VN_UPPER"

lemma position_Some: "position xs x = Some i \<Longrightarrow> i < length xs \<and> xs ! i = x"
  by (induction xs arbitrary: i) (auto split: if_splits)

lemma position_None: "position xs x = None \<longleftrightarrow> x \<notin> set xs"
  by (induction xs) auto

lemma position_nth: "distinct xs \<Longrightarrow> i < length xs \<Longrightarrow> position xs (xs ! i) = Some i"
proof (induction xs arbitrary: i)
  case (Cons x xs)
  then show ?case by (cases i) auto
qed simp

lemma distinct_mapD: "distinct (map f xs) \<Longrightarrow> distinct xs"
  by (simp add: distinct_map)

lemma length_vn: "length VN_LOWER = 67" "length VN_UPPER = 67" "length SAFE_KEYCODES = 17"
  "slots_needed = 17" "length SAFE_KEYCODE_NAMES = 17"
  by (simp_all add: VN_LOWER_def VN_UPPER_def SAFE_KEYCODES_def slots_needed_def SAFE_KEYCODE_NAMES_def)

lemma level_of_level_mods: "lv \<in> {1..8} \<Longrightarrow> level_of_mods (level_mods lv) = lv - 1"
proof -
  have "list_all (\<lambda>lv. level_of_mods (level_mods lv) = lv - 1) [1..<9]" by code_simp
  then show "lv \<in> {1..8} \<Longrightarrow> ?thesis" by (simp add: list_all_iff)
qed

lemma symbol_row_nth:
  assumes "j < 4" "i * 4 + j < length VN_LOWER"
  shows "symbol_row i ! (2 * j) = VN_LOWER ! (i * 4 + j)"
    and "symbol_row i ! (2 * j + 1) = VN_UPPER ! (i * 4 + j)"
proof -
  have u: "[0..<4] = [0, 1, 2, 3::nat]" by (simp add: upt_rec)
  from assms(1) have "j = 0 \<or> j = 1 \<or> j = 2 \<or> j = 3" by auto
  then show "symbol_row i ! (2 * j) = VN_LOWER ! (i * 4 + j)"
    "symbol_row i ! (2 * j + 1) = VN_UPPER ! (i * 4 + j)"
    using assms(2) by (auto simp: symbol_row_def u length_vn nth_append)
qed

lemma safe_keycodes_distinct: "distinct (map (\<lambda>k. (of_nat (unat k) :: u32)) SAFE_KEYCODES)"
  by (simp add: SAFE_KEYCODES_def)

lemma vn_not_void: "list_all (\<lambda>c. c < VOID_SYMBOL) vietnamese"
  by code_simp

lemma decode_slot_row:
  assumes "s < 17" "lv \<in> {1..8}" "symbol_row s ! (lv - 1) = c" "c < VOID_SYMBOL"
  shows "decode_slot (of_nat (unat (slot_keycode s))) (level_mods lv) = Some c"
proof -
  have "position (map (\<lambda>k. (of_nat (unat k) :: u32)) SAFE_KEYCODES) (of_nat (unat (slot_keycode s))) = Some s"
    using position_nth [OF safe_keycodes_distinct, of s] assms(1) by (simp add: length_vn slot_keycode_def)
  with assms show ?thesis by (simp add: decode_slot_def level_of_level_mods)
qed

lemma locate_vn_decodes:
  assumes "locate_vn c = Some (s, lv)"
  shows "s < 17" and "lv \<in> {1..8}"
    and "decode_slot (of_nat (unat (slot_keycode s))) (level_mods lv) = Some c"
proof -
  obtain i where i: "s = i div 4" "i < 67"
    "lv = (i mod 4) * 2 + 1 \<and> VN_LOWER ! i = c \<or> lv = (i mod 4) * 2 + 2 \<and> VN_UPPER ! i = c"
    using assms
    by (auto simp: locate_vn_def length_vn dest!: position_Some split: option.splits)
  then show 1: "s < 17" by simp
  have "i mod 4 < 4" by simp
  then show 2: "lv \<in> {1..8}" using i(3) by auto
  have eq: "i div 4 * 4 + i mod 4 = i" by simp
  note row = symbol_row_nth [OF \<open>i mod 4 < 4\<close>, of "i div 4"]
  have "symbol_row s ! (lv - 1) = c"
    using i(3) row by (auto simp: eq length_vn i(1,2) mult.commute)
  moreover have "c \<in> set vietnamese"
    using i(2,3) by (auto simp: vietnamese_def length_vn in_set_conv_nth)
  then have "c < VOID_SYMBOL" using vn_not_void by (simp add: list_all_iff)
  ultimately show "decode_slot (of_nat (unat (slot_keycode s))) (level_mods lv) = Some c"
    by (rule decode_slot_row [OF 1 2])
qed

lemma locate_vn_iff: "locate_vn c \<noteq> None \<longleftrightarrow> c \<in> set vietnamese"
  by (auto simp: locate_vn_def vietnamese_def position_None split: option.split)
    (metis position_None option.distinct(1))+

lemma vietnamese_emitted:
  assumes "c \<in> set vietnamese"
  obtains spec where "char_to_emit c = Some spec" "decode_slot (es_keycode spec) (es_mods spec) = Some c"
proof -
  from assms obtain s lv where l: "locate_vn c = Some (s, lv)" by (auto simp: locate_vn_iff [symmetric])
  with locate_vn_decodes [OF l] that show ?thesis by (simp add: char_to_emit_def)
qed

lemma vietnamese_distinct: "distinct vietnamese"
  by code_simp

lemma vietnamese_is_telex: "set vietnamese = set (map fst telex_rows)"
  by code_simp

lemma slot_keycodes_bound: "list_all (\<lambda>k. 84 < unat k \<and> unat k \<le> 255 \<and> k \<noteq> LEVEL5_SHIFT_EVDEV) SAFE_KEYCODES"
  by (simp add: SAFE_KEYCODES_def LEVEL5_SHIFT_EVDEV_def)

lemma ascii_rows_keycodes: "list_all (\<lambda>(c, kc, m). unat kc < 58 \<and> c < 128) ascii_rows"
  by (simp add: ascii_rows_def)

text \<open>Keycode and level of every row of the US table as one number.\<close>

definition ascii_codes :: "nat list" where
  "ascii_codes =
     [60, 96, 92, 64, 36, 66, 68, 70, 46, 72, 74, 76, 100, 98, 48, 50, 32, 38, 62, 40,
      44, 94, 34, 90, 42, 88, 61, 97, 93, 65, 37, 67, 69, 71, 47, 73, 75, 77, 101, 99,
      49, 51, 33, 39, 63, 41, 45, 95, 35, 91, 43, 89, 4, 6, 8, 10, 12, 14, 16, 18,
      20, 22, 5, 7, 9, 11, 13, 15, 17, 19, 21, 23, 114, 24, 25, 26, 27, 52, 53, 54,
      55, 78, 79, 80, 81, 82, 83, 86, 87, 102, 103, 104, 105, 106, 107]"

lemma ascii_rows_distinct: "distinct (map fst ascii_rows)" "distinct (map snd ascii_rows)"
proof -
  show "distinct (map fst ascii_rows)" by code_simp
  have "map (\<lambda>r. unat (fst (snd r)) * 2 + unat (snd (snd r))) ascii_rows = ascii_codes"
    by (simp add: ascii_rows_def MOD_SHIFT_XKB_def ascii_codes_def)
  moreover have "distinct ascii_codes" by code_simp
  ultimately have "distinct (map (\<lambda>r. unat (fst (snd r)) * 2 + unat (snd (snd r))) ascii_rows)"
    by simp
  then have "distinct (map (\<lambda>r. unat (fst r) * 2 + unat (snd r)) (map snd ascii_rows))"
    by (simp add: comp_def)
  then show "distinct (map snd ascii_rows)" by (rule distinct_mapD)
qed

lemma emit_vietnamese:
  "locate_vn c = Some (s, lv) \<Longrightarrow>
     char_to_emit c = Some \<lparr>es_keycode = of_nat (unat (slot_keycode s)), es_mods = level_mods lv\<rparr>"
  by (simp add: char_to_emit_def)

lemma emit_ascii:
  "locate_vn c = None \<Longrightarrow> char_to_emit c = Some spec \<Longrightarrow>
     (c, es_keycode spec, es_mods spec) \<in> set ascii_rows"
  by (auto simp: char_to_emit_def ascii_evdev_def split: option.splits dest: map_of_SomeD)

lemma slot_keycode_range:
  assumes "s < 17"
  shows "84 < unat (of_nat (unat (slot_keycode s)) :: u32) \<and> unat (of_nat (unat (slot_keycode s)) :: u32) \<le> 255
    \<and> slot_keycode s \<noteq> LEVEL5_SHIFT_EVDEV
    \<and> unat (of_nat (unat (slot_keycode s)) :: u32) = unat (slot_keycode s)"
proof -
  have "84 < unat (slot_keycode s) \<and> unat (slot_keycode s) \<le> 255 \<and> slot_keycode s \<noteq> LEVEL5_SHIFT_EVDEV"
    using slot_keycodes_bound assms by (simp add: list_all_length slot_keycode_def length_vn)
  moreover from this have "unat (of_nat (unat (slot_keycode s)) :: u32) = unat (slot_keycode s)"
    by (intro unat_of_nat_u32) simp
  ultimately show ?thesis by simp
qed

end
