(* ===== verification/TextProperties.thy ===== *)
theory TextProperties
  imports Keymap Config EditStrategy TextHelpers Engine
begin

text \<open>
  What the text-level functions compute: the frame differences, the current word, the deletion
  span, the engine's context and key map, the glyph tables, UTF-8, the synthetic keymap and the
  configuration's parsers. The statements describe the result by the text itself, not by offsets.
\<close>

section \<open>Differences between frames\<close>

text \<open>
  C38: A frame counts as one typed character exactly when it is the previous frame with one
  character inserted at its cursor and the new cursor right behind it.
\<close>

theorem one_char_insertion_exact:
  "detect_one_char_insertion prev pc t c \<longleftrightarrow>
     (\<exists>a x b. prev = a @ b \<and> t = a @ x # b \<and> unat pc = blen a \<and> unat c = blen a + len_utf8 x)"
  by (rule detect_one_char_insertion_iff)

text \<open>
  A frame counts as a deletion exactly when a non-empty stretch that ended at the previous
  cursor is gone and the new cursor stands where it began.
\<close>

theorem deletion_exact:
  "detect_deletion prev pc t c \<longleftrightarrow>
     (\<exists>a d b. prev = a @ d @ b \<and> t = a @ b \<and> d \<noteq> [] \<and> unat c = blen a \<and> unat pc = blen a + blen d)"
  by (rule detect_deletion_iff)

text \<open>
  A pending key is confirmed exactly when the frame is the previous text with that key inserted
  right before the (clamped) cursor; the comparison of bytes decides the equality of characters.
\<close>

theorem confirmed_char_exact:
  assumes "list_all is_scalar prev" "list_all is_scalar t"
  shows "confirms_inserted_char prev t cursor ch \<longleftrightarrow>
    (\<exists>a b. prev = a @ b \<and> t = a @ ch # b \<and> min (unat cursor) (blen t) = blen a + len_utf8 ch)"
  by (rule confirms_inserted_char_iff [OF assms])

theorem confirmed_char_exact_witness:
  "confirms_inserted_char [0x1EBF, 0x62] [0x1EBF, 0x73, 0x62] 4 0x73"
proof -
  have "list_all is_scalar [0x1EBF, 0x62]" "list_all is_scalar [0x1EBF, 0x73, 0x62]"
    by (simp_all add: is_scalar_def)
  then show ?thesis
    unfolding confirmed_char_exact [OF \<open>list_all is_scalar [0x1EBF, 0x62]\<close> \<open>list_all is_scalar [0x1EBF, 0x73, 0x62]\<close>]
    by (intro exI [of _ "[0x1EBF]"] exI [of _ "[0x62]"]) (simp add: len_utf8_def)
qed

section \<open>Words and spans\<close>

text \<open>
  The current word is the longest boundary-free end of the text before the cursor, whatever
  the cursor, also one inside a character or past the end.
\<close>

theorem current_word_exact:
  "\<exists>p. text_before_cursor t cursor = p @ current_word_before_cursor t cursor
     \<and> (\<forall>c\<in>set (current_word_before_cursor t cursor). \<not> is_word_boundary c)
     \<and> (p = [] \<or> is_word_boundary (last p))"
  using last_word_suffix [of "floor_prefix t (unat cursor)"] last_word_no_boundary
  by (auto simp: current_word_before_cursor_eq text_before_cursor_eq)

theorem current_word_exact_witness: "current_word_before_cursor (lit ''xin chao'') 8 = lit ''chao''"
proof -
  have t: "text_before_cursor (lit ''xin chao'') 8 = lit ''xin '' @ lit ''chao''" by code_simp
  obtain p where p: "lit ''xin '' @ lit ''chao'' = p @ current_word_before_cursor (lit ''xin chao'') 8"
    "\<forall>c\<in>set (current_word_before_cursor (lit ''xin chao'') 8). \<not> is_word_boundary c"
    "p = [] \<or> is_word_boundary (last p)"
    using current_word_exact [of "lit ''xin chao''" 8] by (auto simp: t)
  then show ?thesis by code_simp
qed

text \<open>
  With the selection behind the cursor the deletion is exact: the bytes and characters counted
  before the cursor are those of the last characters of the text there, and after it those of the
  selection; the shadow keeps the rest.
\<close>

theorem delete_span_selection_after:
  assumes "t = p @ sel @ q" "unat cursor = blen p" "unat anchor = blen p + blen sel"
    and "p = r @ d" "length d = bs" "bs < 2 ^ 64"
  shows "pop_delete_span bs (snd (observe_surrounding t cursor anchor sb)) =
    ((snd (observe_surrounding t cursor anchor sb))
       \<lparr>sb_text := r, sb_selected_before_chars := 0, sb_selected_after_bytes := 0,
        sb_selected_after_chars := 0\<rparr>,
     of_nat (blen d), of_nat (length d), of_nat (blen sel), of_nat (length sel))"
proof -
  have "sb_text (snd (observe_surrounding t cursor anchor sb)) = r @ d"
    using floor_prefix_append_blen [of p "sel @ q"] assms(1-4) by (simp add: shadow_simps min_absorb1)
  with observe_surrounding_selected_after [OF assms(1-3), of sb] assms(4-6) show ?thesis
    by (simp add: pop_delete_span_eq Let_def pop_n_def)
qed

theorem delete_span_selection_after_witness:
  "snd (pop_delete_span 1 (snd (observe_surrounding (lit ''abcd'') 2 3 shadow_new))) = (1, 1, 1, 1)"
proof -
  have "lit ''abcd'' = lit ''ab'' @ lit ''c'' @ lit ''d''" "lit ''ab'' = lit ''a'' @ lit ''b''"
    "blen (lit ''ab'') = 2" "blen (lit ''c'') = 1" "blen (lit ''b'') = 1" "length (lit ''b'') = 1"
    "length (lit ''c'') = 1"
    by (simp_all add: lit_def len_utf8_def)
  with delete_span_selection_after [of "lit ''abcd''" "lit ''ab''" "lit ''c''" "lit ''d''" 2 3 "lit ''a''" "lit ''b''" 1 shadow_new]
  show ?thesis by simp
qed

text \<open>
  With the selection in front of the cursor the deletion is not: the shadow already ends before
  the selection, yet the selection's length is popped from it too, so the bytes to delete are those
  of characters in front of the selection and not those of the selection.
\<close>

theorem delete_span_selection_before:
  assumes "t = p @ sel @ q" "unat anchor = blen p" "unat cursor = blen p + blen sel"
    and "p = r @ d" "length d = bs + length sel" "bs + length sel < 2 ^ 64"
  shows "fst (snd (pop_delete_span bs (snd (observe_surrounding t cursor anchor sb)))) = of_nat (blen d)
    \<and> sb_text (fst (pop_delete_span bs (snd (observe_surrounding t cursor anchor sb)))) = r"
proof -
  have "sb_text (snd (observe_surrounding t cursor anchor sb)) = r @ d"
    using floor_prefix_append_blen [of p "sel @ q"] assms(1-4) by (simp add: shadow_simps min_absorb2)
  with observe_surrounding_selected_before [OF assms(1-3), of sb] assms(4-6) show ?thesis
    by (simp add: pop_delete_span_eq Let_def pop_n_def)
qed

theorem delete_span_selection_before_witness:
  "fst (snd (pop_delete_span 0 (snd (observe_surrounding [0x1EBF, 0x61] 4 3 shadow_new)))) = 3"
proof -
  have "fst (snd (pop_delete_span 0 (snd (observe_surrounding [0x1EBF, 0x61] 4 3 shadow_new)))) =
      of_nat (blen [0x1EBF])"
    using delete_span_selection_before [of "[0x1EBF, 0x61]" "[0x1EBF]" "[0x61]" "[]" 3 4 "[]" "[0x1EBF]" 0 shadow_new]
    by (simp add: len_utf8_def)
  then show ?thesis by (simp add: len_utf8_def)
qed


section \<open>The engine's context\<close>



text \<open>
  With bracket shortcuts off, no entry of the engine library's Telex table reaches the four
  bracket keys, whatever that table holds: they keep the neutral action.
\<close>

theorem bracket_keys_neutral:
  assumes "b \<in> {91, 93, 123, 125}"
  shows "telex_key_map vk False ! b = vk_normal vk \<and> length (telex_key_map vk False) = 256"
proof -
  have b: "b < 256" using assms by auto
  have "telex_key_map vk False ! b = replicate 256 (vk_normal vk) ! b"
    by (simp only: telex_key_map_def telex_key_map_loop_bracket [OF assms])
  also have "\<dots> = vk_normal vk" by (rule nth_replicate [OF b])
  finally show ?thesis
    by (simp only: telex_key_map_def length_telex_key_map_loop length_replicate)
qed

theorem bracket_keys_neutral_witness:
  "telex_key_map toy_vnkey False ! 91 = 0 \<and> (91, 1) \<in> set (vk_telex_mapping toy_vnkey)"
proof -
  have "telex_key_map toy_vnkey False ! 91 = vk_normal toy_vnkey"
    using bracket_keys_neutral [of 91 toy_vnkey] by simp
  then show ?thesis by (simp only: vnkey.simps toy_vnkey_def) simp
qed

text \<open>
  The VNI and VIQR tables are the Telex table translated key by key: the same letters, the same
  base, the mark and the tone each through one mapping.
\<close>

theorem glyph_tables_agree:
  "map_of vni_rows c = map_option (telex_to vni_mark vni_tone) (map_of telex_rows c)
   \<and> map_of viqr_rows c = map_option (telex_to viqr_mark viqr_tone) (map_of telex_rows c)
   \<and> (telex_chars_from_composed c = [] \<longleftrightarrow> c \<notin> set (map fst telex_rows))"
proof -
  have "map_of telex_rows c = Some ks \<Longrightarrow> ks \<noteq> []" for ks by (rule map_of_glyph_not_ascii(2))
  then have "telex_chars_from_composed c = [] \<longleftrightarrow> map_of telex_rows c = None"
    by (auto simp: telex_chars_from_composed_def glyph_keys_def lit_def split: option.splits)
  then show ?thesis
    by (simp add: vni_rows_translated viqr_rows_translated map_of_eq_None_iff)
qed

text \<open>
  Decoding what a text encodes to gives the text back, and decoding accepts nothing else: the
  engine's output bytes and the text they stand for determine each other.
\<close>

theorem utf8_roundtrip:
  assumes "list_all is_scalar s"
  shows "decode_engine_output bs = Some s \<longleftrightarrow> map unat bs = bytes_of s"
  using from_utf8_bytes_of [OF assms] from_utf8_sound unfolding decode_engine_output_def by metis

theorem utf8_roundtrip_witness:
  "decode_engine_output [0x61, 0xE1, 0xBA, 0xBF] = Some [0x61, 0x1EBF]"
proof -
  have "list_all is_scalar [0x61, 0x1EBF]" by (simp add: is_scalar_def)
  from utf8_roundtrip [OF this, of "[0x61, 0xE1, 0xBA, 0xBF]"] show ?thesis
    by (simp add: bytes_of_def utf8_encode_def)
qed


section \<open>The synthetic keymap\<close>

text \<open>
  C40: Every Vietnamese letter is typed back by the generated keymap: the keycode and modifiers it is
  sent with select, in the row bound to that keycode, that very letter.
\<close>

theorem keymap_types_letter:
  assumes "c \<in> set vietnamese"
  shows "\<exists>spec. char_to_emit c = Some spec \<and> decode_slot (es_keycode spec) (es_mods spec) = Some c"
  using vietnamese_emitted [OF assms] by blast

theorem keymap_types_letter_witness:
  "\<exists>spec. char_to_emit 0x1EBF = Some spec \<and> decode_slot (es_keycode spec) (es_mods spec) = Some 0x1EBF"
  by (rule keymap_types_letter) (simp add: vietnamese_def VN_LOWER_def)

text \<open>
  No two characters, Vietnamese or ASCII, are sent with the same key and modifiers.
\<close>

theorem keymap_injective:
  assumes "char_to_emit a = Some spec" "char_to_emit b = Some spec"
  shows "a = b"
proof -
  have ascii: "unat (es_keycode spec) < 58" if "locate_vn c = None" "char_to_emit c = Some spec" for c
    using emit_ascii [OF that] ascii_rows_keycodes by (auto simp: list_all_iff)
  have slot: "84 < unat (es_keycode spec)" if "locate_vn c = Some (s, lv)" "char_to_emit c = Some spec" for c s lv
    using slot_keycode_range [OF locate_vn_decodes(1) [OF that(1)]] emit_vietnamese [OF that(1)] that(2) by auto
  show ?thesis
  proof (cases "locate_vn a")
    case a: None
    with ascii [OF a assms(1)] slot assms(2) have b: "locate_vn b = None"
      by (cases "locate_vn b") fastforce+
    have "inj_on snd (set ascii_rows)" using ascii_rows_distinct(2) by (simp add: distinct_map)
    from inj_onD [OF this _ emit_ascii [OF a assms(1)] emit_ascii [OF b assms(2)]] show ?thesis by simp
  next
    case a: (Some p)
    obtain s lv where p: "p = (s, lv)" by (cases p)
    with slot [OF a [unfolded p] assms(1)] ascii assms(2) obtain s' lv' where b: "locate_vn b = Some (s', lv')"
      by (cases "locate_vn b") fastforce+
    from locate_vn_decodes(3) [OF a [unfolded p]] locate_vn_decodes(3) [OF b]
      emit_vietnamese [OF a [unfolded p]] emit_vietnamese [OF b] assms
    show ?thesis by auto
  qed
qed

theorem keymap_injective_witness: "\<exists>spec. char_to_emit 0xE0 = Some spec \<and> (char_to_emit 0x62 = Some spec \<longrightarrow> (0xE0 :: nat) = 0x62)"
proof -
  have "(0xE0 :: nat) \<in> set vietnamese" by (simp add: vietnamese_def VN_LOWER_def)
  from vietnamese_emitted [OF this] obtain spec where "char_to_emit 0xE0 = Some spec" .
  with keymap_injective [where a = 224 and b = 98 and spec = spec] show ?thesis by blast
qed

text \<open>
  Every keycode the keymap uses is one an X11 client can receive, and none is the key the keymap
  gives to the fifth-level modifier.
\<close>

theorem keymap_keycodes_bounded:
  assumes "char_to_emit c = Some spec"
  shows "unat (es_keycode spec) \<le> 255 \<and> unat (es_keycode spec) \<noteq> unat LEVEL5_SHIFT_EVDEV"
proof (cases "locate_vn c")
  case None
  from emit_ascii [OF this assms] ascii_rows_keycodes show ?thesis
    by (auto simp: list_all_iff LEVEL5_SHIFT_EVDEV_def)
next
  case (Some p)
  obtain s lv where p: "locate_vn c = Some (s, lv)" using Some by (cases p) auto
  have s: "s < 17" by (rule locate_vn_decodes(1) [OF p])
  from slot_keycode_range [OF s] emit_vietnamese [OF p] assms show ?thesis
    by (auto simp: word_unat_eq_iff)
qed

theorem keymap_keycodes_bounded_witness: "\<exists>spec. char_to_emit 0xE0 = Some spec \<and> unat (es_keycode spec) \<le> 255"
proof -
  have "(0xE0 :: nat) \<in> set vietnamese" by (simp add: vietnamese_def VN_LOWER_def)
  from vietnamese_emitted [OF this] obtain spec where s: "char_to_emit 0xE0 = Some spec" .
  with keymap_keycodes_bounded [OF s] show ?thesis by blast
qed

text \<open>
  The keymap's letters are, each once, exactly those the Telex table can spell, so every letter a
  correction can contain has a key.
\<close>

theorem keymap_covers_telex:
  "distinct vietnamese \<and> set vietnamese = set (map fst telex_rows)
   \<and> (char_to_emit c = None \<longrightarrow> telex_chars_from_composed c = [])"
proof -
  have "telex_chars_from_composed c = []" if "char_to_emit c = None"
  proof -
    have "c \<notin> set vietnamese"
    proof
      assume "c \<in> set vietnamese"
      then obtain spec where "char_to_emit c = Some spec" by (rule vietnamese_emitted)
      with that show False by simp
    qed
    then show ?thesis
      by (simp add: vietnamese_is_telex telex_chars_from_composed_def glyph_keys_def
          map_of_eq_None_iff [THEN iffD2])
  qed
  then show ?thesis using vietnamese_distinct vietnamese_is_telex by blast
qed

theorem keymap_covers_telex_witness: "telex_chars_from_composed 0x4E2D = []"
proof -
  have "char_to_emit 0x4E2D = None" by code_simp
  with keymap_covers_telex [of "0x4E2D"] show ?thesis by simp
qed

section \<open>Configuration\<close>

text \<open>
  A directive list read from the environment holds no empty entry, no comma, and no entry that
  begins or ends with white space.
\<close>

theorem directive_list_clean:
  assumes "d \<in> set (parse_directive_list raw)"
  shows "d \<noteq> [] \<and> 44 \<notin> set d \<and> \<not> is_whitespace (hd d) \<and> \<not> is_whitespace (last d)"
  using parse_directive_list_clean [OF assms] by simp

theorem directive_list_clean_witness: "\<not> is_whitespace (hd (lit ''b''))"
proof -
  have "lit ''b'' \<in> set (parse_directive_list (lit ''a, b ,''))" by code_simp
  from directive_list_clean [OF this] show ?thesis by simp
qed

text \<open>
  An accepted log directive is empty or of the form target=level with a non-empty target free of
  the equals sign and one of the three levels the file logger knows; anything else is an error.
\<close>

theorem log_directive_shape:
  assumes "normalize_directive raw = Inr d"
  shows "d = [] \<or> (\<exists>target level. d = target @ [61] @ level \<and> target \<noteq> [] \<and> 61 \<notin> set target
    \<and> level \<in> {lit ''error'', lit ''info'', lit ''trace''})"
  using normalize_directive_shape [OF assms] by blast

theorem log_directive_shape_witness:
  "\<exists>d target level. normalize_directive (lit '' a=error'') = Inr d \<and> d = target @ [61] @ level"
proof -
  have "normalize_directive (lit '' a=error'') = Inr (lit ''a=error'')" by code_simp
  from log_directive_shape [OF this] this show ?thesis by (auto simp: lit_def)
qed

end
