(* ===== verification/KeyEmitter.thy ===== *)
theory KeyEmitter
  imports Keymap
begin

text \<open>
  \<^verbatim>\<open>crates/key-emitter\<close> and the uinput device of \<^verbatim>\<open>crates/edit-strategy\<close>: the interface
  \<^verbatim>\<open>KeyEmitter\<close>, its three implementations, and \<open>emit_char\<close>, which sends one character as a
  modifier change, a key press and release, and the modifiers back.

  \<open>key_client\<close> is the application at the other end of the channel: keys it holds down, the
  modifier mask it was told, the text it typed. A press of a key that is already down does
  nothing, as the source's prelude release relies on. The locales \<open>key_channel\<close> and
  \<open>modifier_channel\<close> are the contracts of an emitter towards such a client.
\<close>

unbundle bit_operations_syntax

section \<open>The client\<close>

definition LEVEL_MASK :: u32 where
  "LEVEL_MASK = MOD_SHIFT_XKB OR MOD_LEVEL3 OR MOD_LEVEL5"

text \<open>The character of a key: a Vietnamese slot by level, a US key by Shift alone.\<close>

definition key_char :: "u32 \<Rightarrow> u32 \<Rightarrow> uchar option" where
  "key_char kc mods =
     (case decode_slot kc mods of
        Some c \<Rightarrow> Some c
      | None \<Rightarrow> map_of (map (\<lambda>(c, k, m). ((k, m), c)) ascii_rows) (kc, mods AND MOD_SHIFT_XKB))"

definition strike :: "u32 \<Rightarrow> u32 \<Rightarrow> ustr \<Rightarrow> ustr" where
  "strike kc mods t =
     (if kc = 14 then butlast t
      else case key_char kc mods of Some c \<Rightarrow> t @ [c] | None \<Rightarrow> t)"

record key_client =
  kc_down :: "u32 set"
  kc_mask :: u32
  kc_text :: ustr

definition client_press :: "(key_client \<Rightarrow> u32) \<Rightarrow> u32 \<Rightarrow> key_client \<Rightarrow> key_client" where
  "client_press mods kc cl =
     (if kc \<in> kc_down cl then cl
      else cl\<lparr>kc_down := insert kc (kc_down cl), kc_text := strike kc (mods cl) (kc_text cl)\<rparr>)"

definition client_release :: "u32 \<Rightarrow> key_client \<Rightarrow> key_client" where
  "client_release kc cl = cl\<lparr>kc_down := kc_down cl - {kc}\<rparr>"

text \<open>An autorepeat strikes again and leaves the key as it is.\<close>

definition deliver_key :: "(key_client \<Rightarrow> u32) \<Rightarrow> u32 \<Rightarrow> u32 \<Rightarrow> key_client \<Rightarrow> key_client" where
  "deliver_key mods kc v cl =
     (if v = 1 then client_press mods kc cl
      else if v = 0 then client_release kc cl
      else if kc \<in> kc_down cl then cl\<lparr>kc_text := strike kc (mods cl) (kc_text cl)\<rparr>
      else cl)"

text \<open>Without a modifier channel the mask follows from the modifier keys held down.\<close>

definition held_mods :: "key_client \<Rightarrow> u32" where
  "held_mods cl =
     (if 42 \<in> kc_down cl \<or> 54 \<in> kc_down cl then MOD_SHIFT_XKB else 0)
     OR (if 100 \<in> kc_down cl then MOD_LEVEL3 else 0)
     OR (if 92 \<in> kc_down cl then MOD_LEVEL5 else 0)"

section \<open>The trait and its implementations\<close>

record 'w key_emitter =
  ke_emit_key :: "u32 \<Rightarrow> u32 \<Rightarrow> u32 \<Rightarrow> 'w \<Rightarrow> 'w"
  ke_emit_modifiers :: "u32 \<Rightarrow> u32 \<Rightarrow> u32 \<Rightarrow> u32 \<Rightarrow> 'w \<Rightarrow> 'w"
  ke_modifier_echo_through_grab :: bool
  ke_sync_barrier :: "'w \<Rightarrow> 'w"

definition default_modifier_echo_through_grab :: bool where
  "default_modifier_echo_through_grab = False"

definition default_sync_barrier :: "'w \<Rightarrow> 'w" where
  "default_sync_barrier w = w"

text \<open>The requests of the two Wayland protocols, appended to the connection's outgoing list.\<close>

datatype vk_request =
    VkKey u32 u32 u32
  | VkModifiers u32 u32 u32 u32

datatype context_request =
    CtxKey u32 u32 u32 u32
  | CtxModifiers u32 u32 u32 u32 u32

definition vk_v2_emitter :: "vk_request list key_emitter" where
  "vk_v2_emitter =
     \<lparr>ke_emit_key = (\<lambda>time keycode v w. w @ [VkKey time keycode v]),
      ke_emit_modifiers = (\<lambda>dep lat lock grp w. w @ [VkModifiers dep lat lock grp]),
      ke_modifier_echo_through_grab = True,
      ke_sync_barrier = default_sync_barrier\<rparr>"

definition vk_v1_emitter :: "u32 \<Rightarrow> context_request list key_emitter" where
  "vk_v1_emitter serial =
     \<lparr>ke_emit_key = (\<lambda>time keycode v w. w @ [CtxKey serial time keycode v]),
      ke_emit_modifiers = (\<lambda>dep lat lock grp w. w @ [CtxModifiers serial dep lat lock grp]),
      ke_modifier_echo_through_grab = True,
      ke_sync_barrier = default_sync_barrier\<rparr>"

text \<open>
  \<open>dev_emit\<close> is the evdev library's \<^verbatim>\<open>VirtualDevice::emit\<close> of one key event: the device after it,
  or \<open>None\<close> for an error, which the emitter logs and drops.
\<close>

definition uinput_emit :: "(u16 \<Rightarrow> 32 word \<Rightarrow> 'd \<Rightarrow> 'd option) \<Rightarrow> u16 \<Rightarrow> 32 word \<Rightarrow> 'd \<Rightarrow> 'd option" where
  "uinput_emit dev_emit code v d = dev_emit code v d"

definition uinput_emitter :: "(u16 \<Rightarrow> 32 word \<Rightarrow> 'd \<Rightarrow> 'd option) \<Rightarrow> 'd key_emitter" where
  "uinput_emitter dev_emit =
     \<lparr>ke_emit_key = (\<lambda>time keycode v d.
        if unat keycode < 2 ^ 16 then
          (case uinput_emit dev_emit (of_nat (unat keycode)) v d of
             Some d' \<Rightarrow> d'
           | None \<Rightarrow> d)
        else d),
      ke_emit_modifiers = (\<lambda>dep lat lock grp d. d),
      ke_modifier_echo_through_grab = default_modifier_echo_through_grab,
      ke_sync_barrier = default_sync_barrier\<rparr>"

text \<open>The keys the virtual device declares; the kernel drops events of any other key.\<close>

definition UINPUT_KEYS :: "u16 list" where
  "UINPUT_KEYS =
     [1,
      2, 3, 4, 5, 6, 7, 8, 9, 10, 11,
      12, 13, 14, 15,
      16, 17, 18, 19, 20, 21, 22, 23, 24, 25,
      26, 27, 28,
      29, 30, 31, 32, 33, 34, 35, 36, 37, 38,
      39, 40, 41, 42, 43,
      44, 45, 46, 47, 48, 49, 50, 51, 52, 53,
      54, 55, 56, 57, 58,
      59, 60, 61, 62, 63, 64, 65, 66, 67, 68, 87, 88,
      183, 184, 185, 186, 187, 188, 189,
      69, 70,
      71, 72, 73, 74, 75, 76, 77, 78, 79, 80, 81, 82, 83,
      96, 97, 98, 99, 100, 92,
      102, 103, 104, 105, 106, 107, 108, 109, 110, 111, 119,
      125, 126, 127, 115, 114, 113, 225, 224, 164, 163, 165, 166]
     @ daklak_slot_keycodes"

section \<open>Sending one character\<close>

type_synonym modifier_snapshot = "u32 \<times> u32 \<times> u32 \<times> u32"

record synthetic_mods =
  sm_pending :: u32
  sm_expected :: "modifier_snapshot list"
  sm_emitted_at :: "time option"

record emit_char_params =
  ep_raw_mods :: modifier_snapshot
  ep_held_user_kc :: "u32 option"
  ep_time :: u32
  ep_c :: uchar

text \<open>The bookkeeping after a modifier request on a channel that echoes; \<open>now\<close> is the clock.\<close>

definition note_expected :: "bool \<Rightarrow> time \<Rightarrow> modifier_snapshot \<Rightarrow> synthetic_mods \<Rightarrow> synthetic_mods" where
  "note_expected echo now snapshot sm =
     (if echo then
        (let expected = sm_expected sm @ [snapshot]
         in \<lparr>sm_pending = of_nat (length expected), sm_expected = expected, sm_emitted_at = Some now\<rparr>)
      else sm)"

definition emit_char ::
    "'w key_emitter \<Rightarrow> time \<Rightarrow> emit_char_params \<Rightarrow> synthetic_mods \<times> 'w \<Rightarrow> bool \<times> synthetic_mods \<times> 'w" where
  "emit_char ke now params = (\<lambda>(sm, w).
     case char_to_emit (ep_c params) of
       None \<Rightarrow> (False, sm, w)
     | Some spec \<Rightarrow>
        (let (dep, lat, lock, grp) = ep_raw_mods params;
             time = ep_time params;
             kc = es_keycode spec;
             dance = plan_mod_dance dep (es_mods spec);
             echo = ke_modifier_echo_through_grab ke;
             w1 = (if ep_held_user_kc params = Some kc then ke_emit_key ke time kc 0 w else w);
             (sm2, w2) =
               (case dance of
                  Some (emit_mask, _) \<Rightarrow>
                    (note_expected echo now (emit_mask, lat, lock, grp) sm,
                     ke_emit_modifiers ke emit_mask lat lock grp w1)
                | None \<Rightarrow> (sm, w1));
             w3 = ke_emit_key ke time kc 0 (ke_emit_key ke time kc 1 w2);
             (sm4, w4) =
               (case dance of
                  Some (_, restore_mask) \<Rightarrow>
                    (note_expected echo now (restore_mask, lat, lock, grp) sm2,
                     ke_emit_modifiers ke restore_mask lat lock grp w3)
                | None \<Rightarrow> (sm2, w3))
         in (True, sm4, w4)))"

section \<open>What a key types\<close>

lemma mask_bits [simp]:
  "(m AND LEVEL_MASK) AND MOD_SHIFT_XKB = m AND MOD_SHIFT_XKB"
  "(m AND LEVEL_MASK) AND MOD_LEVEL3 = m AND MOD_LEVEL3"
  "(m AND LEVEL_MASK) AND MOD_LEVEL5 = m AND MOD_LEVEL5"
  by (simp_all add: LEVEL_MASK_def MOD_SHIFT_XKB_def MOD_LEVEL3_def MOD_LEVEL5_def and.assoc)

lemma decode_slot_mask: "decode_slot kc (m AND LEVEL_MASK) = decode_slot kc m"
  by (simp add: decode_slot_def level_of_mods_def split: option.split)

lemma key_char_mask: "key_char kc (m AND LEVEL_MASK) = key_char kc m"
  by (simp add: key_char_def decode_slot_mask split: option.split)

lemma key_char_cong: "m AND LEVEL_MASK = m' AND LEVEL_MASK \<Longrightarrow> key_char kc m = key_char kc m'"
  by (metis key_char_mask)

lemma ascii_rows_shift: "list_all (\<lambda>(c, kc, m). m AND MOD_SHIFT_XKB = m \<and> m AND LEVEL_MASK = m
    \<and> kc \<noteq> 14 \<and> kc \<noteq> 42 \<and> kc \<noteq> 54 \<and> kc \<noteq> 92 \<and> kc \<noteq> 100) ascii_rows"
  by (simp add: ascii_rows_def MOD_SHIFT_XKB_def LEVEL_MASK_def MOD_LEVEL3_def MOD_LEVEL5_def)

lemma decode_slot_ascii: "(c, kc, m) \<in> set ascii_rows \<Longrightarrow> decode_slot kc m' = None"
proof -
  assume "(c, kc, m) \<in> set ascii_rows"
  with ascii_rows_keycodes have "unat kc < 58" by (auto simp: list_all_iff)
  then have "kc \<notin> set (map (\<lambda>k. (of_nat (unat k) :: u32)) SAFE_KEYCODES)"
    by (auto simp: SAFE_KEYCODES_def)
  then show ?thesis by (simp add: decode_slot_def position_None [THEN iffD2])
qed

lemma key_char_ascii:
  assumes "(c, kc, m) \<in> set ascii_rows"
  shows "key_char kc m = Some c"
proof -
  have "m AND MOD_SHIFT_XKB = m" using assms ascii_rows_shift by (auto simp: list_all_iff)
  moreover have "map fst (map (\<lambda>(c, k, m). ((k, m), c)) ascii_rows) = map snd ascii_rows"
    by (simp add: comp_def case_prod_beta)
  then have "distinct (map fst (map (\<lambda>(c, k, m). ((k, m), c)) ascii_rows))"
    using ascii_rows_distinct(2) by (rule ssubst)
  moreover have "((kc, m), c) \<in> set (map (\<lambda>(c, k, m). ((k, m), c)) ascii_rows)"
    using assms by force
  ultimately show ?thesis by (simp add: key_char_def decode_slot_ascii [OF assms])
qed

definition modifier_keys :: "u32 set" where
  "modifier_keys = {42, 54, 92, 100}"

lemma level_mods_mask: "level_mods lv AND LEVEL_MASK = level_mods lv"
  by (simp add: level_mods_def LEVEL_MASK_def MOD_SHIFT_XKB_def MOD_LEVEL3_def MOD_LEVEL5_def)

lemma emitted_key:
  assumes "char_to_emit c = Some spec"
  shows "key_char (es_keycode spec) (es_mods spec) = Some c"
    and "es_mods spec AND LEVEL_MASK = es_mods spec"
    and "es_keycode spec \<noteq> 14" and "es_keycode spec \<notin> modifier_keys"
    and "unat (es_keycode spec) < 256"
proof -
  have "key_char (es_keycode spec) (es_mods spec) = Some c
    \<and> es_mods spec AND LEVEL_MASK = es_mods spec \<and> es_keycode spec \<noteq> 14
    \<and> es_keycode spec \<notin> modifier_keys \<and> unat (es_keycode spec) < 256"
  proof (cases "locate_vn c")
    case None
    note row = emit_ascii [OF this assms]
    with ascii_rows_shift ascii_rows_keycodes key_char_ascii [OF row] show ?thesis
      by (auto simp: list_all_iff modifier_keys_def)
  next
    case (Some p)
    obtain s lv where p: "locate_vn c = Some (s, lv)" using Some by (cases p) auto
    note d = locate_vn_decodes [OF p]
    have spec: "es_keycode spec = of_nat (unat (slot_keycode s))" "es_mods spec = level_mods lv"
      using emit_vietnamese [OF p] assms by auto
    have k: "slot_keycode s \<in> set SAFE_KEYCODES" using d(1) by (simp add: slot_keycode_def length_vn)
    then have "es_keycode spec \<noteq> 14 \<and> es_keycode spec \<notin> modifier_keys \<and> unat (es_keycode spec) < 256"
      unfolding spec(1) modifier_keys_def SAFE_KEYCODES_def by auto
    with d(3) show ?thesis by (simp add: key_char_def spec level_mods_mask)
  qed
  then show "key_char (es_keycode spec) (es_mods spec) = Some c"
    and "es_mods spec AND LEVEL_MASK = es_mods spec"
    and "es_keycode spec \<noteq> 14" and "es_keycode spec \<notin> modifier_keys"
    and "unat (es_keycode spec) < 256" by blast+
qed

lemma strike_emitted:
  assumes "char_to_emit c = Some spec" "m AND LEVEL_MASK = es_mods spec"
  shows "strike (es_keycode spec) m t = t @ [c]"
proof -
  have "key_char (es_keycode spec) m = Some c"
    using emitted_key(1,2) [OF assms(1)] assms(2) key_char_cong by metis
  with emitted_key(3) [OF assms(1)] show ?thesis by (simp add: strike_def)
qed

section \<open>The channel contracts\<close>

text \<open>
  \<open>view\<close> is the client after everything the emitter sent, \<open>sends\<close> the keys the channel carries.
\<close>

locale key_channel =
  fixes ke :: "'w key_emitter" and view :: "'w \<Rightarrow> key_client"
    and mods :: "key_client \<Rightarrow> u32" and sends :: "u32 \<Rightarrow> bool"
  assumes emit_key: "sends kc \<Longrightarrow> view (ke_emit_key ke t kc v w) = deliver_key mods kc v (view w)"
begin

lemma emit_press: "sends kc \<Longrightarrow> view (ke_emit_key ke t kc 1 w) = client_press mods kc (view w)"
  by (simp add: emit_key deliver_key_def)

lemma emit_release: "sends kc \<Longrightarrow> view (ke_emit_key ke t kc 0 w) = client_release kc (view w)"
  by (simp add: emit_key deliver_key_def)

lemma emit_tap:
  "sends kc \<Longrightarrow> kc \<notin> kc_down (view w) \<Longrightarrow>
     view (ke_emit_key ke t' kc 0 (ke_emit_key ke t kc 1 w))
       = (view w)\<lparr>kc_text := strike kc (mods (view w)) (kc_text (view w))\<rparr>"
  by (simp add: emit_press emit_release client_press_def client_release_def)

end

locale modifier_channel = key_channel ke view kc_mask sends
  for ke :: "'w key_emitter" and view and sends +
  assumes emit_modifiers: "view (ke_emit_modifiers ke dep lat lock grp w) = (view w)\<lparr>kc_mask := dep\<rparr>"
begin

lemma emit_char_delivers:
  assumes spec: "char_to_emit (ep_c p) = Some spec"
    and sent: "sends (es_keycode spec)"
    and level: "(fst (ep_raw_mods p) OR es_mods spec) AND LEVEL_MASK = es_mods spec"
    and mask: "kc_mask (view w) = fst (ep_raw_mods p)"
    and held: "es_keycode spec \<in> kc_down (view w) \<longrightarrow> ep_held_user_kc p = Some (es_keycode spec)"
  shows "view (snd (snd (emit_char ke now p (sm, w)))) =
      (view w)\<lparr>kc_down := kc_down (view w) - {es_keycode spec}, kc_text := kc_text (view w) @ [ep_c p]\<rparr>"
proof -
  obtain dep lat lock grp where raw: "ep_raw_mods p = (dep, lat, lock, grp)" by (cases "ep_raw_mods p")
  define kc where "kc = es_keycode spec"
  define w1 where "w1 = (if ep_held_user_kc p = Some kc then ke_emit_key ke (ep_time p) kc 0 w else w)"
  have sent: "sends kc" using sent by (simp add: kc_def)
  have w1: "view w1 = (view w)\<lparr>kc_down := kc_down (view w) - {kc}\<rparr>"
    using held sent by (auto simp: w1_def kc_def emit_release client_release_def)
  have typed: "strike kc (dep OR es_mods spec) t = t @ [ep_c p]" for t
    using strike_emitted [OF spec] level raw by (simp add: kc_def)
  show ?thesis
  proof (cases "es_mods spec = 0")
    case True
    with w1 typed mask spec raw sent show ?thesis
      by (simp add: emit_char_def plan_mod_dance_def Let_def emit_tap flip: kc_def w1_def)
  next
    case False
    with w1 typed mask spec raw sent show ?thesis
      by (simp add: emit_char_def plan_mod_dance_def Let_def emit_tap emit_modifiers flip: kc_def w1_def)
  qed
qed

end

text \<open>What the two Wayland protocols deliver.\<close>

fun vk_deliver :: "vk_request \<Rightarrow> key_client \<Rightarrow> key_client" where
  "vk_deliver (VkKey time keycode v) cl = deliver_key kc_mask keycode v cl"
| "vk_deliver (VkModifiers dep lat lock grp) cl = cl\<lparr>kc_mask := dep\<rparr>"

definition vk_view :: "key_client \<Rightarrow> vk_request list \<Rightarrow> key_client" where
  "vk_view cl w = fold vk_deliver w cl"

fun context_deliver :: "context_request \<Rightarrow> key_client \<Rightarrow> key_client" where
  "context_deliver (CtxKey serial time keycode v) cl = deliver_key kc_mask keycode v cl"
| "context_deliver (CtxModifiers serial dep lat lock grp) cl = cl\<lparr>kc_mask := dep\<rparr>"

definition context_view :: "key_client \<Rightarrow> context_request list \<Rightarrow> key_client" where
  "context_view cl w = fold context_deliver w cl"

interpretation v2: modifier_channel vk_v2_emitter "vk_view cl" "\<lambda>_. True" for cl
  by unfold_locales (simp_all add: vk_v2_emitter_def vk_view_def)

interpretation v1: modifier_channel "vk_v1_emitter serial" "context_view cl" "\<lambda>_. True" for serial cl
  by unfold_locales (simp_all add: vk_v1_emitter_def context_view_def)

text \<open>
  The kernel's side of uinput: a device that never fails on a declared key is a key channel
  for the declared keys; modifiers follow from the modifier keys.
\<close>

definition declared :: "u32 \<Rightarrow> bool" where
  "declared kc \<longleftrightarrow> kc \<in> set (map (\<lambda>k. of_nat (unat k)) UINPUT_KEYS)"

locale kernel_channel = key_channel ke view held_mods declared
  for ke :: "'w key_emitter" and view +
  assumes drop_key: "\<not> declared kc \<Longrightarrow> view (ke_emit_key ke t kc v w) = view w"

locale uinput_kernel =
  fixes dev_emit :: "u16 \<Rightarrow> 32 word \<Rightarrow> 'd \<Rightarrow> 'd option" and view :: "'d \<Rightarrow> key_client"
  assumes declared_key: "k \<in> set UINPUT_KEYS \<Longrightarrow>
    \<exists>d'. dev_emit k v d = Some d' \<and> view d' = deliver_key held_mods (of_nat (unat k)) v (view d)"
    and undeclared_key: "k \<notin> set UINPUT_KEYS \<Longrightarrow> dev_emit k v d = Some d' \<Longrightarrow> view d' = view d"

lemma u16_of_small: "n < 2 ^ 16 \<Longrightarrow> unat (of_nat n :: u16) = n"
  by (simp add: unat_of_nat)

lemma declared_u16:
  assumes "declared kc"
  shows "unat kc < 2 ^ 16" and "of_nat (unat kc) \<in> set UINPUT_KEYS"
proof -
  obtain k :: u16 where k: "k \<in> set UINPUT_KEYS" "kc = of_nat (unat k)"
    using assms by (auto simp: declared_def)
  have "unat k < 2 ^ 16" using unsigned_less [of k] by simp
  then have u: "unat kc = unat k" unfolding k(2) by (intro unat_of_nat_u32) simp
  then show "unat kc < 2 ^ 16" using \<open>unat k < 2 ^ 16\<close> by simp
  show "of_nat (unat kc) \<in> set UINPUT_KEYS" using k(1) u by simp
qed

sublocale uinput_kernel \<subseteq> uinput: kernel_channel "uinput_emitter dev_emit" view
proof
  fix kc v w and t :: u32
  assume kc: "declared kc"
  from declared_key [OF declared_u16(2) [OF kc], of v w] obtain d' where
    d: "dev_emit (of_nat (unat kc)) v w = Some d'"
    "view d' = deliver_key held_mods (of_nat (unat (of_nat (unat kc) :: u16))) v (view w)" by blast
  note u = u16_of_small [OF declared_u16(1) [OF kc]]
  have "of_nat (unat (of_nat (unat kc) :: u16)) = kc" unfolding u by simp
  with d declared_u16(1) [OF kc]
  show "view (ke_emit_key (uinput_emitter dev_emit) t kc v w) = deliver_key held_mods kc v (view w)"
    by (simp add: uinput_emitter_def uinput_emit_def)
next
  fix kc v w and t :: u32
  assume kc: "\<not> declared kc"
  have "of_nat (unat kc) \<notin> set UINPUT_KEYS" if small: "unat kc < 2 ^ 16"
  proof
    assume k: "(of_nat (unat kc) :: u16) \<in> set UINPUT_KEYS"
    have "kc = of_nat (unat (of_nat (unat kc) :: u16))" unfolding u16_of_small [OF small] by simp
    then have "kc \<in> (\<lambda>k :: u16. of_nat (unat k)) ` set UINPUT_KEYS" using k by (rule image_eqI)
    with kc show False unfolding declared_def set_map by blast
  qed
  then show "view (ke_emit_key (uinput_emitter dev_emit) t kc v w) = view w"
    using undeclared_key by (auto simp: uinput_emitter_def uinput_emit_def split: option.split)
qed

text \<open>The device as the list of key events the kernel accepted.\<close>

definition device_emit :: "u16 \<Rightarrow> 32 word \<Rightarrow> (u16 \<times> 32 word) list \<Rightarrow> (u16 \<times> 32 word) list option" where
  "device_emit k v d = Some (if k \<in> set UINPUT_KEYS then d @ [(k, v)] else d)"

definition device_view :: "key_client \<Rightarrow> (u16 \<times> 32 word) list \<Rightarrow> key_client" where
  "device_view cl d = fold (\<lambda>(k, v). deliver_key held_mods (of_nat (unat k)) v) d cl"

interpretation device: uinput_kernel device_emit "device_view cl" for cl
  by unfold_locales (auto simp: device_emit_def device_view_def)

lemma emitted_declared:
  assumes "char_to_emit c = Some spec"
  shows "declared (es_keycode spec)"
proof (cases "locate_vn c")
  case None
  have "list_all (\<lambda>(c, kc, m). declared kc) ascii_rows"
    by (simp add: ascii_rows_def declared_def UINPUT_KEYS_def)
  with emit_ascii [OF None assms] show ?thesis by (auto simp: list_all_iff)
next
  case (Some p)
  obtain s lv where p: "locate_vn c = Some (s, lv)" using Some by (cases p) auto
  have "slot_keycode s \<in> set UINPUT_KEYS"
    using locate_vn_decodes(1) [OF p] by (simp add: slot_keycode_def length_vn UINPUT_KEYS_def daklak_slot_keycodes_def)
  with emit_vietnamese [OF p] assms show ?thesis by (auto simp: declared_def)
qed

end
