(* ===== verification/Xkb.thy ===== *)
theory Xkb
  imports Keymap
begin

text \<open>
  \<^verbatim>\<open>crates/keymap/src/xkb.rs\<close>: a keymap with its modifier state. libxkbcommon is the parameter
  \<open>xkb_lib\<close>: one field per function of the library the wrapper calls. \<open>from\_fd\<close> differs from
  \<open>from\_keymap\<close> only by reading the keymap from a file descriptor; that part is not modelled.
\<close>

unbundle bit_operations_syntax

record ('k, 's) xkb_lib =
  xl_state_new :: "'k \<Rightarrow> 's"
  xl_update_mask :: "u32 \<Rightarrow> u32 \<Rightarrow> u32 \<Rightarrow> u32 \<Rightarrow> 's \<Rightarrow> 's"
  xl_key_get_one_sym :: "'s \<Rightarrow> u32 \<Rightarrow> u32"
  xl_key_get_layout :: "'s \<Rightarrow> u32 \<Rightarrow> u32"
  xl_key_get_syms_by_level :: "'k \<Rightarrow> u32 \<Rightarrow> u32 \<Rightarrow> u32 \<Rightarrow> u32 list"
  xl_key_repeats :: "'k \<Rightarrow> u32 \<Rightarrow> bool"
  xl_mod_get_index :: "'k \<Rightarrow> string \<Rightarrow> u32"
  xl_keysym_to_utf32 :: "u32 \<Rightarrow> u32"
  xl_utf32_to_keysym :: "u32 \<Rightarrow> u32"

record ('k, 's) xkb_state =
  xs_keymap :: 'k
  xs_state :: 's

record canonical_modifier_masks =
  cm_shift :: u32
  cm_control :: u32
  cm_alt :: u32
  cm_logo :: u32

definition xkb_from_keymap :: "('k, 's) xkb_lib \<Rightarrow> 'k \<Rightarrow> ('k, 's) xkb_state" where
  "xkb_from_keymap lib keymap = \<lparr>xs_keymap = keymap, xs_state = xl_state_new lib keymap\<rparr>"

definition xkb_update_modifiers ::
    "('k, 's) xkb_lib \<Rightarrow> u32 \<Rightarrow> u32 \<Rightarrow> u32 \<Rightarrow> u32 \<Rightarrow> ('k, 's) xkb_state \<Rightarrow> ('k, 's) xkb_state" where
  "xkb_update_modifiers lib dep lat lock grp x =
     x\<lparr>xs_state := xl_update_mask lib dep lat lock grp (xs_state x)\<rparr>"

definition MOD_INVALID :: u32 where
  "MOD_INVALID = 0xFFFFFFFF"

fun mod_mask_for_names :: "('k, 's) xkb_lib \<Rightarrow> ('k, 's) xkb_state \<Rightarrow> u32 \<Rightarrow> string list \<Rightarrow> u32" where
  "mod_mask_for_names lib x acc [] = acc"
| "mod_mask_for_names lib x acc (name # names) =
     (let idx = xl_mod_get_index lib (xs_keymap x) name
      in if idx = MOD_INVALID \<or> 32 \<le> idx then mod_mask_for_names lib x acc names
         else mod_mask_for_names lib x (acc OR push_bit (unat idx) 1) names)"

definition canonical_modifier_masks_of ::
    "('k, 's) xkb_lib \<Rightarrow> ('k, 's) xkb_state \<Rightarrow> canonical_modifier_masks" where
  "canonical_modifier_masks_of lib x =
     \<lparr>cm_shift = mod_mask_for_names lib x 0 [''Shift''],
      cm_control = mod_mask_for_names lib x 0 [''Control''],
      cm_alt = mod_mask_for_names lib x 0 [''Mod1'', ''Alt''],
      cm_logo = mod_mask_for_names lib x 0 [''Mod4'', ''Logo'']\<rparr>"

definition key_repeats :: "('k, 's) xkb_lib \<Rightarrow> ('k, 's) xkb_state \<Rightarrow> u32 \<Rightarrow> bool" where
  "key_repeats lib x evdev_code = xl_key_repeats lib (xs_keymap x) (evdev_code + 8)"

text \<open>The UTF-32 value as a \<^verbatim>\<open>char\<close>: neither of the library's two failures, and a scalar value.\<close>

definition char_of_utf32 :: "u32 \<Rightarrow> uchar option" where
  "char_of_utf32 utf32 =
     (if utf32 = 0 \<or> utf32 = 0xFFFFFFFF then None
      else if is_scalar (unat utf32) then Some (unat utf32) else None)"

definition key_to_char :: "('k, 's) xkb_lib \<Rightarrow> ('k, 's) xkb_state \<Rightarrow> u32 \<Rightarrow> uchar option" where
  "key_to_char lib x evdev_code =
     char_of_utf32 (xl_keysym_to_utf32 lib (xl_key_get_one_sym lib (xs_state x) (evdev_code + 8)))"

definition base_char :: "('k, 's) xkb_lib \<Rightarrow> ('k, 's) xkb_state \<Rightarrow> u32 \<Rightarrow> uchar option" where
  "base_char lib x evdev_code =
     (let keycode = evdev_code + 8;
          layout = xl_key_get_layout lib (xs_state x) keycode
      in case xl_key_get_syms_by_level lib (xs_keymap x) keycode layout 0 of
           [] \<Rightarrow> None
         | ksym # _ \<Rightarrow> char_of_utf32 (xl_keysym_to_utf32 lib ksym))"

definition KEYSYM_NoSymbol :: u32 where
  "KEYSYM_NoSymbol = 0"

text \<open>The scan of the keycodes 8 to 255.\<close>

definition char_to_keycode :: "('k, 's) xkb_lib \<Rightarrow> ('k, 's) xkb_state \<Rightarrow> uchar \<Rightarrow> u32 option" where
  "char_to_keycode lib x ch =
     (let target_sym = xl_utf32_to_keysym lib (of_nat ch)
      in if target_sym = KEYSYM_NoSymbol then None
         else map_option of_nat
           (find (\<lambda>code. xl_key_get_one_sym lib (xs_state x) (of_nat code + 8) = target_sym) [8..<256]))"

lemma key_to_char_scalar: "key_to_char lib x kc = Some c \<Longrightarrow> is_scalar c \<and> c \<noteq> 0"
  by (auto simp: key_to_char_def char_of_utf32_def unat_gt_0 split: if_splits)

lemma char_to_keycode_sound:
  assumes "char_to_keycode lib x ch = Some kc"
  shows "xl_key_get_one_sym lib (xs_state x) (kc + 8) = xl_utf32_to_keysym lib (of_nat ch)"
    and "8 \<le> unat kc" and "unat kc < 256"
proof -
  let ?P = "\<lambda>code. xl_key_get_one_sym lib (xs_state x) (of_nat code + 8) = xl_utf32_to_keysym lib (of_nat ch)"
  obtain n where n: "find ?P [8..<256] = Some n" and kc: "kc = of_nat n"
    using assms by (auto simp: char_to_keycode_def Let_def simp del: upt_rec_numeral split: if_splits)
  from n [unfolded find_Some_iff] obtain i where "n = [8..<256] ! i" "i < length [8..<256]" "?P n"
    by blast
  then have n: "8 \<le> n" "n < 256" "?P n" by (simp_all only: nth_upt length_upt)
  have "unat kc = n" using n(2) by (simp add: kc unat_of_nat_u32 del: of_nat_numeral)
  with n kc show "8 \<le> unat kc" "unat kc < 256"
    and "xl_key_get_one_sym lib (xs_state x) (kc + 8) = xl_utf32_to_keysym lib (of_nat ch)"
    by simp_all
qed

text \<open>The digits' keys, 2 to 11 on every PC keyboard, begin below the scan.\<close>

lemma char_to_keycode_skips:
  assumes "\<forall>kc. 8 \<le> unat kc \<longrightarrow> xl_key_get_one_sym lib (xs_state x) (kc + 8) \<noteq> xl_utf32_to_keysym lib (of_nat ch)"
  shows "char_to_keycode lib x ch = None"
proof (cases "char_to_keycode lib x ch")
  case (Some kc)
  with char_to_keycode_sound [OF this] assms show ?thesis by blast
qed

text \<open>A keymap with two letters, for the examples.\<close>

definition toy_xkb :: "(unit, u32) xkb_lib" where
  "toy_xkb = \<lparr>xl_state_new = (\<lambda>_. 0), xl_update_mask = (\<lambda>dep _ _ _ _. dep),
     xl_key_get_one_sym = (\<lambda>_ kc. if kc = 38 then 0x61 else if kc = 39 then 0x73 else 0), xl_key_get_layout = (\<lambda>_ _. 0),
     xl_key_get_syms_by_level = (\<lambda>_ _ _ _. []), xl_key_repeats = (\<lambda>_ _. True),
     xl_mod_get_index = (\<lambda>_ _. 0), xl_keysym_to_utf32 = (\<lambda>k. k), xl_utf32_to_keysym = (\<lambda>k. k)\<rparr>"

end
