(* ===== verification/Evdev.thy ===== *)
theory Evdev
  imports KeyEmitter Xkb Daemon
begin

text \<open>
  \<^verbatim>\<open>crates/evdev-adapter/src/adapter.rs\<close>: the adapter that grabs the keyboards, decides each
  event with the daemon and re-emits it through a virtual device. \<open>process\_event\<close> is the whole
  handler of one kernel event; the streams, the shutdown channel and the device scan are outside.
  The daemon is reached through the trait \<open>evdev\_handler\<close>, which \<open>daemon\_handler\<close> implements.
\<close>

unbundle bit_operations_syntax

section \<open>Constants\<close>

definition EVDEV_KEY_BACKSPACE :: u32 where "EVDEV_KEY_BACKSPACE = 14"
definition EVDEV_KEY_ESC :: u32 where "EVDEV_KEY_ESC = 1"
definition MOD_LEFTCTRL :: u32 where "MOD_LEFTCTRL = 29"
definition MOD_LEFTSHIFT :: u32 where "MOD_LEFTSHIFT = 42"
definition MOD_RIGHTSHIFT :: u32 where "MOD_RIGHTSHIFT = 54"
definition MOD_LEFTALT :: u32 where "MOD_LEFTALT = 56"
definition MOD_RIGHTCTRL :: u32 where "MOD_RIGHTCTRL = 97"
definition MOD_RIGHTALT :: u32 where "MOD_RIGHTALT = 100"
definition MOD_HENKAN :: u32 where "MOD_HENKAN = 92"
definition MOD_LEFTMETA :: u32 where "MOD_LEFTMETA = 125"
definition MOD_RIGHTMETA :: u32 where "MOD_RIGHTMETA = 127"

definition XKB_SHIFT_BIT :: u32 where "XKB_SHIFT_BIT = 0x01"
definition XKB_CONTROL_BIT :: u32 where "XKB_CONTROL_BIT = 0x04"
definition XKB_MOD1_BIT :: u32 where "XKB_MOD1_BIT = 0x08"
definition XKB_MOD3_BIT :: u32 where "XKB_MOD3_BIT = 0x20"
definition XKB_MOD4_BIT :: u32 where "XKB_MOD4_BIT = 0x40"
definition XKB_MOD5_BIT :: u32 where "XKB_MOD5_BIT = 0x80"

definition mod_bit :: "u32 \<Rightarrow> u32 option" where
  "mod_bit code =
     (if code = MOD_LEFTSHIFT \<or> code = MOD_RIGHTSHIFT then Some XKB_SHIFT_BIT
      else if code = MOD_LEFTCTRL \<or> code = MOD_RIGHTCTRL then Some XKB_CONTROL_BIT
      else if code = MOD_LEFTALT then Some XKB_MOD1_BIT
      else if code = MOD_LEFTMETA \<or> code = MOD_RIGHTMETA then Some XKB_MOD4_BIT
      else if code = MOD_RIGHTALT then Some XKB_MOD5_BIT
      else if code = MOD_HENKAN then Some XKB_MOD3_BIT
      else None)"

section \<open>State\<close>

record 'h evdev_handler =
  eh_handle_char :: "u32 \<Rightarrow> uchar \<Rightarrow> 'h \<Rightarrow> key_decision \<times> 'h"
  eh_handle_backspace :: "'h \<Rightarrow> key_decision \<times> 'h"
  eh_clear_session :: "'h \<Rightarrow> 'h"
  eh_clear_last_input_char :: "'h \<Rightarrow> 'h"
  eh_full_reset_window :: "'h \<Rightarrow> 'h"
  eh_check_idle_reset_window :: "'h \<Rightarrow> 'h"

record ('w, 'k, 's) evdev_adapter =
  ea_output :: 'w
  ea_xkb :: "('k, 's) xkb_state"
  ea_mod_mask :: u32
  ea_emitted_mods :: u32
  ea_held_physical :: "u32 set"
  ea_forwarded_press :: "u32 set"
  ea_escape_taps :: "time list"
  ea_should_exit :: bool

datatype event_type = EV_KEY | EV_OTHER

record input_event =
  ie_type :: event_type
  ie_code :: u16
  ie_value :: "32 word"

definition event_code :: "input_event \<Rightarrow> u32" where
  "event_code ev = of_nat (unat (ie_code ev))"

text \<open>\<^verbatim>\<open>prepare\<close> after the device and the US keymap are open.\<close>

definition evdev_prepare :: "'w \<Rightarrow> ('k, 's) xkb_state \<Rightarrow> ('w, 'k, 's) evdev_adapter" where
  "evdev_prepare output xkb =
     \<lparr>ea_output = output, ea_xkb = xkb, ea_mod_mask = 0, ea_emitted_mods = 0,
      ea_held_physical = {}, ea_forwarded_press = {}, ea_escape_taps = [], ea_should_exit = False\<rparr>"

section \<open>Emission\<close>

definition shortcut_mods_held :: "('w, 'k, 's) evdev_adapter \<Rightarrow> bool" where
  "shortcut_mods_held a \<longleftrightarrow> ea_mod_mask a AND NOT XKB_SHIFT_BIT \<noteq> 0"

definition passthrough ::
    "'w key_emitter \<Rightarrow> u32 \<Rightarrow> 32 word \<Rightarrow> ('w, 'k, 's) evdev_adapter \<Rightarrow> ('w, 'k, 's) evdev_adapter" where
  "passthrough ke code v a = a\<lparr>ea_output := ke_emit_key ke 0 code v (ea_output a)\<rparr>"

definition forward_press_raw ::
    "'w key_emitter \<Rightarrow> u32 \<Rightarrow> 32 word \<Rightarrow> ('w, 'k, 's) evdev_adapter \<Rightarrow> ('w, 'k, 's) evdev_adapter" where
  "forward_press_raw ke code v a =
     (let newly_forwarded = (code \<notin> ea_forwarded_press a);
          emit_value = (if newly_forwarded \<and> v = 2 then 1 else v)
      in passthrough ke code emit_value
           (a\<lparr>ea_forwarded_press := insert code (ea_forwarded_press a)\<rparr>))"

text \<open>One of the three steps of \<open>set\_uinput\_mods\<close>: bring the key of one level bit to its target.\<close>

definition set_uinput_mod ::
    "'w key_emitter \<Rightarrow> u32 \<Rightarrow> u32 \<Rightarrow> u32 \<Rightarrow> u32 \<Rightarrow> ('w, 'k, 's) evdev_adapter \<Rightarrow> ('w, 'k, 's) evdev_adapter" where
  "set_uinput_mod ke lv_bit code cur target a =
     (let want = (target AND lv_bit \<noteq> 0);
          have_bit = (cur AND lv_bit \<noteq> 0)
      in if want \<and> \<not> have_bit then passthrough ke code 1 a
         else if \<not> want \<and> have_bit then passthrough ke code 0 a
         else a)"

definition set_uinput_mods ::
    "'w key_emitter \<Rightarrow> u32 \<Rightarrow> ('w, 'k, 's) evdev_adapter \<Rightarrow> ('w, 'k, 's) evdev_adapter" where
  "set_uinput_mods ke target0 a =
     (let cur = ea_emitted_mods a;
          msk = MOD_SHIFT_XKB OR MOD_LEVEL3 OR MOD_LEVEL5;
          target = target0 AND msk;
          a1 = set_uinput_mod ke MOD_SHIFT_XKB MOD_LEFTSHIFT cur target a;
          a2 = set_uinput_mod ke MOD_LEVEL3 MOD_RIGHTALT cur target a1;
          a3 = set_uinput_mod ke MOD_LEVEL5 MOD_HENKAN cur target a2
      in a3\<lparr>ea_emitted_mods := (ea_emitted_mods a3 AND NOT msk) OR target\<rparr>)"

definition emit_one ::
    "'w key_emitter \<Rightarrow> uchar \<Rightarrow> ('w, 'k, 's) evdev_adapter \<Rightarrow> ('w, 'k, 's) evdev_adapter" where
  "emit_one ke ch a =
     (case char_to_emit ch of
        None \<Rightarrow> a
      | Some spec \<Rightarrow>
          (let kc = es_keycode spec;
               a1 = set_uinput_mods ke (es_mods spec) a;
               a2 = (if kc \<in> ea_held_physical a1 then passthrough ke kc 0 a1 else a1)
           in passthrough ke kc 0 (passthrough ke kc 1 a2)))"

definition emit_string ::
    "'w key_emitter \<Rightarrow> ustr \<Rightarrow> ('w, 'k, 's) evdev_adapter \<Rightarrow> ('w, 'k, 's) evdev_adapter" where
  "emit_string ke s a =
     (let original = ea_emitted_mods a AND (MOD_SHIFT_XKB OR MOD_LEVEL3 OR MOD_LEVEL5)
      in set_uinput_mods ke original (fold (emit_one ke) s a))"

fun emit_backspaces ::
    "'w key_emitter \<Rightarrow> nat \<Rightarrow> ('w, 'k, 's) evdev_adapter \<Rightarrow> ('w, 'k, 's) evdev_adapter" where
  "emit_backspaces ke 0 a = a"
| "emit_backspaces ke (Suc n) a =
     emit_backspaces ke n
       (passthrough ke EVDEV_KEY_BACKSPACE 0 (passthrough ke EVDEV_KEY_BACKSPACE 1 a))"

section \<open>Events\<close>

text \<open>The modifier branch: masks, xkb state, and the event verbatim.\<close>

definition process_modifier ::
    "'w key_emitter \<Rightarrow> ('k, 's) xkb_lib \<Rightarrow> u32 \<Rightarrow> u32 \<Rightarrow> 32 word \<Rightarrow>
      ('w, 'k, 's) evdev_adapter \<Rightarrow> ('w, 'k, 's) evdev_adapter" where
  "process_modifier ke lib lv_bit code v a =
     (let upd = (\<lambda>b m. if v = 1 then m OR b else if v = 0 then m AND NOT b else m);
          a1 = a\<lparr>ea_mod_mask := upd lv_bit (ea_mod_mask a)\<rparr>;
          a2 = a1\<lparr>ea_xkb := xkb_update_modifiers lib (ea_mod_mask a1) 0 0 0 (ea_xkb a1)\<rparr>;
          dance_bit = lv_bit AND (MOD_SHIFT_XKB OR MOD_LEVEL3 OR MOD_LEVEL5);
          a3 = (if dance_bit \<noteq> 0 then a2\<lparr>ea_emitted_mods := upd dance_bit (ea_emitted_mods a2)\<rparr>
                else a2)
      in passthrough ke code v a3)"

text \<open>What becomes of a decision; Backspace keeps only the deletions.\<close>

definition perform_backspace ::
    "'w key_emitter \<Rightarrow> u32 \<Rightarrow> 32 word \<Rightarrow> key_decision \<Rightarrow> ('w, 'k, 's) evdev_adapter \<Rightarrow> ('w, 'k, 's) evdev_adapter" where
  "perform_backspace ke code v d a =
     (case d of
        Consumed \<Rightarrow> a
      | ForwardRaw \<Rightarrow> forward_press_raw ke code v a
      | Apply m backspaces commit \<Rightarrow> emit_backspaces ke backspaces a)"

definition perform_char ::
    "'w key_emitter \<Rightarrow> u32 \<Rightarrow> 32 word \<Rightarrow> key_decision \<Rightarrow> ('w, 'k, 's) evdev_adapter \<Rightarrow> ('w, 'k, 's) evdev_adapter" where
  "perform_char ke code v d a =
     (case d of
        Consumed \<Rightarrow> a
      | ForwardRaw \<Rightarrow> forward_press_raw ke code v a
      | Apply m backspaces commit \<Rightarrow>
          (let a1 = emit_backspaces ke backspaces a
           in if commit \<noteq> [] then emit_string ke commit a1 else a1))"

text \<open>A press or repeat of a key that is no modifier.\<close>

definition process_press ::
    "'w key_emitter \<Rightarrow> ('k, 's) xkb_lib \<Rightarrow> 'h evdev_handler \<Rightarrow> u32 \<Rightarrow> 32 word \<Rightarrow>
      ('w, 'k, 's) evdev_adapter \<times> 'h \<Rightarrow> ('w, 'k, 's) evdev_adapter \<times> 'h" where
  "process_press ke lib eh code v = (\<lambda>(a, h).
     if shortcut_mods_held a then
       (forward_press_raw ke code v a, eh_clear_last_input_char eh (eh_full_reset_window eh h))
     else
       (case key_to_char lib (ea_xkb a) code of
          None \<Rightarrow>
            (forward_press_raw ke code v a, eh_clear_last_input_char eh (eh_full_reset_window eh h))
        | Some ch \<Rightarrow>
            (let h1 = eh_check_idle_reset_window eh h in
             if code = EVDEV_KEY_BACKSPACE then
               (let (d, h2) = eh_handle_backspace eh h1 in (perform_backspace ke code v d a, h2))
             else
               (let (d, h2) = eh_handle_char eh code ch h1 in (perform_char ke code v d a, h2)))))"

definition process_event ::
    "'w key_emitter \<Rightarrow> ('k, 's) xkb_lib \<Rightarrow> 'h evdev_handler \<Rightarrow> time \<Rightarrow> input_event \<Rightarrow>
      ('w, 'k, 's) evdev_adapter \<times> 'h \<Rightarrow> ('w, 'k, 's) evdev_adapter \<times> 'h" where
  "process_event ke lib eh now ev = (\<lambda>(a, h).
     if ie_type ev \<noteq> EV_KEY then (a, h)
     else
       (let code = event_code ev;
            v = ie_value ev;
            a1 = a\<lparr>ea_held_physical :=
                     (if v = 1 then insert code (ea_held_physical a)
                      else if v = 0 then ea_held_physical a - {code}
                      else ea_held_physical a)\<rparr>
        in case mod_bit code of
             Some lv_bit \<Rightarrow> (process_modifier ke lib lv_bit code v a1, h)
           | None \<Rightarrow>
              (let a2 = (if code = EVDEV_KEY_ESC \<and> v = 1
                         then a1\<lparr>ea_escape_taps :=
                           filter (\<lambda>t. elapsed now t < millis 1000) (ea_escape_taps a1) @ [now]\<rparr>
                         else a1)
               in if code = EVDEV_KEY_ESC \<and> v = 1 \<and> 3 \<le> length (ea_escape_taps a2) then
                    (forward_press_raw ke EVDEV_KEY_ESC 1
                       (a2\<lparr>ea_escape_taps := [], ea_should_exit := True\<rparr>), eh_clear_session eh h)
                  else if v = 0 then
                    (if code \<in> ea_forwarded_press a2
                     then (passthrough ke code v a2)
                            \<lparr>ea_forwarded_press := ea_forwarded_press a2 - {code}\<rparr>
                     else a2, h)
                  else process_press ke lib eh code v (a2, h))))"

text \<open>The loop of \<open>run\_until\_shutdown\<close> over the events of the streams: it ends at the escape.\<close>

fun run_events ::
    "'w key_emitter \<Rightarrow> ('k, 's) xkb_lib \<Rightarrow> 'h evdev_handler \<Rightarrow> (time \<times> input_event) list \<Rightarrow>
      ('w, 'k, 's) evdev_adapter \<times> 'h \<Rightarrow> ('w, 'k, 's) evdev_adapter \<times> 'h" where
  "run_events ke lib eh [] s = s"
| "run_events ke lib eh ((now, ev) # evs) s =
     (let s1 = process_event ke lib eh now ev s
      in if ea_should_exit (fst s1) then s1 else run_events ke lib eh evs s1)"

text \<open>The daemon as the handler; the clock it reads is a parameter.\<close>

definition daemon_handler :: "'e vnkey \<Rightarrow> time \<Rightarrow> 'e daemon evdev_handler" where
  "daemon_handler vk now =
     \<lparr>eh_handle_char = (\<lambda>code ch. evdev_handle_char vk now ch),
      eh_handle_backspace = evdev_handle_backspace vk now,
      eh_clear_session = clear_session,
      eh_clear_last_input_char = clear_last_input_char,
      eh_full_reset_window = dm_full_reset vk,
      eh_check_idle_reset_window = check_idle_reset_window vk now\<rparr>"

end
