(* ===== verification/EvdevSession.thy ===== *)
theory EvdevSession
  imports Evdev DaemonLemmas
begin

text \<open>
  What the evdev adapter does to the client. \<open>kernel_channel\<close> is the contract of its output: a
  key channel for the declared keys where modifiers are keys. Inside it the modifier dance, the
  emission of strings and Backspaces and the raw forwards are described by the client's state,
  and an invariant ties the adapter's bookkeeping to the keys the client holds down.
\<close>

unbundle bit_operations_syntax

section \<open>Level keys\<close>

definition level_keys :: "u32 \<Rightarrow> u32 set" where
  "level_keys m =
     (if m AND MOD_SHIFT_XKB \<noteq> 0 then {MOD_LEFTSHIFT} else {})
     \<union> (if m AND MOD_LEVEL3 \<noteq> 0 then {MOD_RIGHTALT} else {})
     \<union> (if m AND MOD_LEVEL5 \<noteq> 0 then {MOD_HENKAN} else {})"

lemmas mod_key_defs = MOD_LEFTSHIFT_def MOD_RIGHTSHIFT_def MOD_RIGHTALT_def MOD_HENKAN_def
  MOD_LEFTCTRL_def MOD_RIGHTCTRL_def MOD_LEFTALT_def MOD_LEFTMETA_def MOD_RIGHTMETA_def

lemmas level_bit_defs = MOD_SHIFT_XKB_def MOD_LEVEL3_def MOD_LEVEL5_def

lemma level_keys_mask [simp]: "level_keys (m AND LEVEL_MASK) = level_keys m"
  by (simp add: level_keys_def)

lemma level_keys_sub: "level_keys m \<subseteq> modifier_keys"
  by (auto simp: level_keys_def modifier_keys_def mod_key_defs)

lemma level_keys_no_right: "54 \<notin> level_keys m"
  by (simp add: level_keys_def mod_key_defs)

lemma and_single_bit: "(m :: u32) AND 2 ^ n = (if m AND 2 ^ n = 0 then 0 else 2 ^ n)"
proof (cases "bit m n")
  case True
  then have "m AND 2 ^ n = 2 ^ n" by (intro bit_word_eqI) (auto simp: bit_and_iff bit_exp_iff)
  then show ?thesis by simp
qed (simp add: and_exp_eq_0_iff_not_bit)

lemma level_bits_split:
  "m AND LEVEL_MASK =
     (if m AND MOD_SHIFT_XKB \<noteq> 0 then MOD_SHIFT_XKB else 0)
     OR (if m AND MOD_LEVEL3 \<noteq> 0 then MOD_LEVEL3 else 0)
     OR (if m AND MOD_LEVEL5 \<noteq> 0 then MOD_LEVEL5 else 0)"
proof -
  have b: "m AND MOD_SHIFT_XKB = (if m AND MOD_SHIFT_XKB \<noteq> 0 then MOD_SHIFT_XKB else 0)"
    "m AND MOD_LEVEL3 = (if m AND MOD_LEVEL3 \<noteq> 0 then MOD_LEVEL3 else 0)"
    "m AND MOD_LEVEL5 = (if m AND MOD_LEVEL5 \<noteq> 0 then MOD_LEVEL5 else 0)"
    using and_single_bit [of m 0] and_single_bit [of m 7] and_single_bit [of m 5]
    by (simp_all add: level_bit_defs split: if_splits)
  have "m AND LEVEL_MASK = (m AND MOD_SHIFT_XKB) OR (m AND MOD_LEVEL3) OR (m AND MOD_LEVEL5)"
    by (simp add: LEVEL_MASK_def bit.conj_disj_distrib)
  then show ?thesis using b by (simp only:)
qed

lemma held_mods_level:
  assumes "kc_down cl \<inter> modifier_keys = level_keys m"
  shows "held_mods cl = m AND LEVEL_MASK"
proof -
  have "k \<in> kc_down cl \<longleftrightarrow> k \<in> level_keys m" if "k \<in> modifier_keys" for k
    using assms that by blast
  then have "42 \<in> kc_down cl \<longleftrightarrow> 42 \<in> level_keys m" "54 \<notin> kc_down cl"
    "100 \<in> kc_down cl \<longleftrightarrow> 100 \<in> level_keys m" "92 \<in> kc_down cl \<longleftrightarrow> 92 \<in> level_keys m"
    using level_keys_no_right [of m] by (auto simp: modifier_keys_def)
  then show ?thesis
    unfolding level_bits_split held_mods_def by (auto simp: level_keys_def mod_key_defs)
qed

lemma key_char_modifier: "k \<in> modifier_keys \<Longrightarrow> key_char k m = None"
proof -
  assume k: "k \<in> modifier_keys"
  then have "k \<notin> set (map (\<lambda>k. (of_nat (unat k) :: u32)) SAFE_KEYCODES)"
    by (auto simp: SAFE_KEYCODES_def modifier_keys_def)
  then have d: "decode_slot k m' = None" for m'
    by (simp add: decode_slot_def position_None [THEN iffD2])
  have "(k, m') \<notin> fst ` set (map (\<lambda>(c, k, m). ((k, m), c)) ascii_rows)" for m'
    using k ascii_rows_shift by (force simp: list_all_iff modifier_keys_def)
  then show ?thesis using d by (simp only: key_char_def map_of_eq_None_iff option.case not_False_eq_True)
qed

lemma press_modifier:
  "k \<in> modifier_keys \<Longrightarrow> client_press mods k cl = cl\<lparr>kc_down := insert k (kc_down cl)\<rparr>"
proof -
  assume k: "k \<in> modifier_keys"
  then have "k \<noteq> 14" by (auto simp: modifier_keys_def)
  with key_char_modifier [OF k] show ?thesis
    by (simp add: client_press_def strike_def insert_absorb)
qed

lemma modifier_declared: "k \<in> modifier_keys \<Longrightarrow> declared k"
  by (auto simp: modifier_keys_def declared_def UINPUT_KEYS_def)

section \<open>The adapter on its channel\<close>

definition synced :: "('w \<Rightarrow> key_client) \<Rightarrow> ('w, 'k, 's) evdev_adapter \<Rightarrow> bool" where
  "synced view a \<longleftrightarrow>
     kc_down (view (ea_output a)) \<inter> modifier_keys = level_keys (ea_emitted_mods a)"

text \<open>\<open>a'\<close> comes from \<open>a\<close> by emission alone: the client's text changes by \<open>f\<close>, no further key is down.\<close>

definition emission ::
    "('w \<Rightarrow> key_client) \<Rightarrow> (ustr \<Rightarrow> ustr) \<Rightarrow> ('w, 'k, 's) evdev_adapter \<Rightarrow> ('w, 'k, 's) evdev_adapter \<Rightarrow> bool" where
  "emission view f a a' \<longleftrightarrow>
     synced view a' \<and> a' = a\<lparr>ea_output := ea_output a', ea_emitted_mods := ea_emitted_mods a'\<rparr>
     \<and> kc_text (view (ea_output a')) = f (kc_text (view (ea_output a)))
     \<and> kc_down (view (ea_output a')) - modifier_keys \<subseteq> kc_down (view (ea_output a)) - modifier_keys"

lemma emission_held: "emission view f a a' \<Longrightarrow> ea_held_physical a' = ea_held_physical a"
  unfolding emission_def by (metis evdev_adapter.select_convs(5) evdev_adapter.surjective
      evdev_adapter.update_convs(1) evdev_adapter.update_convs(4))

lemma emission_trans:
  assumes "emission view f a b" "emission view g b c"
  shows "emission view (\<lambda>t. g (f t)) a c"
proof -
  have "c = a\<lparr>ea_output := ea_output c, ea_emitted_mods := ea_emitted_mods c\<rparr>"
    using assms unfolding emission_def by (cases a; cases b; cases c) simp
  with assms show ?thesis by (auto simp: emission_def)
qed

text \<open>
  The invariant: the level keys down at the client are those the adapter believes to be down; a key
  down at the client is one the user holds, was forwarded raw unless it is a modifier, and is declared.
\<close>

definition evdev_inv :: "('w \<Rightarrow> key_client) \<Rightarrow> ('w, 'k, 's) evdev_adapter \<Rightarrow> bool" where
  "evdev_inv view a \<longleftrightarrow> synced view a
     \<and> (\<forall>k\<in>kc_down (view (ea_output a)). k \<in> ea_held_physical a \<and> declared k
          \<and> (mod_bit k = None \<longrightarrow> k \<in> ea_forwarded_press a))"

text \<open>\<open>a'\<close> differs from \<open>a\<close> by output that presses nothing for good.\<close>

definition lifted :: "('w \<Rightarrow> key_client) \<Rightarrow> ('w, 'k, 's) evdev_adapter \<Rightarrow> ('w, 'k, 's) evdev_adapter \<Rightarrow> bool" where
  "lifted view a a' \<longleftrightarrow> synced view a'
     \<and> a' = a\<lparr>ea_output := ea_output a', ea_emitted_mods := ea_emitted_mods a'\<rparr>
     \<and> kc_down (view (ea_output a')) \<subseteq> kc_down (view (ea_output a))"

lemma lifted_trans: "lifted view a b \<Longrightarrow> lifted view b c \<Longrightarrow> lifted view a c"
  unfolding lifted_def by (cases a; cases b; cases c) auto

lemma lifted_inv: "lifted view a a' \<Longrightarrow> evdev_inv view a \<Longrightarrow> evdev_inv view a'"
  unfolding lifted_def evdev_inv_def by (cases a; cases a') auto

text \<open>Events as the kernel sends them: a repeat only of a held key. The right Shift is set apart.\<close>

definition proper_event :: "('w, 'k, 's) evdev_adapter \<Rightarrow> input_event \<Rightarrow> bool" where
  "proper_event a ev \<longleftrightarrow> event_code ev \<noteq> MOD_RIGHTSHIFT
     \<and> (ie_value ev = 0 \<or> ie_value ev = 1 \<or> ie_value ev = 2 \<and> event_code ev \<in> ea_held_physical a)"

lemma mod_bit_None: "mod_bit k = None \<Longrightarrow> k \<notin> modifier_keys"
  by (auto simp: mod_bit_def modifier_keys_def mod_key_defs split: if_splits)

lemma level_keys_or: "level_keys (m OR b) = level_keys m \<union> level_keys b"
  by (auto simp: level_keys_def bit.conj_disj_distrib2 or_eq_0_iff)

lemma level_keys_clear:
  assumes "b = MOD_SHIFT_XKB \<or> b = MOD_LEVEL3 \<or> b = MOD_LEVEL5"
  shows "level_keys (m AND NOT b) = level_keys m - level_keys b"
proof -
  have n: "NOT b AND c = (if c = b then 0 else c)" and s: "b AND c \<noteq> 0 \<longleftrightarrow> c = b"
    if "c = MOD_SHIFT_XKB \<or> c = MOD_LEVEL3 \<or> c = MOD_LEVEL5" for c
    using assms that by (auto simp: level_bit_defs)
  have c: "(m AND NOT b) AND c = (if c = b then 0 else m AND c)"
    if "c = MOD_SHIFT_XKB \<or> c = MOD_LEVEL3 \<or> c = MOD_LEVEL5" for c
    unfolding and.assoc n [OF that] by simp
  have k: "MOD_LEFTSHIFT \<noteq> MOD_RIGHTALT" "MOD_LEFTSHIFT \<noteq> MOD_HENKAN" "MOD_RIGHTALT \<noteq> MOD_HENKAN"
    by (simp_all add: mod_key_defs)
  have "x \<in> level_keys (m AND NOT b) \<longleftrightarrow> x \<in> level_keys m \<and> x \<notin> level_keys b" for x
    unfolding level_keys_def using k by (simp add: c s) (use assms in \<open>auto simp: level_bit_defs\<close>)
  then show ?thesis by blast
qed

context kernel_channel
begin

lemma passthrough_view:
  "view (ea_output (passthrough ke kc v a)) =
     (if declared kc then deliver_key held_mods kc v (view (ea_output a)) else view (ea_output a))"
  by (simp add: passthrough_def emit_key drop_key)

lemma set_uinput_mod_view:
  assumes "k \<in> modifier_keys"
  shows "view (ea_output (set_uinput_mod ke b k cur target a)) = (view (ea_output a))
    \<lparr>kc_down := (let D = kc_down (view (ea_output a)) in
       if target AND b \<noteq> 0 \<and> \<not> cur AND b \<noteq> 0 then insert k D
       else if \<not> target AND b \<noteq> 0 \<and> cur AND b \<noteq> 0 then D - {k} else D)\<rparr>"
  using assms
  by (auto simp: set_uinput_mod_def passthrough_view modifier_declared deliver_key_def
      press_modifier client_release_def Let_def)

lemma set_uinput_mod_rest:
  "set_uinput_mod ke b k cur target a = a\<lparr>ea_output := ea_output (set_uinput_mod ke b k cur target a)\<rparr>"
  by (simp add: set_uinput_mod_def passthrough_def Let_def)

lemma set_uinput_mods_rest:
  "set_uinput_mods ke target a = a\<lparr>ea_output := ea_output (set_uinput_mods ke target a),
     ea_emitted_mods := ea_emitted_mods a AND NOT LEVEL_MASK OR (target AND LEVEL_MASK)\<rparr>"
  by (simp add: set_uinput_mods_def set_uinput_mod_def passthrough_def Let_def LEVEL_MASK_def)

lemma set_uinput_mods_same:
  "set_uinput_mods ke target a = a\<lparr>ea_output := ea_output (set_uinput_mods ke target a),
     ea_emitted_mods := ea_emitted_mods (set_uinput_mods ke target a)\<rparr>"
  by (simp add: set_uinput_mods_def set_uinput_mod_def passthrough_def Let_def)

lemma set_uinput_mod_down:
  assumes "k \<in> modifier_keys" "k \<in> kc_down (view (ea_output a)) \<longleftrightarrow> cur AND b \<noteq> 0"
  shows "view (ea_output (set_uinput_mod ke b k cur target a)) = (view (ea_output a))
    \<lparr>kc_down := (if target AND b \<noteq> 0 then insert k (kc_down (view (ea_output a)))
                 else kc_down (view (ea_output a)) - {k})\<rparr>"
  using assms(2) by (simp add: set_uinput_mod_view [OF assms(1)] Let_def insert_absorb)

lemma set_uinput_mods_view:
  assumes "synced view a"
  shows "view (ea_output (set_uinput_mods ke target a)) = (view (ea_output a))
    \<lparr>kc_down := kc_down (view (ea_output a)) - modifier_keys \<union> level_keys target\<rparr>"
proof -
  define D cur where "D = kc_down (view (ea_output a))" and "cur = ea_emitted_mods a"
  define t where "t = target AND LEVEL_MASK"
  have "D \<inter> modifier_keys = level_keys cur" using assms by (simp add: synced_def D_def cur_def)
  then have D: "k \<in> D \<longleftrightarrow> k \<in> level_keys cur" if "k \<in> modifier_keys" for k using that by blast
  have m: "MOD_LEFTSHIFT \<in> modifier_keys" "MOD_RIGHTALT \<in> modifier_keys" "MOD_HENKAN \<in> modifier_keys"
    "54 \<in> modifier_keys" by (simp_all add: modifier_keys_def mod_key_defs)
  have in_D: "MOD_LEFTSHIFT \<in> D \<longleftrightarrow> cur AND MOD_SHIFT_XKB \<noteq> 0" "MOD_RIGHTALT \<in> D \<longleftrightarrow> cur AND MOD_LEVEL3 \<noteq> 0"
    "MOD_HENKAN \<in> D \<longleftrightarrow> cur AND MOD_LEVEL5 \<noteq> 0" "54 \<notin> D"
    using m [THEN D] level_keys_no_right [of cur] by (auto simp: level_keys_def mod_key_defs)
  have ne: "MOD_LEFTSHIFT \<noteq> MOD_RIGHTALT" "MOD_LEFTSHIFT \<noteq> MOD_HENKAN" "MOD_RIGHTALT \<noteq> MOD_HENKAN"
    by (simp_all add: mod_key_defs)
  define a1 where "a1 = set_uinput_mod ke MOD_SHIFT_XKB MOD_LEFTSHIFT cur t a"
  define a2 where "a2 = set_uinput_mod ke MOD_LEVEL3 MOD_RIGHTALT cur t a1"
  define a3 where "a3 = set_uinput_mod ke MOD_LEVEL5 MOD_HENKAN cur t a2"
  have v1: "view (ea_output a1) = (view (ea_output a))
      \<lparr>kc_down := (if t AND MOD_SHIFT_XKB \<noteq> 0 then insert MOD_LEFTSHIFT D else D - {MOD_LEFTSHIFT})\<rparr>"
    unfolding a1_def D_def by (rule set_uinput_mod_down) (use m in_D in \<open>simp_all add: D_def\<close>)
  define D1 where "D1 = kc_down (view (ea_output a1))"
  have v2: "view (ea_output a2) = (view (ea_output a1))
      \<lparr>kc_down := (if t AND MOD_LEVEL3 \<noteq> 0 then insert MOD_RIGHTALT D1 else D1 - {MOD_RIGHTALT})\<rparr>"
    unfolding a2_def D1_def by (rule set_uinput_mod_down) (use m in_D ne v1 in auto)
  define D2 where "D2 = kc_down (view (ea_output a2))"
  have v3: "view (ea_output a3) = (view (ea_output a2))
      \<lparr>kc_down := (if t AND MOD_LEVEL5 \<noteq> 0 then insert MOD_HENKAN D2 else D2 - {MOD_HENKAN})\<rparr>"
    unfolding a3_def D2_def
    by (rule set_uinput_mod_down) (use m in_D ne v1 v2 in \<open>auto simp: D1_def\<close>)
  have "set_uinput_mods ke target a = a3\<lparr>ea_emitted_mods := ea_emitted_mods (set_uinput_mods ke target a)\<rparr>"
    by (simp add: set_uinput_mods_def Let_def a1_def a2_def a3_def t_def cur_def LEVEL_MASK_def)
  then have "ea_output (set_uinput_mods ke target a) = ea_output a3"
    by (metis evdev_adapter.select_convs(1) evdev_adapter.surjective evdev_adapter.update_convs(4))
  moreover have "kc_down (view (ea_output a3)) = D - modifier_keys \<union> level_keys t"
    unfolding v3 D2_def v2 D1_def v1 level_keys_def modifier_keys_def
    using in_D(4) by (auto simp: mod_key_defs)
  ultimately show ?thesis using v1 v2 v3 by (simp add: t_def D_def)
qed

lemma level_keys_set: "level_keys (e AND NOT LEVEL_MASK OR (m AND LEVEL_MASK)) = level_keys m"
proof -
  have "(e AND NOT LEVEL_MASK OR (m AND LEVEL_MASK)) AND LEVEL_MASK = m AND LEVEL_MASK"
    by (rule bit_word_eqI) (auto simp: bit_simps)
  then show ?thesis by (metis level_keys_mask)
qed

lemma set_uinput_mods_emitted:
  "level_keys (ea_emitted_mods (set_uinput_mods ke target a)) = level_keys target"
  by (subst set_uinput_mods_rest) (simp add: level_keys_set)

lemma set_uinput_mods_synced: "synced view a \<Longrightarrow> synced view (set_uinput_mods ke target a)"
  using level_keys_sub [of target]
  by (auto simp: synced_def [of view "set_uinput_mods ke target a"] set_uinput_mods_view
      set_uinput_mods_emitted)

lemma tap_view:
  assumes "declared kc" "kc \<notin> kc_down (view (ea_output a))"
  shows "view (ea_output (passthrough ke kc 0 (passthrough ke kc 1 a))) =
    (view (ea_output a))\<lparr>kc_text :=
       strike kc (held_mods (view (ea_output a))) (kc_text (view (ea_output a)))\<rparr>"
  using assms by (simp add: passthrough_view deliver_key_def client_press_def client_release_def)

lemma passthrough_rest:
  "passthrough ke kc v a = a\<lparr>ea_output := ea_output (passthrough ke kc v a)\<rparr>"
  by (simp add: passthrough_def)

lemma emit_one_emission:
  assumes "synced view a" "kc_down (view (ea_output a)) - modifier_keys \<subseteq> ea_held_physical a"
  shows "emission view (\<lambda>t. t @ (if char_to_emit ch = None then [] else [ch])) a (emit_one ke ch a)"
proof (cases "char_to_emit ch")
  case None
  with assms(1) show ?thesis by (simp add: emission_def emit_one_def)
next
  case (Some spec)
  define kc a1 where "kc = es_keycode spec" and "a1 = set_uinput_mods ke (es_mods spec) a"
  define a2 where "a2 = (if kc \<in> ea_held_physical a1 then passthrough ke kc 0 a1 else a1)"
  have e: "emit_one ke ch a = passthrough ke kc 0 (passthrough ke kc 1 a2)"
    by (simp add: emit_one_def Some Let_def kc_def a1_def a2_def)
  note key = emitted_key [OF Some, folded kc_def]
  have d: "declared kc" using emitted_declared [OF Some] by (simp add: kc_def)
  have held: "ea_held_physical a1 = ea_held_physical a" unfolding a1_def by (subst set_uinput_mods_rest) simp
  have v1: "view (ea_output a1) = (view (ea_output a))
      \<lparr>kc_down := kc_down (view (ea_output a)) - modifier_keys \<union> level_keys (es_mods spec)\<rparr>"
    unfolding a1_def by (rule set_uinput_mods_view [OF assms(1)])
  have "kc \<notin> level_keys (es_mods spec)" using key(4) level_keys_sub by blast
  then have up: "kc \<in> kc_down (view (ea_output a1)) \<longrightarrow> kc \<in> ea_held_physical a1"
    using assms(2) by (auto simp: v1 held)
  have v2: "view (ea_output a2) = (view (ea_output a1))\<lparr>kc_down := kc_down (view (ea_output a1)) - {kc}\<rparr>"
    using up d by (auto simp: a2_def passthrough_view deliver_key_def client_release_def)
  have "held_mods (view (ea_output a2)) = es_mods spec AND LEVEL_MASK"
    by (rule held_mods_level) (use key(4) level_keys_sub in \<open>auto simp: v2 v1\<close>)
  then have typed: "strike kc (held_mods (view (ea_output a2))) t = t @ [ch]" for t
    using strike_emitted [OF Some] key(2) by (simp add: kc_def)
  have up2: "kc \<notin> kc_down (view (ea_output a2))" by (simp add: v2)
  have v3: "view (ea_output (emit_one ke ch a)) = (view (ea_output a2))
      \<lparr>kc_text := kc_text (view (ea_output a)) @ [ch]\<rparr>"
    unfolding e tap_view [OF d up2] typed by (simp add: v2 v1)
  have a1: "a1 = a\<lparr>ea_output := ea_output a1, ea_emitted_mods := ea_emitted_mods a1\<rparr>"
    unfolding a1_def by (rule set_uinput_mods_same)
  have same: "emit_one ke ch a = a1\<lparr>ea_output := ea_output (emit_one ke ch a)\<rparr>"
    by (simp add: e a2_def passthrough_def)
  then have m: "ea_emitted_mods (emit_one ke ch a) = ea_emitted_mods a1"
    by (metis evdev_adapter.select_convs(4) evdev_adapter.surjective evdev_adapter.update_convs(1))
  have "level_keys (ea_emitted_mods a1) = level_keys (es_mods spec)"
    unfolding a1_def by (rule set_uinput_mods_emitted)
  then have "synced view (emit_one ke ch a)"
    using key(4) level_keys_sub [of "es_mods spec"] by (auto simp: synced_def v3 v2 v1 m)
  moreover have "emit_one ke ch a
      = a\<lparr>ea_output := ea_output (emit_one ke ch a), ea_emitted_mods := ea_emitted_mods (emit_one ke ch a)\<rparr>"
    by (subst same, subst a1) (simp add: m)
  ultimately show ?thesis
    using level_keys_sub [of "es_mods spec"] by (auto simp: emission_def Some v3 v2 v1)
qed

lemma emit_chars_emission:
  assumes "synced view a" "kc_down (view (ea_output a)) - modifier_keys \<subseteq> ea_held_physical a"
  shows "emission view (\<lambda>t. t @ filter (\<lambda>c. char_to_emit c \<noteq> None) s) a (fold (emit_one ke) s a)"
  using assms
proof (induction s arbitrary: a)
  case Nil
  then show ?case by (simp add: emission_def)
next
  case (Cons c s)
  note one = emit_one_emission [OF Cons.prems, of c]
  have "synced view (emit_one ke c a)"
    and "kc_down (view (ea_output (emit_one ke c a))) - modifier_keys \<subseteq> ea_held_physical (emit_one ke c a)"
    using one Cons.prems(2) emission_held [OF one] by (auto simp: emission_def)
  from emission_trans [OF one Cons.IH [OF this]] show ?case
    by (cases "char_to_emit c") simp_all
qed

text \<open>A string is typed as it is, less what has no key, and the modifiers come back.\<close>

lemma emit_string_emission:
  assumes "synced view a" "kc_down (view (ea_output a)) - modifier_keys \<subseteq> ea_held_physical a"
  shows "emission view (\<lambda>t. t @ filter (\<lambda>c. char_to_emit c \<noteq> None) s) a (emit_string ke s a)"
    and "kc_down (view (ea_output (emit_string ke s a))) \<inter> modifier_keys
      = kc_down (view (ea_output a)) \<inter> modifier_keys"
proof -
  define b orig where "b = fold (emit_one ke) s a" and "orig = ea_emitted_mods a AND LEVEL_MASK"
  have e: "emit_string ke s a = set_uinput_mods ke orig b"
    by (simp add: emit_string_def b_def orig_def LEVEL_MASK_def)
  note chars = emit_chars_emission [OF assms, of s, folded b_def]
  then have sync: "synced view b" by (simp add: emission_def)
  have "emission view (\<lambda>t. t) b (emit_string ke s a)"
    unfolding e emission_def
    using set_uinput_mods_synced [OF sync, of orig] level_keys_sub [of orig]
      set_uinput_mods_same [of orig b]
    by (auto simp: set_uinput_mods_view [OF sync])
  from emission_trans [OF chars this]
  show "emission view (\<lambda>t. t @ filter (\<lambda>c. char_to_emit c \<noteq> None) s) a (emit_string ke s a)" .
  have "kc_down (view (ea_output (emit_string ke s a))) \<inter> modifier_keys = level_keys orig"
    unfolding e set_uinput_mods_view [OF sync] using level_keys_sub [of orig] by auto
  then show "kc_down (view (ea_output (emit_string ke s a))) \<inter> modifier_keys
      = kc_down (view (ea_output a)) \<inter> modifier_keys"
    using assms(1) by (simp add: synced_def orig_def)
qed

lemma backspace_declared: "declared EVDEV_KEY_BACKSPACE"
  by (simp add: declared_def UINPUT_KEYS_def EVDEV_KEY_BACKSPACE_def)

lemma emit_backspaces_view:
  assumes "EVDEV_KEY_BACKSPACE \<notin> kc_down (view (ea_output a))"
  shows "view (ea_output (emit_backspaces ke n a)) = (view (ea_output a))
      \<lparr>kc_text := pop_n n (kc_text (view (ea_output a)))\<rparr>"
    and "emit_backspaces ke n a = a\<lparr>ea_output := ea_output (emit_backspaces ke n a)\<rparr>"
proof -
  have "view (ea_output (emit_backspaces ke n a)) = (view (ea_output a))
      \<lparr>kc_text := pop_n n (kc_text (view (ea_output a)))\<rparr>
    \<and> emit_backspaces ke n a = a\<lparr>ea_output := ea_output (emit_backspaces ke n a)\<rparr>"
    using assms
  proof (induction n arbitrary: a)
    case (Suc n)
    define b where "b = passthrough ke EVDEV_KEY_BACKSPACE 0 (passthrough ke EVDEV_KEY_BACKSPACE 1 a)"
    have v: "view (ea_output b) = (view (ea_output a))\<lparr>kc_text := butlast (kc_text (view (ea_output a)))\<rparr>"
      unfolding b_def tap_view [OF backspace_declared Suc.prems]
      by (simp add: strike_def EVDEV_KEY_BACKSPACE_def)
    have "EVDEV_KEY_BACKSPACE \<notin> kc_down (view (ea_output b))" using Suc.prems by (simp add: v)
    from Suc.IH [OF this] v have
      1: "view (ea_output (emit_backspaces ke n b)) = (view (ea_output a))
        \<lparr>kc_text := pop_n n (butlast (kc_text (view (ea_output a))))\<rparr>"
      and 2: "emit_backspaces ke n b = b\<lparr>ea_output := ea_output (emit_backspaces ke n b)\<rparr>"
      by simp_all
    have 3: "emit_backspaces ke (Suc n) a = emit_backspaces ke n b" by (simp add: b_def)
    have "emit_backspaces ke (Suc n) a = a\<lparr>ea_output := ea_output (emit_backspaces ke (Suc n) a)\<rparr>"
      unfolding 3 by (subst 2) (simp add: b_def passthrough_def)
    with 1 3 show ?case by (simp add: pop_n_Suc)
  qed simp
  then show "view (ea_output (emit_backspaces ke n a)) = (view (ea_output a))
      \<lparr>kc_text := pop_n n (kc_text (view (ea_output a)))\<rparr>"
    and "emit_backspaces ke n a = a\<lparr>ea_output := ea_output (emit_backspaces ke n a)\<rparr>" by blast+
qed

lemma emit_backspaces_emission:
  assumes "synced view a" "EVDEV_KEY_BACKSPACE \<notin> kc_down (view (ea_output a))"
  shows "emission view (pop_n n) a (emit_backspaces ke n a)"
proof -
  note b = emit_backspaces_view [OF assms(2), of n]
  have "ea_emitted_mods (emit_backspaces ke n a) = ea_emitted_mods a" by (subst b(2)) simp
  moreover from this have "emit_backspaces ke n a = a\<lparr>ea_output := ea_output (emit_backspaces ke n a),
      ea_emitted_mods := ea_emitted_mods (emit_backspaces ke n a)\<rparr>" by (subst b(2)) simp
  ultimately show ?thesis using assms(1) by (simp add: emission_def synced_def b(1))
qed

lemma emit_string_lifted:
  assumes "evdev_inv view a"
  shows "lifted view a (emit_string ke s a)"
proof -
  from assms have s: "synced view a" "kc_down (view (ea_output a)) - modifier_keys \<subseteq> ea_held_physical a"
    by (auto simp: evdev_inv_def)
  from emit_string_emission [OF s, of s] show ?thesis
    unfolding emission_def lifted_def by blast
qed

lemma emit_backspaces_lifted: "synced view a \<Longrightarrow> lifted view a (emit_backspaces ke n a)"
proof (induction n arbitrary: a)
  case (Suc n)
  define b where "b = passthrough ke EVDEV_KEY_BACKSPACE 0 (passthrough ke EVDEV_KEY_BACKSPACE 1 a)"
  have v: "kc_down (view (ea_output b)) = kc_down (view (ea_output a)) - {EVDEV_KEY_BACKSPACE}"
    by (auto simp: b_def passthrough_view backspace_declared deliver_key_def client_press_def client_release_def)
  have "ea_emitted_mods b = ea_emitted_mods a" by (simp add: b_def passthrough_def)
  then have "synced view b"
    using Suc.prems v level_keys_sub [of "ea_emitted_mods a"]
    by (auto simp: synced_def modifier_keys_def EVDEV_KEY_BACKSPACE_def)
  moreover have "b = a\<lparr>ea_output := ea_output b, ea_emitted_mods := ea_emitted_mods b\<rparr>"
    by (simp add: b_def passthrough_def)
  ultimately have "lifted view a b" using v by (auto simp: lifted_def)
  from lifted_trans [OF this Suc.IH [OF \<open>synced view b\<close>]] show ?case by (simp add: b_def)
qed (simp add: lifted_def)

lemma forward_press_raw_inv:
  assumes "evdev_inv view a" "mod_bit k = None" "k \<in> ea_held_physical a" "v = 1 \<or> v = 2"
  shows "evdev_inv view (forward_press_raw ke k v a)"
proof -
  define a' where "a' = forward_press_raw ke k v a"
  have d: "kc_down (view (ea_output a')) =
      (if declared k \<and> (v = 1 \<or> k \<notin> ea_forwarded_press a) then insert k (kc_down (view (ea_output a)))
       else kc_down (view (ea_output a)))"
    using assms(4) by (auto simp: a'_def forward_press_raw_def Let_def passthrough_view deliver_key_def
        client_press_def insert_absorb)
  have "a' = a\<lparr>ea_output := ea_output a', ea_forwarded_press := insert k (ea_forwarded_press a)\<rparr>"
    by (simp add: a'_def forward_press_raw_def passthrough_def Let_def)
  then have "ea_emitted_mods a' = ea_emitted_mods a" "ea_held_physical a' = ea_held_physical a"
    "ea_forwarded_press a' = insert k (ea_forwarded_press a)"
    by (metis evdev_adapter.surjective evdev_adapter.select_convs evdev_adapter.update_convs)+
  then show ?thesis
    using assms d mod_bit_None [OF assms(2)] unfolding a'_def [symmetric]
    by (auto simp: evdev_inv_def synced_def)
qed

lemma perform_inv:
  assumes "evdev_inv view a" "mod_bit k = None" "k \<in> ea_held_physical a" "v = 1 \<or> v = 2"
  shows "evdev_inv view (perform_backspace ke k v d a)" "evdev_inv view (perform_char ke k v d a)"
proof -
  note raw = forward_press_raw_inv [OF assms]
  have "synced view a" using assms(1) by (simp add: evdev_inv_def)
  then have bs: "evdev_inv view (emit_backspaces ke n a)" for n
    using lifted_inv [OF emit_backspaces_lifted assms(1)] by blast
  have str: "evdev_inv view (emit_string ke s (emit_backspaces ke n a))" for n s
    by (rule lifted_inv [OF emit_string_lifted [OF bs] bs])
  show "evdev_inv view (perform_backspace ke k v d a)" "evdev_inv view (perform_char ke k v d a)"
    using raw bs str assms(1)
    by (cases d; simp add: perform_backspace_def perform_char_def Let_def)+
qed

lemma process_modifier_inv:
  assumes "evdev_inv view a" "mod_bit k = Some b" "k \<noteq> MOD_RIGHTSHIFT"
    and "v = 1 \<and> held = insert k (ea_held_physical a) \<or> v = 0 \<and> held = ea_held_physical a - {k}
      \<or> v = 2 \<and> held = ea_held_physical a"
  shows "evdev_inv view (process_modifier ke lib b k v (a\<lparr>ea_held_physical := held\<rparr>))"
proof -
  define a' where "a' = process_modifier ke lib b k v (a\<lparr>ea_held_physical := held\<rparr>)"
  define D e where "D = kc_down (view (ea_output a))" and "e = ea_emitted_mods a"
  have inv: "D \<inter> modifier_keys = level_keys e" "\<And>k. k \<in> D \<Longrightarrow> k \<in> ea_held_physical a \<and> declared k
      \<and> (mod_bit k = None \<longrightarrow> k \<in> ea_forwarded_press a)"
    using assms(1) by (auto simp: evdev_inv_def synced_def D_def e_def)
  have down: "kc_down (view (ea_output a')) =
      (if v = 1 \<and> declared k then insert k D else if v = 0 then D - {k} else D)"
    using assms(4) inv(2) [of k]
    by (auto simp: a'_def process_modifier_def Let_def passthrough_view deliver_key_def client_press_def
        client_release_def D_def)
  have rest: "ea_held_physical a' = held" "ea_forwarded_press a' = ea_forwarded_press a"
    by (simp_all add: a'_def process_modifier_def Let_def passthrough_def)
  define b' where "b' = b AND (MOD_SHIFT_XKB OR MOD_LEVEL3 OR MOD_LEVEL5)"
  have em: "ea_emitted_mods a' =
      (if v = 1 then e OR b' else if v = 0 \<and> b' \<noteq> 0 then e AND NOT b' else e)"
    by (auto simp: a'_def process_modifier_def Let_def passthrough_def e_def b'_def)
  have kb: "k \<in> modifier_keys \<and> (b' = MOD_SHIFT_XKB \<or> b' = MOD_LEVEL3 \<or> b' = MOD_LEVEL5)
      \<and> level_keys b' = {k} \<or> k \<notin> modifier_keys \<and> b' = 0"
    using assms(2,3)
    by (auto simp: b'_def mod_bit_def modifier_keys_def mod_key_defs level_keys_def level_bit_defs
        XKB_SHIFT_BIT_def XKB_CONTROL_BIT_def XKB_MOD1_BIT_def XKB_MOD3_BIT_def XKB_MOD4_BIT_def
        XKB_MOD5_BIT_def split: if_splits)
  have "kc_down (view (ea_output a')) \<inter> modifier_keys = level_keys (ea_emitted_mods a')"
    using kb
  proof
    assume m: "k \<in> modifier_keys \<and> (b' = MOD_SHIFT_XKB \<or> b' = MOD_LEVEL3 \<or> b' = MOD_LEVEL5)
      \<and> level_keys b' = {k}"
    then have "b' \<noteq> 0" by (auto simp: level_bit_defs)
    moreover from m have "level_keys (e OR b') = insert k (level_keys e)"
      "level_keys (e AND NOT b') = level_keys e - {k}"
      by (simp_all add: level_keys_or level_keys_clear)
    ultimately show ?thesis
      using m inv(1) modifier_declared [of k] by (auto simp: down em)
  next
    assume m: "k \<notin> modifier_keys \<and> b' = 0"
    then have "ea_emitted_mods a' = e" by (simp add: em)
    with m inv(1) show ?thesis by (auto simp: down)
  qed
  then show ?thesis
    using inv(2) assms(2,4) rest down unfolding a'_def [symmetric]
    by (auto simp: evdev_inv_def synced_def D_def split: if_splits)
qed

lemma release_down:
  "evdev_inv view a \<Longrightarrow>
     kc_down (view (ke_emit_key ke t k 0 (ea_output a))) = kc_down (view (ea_output a)) - {k}"
  by (cases "declared k") (auto simp: evdev_inv_def emit_release drop_key client_release_def)

lemma release_inv:
  assumes "evdev_inv view a" "mod_bit k = None"
  shows "evdev_inv view (a\<lparr>ea_held_physical := ea_held_physical a - {k},
      ea_output := ke_emit_key ke 0 k 0 (ea_output a), ea_forwarded_press := ea_forwarded_press a - {k}\<rparr>)"
  using assms(1) mod_bit_None [OF assms(2)] release_down [OF assms(1), of 0 k]
  by (auto simp: evdev_inv_def synced_def)

lemma process_event_inv:
  assumes "evdev_inv view a" "proper_event a ev"
  shows "evdev_inv view (fst (process_event ke lib eh now ev (a, h)))"
proof (cases "ie_type ev = EV_KEY")
  case False
  with assms(1) show ?thesis by (simp add: process_event_def)
next
  case key: True
  define k v where "k = event_code ev" and "v = ie_value ev"
  define held where "held = (if v = 1 then insert k (ea_held_physical a)
    else if v = 0 then ea_held_physical a - {k} else ea_held_physical a)"
  have v: "v = 0 \<or> v = 1 \<or> v = 2 \<and> k \<in> ea_held_physical a" "k \<noteq> MOD_RIGHTSHIFT"
    using assms(2) by (auto simp: proper_event_def k_def v_def)
  show ?thesis
  proof (cases "mod_bit k")
    case (Some b)
    have "evdev_inv view (process_modifier ke lib b k v (a\<lparr>ea_held_physical := held\<rparr>))"
      by (rule process_modifier_inv [OF assms(1) Some v(2)]) (use v(1) in \<open>auto simp: held_def\<close>)
    with Some key show ?thesis
      by (simp add: process_event_def Let_def held_def flip: k_def v_def)
  next
    case None
    note not_mod = mod_bit_None [OF None]
    define a2 where "a2 = (if k = EVDEV_KEY_ESC \<and> v = 1
      then a\<lparr>ea_held_physical := held, ea_escape_taps :=
        filter (\<lambda>t. elapsed now t < millis 1000) (ea_escape_taps a) @ [now]\<rparr>
      else a\<lparr>ea_held_physical := held\<rparr>)"
    have same: "ea_output a2 = ea_output a" "ea_emitted_mods a2 = ea_emitted_mods a"
      "ea_held_physical a2 = held" "ea_forwarded_press a2 = ea_forwarded_press a"
      by (simp_all add: a2_def)
    show ?thesis
    proof (cases "v = 0")
      case True
      have "evdev_inv view (if k \<in> ea_forwarded_press a2
          then (passthrough ke k v a2)\<lparr>ea_forwarded_press := ea_forwarded_press a2 - {k}\<rparr> else a2)"
      proof (cases "k \<in> ea_forwarded_press a")
        case True
        with release_inv [OF assms(1) None] \<open>v = 0\<close> show ?thesis
          by (simp add: a2_def passthrough_def held_def)
      next
        case False
        then have "k \<notin> kc_down (view (ea_output a))" using assms(1) None by (auto simp: evdev_inv_def)
        with False assms(1) \<open>v = 0\<close> show ?thesis
          by (auto simp: a2_def held_def evdev_inv_def synced_def)
      qed
      with None key True show ?thesis
        by (cases "k \<in> ea_forwarded_press a")
          (simp_all add: process_event_def Let_def held_def a2_def flip: k_def v_def)
    next
      case False
      have k_held: "k \<in> held" using v(1) False by (auto simp: held_def)
      have inv2: "evdev_inv view a2"
        using assms(1) False by (auto simp: evdev_inv_def synced_def same held_def)
      have v12: "v = 1 \<or> v = 2" using v(1) False by blast
      note held2 = k_held [folded same(3)]
      show ?thesis
      proof (cases "k = EVDEV_KEY_ESC \<and> v = 1 \<and> 3 \<le> length (ea_escape_taps a2)")
        case True
        have "evdev_inv view (a2\<lparr>ea_escape_taps := [], ea_should_exit := True\<rparr>)"
          using inv2 by (simp add: evdev_inv_def synced_def)
        note raw = forward_press_raw_inv [OF this None _ v12]
        have t: "k = EVDEV_KEY_ESC" "v = 1" using True by blast+
        then have "ea_escape_taps a2 = filter (\<lambda>t. elapsed now t < millis 1000) (ea_escape_taps a) @ [now]"
          by (simp add: a2_def)
        with True have taps: "3 \<le> length (filter (\<lambda>t. elapsed now t < millis 1000) (ea_escape_taps a) @ [now])"
          by metis
        have "fst (process_event ke lib eh now ev (a, h))
            = forward_press_raw ke EVDEV_KEY_ESC 1 (a2\<lparr>ea_escape_taps := [], ea_should_exit := True\<rparr>)"
          using t taps None key by (simp add: process_event_def Let_def held_def a2_def flip: k_def v_def)
        with raw held2 t(1,2) show ?thesis by simp
      next
        case no_exit: False
        have "fst (process_event ke lib eh now ev (a, h)) = fst (process_press ke lib eh k v (a2, h))"
          using no_exit None key False
          by (cases "k = EVDEV_KEY_ESC"; cases "v = 1")
            (simp_all add: process_event_def Let_def held_def a2_def flip: k_def v_def)
        moreover have "evdev_inv view (fst (process_press ke lib eh k v (a2, h)))"
          using forward_press_raw_inv [OF inv2 None held2 v12] perform_inv [OF inv2 None held2 v12]
          by (auto simp: process_press_def Let_def case_prod_beta split: option.split)
        ultimately show ?thesis by simp
      qed
    qed
  qed
qed

end

end
