(* ===== verification/EvdevProperties.thy ===== *)
theory EvdevProperties
  imports EvdevSession IbusSession
begin

text \<open>
  The key channels at work: one character on the Wayland protocols, and the evdev adapter over
  the virtual device, from single edits to whole sessions. \<open>device\<close> is the kernel's device,
  \<open>evdev\_run\<close> any run of proper events through \<open>process\_event\<close>.
\<close>

unbundle bit_operations_syntax

inductive evdev_run ::
    "'w key_emitter \<Rightarrow> ('k, 's) xkb_lib \<Rightarrow> 'h evdev_handler \<Rightarrow> ('w, 'k, 's) evdev_adapter \<times> 'h \<Rightarrow>
      ('w, 'k, 's) evdev_adapter \<times> 'h \<Rightarrow> bool"
  for ke lib eh start where
  run_start: "evdev_run ke lib eh start start"
| run_event: "evdev_run ke lib eh start (a, h) \<Longrightarrow> proper_event a ev \<Longrightarrow>
    evdev_run ke lib eh start (process_event ke lib eh now ev (a, h))"

inductive_cases evdev_runE: "evdev_run ke lib eh start s"

abbreviation idle_client :: "ustr \<Rightarrow> key_client" where
  "idle_client t \<equiv> \<lparr>kc_down = {}, kc_mask = 0, kc_text = t\<rparr>"

lemma prepare_inv: "evdev_inv (device_view (idle_client t)) (evdev_prepare [] xkb)"
  by (simp add: evdev_inv_def synced_def evdev_prepare_def device_view_def level_keys_def)

lemma evdev_run_inv:
  assumes "evdev_run (uinput_emitter device_emit) lib eh start s"
    and "evdev_inv (device_view cl) (fst start)"
  shows "evdev_inv (device_view cl) (fst s)"
  using assms
proof induction
  case (run_event a h ev now)
  then show ?case using device.uinput.process_event_inv [of cl a ev lib eh now h] by simp
qed

section \<open>Concrete sessions\<close>

text \<open>A handler that turns every letter into the edit from \<open>a\<close> to the circumflex \<open>a\<close>.\<close>

definition toy_handler :: "unit evdev_handler" where
  "toy_handler = \<lparr>eh_handle_char = (\<lambda>_ _ h. (Apply ForwardKey 1 [0xE2], h)),
     eh_handle_backspace = (\<lambda>h. (ForwardRaw, h)), eh_clear_session = (\<lambda>h. h),
     eh_clear_last_input_char = (\<lambda>h. h), eh_full_reset_window = (\<lambda>h. h),
     eh_check_idle_reset_window = (\<lambda>h. h)\<rparr>"

definition key_event :: "u16 \<Rightarrow> 32 word \<Rightarrow> input_event" where
  "key_event code v = \<lparr>ie_type = EV_KEY, ie_code = code, ie_value = v\<rparr>"

definition toy_adapter :: "((u16 \<times> 32 word) list, unit, u32) evdev_adapter" where
  "toy_adapter = evdev_prepare [] (xkb_from_keymap toy_xkb ())"

lemma toy_handler_simps [simp]:
  "eh_handle_char toy_handler k c h = (Apply ForwardKey 1 [0xE2], h)"
  "eh_check_idle_reset_window toy_handler h = h"
  by (simp_all add: toy_handler_def)

lemma event_code_30 [simp]: "event_code (key_event 30 v) = 30"
  by (simp add: event_code_def key_event_def)


section \<open>The virtual device\<close>

text \<open>
  The virtual device declares every key the adapter types with: the key of each character of
  the inventory, the level modifiers and Backspace. The kernel would drop any other.
\<close>

theorem uinput_declares_keys:
  assumes "char_to_emit c = Some spec"
  shows "{es_keycode spec, MOD_LEFTSHIFT, MOD_RIGHTALT, MOD_HENKAN, EVDEV_KEY_BACKSPACE}
    \<subseteq> set (map (\<lambda>k. of_nat (unat k)) UINPUT_KEYS)"
  using emitted_declared [OF assms] device.uinput.backspace_declared
    modifier_declared [of MOD_LEFTSHIFT] modifier_declared [of MOD_RIGHTALT] modifier_declared [of MOD_HENKAN]
  unfolding declared_def by (simp add: modifier_keys_def mod_key_defs)

theorem uinput_declares_keys_witness: "\<exists>spec. char_to_emit 0x61 = Some spec
    \<and> MOD_HENKAN \<in> set (map (\<lambda>k. of_nat (unat k)) UINPUT_KEYS)"
proof -
  have "char_to_emit 0x61 = Some \<lparr>es_keycode = 30, es_mods = 0\<rparr>" by code_simp
  with uinput_declares_keys [OF this] show ?thesis by blast
qed

section \<open>Edits and sessions\<close>



text \<open>
  C6: In every run of proper events without a right Shift no key is stuck: each key down at the
  client is one the user holds at that moment, and was forwarded raw unless it is a modifier. With
  every key released, nothing is down.
\<close>

theorem evdev_no_stuck_key:
  assumes "evdev_run (uinput_emitter device_emit) lib eh (evdev_prepare [] xkb, h0) (a, h)"
  shows "kc_down (device_view (idle_client t) (ea_output a)) \<subseteq> ea_held_physical a
    \<and> {k \<in> kc_down (device_view (idle_client t) (ea_output a)). mod_bit k = None} \<subseteq> ea_forwarded_press a"
  using evdev_run_inv [OF assms] prepare_inv [of t xkb] by (auto simp: evdev_inv_def)

theorem evdev_no_stuck_key_witness:
  "kc_down (device_view (idle_client []) (ea_output (fst
     (process_event (uinput_emitter device_emit) toy_xkb toy_handler 0 (key_event 42 1) (toy_adapter, ()))))) \<subseteq> {42}"
proof -
  let ?s = "process_event (uinput_emitter device_emit) toy_xkb toy_handler 0 (key_event 42 1) (toy_adapter, ())"
  have "proper_event toy_adapter (key_event 42 1)"
    by (simp add: proper_event_def MOD_RIGHTSHIFT_def key_event_def event_code_def)
  from run_event [OF run_start this]
  have "evdev_run (uinput_emitter device_emit) toy_xkb toy_handler (toy_adapter, ()) (fst ?s, snd ?s)"
    unfolding prod.collapse .
  from evdev_no_stuck_key [OF this [unfolded toy_adapter_def], of "[]"]
  have "kc_down (device_view (idle_client []) (ea_output (fst ?s))) \<subseteq> ea_held_physical (fst ?s)"
    by (simp add: toy_adapter_def)
  moreover have "ea_held_physical (fst ?s) = {42}"
    by (simp add: process_event_def process_modifier_def mod_bit_def mod_key_defs passthrough_def Let_def
        toy_adapter_def evdev_prepare_def key_event_def event_code_def)
  ultimately show ?thesis by simp
qed

text \<open>The dance with a held right Shift.\<close>

lemma set_uinput_mods_presses_shift:
  assumes "target AND MOD_SHIFT_XKB \<noteq> 0" "ea_emitted_mods b AND MOD_SHIFT_XKB = 0"
  shows "MOD_LEFTSHIFT \<in> kc_down (device_view cl (ea_output
    (set_uinput_mods (uinput_emitter device_emit) target b)))"
proof -
  have m: "MOD_LEFTSHIFT \<in> modifier_keys" "MOD_RIGHTALT \<in> modifier_keys" "MOD_HENKAN \<in> modifier_keys"
    by (simp_all add: modifier_keys_def mod_key_defs)
  have n: "MOD_LEFTSHIFT \<noteq> MOD_RIGHTALT" "MOD_LEFTSHIFT \<noteq> MOD_HENKAN" by (simp_all add: mod_key_defs)
  have "(target AND LEVEL_MASK) AND MOD_SHIFT_XKB \<noteq> 0" using assms(1) by simp
  with assms(2) n show ?thesis
    by (simp add: set_uinput_mods_def Let_def device.uinput.set_uinput_mod_view m flip: LEVEL_MASK_def)
qed

lemma emit_one_unshifted:
  assumes "char_to_emit c = Some spec" "es_mods spec AND MOD_SHIFT_XKB = 0"
  shows "ea_emitted_mods (emit_one ke c a) AND MOD_SHIFT_XKB = 0"
proof -
  have "ea_emitted_mods (emit_one ke c a) = ea_emitted_mods (set_uinput_mods ke (es_mods spec) a)"
    by (simp add: emit_one_def assms(1) Let_def passthrough_def)
  also have "\<dots> = ea_emitted_mods a AND NOT LEVEL_MASK OR (es_mods spec AND LEVEL_MASK)"
    by (simp add: set_uinput_mods_def set_uinput_mod_def passthrough_def Let_def LEVEL_MASK_def)
  finally have e: "ea_emitted_mods (emit_one ke c a) AND MOD_SHIFT_XKB =
      (ea_emitted_mods a AND NOT LEVEL_MASK OR (es_mods spec AND LEVEL_MASK)) AND MOD_SHIFT_XKB" by simp
  have s: "NOT LEVEL_MASK AND MOD_SHIFT_XKB = 0" by (simp add: LEVEL_MASK_def level_bit_defs)
  have "(ea_emitted_mods a AND NOT LEVEL_MASK) AND MOD_SHIFT_XKB = 0"
    unfolding and.assoc s by simp
  with assms(2) show ?thesis unfolding e bit.conj_disj_distrib2 by simp
qed

lemma set_uinput_mods_held: "ea_held_physical (set_uinput_mods ke m a) = ea_held_physical a"
  by (simp add: set_uinput_mods_def set_uinput_mod_def passthrough_def Let_def)

lemma emit_one_held: "ea_held_physical (emit_one ke c a) = ea_held_physical a"
  by (simp add: emit_one_def Let_def passthrough_def set_uinput_mods_held split: option.split)

lemma right_shift_event:
  assumes "v = 1 \<or> v = 0"
  shows "process_event ke lib eh t (key_event 54 v) (a, h) =
    (process_modifier ke lib XKB_SHIFT_BIT 54 v (a\<lparr>ea_held_physical :=
       (if v = 1 then insert 54 (ea_held_physical a) else ea_held_physical a - {54})\<rparr>), h)"
  using assms by (auto simp: process_event_def key_event_def event_code_def mod_bit_def mod_key_defs Let_def)

text \<open>
  C37: With the right Shift held the emission of an unshifted character leaves the left Shift
  pressed for good: it is still down at the client after the user has let go of every key.
\<close>

theorem evdev_right_shift_sticks:
  assumes "char_to_emit c = Some spec" "es_mods spec AND MOD_SHIFT_XKB = 0"
  shows "let ke = uinput_emitter device_emit;
      (a1, h1) = process_event ke lib eh t1 (key_event 54 1) (evdev_prepare [] xkb, h0);
      (a3, h3) = process_event ke lib eh t2 (key_event 54 0) (emit_string ke [c] a1, h1)
    in MOD_LEFTSHIFT \<in> kc_down (device_view cl (ea_output a3)) \<and> ea_held_physical a3 = {}"
proof -
  let ?ke = "uinput_emitter device_emit"
  define a1 where "a1 = process_modifier ?ke lib XKB_SHIFT_BIT 54 1
    ((evdev_prepare [] xkb)\<lparr>ea_held_physical := {54}\<rparr>)"
  have e1: "process_event ?ke lib eh t1 (key_event 54 1) (evdev_prepare [] xkb, h0) = (a1, h0)"
    by (simp add: right_shift_event a1_def) (simp add: evdev_prepare_def)
  have a1: "ea_emitted_mods a1 = MOD_SHIFT_XKB" "ea_held_physical a1 = {54}"
    by (simp_all add: a1_def process_modifier_def Let_def passthrough_def evdev_prepare_def
        XKB_SHIFT_BIT_def level_bit_defs)
  define a2 where "a2 = emit_string ?ke [c] a1"
  have e2: "a2 = set_uinput_mods ?ke (MOD_SHIFT_XKB AND LEVEL_MASK) (emit_one ?ke c a1)"
    by (simp add: a2_def emit_string_def a1 LEVEL_MASK_def)
  have "(MOD_SHIFT_XKB AND LEVEL_MASK) AND MOD_SHIFT_XKB \<noteq> 0"
    by (simp add: level_bit_defs LEVEL_MASK_def)
  from set_uinput_mods_presses_shift [OF this emit_one_unshifted [OF assms]]
  have down2: "MOD_LEFTSHIFT \<in> kc_down (device_view cl (ea_output a2))" unfolding e2 .
  have held2: "ea_held_physical a2 = {54}"
    unfolding e2 by (simp add: set_uinput_mods_held emit_one_held a1)
  define a3 where "a3 = process_modifier ?ke lib XKB_SHIFT_BIT 54 0 (a2\<lparr>ea_held_physical := {}\<rparr>)"
  have e3: "process_event ?ke lib eh t2 (key_event 54 0) (a2, h0) = (a3, h0)"
    by (simp add: right_shift_event a3_def held2)
  have "declared 54" by (rule modifier_declared) (simp add: modifier_keys_def)
  then have "MOD_LEFTSHIFT \<in> kc_down (device_view cl (ea_output a3))"
    using down2 by (simp add: a3_def process_modifier_def Let_def device.uinput.passthrough_view
        deliver_key_def client_release_def MOD_LEFTSHIFT_def)
  moreover have "ea_held_physical a3 = {}"
    by (simp add: a3_def process_modifier_def Let_def passthrough_def)
  ultimately show ?thesis by (simp add: e1 e3 flip: a2_def)
qed

theorem evdev_right_shift_sticks_witness:
  "MOD_LEFTSHIFT \<in> kc_down (device_view (idle_client []) (ea_output (fst
     (process_event (uinput_emitter device_emit) toy_xkb toy_handler 1 (key_event 54 0)
       (emit_string (uinput_emitter device_emit) [0x61]
         (fst (process_event (uinput_emitter device_emit) toy_xkb toy_handler 0 (key_event 54 1)
           (toy_adapter, ()))), ())))))"
proof -
  have "char_to_emit 0x61 = Some \<lparr>es_keycode = 30, es_mods = 0\<rparr>" by code_simp
  from evdev_right_shift_sticks [OF this, of toy_xkb toy_handler 0 "xkb_from_keymap toy_xkb ()" "()" 1 "idle_client []"]
  show ?thesis by (simp add: Let_def case_prod_beta toy_adapter_def)
qed

text \<open>
  In evdev mode an edit never reaches the shadow: when the daemon decides one, its shadow is
  what it was (or was reset by a switch of the configuration), although the client's text changes.
\<close>

theorem evdev_edit_skips_shadow:
  assumes "eh_handle_char (daemon_handler vk now) code c d = (Apply m bs commit, d')"
  shows "dshadow d' = dshadow d \<or> dshadow d' = []"
proof -
  obtain d1 where d1: "sync_enabled_edge vk d = (True, d1)" and k: "handle_char vk now c d1 = (Apply m bs commit, d')"
    using assms by (auto simp: daemon_handler_def evdev_handle_char_def Let_def split: prod.splits if_splits)
  note q = dquiet_sync_enabled [OF d1]
  have "key_effect 2 (Some c) (Apply m bs commit) d1 d'"
    by (rule handle_char_effect [OF k]) (simp_all add: KEY_ESC_def KEY_BACKSPACE_def)
  from key_effect_quiet [OF conjunct1 [OF q] this] show ?thesis by (simp add: key_effect_def)
qed

definition demo_evdev :: "ustr daemon" where
  "demo_evdev = snd (eh_handle_char (daemon_handler toy_vnkey 1) 30 0x61
     (activate_evdev toy_vnkey 0 (daemon_new config_default True None)))"

theorem evdev_edit_skips_shadow_witness:
  "fst (eh_handle_char (daemon_handler toy_vnkey 2) 31 0x73 demo_evdev) = Apply ForwardKey 1 [0xE1]
   \<and> dshadow (snd (eh_handle_char (daemon_handler toy_vnkey 2) 31 0x73 demo_evdev)) = dshadow demo_evdev"
proof -
  have d: "fst (eh_handle_char (daemon_handler toy_vnkey 2) 31 0x73 demo_evdev) = Apply ForwardKey 1 [0xE1]
      \<and> dshadow (snd (eh_handle_char (daemon_handler toy_vnkey 2) 31 0x73 demo_evdev)) \<noteq> []"
    by code_simp
  then have "eh_handle_char (daemon_handler toy_vnkey 2) 31 0x73 demo_evdev
      = (Apply ForwardKey 1 [0xE1], snd (eh_handle_char (daemon_handler toy_vnkey 2) 31 0x73 demo_evdev))"
    by (metis prod.collapse)
  from evdev_edit_skips_shadow [OF this] d show ?thesis by blast
qed

section \<open>The Wayland protocols\<close>



text \<open>
  A held Shift spoils a lower-case letter: no modifier request is sent for a character of the
  first level, so the client, told of Shift, types the upper-case letter of the same key.
\<close>

theorem emit_char_shift_held:
  assumes "char_to_emit (ep_c p) = Some spec" "es_mods spec = 0" "fst (ep_raw_mods p) = MOD_SHIFT_XKB"
    and "kc_mask (vk_view cl w) = MOD_SHIFT_XKB" "es_keycode spec \<notin> kc_down (vk_view cl w)"
    and "char_to_emit u = Some \<lparr>es_keycode = es_keycode spec, es_mods = MOD_SHIFT_XKB\<rparr>"
  shows "kc_text (vk_view cl (snd (snd (emit_char vk_v2_emitter now p (sm, w))))) = kc_text (vk_view cl w) @ [u]"
proof -
  have typed: "strike (es_keycode spec) MOD_SHIFT_XKB t = t @ [u]" for t
    using strike_emitted [OF assms(6), of MOD_SHIFT_XKB t] emitted_key(2) [OF assms(6)] by simp
  have up: "kc_down (vk_view cl w) - {es_keycode spec} = kc_down (vk_view cl w)" using assms(5) by simp
  obtain lat lock grp where raw: "ep_raw_mods p = (MOD_SHIFT_XKB, lat, lock, grp)"
    using assms(3) by (cases "ep_raw_mods p") auto
  show ?thesis
    using assms typed raw v2.emit_release [of cl "ep_time p" "es_keycode spec" w]
    by (auto simp: emit_char_def plan_mod_dance_def Let_def v2.emit_tap client_release_def up)
qed

theorem emit_char_shift_held_witness:
  "kc_text (vk_view ((idle_client [])\<lparr>kc_mask := MOD_SHIFT_XKB\<rparr>) (snd (snd (emit_char vk_v2_emitter 0
     \<lparr>ep_raw_mods = (MOD_SHIFT_XKB, 0, 0, 0), ep_held_user_kc = None, ep_time = 0, ep_c = 0xE0\<rparr>
     (\<lparr>sm_pending = 0, sm_expected = [], sm_emitted_at = None\<rparr>, []))))) = [0xC0]"
proof -
  let ?p = "\<lparr>ep_raw_mods = (MOD_SHIFT_XKB, 0, 0, 0), ep_held_user_kc = None, ep_time = 0, ep_c = 0xE0\<rparr>"
  have "char_to_emit 0xE0 = Some \<lparr>es_keycode = 85, es_mods = 0\<rparr>"
    "char_to_emit 0xC0 = Some \<lparr>es_keycode = 85, es_mods = MOD_SHIFT_XKB\<rparr>" by code_simp+
  with emit_char_shift_held [of ?p "\<lparr>es_keycode = 85, es_mods = 0\<rparr>" "(idle_client [])\<lparr>kc_mask := MOD_SHIFT_XKB\<rparr>" "[]" "0xC0"]
  show ?thesis by (simp add: vk_view_def)
qed

end
