(* ===== verification/WaylandAdapter.thy ===== *)
theory WaylandAdapter
  imports KeyEmitter Xkb Daemon "HOL-Library.Signed_Division"
begin

text \<open>
  \<^verbatim>\<open>crates/wayland-adapter/src\<close>: the protocol side of a Wayland session. \<open>adapter\_state\<close> is
  \<^verbatim>\<open>AdapterState\<close> with the proxies reduced to what goes out through them: the requests, in order,
  in \<open>as\_wire\<close>. Flushing the connection is the environment's: its results are taken from
  \<open>as\_flushes\<close>, a missing one being a success (also of a missing connection). The dispatchers'
  events of both input-method protocols and of the keyboard grab are \<open>dispatch\_v2\<close>,
  \<open>dispatch\_v1\<close> and \<open>dispatch\_key\<close>; connecting and the event loop are in the theory WaylandLoop.
\<close>

unbundle bit_operations_syntax

section \<open>Profile and frames\<close>

datatype im_protocol = ImV2 | ImV1

datatype focus_source = WlrForeignToplevel | KdePlasma | FocusNone

record transport_profile =
  tp_protocol :: im_protocol
  tp_focus :: focus_source
  tp_has_vk_keyboard :: bool
  tp_has_keysym_commit :: bool
  tp_delivers_commit_string :: bool
  tp_heartbeats_done :: bool
  tp_can_receive_surrounding :: bool

definition for_protocol :: "im_protocol \<Rightarrow> transport_profile" where
  "for_protocol protocol =
     (case protocol of
        ImV2 \<Rightarrow>
          \<lparr>tp_protocol = protocol, tp_focus = FocusNone, tp_has_vk_keyboard = True,
           tp_has_keysym_commit = False, tp_delivers_commit_string = True,
           tp_heartbeats_done = False, tp_can_receive_surrounding = True\<rparr>
      | ImV1 \<Rightarrow>
          \<lparr>tp_protocol = protocol, tp_focus = FocusNone, tp_has_vk_keyboard = False,
           tp_has_keysym_commit = True, tp_delivers_commit_string = True,
           tp_heartbeats_done = True, tp_can_receive_surrounding = True\<rparr>)"

record surrounding_text =
  su_text :: ustr
  su_cursor :: u32
  su_anchor :: u32

record done_frame =
  df_pending_activate :: bool
  df_pending_deactivate :: bool
  df_surrounding_text :: "surrounding_text option"
  df_change_cause :: "u32 option"
  df_purpose :: u32

definition done_frame_default :: done_frame where
  "done_frame_default = \<lparr>df_pending_activate = False, df_pending_deactivate = False,
     df_surrounding_text = None, df_change_cause = None, df_purpose = 0\<rparr>"

definition done_frame_reset :: "done_frame \<Rightarrow> done_frame" where
  "done_frame_reset f = f\<lparr>df_pending_activate := False, df_pending_deactivate := False,
     df_surrounding_text := None, df_change_cause := None\<rparr>"

definition done_frame_end_session :: "done_frame \<Rightarrow> done_frame" where
  "done_frame_end_session f = f\<lparr>df_purpose := 0\<rparr>"

datatype frame_event =
    EvActivate
  | EvDeactivate
  | EvSurroundingText ustr u32 u32
  | EvPurpose u32
  | EvChangeCause u32
  | EvUnavailable

section \<open>Client-side repeat\<close>

record held_repeat =
  hr_key :: u32
  hr_wayland_time :: u32
  hr_pressed_at :: time
  hr_deadline :: time

record client_repeat =
  cr_rate :: int
  cr_delay :: int
  cr_held :: "held_repeat option"

definition client_repeat_default :: client_repeat where
  "client_repeat_default = \<lparr>cr_rate = 20, cr_delay = 400, cr_held = None\<rparr>"

definition repeat_set_info :: "int \<Rightarrow> int \<Rightarrow> client_repeat \<Rightarrow> client_repeat" where
  "repeat_set_info rate delay r =
     (let r1 = r\<lparr>cr_rate := rate, cr_delay := delay\<rparr>
      in if rate \<le> 0 then r1\<lparr>cr_held := None\<rparr> else r1)"

definition repeat_arm :: "u32 \<Rightarrow> u32 \<Rightarrow> time \<Rightarrow> client_repeat \<Rightarrow> client_repeat" where
  "repeat_arm key wayland_time now r =
     (if cr_rate r \<le> 0 then r
      else r\<lparr>cr_held := Some \<lparr>hr_key = key, hr_wayland_time = wayland_time, hr_pressed_at = now,
             hr_deadline = now + millis (max (cr_delay r) 0)\<rparr>\<rparr>)"

definition repeat_release :: "u32 \<Rightarrow> client_repeat \<Rightarrow> client_repeat" where
  "repeat_release key r =
     (case cr_held r of
        Some held \<Rightarrow> if hr_key held = key then r\<lparr>cr_held := None\<rparr> else r
      | None \<Rightarrow> r)"

definition repeat_cancel :: "client_repeat \<Rightarrow> client_repeat" where
  "repeat_cancel r = r\<lparr>cr_held := None\<rparr>"

definition repeat_deadline :: "client_repeat \<Rightarrow> time option" where
  "repeat_deadline r = map_option hr_deadline (cr_held r)"

text \<open>
  \<^verbatim>\<open>Duration::from\_secs\_f64(1.0 / rate)\<close> in nanoseconds, rounded to the nearest; that the
  quotient is a 64-bit float is left out, it is off by far less than a nanosecond.
\<close>

definition repeat_interval :: "int \<Rightarrow> time" where
  "repeat_interval rate = (2 * 1000000000 + rate) div (2 * rate)"

definition repeat_fire :: "time \<Rightarrow> client_repeat \<Rightarrow> (u32 \<times> u32) option \<times> client_repeat" where
  "repeat_fire now r =
     (case cr_held r of
        None \<Rightarrow> (None, r)
      | Some held \<Rightarrow>
          if now < hr_deadline held \<or> cr_rate r \<le> 0 then (None, r)
          else
            (let elapsed_ms = of_int (elapsed now (hr_pressed_at held) div millis 1);
                 event = (hr_key held, hr_wayland_time held + elapsed_ms)
             in (Some event,
                 r\<lparr>cr_held := Some (held\<lparr>hr_deadline := now + repeat_interval (cr_rate r)\<rparr>)\<rparr>)))"

section \<open>State\<close>

text \<open>Requests on \<^verbatim>\<open>zwp\_input\_method\_v2\<close>, the virtual keyboard, and the v1 context.\<close>

datatype wl_request =
    ImCommit u32
  | ImCommitString ustr
  | ImDelete u32 u32
  | VkRequest vk_request
  | CtxRequest context_request
  | CtxCommitString u32 ustr
  | CtxDelete "32 word" u32
  | CtxKeysym u32 u32 u32 u32 u32
  | CtxGrabKeyboard
  | CtxModifiersMap string
  | VkKeymap u32 u32

record focus_event =
  fe_app_id :: "ustr option"
  fe_is_xwayland :: bool

record ('k, 's) adapter_state =
  as_wire :: "wl_request list"
  as_flushes :: "bool list"
  as_im :: bool
  as_vk :: bool
  as_im_ctx_v1 :: bool
  as_keymap_init :: bool
  as_xkb :: "('k, 's) xkb_state option"
  as_serial :: u32
  as_modifiers :: modifier_state
  as_raw_mods :: raw_mods
  as_pending_frame :: done_frame
  as_pending_commit :: bool
  as_synthetic_mods :: synthetic_mods
  as_last_forwarded_key :: "(u32 \<times> time) option"
  as_last_forwarded_release :: "(u32 \<times> time) option"
  as_forwarding_repeat :: bool
  as_client_repeat :: client_repeat
  as_pending_im_commit_ack :: bool
  as_should_exit :: bool
  as_profile :: transport_profile
  as_focus_current :: "focus_event option"

definition send :: "wl_request \<Rightarrow> ('k, 's) adapter_state \<Rightarrow> ('k, 's) adapter_state" where
  "send r st = st\<lparr>as_wire := as_wire st @ [r]\<rparr>"

definition adapter_state_new :: "('k, 's) adapter_state" where
  "adapter_state_new =
     \<lparr>as_wire = [], as_flushes = [], as_im = False, as_vk = False, as_im_ctx_v1 = False,
      as_keymap_init = False, as_xkb = None, as_serial = 0, as_modifiers = 0, as_raw_mods = (0, 0, 0, 0),
      as_pending_frame = done_frame_default, as_pending_commit = False,
      as_synthetic_mods = \<lparr>sm_pending = 0, sm_expected = [], sm_emitted_at = None\<rparr>,
      as_last_forwarded_key = None, as_last_forwarded_release = None, as_forwarding_repeat = False,
      as_client_repeat = client_repeat_default, as_pending_im_commit_ack = False,
      as_should_exit = False, as_profile = for_protocol ImV2, as_focus_current = None\<rparr>"

definition held_user_kc :: "('k, 's) adapter_state \<Rightarrow> u32 option" where
  "held_user_kc st =
     (case (as_last_forwarded_key st, as_last_forwarded_release st) of
        (Some (kc_p, t_p), Some (kc_r, t_r)) \<Rightarrow> if kc_p = kc_r \<and> t_r > t_p then None else Some kc_p
      | (Some (kc_p, t_p), None) \<Rightarrow> Some kc_p
      | (None, _) \<Rightarrow> None)"

definition press_value :: "('k, 's) adapter_state \<Rightarrow> u32" where
  "press_value st = (if as_forwarding_repeat st then 2 else 1)"

text \<open>An emitter of \<open>KeyEmitter\<close> writing its requests to the session's wire.\<close>

definition on_wire :: "('r \<Rightarrow> wl_request) \<Rightarrow> 'r list key_emitter \<Rightarrow> ('k, 's) adapter_state key_emitter" where
  "on_wire wrap ke =
     \<lparr>ke_emit_key = (\<lambda>time kc v st. st\<lparr>as_wire := as_wire st @ map wrap (ke_emit_key ke time kc v [])\<rparr>),
      ke_emit_modifiers = (\<lambda>dep lat lock grp st.
        st\<lparr>as_wire := as_wire st @ map wrap (ke_emit_modifiers ke dep lat lock grp [])\<rparr>),
      ke_modifier_echo_through_grab = ke_modifier_echo_through_grab ke,
      ke_sync_barrier = default_sync_barrier\<rparr>"

text \<open>The session's forward emitter: the virtual keyboard on v2, the context on v1.\<close>

definition forward_emitter :: "('k, 's) adapter_state \<Rightarrow> ('k, 's) adapter_state key_emitter" where
  "forward_emitter st =
     (case tp_protocol (as_profile st) of
        ImV2 \<Rightarrow> on_wire VkRequest vk_v2_emitter
      | ImV1 \<Rightarrow> on_wire CtxRequest (vk_v1_emitter (as_serial st)))"

text \<open>Whether the proxy the protocol sends keys through is there.\<close>

definition key_proxy :: "('k, 's) adapter_state \<Rightarrow> bool" where
  "key_proxy st = (case tp_protocol (as_profile st) of ImV2 \<Rightarrow> as_vk st | ImV1 \<Rightarrow> as_im_ctx_v1 st)"

definition emit_forward_key :: "u32 \<Rightarrow> u32 \<Rightarrow> u32 \<Rightarrow> ('k, 's) adapter_state \<Rightarrow> ('k, 's) adapter_state" where
  "emit_forward_key time key v st =
     (if key_proxy st then ke_emit_key (forward_emitter st) time key v st else st)"

definition apply_event :: "frame_event \<Rightarrow> ('k, 's) adapter_state \<Rightarrow> ('k, 's) adapter_state" where
  "apply_event event st =
     (let f = as_pending_frame st in
      case event of
        EvActivate \<Rightarrow>
          st\<lparr>as_pending_frame := f\<lparr>df_pending_activate := True\<rparr>, as_pending_commit := False\<rparr>
      | EvDeactivate \<Rightarrow> st\<lparr>as_pending_frame := f\<lparr>df_pending_deactivate := True\<rparr>\<rparr>
      | EvSurroundingText t cursor anchor \<Rightarrow>
          st\<lparr>as_pending_frame := f\<lparr>df_surrounding_text := Some \<lparr>su_text = t, su_cursor = cursor, su_anchor = anchor\<rparr>\<rparr>,
             as_pending_commit := True\<rparr>
      | EvPurpose purpose \<Rightarrow>
          st\<lparr>as_pending_frame := f\<lparr>df_purpose := purpose\<rparr>, as_pending_commit := True\<rparr>
      | EvChangeCause cause \<Rightarrow> st\<lparr>as_pending_frame := f\<lparr>df_change_cause := Some cause\<rparr>\<rparr>
      | EvUnavailable \<Rightarrow> st\<lparr>as_should_exit := True\<rparr>)"

section \<open>The sink\<close>

definition v1_keysym_needs_modifier_guard :: "bool \<Rightarrow> bool \<Rightarrow> raw_mods \<Rightarrow> bool" where
  "v1_keysym_needs_modifier_guard is_unmapped commit_string_functional raw =
     (let (depressed, latched, locked, _) = raw
      in \<not> is_unmapped \<and> \<not> commit_string_functional \<and> depressed OR latched OR locked \<noteq> 0)"

definition forward_backspace_needs_modifier_guard :: "u32 \<Rightarrow> raw_mods \<Rightarrow> bool" where
  "forward_backspace_needs_modifier_guard key_code raw =
     (let (depressed, latched, locked, _) = raw
      in key_code = 14 \<and> depressed OR latched OR locked \<noteq> 0)"

definition flush_connection :: "('k, 's) adapter_state \<Rightarrow> bool \<times> ('k, 's) adapter_state" where
  "flush_connection st =
     (case as_flushes st of
        [] \<Rightarrow> (True, st)
      | ok # oks \<Rightarrow> (ok, st\<lparr>as_flushes := oks\<rparr>))"

definition sink_delete_surrounding_text ::
    "u32 \<Rightarrow> u32 \<Rightarrow> u32 \<Rightarrow> u32 \<Rightarrow> ('k, 's) adapter_state \<Rightarrow> ('k, 's) adapter_state" where
  "sink_delete_surrounding_text before_bytes before_chars after_bytes after_chars st =
     (case tp_protocol (as_profile st) of
        ImV2 \<Rightarrow> send (ImDelete before_bytes after_bytes) st
      | ImV1 \<Rightarrow> send (CtxDelete (- before_bytes) (before_bytes + after_bytes)) st)"

definition sink_commit_string :: "ustr \<Rightarrow> ('k, 's) adapter_state \<Rightarrow> ('k, 's) adapter_state" where
  "sink_commit_string t st =
     (case tp_protocol (as_profile st) of
        ImV2 \<Rightarrow> send (ImCommitString t) st
      | ImV1 \<Rightarrow> send (CtxCommitString (as_serial st) t) st)"

definition sink_commit :: "u32 \<Rightarrow> ('k, 's) adapter_state \<Rightarrow> ('k, 's) adapter_state" where
  "sink_commit serial st =
     (case tp_protocol (as_profile st) of
        ImV2 \<Rightarrow> (send (ImCommit serial) st)\<lparr>as_pending_im_commit_ack := True\<rparr>
      | ImV1 \<Rightarrow> st)"

definition sink_vk_key ::
    "raw_mods \<Rightarrow> u32 \<Rightarrow> u32 \<Rightarrow> key_state \<Rightarrow> ('k, 's) adapter_state \<Rightarrow> ('k, 's) adapter_state" where
  "sink_vk_key raw time key_code state st =
     (let ke = forward_emitter st;
          (dep, lat, lock, grp) = raw;
          v = (case state of Pressed \<Rightarrow> 1 | Released \<Rightarrow> 0);
          guard = forward_backspace_needs_modifier_guard key_code raw;
          st1 = (if guard \<and> state = Pressed then ke_emit_modifiers ke 0 0 0 grp st else st);
          st2 = ke_emit_key ke time key_code v st1
      in if guard \<and> state = Released then ke_emit_modifiers ke dep lat lock grp st2 else st2)"

definition sink_vk_modifiers ::
    "u32 \<Rightarrow> u32 \<Rightarrow> u32 \<Rightarrow> u32 \<Rightarrow> ('k, 's) adapter_state \<Rightarrow> ('k, 's) adapter_state" where
  "sink_vk_modifiers dep lat lock grp st = ke_emit_modifiers (forward_emitter st) dep lat lock grp st"

text \<open>Only v2 has the emitter that drives the synthetic keymap; \<open>now\<close> is the clock.\<close>

definition sink_vk_commit_char ::
    "time \<Rightarrow> raw_mods \<Rightarrow> u32 option \<Rightarrow> u32 \<Rightarrow> uchar \<Rightarrow> ('k, 's) adapter_state \<Rightarrow> bool \<times> ('k, 's) adapter_state" where
  "sink_vk_commit_char now raw held time c st =
     (case tp_protocol (as_profile st) of
        ImV1 \<Rightarrow> (False, st)
      | ImV2 \<Rightarrow>
          (let (ok, sm, st1) = emit_char (on_wire VkRequest vk_v2_emitter) now
                 \<lparr>ep_raw_mods = raw, ep_held_user_kc = held, ep_time = time, ep_c = c\<rparr>
                 (as_synthetic_mods st, st)
           in (ok, st1\<lparr>as_synthetic_mods := sm\<rparr>)))"

text \<open>
  The v2 loop of \<open>commit\_via\_keysym\<close>. A failed flush ends it at once, with what is buffered
  dropped; the characters outside the keymap come after all others.
\<close>

fun commit_via_vk ::
    "time \<Rightarrow> raw_mods \<Rightarrow> u32 option \<Rightarrow> u32 \<Rightarrow> u32 \<Rightarrow> ustr \<Rightarrow> ustr \<Rightarrow> ('k, 's) adapter_state \<Rightarrow> ('k, 's) adapter_state" where
  "commit_via_vk now raw held serial time [] fallback_buf st =
     (if fallback_buf = [] then st else sink_commit serial (sink_commit_string fallback_buf st))"
| "commit_via_vk now raw held serial time (c # cs) fallback_buf st =
     (let (sent, st1) = sink_vk_commit_char now raw held time c st
      in if sent then
           (let (flushed, st2) = flush_connection st1
            in if flushed then commit_via_vk now raw held serial time cs fallback_buf st2 else st2)
         else commit_via_vk now raw held serial time cs (fallback_buf @ [c]) st1)"

text \<open>One character on the v1 keysym channel; \<open>None\<close> when it has no keysym.\<close>

definition v1_keysym :: "('k, 's) xkb_lib \<Rightarrow> uchar \<Rightarrow> u32" where
  "v1_keysym lib c =
     (let ks = xl_utf32_to_keysym lib (of_nat c)
      in if ks > 0xFF \<and> ks < 0x01000000 then 0x01000000 OR of_nat c else ks)"

definition v1_send_char ::
    "('k, 's) xkb_lib \<Rightarrow> raw_mods \<Rightarrow> u32 option \<Rightarrow> bool \<Rightarrow> u32 \<Rightarrow> u32 \<Rightarrow> uchar \<Rightarrow>
      ('k, 's) adapter_state \<Rightarrow> bool \<times> ('k, 's) adapter_state" where
  "v1_send_char lib raw held csf serial time c st =
     (let ke = forward_emitter st;
          (dep, lat, lock, grp) = raw;
          keycode = (case as_xkb st of Some xkb \<Rightarrow> char_to_keycode lib xkb c | None \<Rightarrow> None);
          is_unmapped = (keycode = None);
          st1 = (case keycode of
                   Some kc \<Rightarrow> if held = Some kc then ke_emit_key ke time kc 0 st else st
                 | None \<Rightarrow> st);
          ks = v1_keysym lib c
      in if ks = 0 then (False, st1)
         else
           (let guard = v1_keysym_needs_modifier_guard is_unmapped csf raw;
                st2 = (if guard then ke_emit_modifiers ke 0 0 0 grp st1 else st1);
                st3 = send (CtxKeysym serial time ks 0 0) (send (CtxKeysym serial time ks 1 0) st2)
            in (True, if guard then ke_emit_modifiers ke dep lat lock grp st3 else st3)))"

fun commit_via_keysym_v1 ::
    "('k, 's) xkb_lib \<Rightarrow> raw_mods \<Rightarrow> u32 option \<Rightarrow> bool \<Rightarrow> u32 \<Rightarrow> u32 \<Rightarrow> ustr \<Rightarrow>
      ('k, 's) adapter_state \<Rightarrow> bool \<times> ('k, 's) adapter_state" where
  "commit_via_keysym_v1 lib raw held csf serial time [] st = (True, snd (flush_connection st))"
| "commit_via_keysym_v1 lib raw held csf serial time (c # cs) st =
     (let (sent, st1) = v1_send_char lib raw held csf serial time c st
      in if \<not> sent then (False, st1)
         else
           (let (flushed, st2) = flush_connection st1
            in if flushed then commit_via_keysym_v1 lib raw held csf serial time cs st2
               else (True, st2)))"

definition sink_commit_via_keysym ::
    "('k, 's) xkb_lib \<Rightarrow> time \<Rightarrow> raw_mods \<Rightarrow> u32 option \<Rightarrow> bool \<Rightarrow> u32 \<Rightarrow> u32 \<Rightarrow> ustr \<Rightarrow>
      ('k, 's) adapter_state \<Rightarrow> bool \<times> ('k, 's) adapter_state" where
  "sink_commit_via_keysym lib now raw held csf serial time t st =
     (case tp_protocol (as_profile st) of
        ImV2 \<Rightarrow> if \<not> csf then (True, commit_via_vk now raw held serial time t [] st) else (False, st)
      | ImV1 \<Rightarrow> commit_via_keysym_v1 lib raw held csf serial time t st)"

fun key_channel_chars ::
    "time \<Rightarrow> raw_mods \<Rightarrow> u32 option \<Rightarrow> u32 \<Rightarrow> ustr \<Rightarrow> ('k, 's) adapter_state \<Rightarrow> bool \<times> ('k, 's) adapter_state" where
  "key_channel_chars now raw held time [] st = (True, st)"
| "key_channel_chars now raw held time (c # cs) st =
     (let (sent, st1) = sink_vk_commit_char now raw held time c st
      in if \<not> sent then (False, st1)
         else
           (let (flushed, st2) = flush_connection st1
            in if flushed then key_channel_chars now raw held time cs st2 else (True, st2)))"

definition sink_commit_key_channel_text ::
    "('k, 's) xkb_lib \<Rightarrow> time \<Rightarrow> raw_mods \<Rightarrow> u32 option \<Rightarrow> bool \<Rightarrow> u32 \<Rightarrow> u32 \<Rightarrow> ustr \<Rightarrow>
      ('k, 's) adapter_state \<Rightarrow> bool \<times> ('k, 's) adapter_state" where
  "sink_commit_key_channel_text lib now raw held csf serial time t st =
     (case tp_protocol (as_profile st) of
        ImV2 \<Rightarrow> if \<not> list_all (\<lambda>c. char_to_emit c \<noteq> None) t then (False, st)
               else key_channel_chars now raw held time t st
      | ImV1 \<Rightarrow> commit_via_keysym_v1 lib raw held csf serial time t st)"

definition adapter_sink ::
    "('k, 's) xkb_lib \<Rightarrow> time \<Rightarrow> raw_mods \<Rightarrow> u32 option \<Rightarrow> bool \<Rightarrow> ('k, 's) adapter_state output_sink" where
  "adapter_sink lib now raw held csf =
     \<lparr>os_delete_surrounding_text = sink_delete_surrounding_text,
      os_commit_string = sink_commit_string,
      os_commit = sink_commit,
      os_vk_key = sink_vk_key raw,
      os_vk_modifiers = sink_vk_modifiers,
      os_vk_commit_char = sink_vk_commit_char now raw held,
      os_commit_via_keysym = sink_commit_via_keysym lib now raw held csf,
      os_commit_key_channel_text = sink_commit_key_channel_text lib now raw held csf\<rparr>"

section \<open>The handler and its context\<close>

record ('h, 'x) adapter_handler =
  ah_on_done_frame :: "frame_snapshot \<Rightarrow> 'h \<times> 'x \<Rightarrow> 'h \<times> 'x"
  ah_on_key_pressed :: "u32 \<Rightarrow> u32 \<Rightarrow> uchar option \<Rightarrow> 'h \<times> 'x \<Rightarrow> key_decision \<times> 'h \<times> 'x"
  ah_apply_pending :: "u32 \<Rightarrow> usize \<Rightarrow> ustr \<Rightarrow> raw_mods \<Rightarrow> u32 option \<Rightarrow> 'h \<times> 'x \<Rightarrow> 'h \<times> 'x"
  ah_on_key_released :: "u32 \<Rightarrow> u32 \<Rightarrow> 'h \<times> 'x \<Rightarrow> 'h \<times> 'x"
  ah_on_modifiers :: "modifier_state \<Rightarrow> 'h \<times> 'x \<Rightarrow> 'h \<times> 'x"

definition default_on_key_released :: "u32 \<Rightarrow> u32 \<Rightarrow> 'h \<times> 'x \<Rightarrow> 'h \<times> 'x" where
  "default_on_key_released time evdev s = s"

definition ctx_is_level_shifted :: "('k, 's) xkb_lib \<Rightarrow> ('k, 's) adapter_state \<Rightarrow> u32 \<Rightarrow> uchar \<Rightarrow> bool" where
  "ctx_is_level_shifted lib st key ch =
     (case as_xkb st of Some xkb \<Rightarrow> base_char lib xkb key \<noteq> Some ch | None \<Rightarrow> False)"

definition ctx_forward_press :: "time \<Rightarrow> u32 \<Rightarrow> u32 \<Rightarrow> ('k, 's) adapter_state \<Rightarrow> ('k, 's) adapter_state" where
  "ctx_forward_press now time key st =
     (let st1 = emit_forward_key time key (press_value st) st
      in if as_forwarding_repeat st1 then st1 else st1\<lparr>as_last_forwarded_key := Some (key, now)\<rparr>)"

definition ctx_vk_key_press_unstamped :: "u32 \<Rightarrow> u32 \<Rightarrow> ('k, 's) adapter_state \<Rightarrow> ('k, 's) adapter_state" where
  "ctx_vk_key_press_unstamped time key st = emit_forward_key time key (press_value st) st"

text \<open>\<^verbatim>\<open>with\_sink\<close>: v2 needs both proxies, v1 its context.\<close>

definition ctx_with_sink ::
    "('k, 's) xkb_lib \<Rightarrow> time \<Rightarrow> ('k, 's) adapter_state \<Rightarrow> raw_mods \<Rightarrow> u32 option \<Rightarrow> bool \<Rightarrow>
      ('k, 's) adapter_state output_sink option" where
  "ctx_with_sink lib now st raw held csf =
     (case tp_protocol (as_profile st) of
        ImV2 \<Rightarrow> if as_im st \<and> as_vk st then Some (adapter_sink lib now raw held csf) else None
      | ImV1 \<Rightarrow> if as_im_ctx_v1 st then Some (adapter_sink lib now raw held csf) else None)"

definition context_of ::
    "('k, 's) xkb_lib \<Rightarrow> time \<Rightarrow> ('k, 's) adapter_state \<Rightarrow> ('k, 's) adapter_state adapter_ctx" where
  "context_of lib now st =
     \<lparr>cx_serial = as_serial st, cx_raw_mods = as_raw_mods st, cx_is_repeat = as_forwarding_repeat st,
      cx_has_keysym_commit = tp_has_keysym_commit (as_profile st),
      cx_has_vk_keyboard = tp_has_vk_keyboard (as_profile st),
      cx_is_level_shifted = ctx_is_level_shifted lib st,
      cx_sink = ctx_with_sink lib now st,
      cx_vk_key_press_unstamped = ctx_vk_key_press_unstamped\<rparr>"

text \<open>The daemon as the handler.\<close>

definition daemon_adapter ::
    "'e vnkey \<Rightarrow> ('k, 's) xkb_lib \<Rightarrow> time \<Rightarrow> ('e daemon, ('k, 's) adapter_state) adapter_handler" where
  "daemon_adapter vk lib now =
     \<lparr>ah_on_done_frame = (\<lambda>frame (d, st). on_done_frame vk now (context_of lib now st) frame (d, st)),
      ah_on_key_pressed = (\<lambda>time key ch (d, st).
        on_key_pressed vk now (context_of lib now st) time key ch (d, st)),
      ah_apply_pending = (\<lambda>time bs commit raw held (d, st).
        apply_pending vk (context_of lib now st) time bs commit raw held (d, st)),
      ah_on_key_released = default_on_key_released,
      ah_on_modifiers = (\<lambda>m (d, st). (on_modifiers m d, st))\<rparr>"

section \<open>Keys\<close>

definition repeat_forward_values :: "bool \<Rightarrow> u32 list" where
  "repeat_forward_values client_timer = (if client_timer then [1, 0] else [2])"

definition decode_key :: "('k, 's) xkb_lib \<Rightarrow> ('k, 's) adapter_state \<Rightarrow> u32 \<Rightarrow> uchar option" where
  "decode_key lib st key = (case as_xkb st of Some xkb \<Rightarrow> key_to_char lib xkb key | None \<Rightarrow> None)"

definition dispatch_key_release ::
    "('h, ('k, 's) adapter_state) adapter_handler \<Rightarrow> time \<Rightarrow> u32 \<Rightarrow> u32 \<Rightarrow>
      'h \<times> ('k, 's) adapter_state \<Rightarrow> 'h \<times> ('k, 's) adapter_state" where
  "dispatch_key_release ah now time key = (\<lambda>(h, st).
     let st1 = st\<lparr>as_client_repeat := repeat_release key (as_client_repeat st)\<rparr>;
         st2 = emit_forward_key time key 0 st1
     in ah_on_key_released ah time key (h, st2\<lparr>as_last_forwarded_release := Some (key, now)\<rparr>))"

definition dispatch_key_press ::
    "('h, ('k, 's) adapter_state) adapter_handler \<Rightarrow> ('k, 's) xkb_lib \<Rightarrow> time \<Rightarrow> u32 \<Rightarrow> u32 \<Rightarrow>
      'h \<times> ('k, 's) adapter_state \<Rightarrow> 'h \<times> ('k, 's) adapter_state" where
  "dispatch_key_press ah lib now time key = (\<lambda>(h, st).
     let st1 = st\<lparr>as_client_repeat := repeat_cancel (as_client_repeat st)\<rparr>;
         (decision, h1, st2) = ah_on_key_pressed ah time key (decode_key lib st1 key) (h, st1)
     in case decision of
          Consumed \<Rightarrow> (h1, st2)
        | ForwardRaw \<Rightarrow> (h1, (emit_forward_key time key 1 st2)\<lparr>as_last_forwarded_key := Some (key, now)\<rparr>)
        | Apply m backspaces commit \<Rightarrow>
            (let repeatable = (case as_xkb st2 of None \<Rightarrow> True | Some xkb \<Rightarrow> key_repeats lib xkb key);
                 st3 = (if repeatable
                        then st2\<lparr>as_client_repeat := repeat_arm key time now (as_client_repeat st2)\<rparr>
                        else st2)
             in ah_apply_pending ah time backspaces commit (as_raw_mods st3) (held_user_kc st3) (h1, st3)))"

fun emit_values :: "u32 \<Rightarrow> u32 \<Rightarrow> u32 list \<Rightarrow> ('k, 's) adapter_state \<Rightarrow> ('k, 's) adapter_state" where
  "emit_values time key [] st = st"
| "emit_values time key (v # vs) st = emit_values time key vs (emit_forward_key time key v st)"

definition dispatch_key_repeat_inner ::
    "('h, ('k, 's) adapter_state) adapter_handler \<Rightarrow> ('k, 's) xkb_lib \<Rightarrow> u32 \<Rightarrow> u32 \<Rightarrow> bool \<Rightarrow>
      'h \<times> ('k, 's) adapter_state \<Rightarrow> 'h \<times> ('k, 's) adapter_state" where
  "dispatch_key_repeat_inner ah lib time key client_timer = (\<lambda>(h, st).
     let ch = decode_key lib st key;
         (decision, h1, st1) = ah_on_key_pressed ah time key ch (h, st\<lparr>as_forwarding_repeat := True\<rparr>);
         (h2, st2) =
           (case decision of
              Consumed \<Rightarrow> (h1, st1)
            | ForwardRaw \<Rightarrow> (h1, emit_values time key (repeat_forward_values client_timer) st1)
            | Apply m backspaces commit \<Rightarrow>
                (let st' = st1\<lparr>as_forwarding_repeat := False\<rparr>
                 in ah_apply_pending ah time backspaces commit (as_raw_mods st') (held_user_kc st') (h1, st')))
     in (h2, st2\<lparr>as_forwarding_repeat := False\<rparr>))"

definition dispatch_key_repeat ::
    "('h, ('k, 's) adapter_state) adapter_handler \<Rightarrow> ('k, 's) xkb_lib \<Rightarrow> u32 \<Rightarrow> u32 \<Rightarrow>
      'h \<times> ('k, 's) adapter_state \<Rightarrow> 'h \<times> ('k, 's) adapter_state" where
  "dispatch_key_repeat ah lib time key = dispatch_key_repeat_inner ah lib time key False"

definition dispatch_client_repeat ::
    "('h, ('k, 's) adapter_state) adapter_handler \<Rightarrow> ('k, 's) xkb_lib \<Rightarrow> time \<Rightarrow>
      'h \<times> ('k, 's) adapter_state \<Rightarrow> 'h \<times> ('k, 's) adapter_state" where
  "dispatch_client_repeat ah lib now = (\<lambda>(h, st).
     case repeat_fire now (as_client_repeat st) of
       (None, r) \<Rightarrow> (h, st\<lparr>as_client_repeat := r\<rparr>)
     | (Some (key, time), r) \<Rightarrow>
         dispatch_key_repeat_inner ah lib time key True (h, st\<lparr>as_client_repeat := r\<rparr>))"

section \<open>Frames and modifiers\<close>

definition snapshot_of :: "('k, 's) adapter_state \<Rightarrow> frame_snapshot" where
  "snapshot_of st =
     (let f = as_pending_frame st;
          (app_id, is_xwayland) =
            (if df_pending_activate f
             then (case as_focus_current st of
                     Some ev \<Rightarrow> (fe_app_id ev, fe_is_xwayland ev)
                   | None \<Rightarrow> (None, False))
             else (None, False))
      in \<lparr>fs_activate = df_pending_activate f, fs_deactivate = df_pending_deactivate f,
          fs_surrounding_text =
            map_option (\<lambda>su. (su_text su, su_cursor su, su_anchor su)) (df_surrounding_text f),
          fs_purpose = df_purpose f, fs_app_id = app_id, fs_is_xwayland = is_xwayland\<rparr>)"

definition apply_done_frame ::
    "('h, ('k, 's) adapter_state) adapter_handler \<Rightarrow> 'h \<times> ('k, 's) adapter_state \<Rightarrow> 'h \<times> ('k, 's) adapter_state" where
  "apply_done_frame ah = (\<lambda>(h, st).
     let st1 = st\<lparr>as_serial := as_serial st + 1, as_pending_im_commit_ack := False\<rparr>;
         deactivate = df_pending_deactivate (as_pending_frame st1);
         (h1, st2) = ah_on_done_frame ah (snapshot_of st1) (h, st1);
         st3 = (if tp_protocol (as_profile st2) = ImV2 \<and> \<not> as_pending_im_commit_ack st2 \<and> as_im st2
                then send (ImCommit (as_serial st2)) st2 else st2);
         st4 = (if deactivate
                then st3\<lparr>as_pending_frame := done_frame_end_session (as_pending_frame st3)\<rparr> else st3)
     in (h1, st4\<lparr>as_pending_frame := done_frame_reset (as_pending_frame st4)\<rparr>))"

definition SYNTHETIC_MODS_TTL :: time where
  "SYNTHETIC_MODS_TTL = millis 50"

text \<open>The canonical modifiers of a mask, by the keymap's own masks.\<close>

definition modifier_state_of :: "canonical_modifier_masks \<Rightarrow> u32 \<Rightarrow> modifier_state" where
  "modifier_state_of masks dep =
     (if dep AND cm_shift masks \<noteq> 0 then MOD_SHIFT else 0)
     OR (if dep AND cm_control masks \<noteq> 0 then MOD_CTRL else 0)
     OR (if dep AND cm_alt masks \<noteq> 0 then MOD_ALT else 0)
     OR (if dep AND cm_logo masks \<noteq> 0 then MOD_SUPER else 0)"

definition expire_synthetic :: "time \<Rightarrow> synthetic_mods \<Rightarrow> synthetic_mods" where
  "expire_synthetic now sm =
     (if sm_pending sm > 0 \<and>
         (case sm_emitted_at sm of Some t \<Rightarrow> elapsed now t > SYNTHETIC_MODS_TTL | None \<Rightarrow> False)
      then \<lparr>sm_pending = 0, sm_expected = [], sm_emitted_at = None\<rparr> else sm)"

definition handle_modifiers ::
    "('h, ('k, 's) adapter_state) adapter_handler \<Rightarrow> ('k, 's) xkb_lib \<Rightarrow> time \<Rightarrow> raw_mods \<Rightarrow>
      'h \<times> ('k, 's) adapter_state \<Rightarrow> 'h \<times> ('k, 's) adapter_state" where
  "handle_modifiers ah lib now incoming = (\<lambda>(h, st0).
     let (dep, lat, lock, grp) = incoming;
         st = st0\<lparr>as_synthetic_mods := expire_synthetic now (as_synthetic_mods st0)\<rparr>;
         sm = as_synthetic_mods st
     in if sm_expected sm \<noteq> [] \<and> hd (sm_expected sm) = incoming then
          (let expected = tl (sm_expected sm);
               pending = of_nat (length expected)
           in (h, st\<lparr>as_synthetic_mods := \<lparr>sm_pending = pending, sm_expected = expected,
                  sm_emitted_at = (if pending = 0 then None else sm_emitted_at sm)\<rparr>\<rparr>))
        else
          (let xkb = map_option (xkb_update_modifiers lib dep lat lock grp) (as_xkb st);
               masks = (case xkb of Some x \<Rightarrow> canonical_modifier_masks_of lib x
                        | None \<Rightarrow> \<lparr>cm_shift = 0, cm_control = 0, cm_alt = 0, cm_logo = 0\<rparr>);
               m = modifier_state_of masks dep;
               st1 = st\<lparr>as_xkb := xkb, as_modifiers := m, as_raw_mods := incoming\<rparr>;
               st2 = (if key_proxy st1
                      then ke_emit_modifiers (forward_emitter st1) dep lat lock grp st1 else st1)
           in ah_on_modifiers ah m (h, st2)))"

section \<open>Protocol events\<close>

datatype v2_event =
    V2Activate | V2Deactivate | V2SurroundingText ustr u32 u32 | V2TextChangeCause u32
  | V2ContentType u32 u32 | V2Done | V2Unavailable | V2Other

definition dispatch_v2 ::
    "('h, ('k, 's) adapter_state) adapter_handler \<Rightarrow> v2_event \<Rightarrow>
      'h \<times> ('k, 's) adapter_state \<Rightarrow> 'h \<times> ('k, 's) adapter_state" where
  "dispatch_v2 ah event = (\<lambda>(h, st).
     case event of
       V2Activate \<Rightarrow> (h, apply_event EvActivate st)
     | V2Deactivate \<Rightarrow>
         (h, apply_event EvDeactivate (st\<lparr>as_client_repeat := repeat_cancel (as_client_repeat st)\<rparr>))
     | V2SurroundingText t cursor anchor \<Rightarrow> (h, apply_event (EvSurroundingText t cursor anchor) st)
     | V2TextChangeCause cause \<Rightarrow> (h, apply_event (EvChangeCause cause) st)
     | V2ContentType hint purpose \<Rightarrow> (h, apply_event (EvPurpose purpose) st)
     | V2Done \<Rightarrow> apply_done_frame ah (h, st)
     | V2Unavailable \<Rightarrow> (h, apply_event EvUnavailable st)
     | V2Other \<Rightarrow> (h, st))"

text \<open>
  The v1 events of the input method and of its context. Activation binds the context, grabs its
  keyboard and names the modifiers, each name closed by a zero byte.
\<close>

datatype v1_event =
    V1Activate | V1Deactivate | V1SurroundingText ustr u32 u32 | V1ContentType u32 u32
  | V1CommitState u32 | V1Reset | V1InvokeAction | V1Other

definition purpose_v3 :: "u32 \<Rightarrow> u32" where
  "purpose_v3 purpose = (if 9 \<le> purpose then purpose + 1 else purpose)"

definition mod_map :: string where
  "mod_map = ''Shift'' @ [CHR 0x00] @ ''Control'' @ [CHR 0x00] @ ''Mod1'' @ [CHR 0x00] @ ''Mod4'' @ [CHR 0x00]"

definition dispatch_v1 ::
    "('h, ('k, 's) adapter_state) adapter_handler \<Rightarrow> v1_event \<Rightarrow>
      'h \<times> ('k, 's) adapter_state \<Rightarrow> 'h \<times> ('k, 's) adapter_state" where
  "dispatch_v1 ah event = (\<lambda>(h, st).
     case event of
       V1Activate \<Rightarrow>
         (h, apply_event EvActivate
           ((send (CtxModifiersMap mod_map) (send CtxGrabKeyboard st))\<lparr>as_im_ctx_v1 := True\<rparr>))
     | V1Deactivate \<Rightarrow>
         apply_done_frame ah (h, apply_event EvDeactivate
           (st\<lparr>as_im_ctx_v1 := False, as_client_repeat := repeat_cancel (as_client_repeat st)\<rparr>))
     | V1SurroundingText t cursor anchor \<Rightarrow> (h, apply_event (EvSurroundingText t cursor anchor) st)
     | V1ContentType hint purpose \<Rightarrow> (h, apply_event (EvPurpose (purpose_v3 purpose)) st)
     | V1CommitState serial \<Rightarrow>
         (let st1 = st\<lparr>as_serial := serial\<rparr>
          in if as_pending_commit st1 \<or> df_pending_activate (as_pending_frame st1)
             then apply_done_frame ah (h, st1\<lparr>as_pending_commit := False\<rparr>)
             else (h, st1))
     | V1Reset \<Rightarrow> (h, st\<lparr>as_pending_frame := done_frame_reset (as_pending_frame st)\<rparr>)
     | V1InvokeAction \<Rightarrow> (h, st)
     | V1Other \<Rightarrow> (h, st))"

text \<open>
  The keyboard grab of v2 and the \<^verbatim>\<open>wl\_keyboard\<close> of v1 dispatch alike. An unknown key state
  counts as a release, except 2. A keymap is only taken while there is none; on v2 it is passed to
  the virtual keyboard when no keymap was uploaded at \<^verbatim>\<open>connect\<close>.
\<close>

datatype 'k grab_event =
    GrabKeymap u32 u32 "'k option"
  | KeyboardKeymap "'k option"
  | GrabKey u32 u32 u32
  | GrabModifiers u32 u32 u32 u32
  | GrabRepeatInfo int int
  | GrabOther

definition take_keymap :: "('k, 's) xkb_lib \<Rightarrow> 'k option \<Rightarrow> ('k, 's) adapter_state \<Rightarrow> ('k, 's) adapter_state" where
  "take_keymap lib keymap st =
     (if as_xkb st = None then st\<lparr>as_xkb := map_option (xkb_from_keymap lib) keymap\<rparr> else st)"

definition pass_keymap :: "u32 \<Rightarrow> u32 \<Rightarrow> ('k, 's) adapter_state \<Rightarrow> ('k, 's) adapter_state" where
  "pass_keymap format map_size st =
     (if \<not> as_keymap_init st \<and> as_vk st
      then (send (VkKeymap format map_size) st)\<lparr>as_keymap_init := True\<rparr> else st)"

definition dispatch_key ::
    "('h, ('k, 's) adapter_state) adapter_handler \<Rightarrow> ('k, 's) xkb_lib \<Rightarrow> time \<Rightarrow> 'k grab_event \<Rightarrow>
      'h \<times> ('k, 's) adapter_state \<Rightarrow> 'h \<times> ('k, 's) adapter_state" where
  "dispatch_key ah lib now event = (\<lambda>(h, st).
     case event of
       GrabKeymap format map_size keymap \<Rightarrow> (h, take_keymap lib keymap (pass_keymap format map_size st))
     | KeyboardKeymap keymap \<Rightarrow> (h, take_keymap lib keymap st)
     | GrabKey time key key_state \<Rightarrow>
         if key_state = 1 then dispatch_key_press ah lib now time key (h, st)
         else if key_state = 2 then dispatch_key_repeat ah lib time key (h, st)
         else dispatch_key_release ah now time key (h, st)
     | GrabModifiers dep lat lock grp \<Rightarrow> handle_modifiers ah lib now (dep, lat, lock, grp) (h, st)
     | GrabRepeatInfo rate delay \<Rightarrow>
         (h, st\<lparr>as_client_repeat := repeat_set_info rate delay (as_client_repeat st)\<rparr>)
     | GrabOther \<Rightarrow> (h, st))"

text \<open>
  \<^verbatim>\<open>WaylandHandle::dispatch\<close> after the queue is drained: on v1 a surrounding text without a
  closing \<^verbatim>\<open>CommitState\<close> is applied here. The result says whether the loop goes on.
\<close>

definition dispatch_end ::
    "('h, ('k, 's) adapter_state) adapter_handler \<Rightarrow> 'h \<times> ('k, 's) adapter_state \<Rightarrow> bool \<times> 'h \<times> ('k, 's) adapter_state" where
  "dispatch_end ah = (\<lambda>(h, st).
     let (h1, st1) =
       (if as_pending_commit st \<and> tp_protocol (as_profile st) = ImV1
        then apply_done_frame ah (h, st\<lparr>as_pending_commit := False\<rparr>) else (h, st))
     in (\<not> as_should_exit st1, h1, st1))"

end
