(* ===== verification/WaylandSession.thy ===== *)
theory WaylandSession
  imports WaylandAdapter DaemonLemmas
begin

text \<open>
  The application behind the v2 session and the sink's contract with it. \<open>im_client\<close> is a text
  field which receives the virtual keyboard's keys at once, and the input method's deletion and
  text when a commit closes them. \<open>wl\<close> interprets the contract \<open>editing_sink\<close> on the v2 sink,
  \<open>acked\<close> the invariant that an acknowledgement noted is one sent.
\<close>

unbundle bit_operations_syntax

section \<open>The client\<close>

record im_client =
  ic_keys :: key_client
  ic_delete :: nat
  ic_commit :: ustr

text \<open>The text the field will hold when the pending request is committed.\<close>

definition im_text :: "im_client \<Rightarrow> ustr" where
  "im_text ic =
     floor_prefix (kc_text (ic_keys ic)) (blen (kc_text (ic_keys ic)) - ic_delete ic) @ ic_commit ic"

fun wl_deliver :: "wl_request \<Rightarrow> im_client \<Rightarrow> im_client" where
  "wl_deliver (ImDelete before_bytes after_bytes) ic = ic\<lparr>ic_delete := unat before_bytes\<rparr>"
| "wl_deliver (ImCommitString t) ic = ic\<lparr>ic_commit := t\<rparr>"
| "wl_deliver (ImCommit serial) ic =
     \<lparr>ic_keys = (ic_keys ic)\<lparr>kc_text := im_text ic\<rparr>, ic_delete = 0, ic_commit = []\<rparr>"
| "wl_deliver (VkRequest r) ic = ic\<lparr>ic_keys := vk_deliver r (ic_keys ic)\<rparr>"
| "wl_deliver _ ic = ic"

definition wl_view :: "im_client \<Rightarrow> wl_request list \<Rightarrow> im_client" where
  "wl_view ic w = fold wl_deliver w ic"

definition settled :: "im_client \<Rightarrow> bool" where
  "settled ic \<longleftrightarrow> ic_delete ic = 0 \<and> ic_commit ic = []"

lemma wl_view_append [simp]: "wl_view ic (w @ w') = wl_view (wl_view ic w) w'"
  by (simp add: wl_view_def)

lemma wl_view_vk: "wl_view ic (map VkRequest rs) = ic\<lparr>ic_keys := vk_view (ic_keys ic) rs\<rparr>"
  by (induction rs arbitrary: ic) (simp_all add: wl_view_def vk_view_def)

lemma wl_view_single [simp]: "wl_view ic [r] = wl_deliver r ic"
  by (simp add: wl_view_def)

lemma im_text_settled: "settled ic \<Longrightarrow> im_text ic = kc_text (ic_keys ic)"
  by (simp add: im_text_def settled_def)

section \<open>What the sink sends\<close>

lemma emit_char_wire:
  assumes "emit_char vk_v2_emitter now p (sm, []) = (ok, sm', rs)"
  shows "emit_char (on_wire VkRequest vk_v2_emitter) now p (sm, st) =
    (ok, sm', st\<lparr>as_wire := as_wire st @ map VkRequest rs\<rparr>)"
  using assms
  by (auto simp: emit_char_def vk_v2_emitter_def on_wire_def Let_def
      split: option.splits prod.splits if_splits)

lemma sink_char_wire:
  assumes "tp_protocol (as_profile st) = ImV2"
    and "emit_char vk_v2_emitter now
      \<lparr>ep_raw_mods = raw, ep_held_user_kc = held, ep_time = time, ep_c = c\<rparr>
      (as_synthetic_mods st, []) = (ok, sm', rs)"
  shows "sink_vk_commit_char now raw held time c st =
    (ok, st\<lparr>as_wire := as_wire st @ map VkRequest rs, as_synthetic_mods := sm'\<rparr>)"
  by (simp add: sink_vk_commit_char_def assms(1) emit_char_wire [OF assms(2)])

text \<open>The session's keys and the adapter's view of them agree, and nothing is pending.\<close>

definition can_type_keys ::
    "im_client \<Rightarrow> raw_mods \<Rightarrow> u32 option \<Rightarrow> ('k, 's) adapter_state \<Rightarrow> bool" where
  "can_type_keys cl raw held st \<longleftrightarrow>
     tp_protocol (as_profile st) = ImV2 \<and> settled (wl_view cl (as_wire st)) \<and>
     kc_mask (ic_keys (wl_view cl (as_wire st))) = fst raw \<and> fst raw AND LEVEL_MASK = 0 \<and>
     kc_down (ic_keys (wl_view cl (as_wire st))) \<subseteq> set_option held - {14} \<and>
     list_all id (as_flushes st)"

lemma sink_char_types:
  assumes "can_type_keys cl raw held st" "char_to_emit c = Some spec"
  shows "\<exists>sm rs. sink_vk_commit_char now raw held time c st =
      (True, st\<lparr>as_wire := as_wire st @ map VkRequest rs, as_synthetic_mods := sm\<rparr>) \<and>
    (let k = ic_keys (wl_view cl (as_wire st)) in
      vk_view k rs = k\<lparr>kc_down := kc_down k - {es_keycode spec}, kc_text := kc_text k @ [c]\<rparr>)"
proof -
  let ?p = "\<lparr>ep_raw_mods = raw, ep_held_user_kc = held, ep_time = time, ep_c = c\<rparr>"
  let ?k = "ic_keys (wl_view cl (as_wire st))"
  obtain ok sm rs where e: "emit_char vk_v2_emitter now ?p (as_synthetic_mods st, []) = (ok, sm, rs)"
    by (metis prod_cases3)
  have ok: "ok" using e assms(2) by (auto simp: emit_char_def Let_def split: option.splits prod.splits)
  have "(fst raw OR es_mods spec) AND LEVEL_MASK = es_mods spec"
    using assms(1) emitted_key(2) [OF assms(2)]
    by (simp add: can_type_keys_def bit.conj_disj_distrib2)
  moreover have "es_keycode spec \<in> kc_down ?k \<longrightarrow> held = Some (es_keycode spec)"
    using assms(1) by (auto simp: can_type_keys_def)
  ultimately have "vk_view ?k rs = ?k\<lparr>kc_down := kc_down ?k - {es_keycode spec}, kc_text := kc_text ?k @ [c]\<rparr>"
    using v2.emit_char_delivers [of ?p spec ?k "[]" now "as_synthetic_mods st"] assms
    by (simp add: e can_type_keys_def) (simp add: vk_view_def)
  moreover have "tp_protocol (as_profile st) = ImV2" using assms(1) by (simp add: can_type_keys_def)
  ultimately show ?thesis using sink_char_wire [OF _ e] ok by (auto simp: Let_def)
qed

definition wl_doc :: "im_client \<Rightarrow> ('k, 's) adapter_state \<Rightarrow> ustr" where
  "wl_doc cl st = im_text (wl_view cl (as_wire st))"

lemma can_type_keys_step:
  fixes st :: "('k, 's) adapter_state"
  assumes "can_type_keys cl raw held st"
    and "vk_view (ic_keys (wl_view cl (as_wire st))) rs =
      (ic_keys (wl_view cl (as_wire st)))\<lparr>kc_down := d, kc_text := t\<rparr>"
    and "d \<subseteq> kc_down (ic_keys (wl_view cl (as_wire st)))"
    and st': "as_wire st' = as_wire st @ map VkRequest rs" "as_profile st' = as_profile st"
      "set (as_flushes st') \<subseteq> set (as_flushes st)"
  shows "can_type_keys cl raw held (st' :: ('k, 's) adapter_state)" and "wl_doc cl st' = t"
proof -
  show "can_type_keys cl raw held st'"
    using assms by (auto simp: can_type_keys_def wl_view_vk settled_def list_all_iff)
  show "wl_doc cl st' = t"
    using assms(1,2) by (simp add: wl_doc_def st' wl_view_vk im_text_def can_type_keys_def settled_def)
qed

lemma flush_ok:
  "list_all id (as_flushes st) \<Longrightarrow>
     flush_connection st = (True, st\<lparr>as_flushes := tl (as_flushes st)\<rparr>)"
  by (cases "as_flushes st") (auto simp: flush_connection_def)

text \<open>One character and the flush after it.\<close>

lemma typed_char:
  assumes "can_type_keys cl raw held st" "char_to_emit c \<noteq> None"
  obtains st1 st2 where "sink_vk_commit_char now raw held time c st = (True, st1)"
    and "flush_connection st1 = (True, st2)" "can_type_keys cl raw held st2"
    and "wl_doc cl st2 = wl_doc cl st @ [c]"
proof -
  obtain spec where spec: "char_to_emit c = Some spec" using assms(2) by blast
  obtain sm rs where s: "sink_vk_commit_char now raw held time c st =
      (True, st\<lparr>as_wire := as_wire st @ map VkRequest rs, as_synthetic_mods := sm\<rparr>)"
    and v: "vk_view (ic_keys (wl_view cl (as_wire st))) rs = (ic_keys (wl_view cl (as_wire st)))
      \<lparr>kc_down := kc_down (ic_keys (wl_view cl (as_wire st))) - {es_keycode spec},
       kc_text := kc_text (ic_keys (wl_view cl (as_wire st))) @ [c]\<rparr>"
    using sink_char_types [OF assms(1) spec, of now time] by (auto simp: Let_def)
  let ?st1 = "st\<lparr>as_wire := as_wire st @ map VkRequest rs, as_synthetic_mods := sm\<rparr>"
  have fl: "flush_connection ?st1 = (True, ?st1\<lparr>as_flushes := tl (as_flushes ?st1)\<rparr>)"
    by (rule flush_ok) (use assms(1) in \<open>simp add: can_type_keys_def\<close>)
  have sub: "set (tl (as_flushes st)) \<subseteq> set (as_flushes st)" by (cases "as_flushes st") auto
  note step = can_type_keys_step [OF assms(1) v, of "?st1\<lparr>as_flushes := tl (as_flushes ?st1)\<rparr>"]
  have "wl_doc cl st = kc_text (ic_keys (wl_view cl (as_wire st)))"
    using assms(1) by (simp add: wl_doc_def im_text_settled can_type_keys_def)
  with that [OF s fl] step sub show thesis by simp
qed

lemma commit_via_vk_types:
  assumes "can_type_keys cl raw held st" "list_all (\<lambda>c. char_to_emit c \<noteq> None) t"
  shows "wl_doc cl (commit_via_vk now raw held serial time t [] st) = wl_doc cl st @ t"
  using assms
proof (induction t arbitrary: st)
  case (Cons c t)
  then have c: "char_to_emit c \<noteq> None" by simp
  obtain st1 st2 where "sink_vk_commit_char now raw held time c st = (True, st1)"
    and "flush_connection st1 = (True, st2)" "can_type_keys cl raw held st2"
    and "wl_doc cl st2 = wl_doc cl st @ [c]"
    by (rule typed_char [OF Cons.prems(1) c])
  with Cons.IH [of st2] Cons.prems show ?case by simp
qed simp

lemma key_channel_chars_types:
  assumes "can_type_keys cl raw held st" "list_all (\<lambda>c. char_to_emit c \<noteq> None) t"
  shows "fst (key_channel_chars now raw held time t st)"
    and "wl_doc cl (snd (key_channel_chars now raw held time t st)) = wl_doc cl st @ t"
proof -
  have "fst (key_channel_chars now raw held time t st) \<and>
      wl_doc cl (snd (key_channel_chars now raw held time t st)) = wl_doc cl st @ t"
    using assms
  proof (induction t arbitrary: st)
    case (Cons c t)
    then have c: "char_to_emit c \<noteq> None" by simp
    obtain st1 st2 where "sink_vk_commit_char now raw held time c st = (True, st1)"
      and "flush_connection st1 = (True, st2)" "can_type_keys cl raw held st2"
      and "wl_doc cl st2 = wl_doc cl st @ [c]"
      by (rule typed_char [OF Cons.prems(1) c])
    with Cons.IH [of st2] Cons.prems show ?case by simp
  qed simp
  then show "fst (key_channel_chars now raw held time t st)"
    and "wl_doc cl (snd (key_channel_chars now raw held time t st)) = wl_doc cl st @ t" by blast+
qed

text \<open>Backspace on the virtual keyboard, with or without the modifiers lifted around it.\<close>

lemma tap_wire:
  assumes "tp_protocol (as_profile st) = ImV2"
  shows "\<exists>rs. vk_tap_backspace (adapter_sink lib now raw held csf) time st =
      st\<lparr>as_wire := as_wire st @ map VkRequest rs\<rparr> \<and>
    (\<forall>k. kc_mask k = fst raw \<longrightarrow> 14 \<notin> kc_down k \<longrightarrow>
       vk_view k rs = k\<lparr>kc_down := kc_down k, kc_text := butlast (kc_text k)\<rparr>)"
proof -
  obtain dep lat lock grp where raw: "raw = (dep, lat, lock, grp)" by (cases raw)
  define rs where "rs = (if dep OR lat OR lock \<noteq> 0
    then [VkModifiers 0 0 0 grp, VkKey time 14 1, VkKey time 14 0, VkModifiers dep lat lock grp]
    else [VkKey time 14 1, VkKey time 14 0])"
  have "vk_tap_backspace (adapter_sink lib now raw held csf) time st =
      st\<lparr>as_wire := as_wire st @ map VkRequest rs\<rparr>"
    using assms
    by (simp add: vk_tap_backspace_def adapter_sink_def sink_vk_key_def raw rs_def Let_def
        forward_backspace_needs_modifier_guard_def forward_emitter_def on_wire_def vk_v2_emitter_def
        KEY_BACKSPACE_def)
  moreover have "vk_view k rs = k\<lparr>kc_down := kc_down k, kc_text := butlast (kc_text k)\<rparr>"
    if "kc_mask k = fst raw" "14 \<notin> kc_down k" for k
    using that by (simp add: rs_def raw vk_view_def deliver_key_def client_press_def
        client_release_def strike_def)
  ultimately show ?thesis by blast
qed

section \<open>The contract\<close>

definition wl_can_delete :: "im_client \<Rightarrow> ('k, 's) adapter_state \<Rightarrow> bool" where
  "wl_can_delete cl st \<longleftrightarrow> tp_protocol (as_profile st) = ImV2 \<and> settled (wl_view cl (as_wire st))"

definition wl_can_commit :: "im_client \<Rightarrow> ('k, 's) adapter_state \<Rightarrow> bool" where
  "wl_can_commit cl st \<longleftrightarrow>
     tp_protocol (as_profile st) = ImV2 \<and> ic_commit (wl_view cl (as_wire st)) = []"

lemma can_type_keysD:
  "can_type_keys cl raw held st \<Longrightarrow> wl_can_delete cl st"
  "can_type_keys cl raw held st \<Longrightarrow> wl_can_commit cl st"
  by (simp_all add: can_type_keys_def wl_can_delete_def wl_can_commit_def settled_def)

lemma tap_types:
  assumes "can_type_keys cl raw held st"
  shows "can_type_keys cl raw held (vk_tap_backspace (adapter_sink lib now raw held csf) time st)"
    and "wl_doc cl (vk_tap_backspace (adapter_sink lib now raw held csf) time st) = butlast (wl_doc cl st)"
proof -
  let ?k = "ic_keys (wl_view cl (as_wire st))"
  have st: "tp_protocol (as_profile st) = ImV2" "kc_mask ?k = fst raw" "14 \<notin> kc_down ?k"
      "settled (wl_view cl (as_wire st))"
    using assms by (auto simp: can_type_keys_def)
  obtain rs where w: "vk_tap_backspace (adapter_sink lib now raw held csf) time st =
      st\<lparr>as_wire := as_wire st @ map VkRequest rs\<rparr>"
    and v: "vk_view ?k rs = ?k\<lparr>kc_down := kc_down ?k, kc_text := butlast (kc_text ?k)\<rparr>"
    using tap_wire [OF st(1), of lib now raw held csf time] st(2,3) by blast
  note step = can_type_keys_step [OF assms v, of "st\<lparr>as_wire := as_wire st @ map VkRequest rs\<rparr>"]
  show "can_type_keys cl raw held (vk_tap_backspace (adapter_sink lib now raw held csf) time st)"
    unfolding w by (rule step(1)) simp_all
  show "wl_doc cl (vk_tap_backspace (adapter_sink lib now raw held csf) time st) = butlast (wl_doc cl st)"
    unfolding w using step(2) st(4) by (simp add: wl_doc_def im_text_settled)
qed

lemma sink_text:
  "wl_can_delete cl st \<Longrightarrow>
     wl_can_commit cl (os_delete_surrounding_text (adapter_sink lib now raw held csf) n1 n2 n3 n4 st)"
  "wl_can_commit cl st \<Longrightarrow> wl_doc cl (os_commit_string (adapter_sink lib now raw held csf) t st) = wl_doc cl st @ t"
  by (simp_all add: adapter_sink_def sink_delete_surrounding_text_def sink_commit_string_def send_def
      wl_can_delete_def wl_can_commit_def wl_doc_def im_text_def settled_def)

interpretation wl: editing_sink "adapter_sink lib now raw held csf" "wl_doc cl" "\<lambda>_. []"
  "wl_can_delete cl" "can_type_keys cl raw held" "wl_can_commit cl"
  "\<lambda>t. csf \<or> list_all (\<lambda>c. char_to_emit c \<noteq> None) t"
  for lib :: "('k, 's) xkb_lib" and now raw held csf cl
proof unfold_locales
  fix st :: "('k, 's) adapter_state" and p q
  assume "wl_can_delete cl st" "wl_doc cl st = p @ q" "blen q < 2 ^ 31"
  moreover from this have "unat (of_nat (blen q) :: u32) = blen q" by (intro unat_of_nat_u32) simp
  ultimately show "wl_doc cl (os_delete_surrounding_text (adapter_sink lib now raw held csf)
      (of_nat (blen q)) (of_nat (length q)) 0 0 st) = p"
    by (simp add: adapter_sink_def sink_delete_surrounding_text_def send_def wl_can_delete_def
        wl_doc_def im_text_settled) (simp add: im_text_def settled_def)
next
  fix st :: "('k, 's) adapter_state" and serial time :: u32 and t b st'
  assume st: "can_type_keys cl raw held st"
    and t: "csf \<or> list_all (\<lambda>c. char_to_emit c \<noteq> None) t"
  have p: "tp_protocol (as_profile st) = ImV2" using st by (simp add: can_type_keys_def)
  show "os_commit_via_keysym (adapter_sink lib now raw held csf) serial time t st = (b, st') \<Longrightarrow>
      wl_doc cl st' = (if b then wl_doc cl st @ t else wl_doc cl st) \<and> (b \<or> wl_can_commit cl st')"
    using commit_via_vk_types [OF st, of t now serial time] t can_type_keysD [OF st]
    by (auto simp: adapter_sink_def sink_commit_via_keysym_def p split: if_splits)
  show "os_commit_key_channel_text (adapter_sink lib now raw held csf) serial time t st = (b, st') \<Longrightarrow>
      wl_doc cl st' = (if b then wl_doc cl st @ t else wl_doc cl st) \<and> (b \<or> wl_can_commit cl st')"
    using key_channel_chars_types [OF st, of t now time] can_type_keysD [OF st]
    by (auto simp: adapter_sink_def sink_commit_key_channel_text_def p split: if_splits)
next
  fix st :: "('k, 's) adapter_state" and serial :: u32
  show "wl_doc cl (os_commit (adapter_sink lib now raw held csf) serial st) = wl_doc cl st"
    by (simp add: adapter_sink_def sink_commit_def wl_doc_def send_def split: im_protocol.split)
      (simp add: im_text_def)
qed (simp_all add: tap_types can_type_keysD sink_text)

section \<open>Acknowledgements\<close>

text \<open>Since the request list was \<open>w\<close>: a commit that is noted has been sent.\<close>

definition acked_since :: "wl_request list \<Rightarrow> u32 \<Rightarrow> ('k, 's) adapter_state \<Rightarrow> bool" where
  "acked_since w serial st \<longleftrightarrow>
     tp_protocol (as_profile st) = ImV2 \<and> as_im st \<and> as_serial st = serial \<and>
     (\<exists>ws. as_wire st = w @ ws \<and> (as_pending_im_commit_ack st \<longrightarrow> (\<exists>n. ImCommit n \<in> set ws)))"

lemma acked_append:
  assumes "acked_since w n st"
    and "as_profile st' = as_profile st" "as_im st' = as_im st" "as_serial st' = as_serial st"
    and "as_wire st' = as_wire st @ ws'"
    and "as_pending_im_commit_ack st' \<longrightarrow> as_pending_im_commit_ack st \<or> (\<exists>m. ImCommit m \<in> set ws')"
  shows "acked_since w n st'"
proof -
  obtain ws where "as_wire st = w @ ws" "as_pending_im_commit_ack st \<longrightarrow> (\<exists>n. ImCommit n \<in> set ws)"
    using assms(1) by (auto simp: acked_since_def)
  with assms show ?thesis
    by (auto simp: acked_since_def intro!: exI [of _ "ws @ ws'"])
qed

lemma acked_char:
  assumes "acked_since w n st"
  shows "acked_since w n (snd (sink_vk_commit_char now raw held time c st))"
proof -
  obtain ok sm rs where e: "emit_char vk_v2_emitter now
      \<lparr>ep_raw_mods = raw, ep_held_user_kc = held, ep_time = time, ep_c = c\<rparr>
      (as_synthetic_mods st, []) = (ok, sm, rs)" by (metis prod_cases3)
  have "tp_protocol (as_profile st) = ImV2" using assms by (simp add: acked_since_def)
  from sink_char_wire [OF this e] show ?thesis
    by (auto intro!: acked_append [OF assms])
qed

lemma acked_flush: "acked_since w n st \<Longrightarrow> acked_since w n (snd (flush_connection st))"
  by (cases "as_flushes st") (auto simp: flush_connection_def acked_since_def)

lemma acked_requests:
  assumes "acked_since w n st"
  shows "acked_since w n (sink_commit_string t st)" "acked_since w n (sink_commit serial st)"
    "acked_since w n (sink_delete_surrounding_text n1 n2 n3 n4 st)"
proof -
  have p: "tp_protocol (as_profile st) = ImV2" using assms by (simp add: acked_since_def)
  show "acked_since w n (sink_commit_string t st)"
    by (rule acked_append [OF assms]) (simp_all add: sink_commit_string_def p send_def)
  show "acked_since w n (sink_commit serial st)"
    by (rule acked_append [OF assms]) (auto simp: sink_commit_def p send_def)
  show "acked_since w n (sink_delete_surrounding_text n1 n2 n3 n4 st)"
    by (rule acked_append [OF assms]) (simp_all add: sink_delete_surrounding_text_def p send_def)
qed

lemma acked_commit_via_vk:
  "acked_since w n st \<Longrightarrow> acked_since w n (commit_via_vk now raw held serial time t buf st)"
proof (induction t arbitrary: buf st)
  case Nil
  then show ?case by (simp add: acked_requests)
next
  case (Cons c t)
  have "acked_since w n st2" if "sink_vk_commit_char now raw held time c st = (b, st1)"
      "flush_connection st1 = (b', st2)" for b st1 b' st2
    using acked_flush [OF acked_char [OF Cons.prems, of now raw held time c]] that by simp
  moreover have "acked_since w n (snd (sink_vk_commit_char now raw held time c st))"
    by (rule acked_char [OF Cons.prems])
  ultimately show ?case
    by (auto simp: Cons.IH split: prod.split)
qed

lemma acked_key_channel_chars:
  "acked_since w n st \<Longrightarrow> acked_since w n (snd (key_channel_chars now raw held time t st))"
proof (induction t arbitrary: st)
  case (Cons c t)
  have "acked_since w n st2" if "sink_vk_commit_char now raw held time c st = (b, st1)"
      "flush_connection st1 = (b', st2)" for b st1 b' st2
    using acked_flush [OF acked_char [OF Cons.prems, of now raw held time c]] that by simp
  moreover have "acked_since w n (snd (sink_vk_commit_char now raw held time c st))"
    by (rule acked_char [OF Cons.prems])
  ultimately show ?case
    by (auto simp: Cons.IH split: prod.split)
qed simp

interpretation acked: sink_invariant "adapter_sink lib now raw held csf" "acked_since w n"
  for lib :: "('k, 's) xkb_lib" and now raw held csf w n
proof unfold_locales
  fix st :: "('k, 's) adapter_state" and time key :: u32 and state :: key_state
  assume st: "acked_since w n st"
  then have p: "tp_protocol (as_profile st) = ImV2" by (simp add: acked_since_def)
  have "\<exists>ws. os_vk_key (adapter_sink lib now raw held csf) time key state st =
      st\<lparr>as_wire := as_wire st @ ws\<rparr>"
    by (cases raw; cases state; cases "forward_backspace_needs_modifier_guard key raw";
        simp add: adapter_sink_def sink_vk_key_def forward_emitter_def on_wire_def p Let_def; rule exI, rule refl)
  then obtain ws where "os_vk_key (adapter_sink lib now raw held csf) time key state st =
      st\<lparr>as_wire := as_wire st @ ws\<rparr>" by blast
  then show "acked_since w n (os_vk_key (adapter_sink lib now raw held csf) time key state st)"
    by (auto intro: acked_append [OF st])
next
  fix st :: "('k, 's) adapter_state" and time serial :: u32 and t
  assume st: "acked_since w n st"
  then have p: "tp_protocol (as_profile st) = ImV2" by (simp add: acked_since_def)
  show "acked_since w n (snd (os_commit_via_keysym (adapter_sink lib now raw held csf) serial time t st))"
    "acked_since w n (snd (os_commit_key_channel_text (adapter_sink lib now raw held csf) serial time t st))"
    using st acked_commit_via_vk [OF st] acked_key_channel_chars [OF st]
    by (simp_all add: adapter_sink_def sink_commit_via_keysym_def sink_commit_key_channel_text_def p)
qed (simp_all add: adapter_sink_def acked_requests)

end
