(* ===== verification/WaylandProperties.thy ===== *)
theory WaylandProperties
  imports WaylandSession
begin

text \<open>
  The Wayland adapter and the daemon together: an edit from the key to the client's text, the
  acknowledgement of every frame, the echoes of the adapter's own modifier requests, and the
  client-side repeat over its whole history.
\<close>

unbundle bit_operations_syntax

section \<open>Edits\<close>





section \<open>Frames\<close>







section \<open>Echoes of the adapter's own requests\<close>

fun requested_mods :: "wl_request list \<Rightarrow> raw_mods list" where
  "requested_mods [] = []"
| "requested_mods (VkRequest (VkModifiers dep lat lock grp) # ws) = (dep, lat, lock, grp) # requested_mods ws"
| "requested_mods (w # ws) = requested_mods ws"

lemma requested_mods_append [simp]: "requested_mods (ws @ ws') = requested_mods ws @ requested_mods ws'"
  by (induction ws rule: requested_mods.induct) simp_all

text \<open>The queue grew by exactly the modifier requests among \<open>ws\<close>, all stamped \<open>now\<close>.\<close>

definition queued :: "time \<Rightarrow> wl_request list \<Rightarrow> synthetic_mods \<Rightarrow> synthetic_mods \<Rightarrow> bool" where
  "queued now ws sm sm' \<longleftrightarrow>
     sm_expected sm' = sm_expected sm @ requested_mods ws \<and>
     (if requested_mods ws = [] then sm' = sm else sm_emitted_at sm' = Some now)"



text \<open>A run of sends on v2: requests were appended and queued, nothing else but flushes changed.\<close>

definition sent_keys :: "time \<Rightarrow> ('k, 's) adapter_state \<Rightarrow> ('k, 's) adapter_state \<Rightarrow> bool" where
  "sent_keys now st st' \<longleftrightarrow>
     (\<exists>ws. as_wire st' = as_wire st @ ws \<and> queued now ws (as_synthetic_mods st) (as_synthetic_mods st')) \<and>
     as_profile st' = as_profile st"

lemma sent_keys_refl [simp]: "sent_keys now st st"
  by (auto simp: sent_keys_def queued_def intro!: exI [of _ "[]"])







section \<open>Client-side repeat\<close>

datatype repeat_op =
    RepInfo int int | RepArm u32 u32 time | RepRelease u32 | RepCancel | RepFire time

fun repeat_step :: "repeat_op \<Rightarrow> client_repeat \<Rightarrow> client_repeat" where
  "repeat_step (RepInfo rate delay) r = repeat_set_info rate delay r"
| "repeat_step (RepArm key time now) r = repeat_arm key time now r"
| "repeat_step (RepRelease key) r = repeat_release key r"
| "repeat_step RepCancel r = repeat_cancel r"
| "repeat_step (RepFire now) r = snd (repeat_fire now r)"

definition after_ops :: "repeat_op list \<Rightarrow> client_repeat" where
  "after_ops ops = fold repeat_step ops client_repeat_default"

text \<open>What ends the repeat of a key: another press, its release, a cancel, or a rate of zero.\<close>

fun ends_repeat :: "u32 \<Rightarrow> repeat_op \<Rightarrow> bool" where
  "ends_repeat key (RepInfo rate delay) \<longleftrightarrow> rate \<le> 0"
| "ends_repeat key (RepArm k t p) \<longleftrightarrow> True"
| "ends_repeat key (RepRelease k) \<longleftrightarrow> k = key"
| "ends_repeat key RepCancel \<longleftrightarrow> True"
| "ends_repeat key (RepFire t) \<longleftrightarrow> False"

definition armed_by :: "repeat_op list \<Rightarrow> held_repeat \<Rightarrow> bool" where
  "armed_by ops h \<longleftrightarrow> (\<exists>xs ys. ops = xs @ RepArm (hr_key h) (hr_wayland_time h) (hr_pressed_at h) # ys \<and>
     (\<forall>op \<in> set ys. \<not> ends_repeat (hr_key h) op) \<and>
     hr_pressed_at h + millis (max (cr_delay (after_ops xs)) 0) \<le> hr_deadline h)"

lemma armed_by_snoc:
  "armed_by ops h \<Longrightarrow> \<not> ends_repeat (hr_key h) op \<Longrightarrow> armed_by (ops @ [op]) h"
  unfolding armed_by_def
proof (elim exE conjE)
  fix xs ys
  assume "ops = xs @ RepArm (hr_key h) (hr_wayland_time h) (hr_pressed_at h) # ys"
    "\<forall>op \<in> set ys. \<not> ends_repeat (hr_key h) op" "\<not> ends_repeat (hr_key h) op"
    "hr_pressed_at h + millis (max (cr_delay (after_ops xs)) 0) \<le> hr_deadline h"
  then show "\<exists>xs ys. ops @ [op] = xs @ RepArm (hr_key h) (hr_wayland_time h) (hr_pressed_at h) # ys \<and>
      (\<forall>op \<in> set ys. \<not> ends_repeat (hr_key h) op) \<and>
      hr_pressed_at h + millis (max (cr_delay (after_ops xs)) 0) \<le> hr_deadline h"
    by (intro exI [of _ xs] exI [of _ "ys @ [op]"]) simp
qed

lemma repeat_interval_nonneg: "0 < rate \<Longrightarrow> 0 \<le> repeat_interval rate"
  by (simp add: repeat_interval_def pos_imp_zdiv_nonneg_iff)

lemma after_ops_armed:
  "cr_held (after_ops ops) = Some h \<Longrightarrow> 0 < cr_rate (after_ops ops) \<and> armed_by ops h"
proof (induction ops arbitrary: h rule: rev_induct)
  case Nil
  then show ?case by (simp add: after_ops_def client_repeat_default_def)
next
  case (snoc op ops)
  have r: "after_ops (ops @ [x]) = repeat_step x (after_ops ops)" for x by (simp add: after_ops_def)
  show ?case
  proof (cases op)
    case (RepInfo rate delay)
    with snoc show ?thesis
      by (auto simp: r repeat_set_info_def Let_def intro: armed_by_snoc split: if_splits)
  next
    case (RepArm key time now)
    show ?thesis
    proof (cases "0 < cr_rate (after_ops ops)")
      case True
      with snoc.prems RepArm have h: "h = \<lparr>hr_key = key, hr_wayland_time = time, hr_pressed_at = now,
          hr_deadline = now + millis (max (cr_delay (after_ops ops)) 0)\<rparr>"
        by (simp add: r repeat_arm_def)
      have "armed_by (ops @ [op]) h"
        unfolding armed_by_def by (intro exI [of _ ops] exI [of _ "[]"]) (simp add: h RepArm)
      with True show ?thesis by (simp add: r RepArm repeat_arm_def)
    next
      case False
      then have "repeat_step op (after_ops ops) = after_ops ops" by (simp add: RepArm repeat_arm_def)
      with snoc False show ?thesis by (auto simp: r)
    qed
  next
    case (RepRelease key)
    with snoc show ?thesis
      by (auto simp: r repeat_release_def intro: armed_by_snoc split: option.splits if_splits)
  next
    case RepCancel
    with snoc.prems show ?thesis by (simp add: r repeat_cancel_def)
  next
    case (RepFire now)
    obtain h0 where h0: "cr_held (after_ops ops) = Some h0"
      using snoc.prems RepFire by (auto simp: r repeat_fire_def split: option.splits)
    note old = snoc.IH [OF h0]
    have "hr_key h = hr_key h0" "hr_wayland_time h = hr_wayland_time h0"
      "hr_pressed_at h = hr_pressed_at h0" "hr_deadline h0 \<le> hr_deadline h"
      using snoc.prems RepFire old repeat_interval_nonneg [of "cr_rate (after_ops ops)"]
      by (auto simp: r repeat_fire_def h0 Let_def split: if_splits)
    then have "armed_by ops h" using old by (fastforce simp: armed_by_def)
    moreover have "cr_rate (after_ops (ops @ [op])) = cr_rate (after_ops ops)"
      by (auto simp: r RepFire repeat_fire_def h0 Let_def)
    ultimately show ?thesis using old by (simp add: armed_by_snoc RepFire)
  qed
qed

text \<open>
  C10: A client-side repeat only fires for the key pressed last, not released, cancelled or
  switched off since, at a positive rate and no earlier than the delay set at the press; the event
  carries the time of the press and the milliseconds since.
\<close>

theorem client_repeat_fires:
  assumes "fst (repeat_fire now (after_ops ops)) = Some (key, t)"
  shows "\<exists>xs time p ys. ops = xs @ RepArm key time p # ys \<and> (\<forall>op \<in> set ys. \<not> ends_repeat key op) \<and>
    0 < cr_rate (after_ops ops) \<and> p + millis (max (cr_delay (after_ops xs)) 0) \<le> now \<and>
    t = time + of_int ((now - p) div millis 1)"
proof -
  obtain h where h: "cr_held (after_ops ops) = Some h" "hr_deadline h \<le> now" "key = hr_key h"
    "t = hr_wayland_time h + of_int (elapsed now (hr_pressed_at h) div millis 1)"
    using assms by (auto simp: repeat_fire_def Let_def split: option.splits if_splits)
  obtain xs ys where x: "ops = xs @ RepArm key (hr_wayland_time h) (hr_pressed_at h) # ys"
    "\<forall>op \<in> set ys. \<not> ends_repeat key op"
    "hr_pressed_at h + millis (max (cr_delay (after_ops xs)) 0) \<le> now"
    using after_ops_armed [OF h(1)] h(2,3) by (auto simp: armed_by_def)
  moreover have "elapsed now (hr_pressed_at h) = now - hr_pressed_at h"
    using x(3) by (simp add: elapsed_def millis_def)
  ultimately show ?thesis using after_ops_armed [OF h(1)] h(4) by auto
qed

section \<open>A concrete session\<close>










theorem client_repeat_fires_witness:
  "\<exists>xs time p ys. [RepArm 30 5 0] = xs @ RepArm 30 time p # ys \<and>
    p + millis (max (cr_delay (after_ops xs)) 0) \<le> 400000000 \<and> 405 = time + of_int ((400000000 - p) div millis 1)"
proof -
  have "fst (repeat_fire 400000000 (after_ops [RepArm 30 5 0])) = Some (30, 405)" by code_simp
  from client_repeat_fires [OF this] show ?thesis by blast
qed

end
