(* ===== verification/Ipc.thy ===== *)
theory Ipc
  imports Config Utf8
begin

text \<open>
  \<^verbatim>\<open>crates/daemon/src/backend.rs\<close>, \<^verbatim>\<open>control.rs\<close> and \<^verbatim>\<open>ipc.rs\<close>: the backends and the targets
  a user may name, the control replies, the parser of command lines, and the server on the
  socket. A connection is what its reads deliver, byte by byte; the supervisor's answer, the
  success of the write and the outcomes of \<open>accept\<close> and of joined tasks are arguments.
\<close>

section \<open>Backends\<close>

datatype input_backend = AutoBackend | IbusBackend | WaylandBackend | EvdevBackend

datatype backend_target = NativeTarget | EvdevTarget | ToggleTarget

text \<open>The Cargo features a build is compiled with.\<close>

record features =
  ft_ibus :: bool
  ft_evdev_grab :: bool

definition backend_target_parse :: "ustr \<Rightarrow> backend_target option" where
  "backend_target_parse raw =
     (let t = str_lower (str_trim raw) in
      if t = lit ''native'' \<or> t = lit ''auto'' then Some NativeTarget
      else if t = lit ''evdev'' \<or> t = lit ''evdev-grab'' \<or> t = lit ''evdev_grab'' then Some EvdevTarget
      else if t = lit ''toggle'' then Some ToggleTarget
      else None)"

definition backend_as_str :: "input_backend \<Rightarrow> ustr" where
  "backend_as_str b =
     (case b of AutoBackend \<Rightarrow> lit ''auto'' | IbusBackend \<Rightarrow> lit ''ibus''
      | WaylandBackend \<Rightarrow> lit ''wayland'' | EvdevBackend \<Rightarrow> lit ''evdev'')"

text \<open>\<^verbatim>\<open>Display for BackendTarget\<close>.\<close>

definition target_display :: "backend_target \<Rightarrow> ustr" where
  "target_display t =
     (case t of NativeTarget \<Rightarrow> lit ''native'' | EvdevTarget \<Rightarrow> lit ''evdev'' | ToggleTarget \<Rightarrow> lit ''toggle'')"

definition native_from_config :: "features \<Rightarrow> config \<Rightarrow> input_backend" where
  "native_from_config ft cfg =
     (if ft_ibus ft \<and> cf_ibus_requested cfg then IbusBackend
      else if cf_enable_wayland cfg then WaylandBackend
      else AutoBackend)"

definition startup_from_config :: "features \<Rightarrow> config \<Rightarrow> input_backend" where
  "startup_from_config ft cfg =
     (if ft_ibus ft \<and> cf_ibus_requested cfg then IbusBackend
      else if cf_enable_evdev_grab cfg then EvdevBackend
      else if cf_enable_wayland cfg then WaylandBackend
      else AutoBackend)"

section \<open>Commands and replies\<close>

datatype control_reply =
    ReplyEnabled bool
  | ReplyBackend input_backend
  | ReplyOk ustr
  | ReplyError ustr

definition as_ipc_line :: "control_reply \<Rightarrow> ustr" where
  "as_ipc_line r =
     (case r of
        ReplyEnabled True \<Rightarrow> lit ''on''
      | ReplyEnabled False \<Rightarrow> lit ''off''
      | ReplyBackend b \<Rightarrow> backend_as_str b
      | ReplyOk msg \<Rightarrow> lit ''ok '' @ msg
      | ReplyError msg \<Rightarrow> lit ''err '' @ msg)"

datatype cmd_kind =
    CmdToggle | CmdEnable | CmdDisable | CmdStatus | CmdQuit | CmdBackendStatus
  | CmdSetBackend backend_target

text \<open>\<^verbatim>\<open>str::split\_whitespace\<close>; \<open>acc\<close> is the current word, reversed.\<close>

fun split_ws_from :: "ustr \<Rightarrow> ustr \<Rightarrow> ustr list" where
  "split_ws_from acc [] = (if acc = [] then [] else [rev acc])"
| "split_ws_from acc (c # s) =
     (if is_whitespace c
      then (if acc = [] then split_ws_from [] s else rev acc # split_ws_from [] s)
      else split_ws_from (c # acc) s)"

definition split_whitespace :: "ustr \<Rightarrow> ustr list" where
  "split_whitespace s = split_ws_from [] s"

definition parse_ipc_command :: "ustr \<Rightarrow> ustr + cmd_kind" where
  "parse_ipc_command line =
     (case split_whitespace (str_trim line) of
        [] \<Rightarrow> Inl (lit ''empty command'')
      | cmd0 # parts \<Rightarrow>
          (let cmd = str_lower cmd0 in
           if cmd = lit ''toggle'' then Inr CmdToggle
           else if cmd = lit ''enable'' then Inr CmdEnable
           else if cmd = lit ''disable'' then Inr CmdDisable
           else if cmd = lit ''status'' then Inr CmdStatus
           else if cmd = lit ''quit'' then Inr CmdQuit
           else if cmd = lit ''backend''
           then (case parts of
                   [] \<Rightarrow> Inr CmdBackendStatus
                 | raw # rest \<Rightarrow>
                     (case backend_target_parse raw of
                        None \<Rightarrow>
                          Inl (if raw = lit ''ibus'' \<or> raw = lit ''wayland''
                               then lit ''direct '' @ raw @
                                    lit '' switching is not supported; use native, evdev, or toggle''
                               else lit ''unknown backend: '' @ raw)
                      | Some target \<Rightarrow>
                          if rest \<noteq> [] then Inl (lit ''backend takes at most one argument'')
                          else Inr (CmdSetBackend target)))
           else Inl (lit ''unknown command: '' @ cmd)))"

section \<open>One connection\<close>

definition MAX_IPC_LINE_BYTES :: usize where
  "MAX_IPC_LINE_BYTES = 4096"

datatype ipc_read = ReadByte nat | ReadEof | ReadError ustr

text \<open>\<open>read_ipc_line\<close>: \<open>None\<close> while the loop still waits for a read.\<close>

fun read_ipc_line_loop :: "ipc_read list \<Rightarrow> nat list \<Rightarrow> (ustr + ustr) option" where
  "read_ipc_line_loop [] buf = None"
| "read_ipc_line_loop (ReadError e # rs) buf = Some (Inl (lit ''read command: '' @ e))"
| "read_ipc_line_loop (ReadEof # rs) buf =
     Some (Inl (if buf = [] then lit ''empty command'' else lit ''command missing newline''))"
| "read_ipc_line_loop (ReadByte b # rs) buf0 =
     (let buf = buf0 @ [b] in
      if length buf > MAX_IPC_LINE_BYTES then Some (Inl (lit ''command too long (max 4096 bytes)''))
      else if b = 10
      then Some (case from_utf8 buf of
                   Some line \<Rightarrow> Inr line
                 | None \<Rightarrow> Inl (lit ''command must be UTF-8''))
      else read_ipc_line_loop rs buf)"

definition read_ipc_line :: "ipc_read list \<Rightarrow> (ustr + ustr) option" where
  "read_ipc_line rs = read_ipc_line_loop rs []"

text \<open>
  What happens to a command sent to the supervisor: its channel is closed, the reply's sender
  is dropped, or a reply comes.
\<close>

datatype dispatch = DispatchClosed | DispatchDropped | DispatchReply control_reply

datatype connection_error = WriteFailed | CommandChannelClosed | ResponseDropped

record connection_end =
  cn_sent :: "cmd_kind option"
  cn_written :: ustr
  cn_result :: "connection_error option"

text \<open>
  \<open>handle_connection\<close>: the command it sent, the text it wrote and how it ended.
  \<open>write_ok\<close> says whether its one write succeeds; when not, nothing is counted as written.
\<close>

definition handle_connection ::
    "ipc_read list \<Rightarrow> (cmd_kind \<Rightarrow> dispatch) \<Rightarrow> bool \<Rightarrow> connection_end option" where
  "handle_connection rs dispatch_cmd write_ok =
     (let finish = (\<lambda>sent out err.
            if write_ok then Some \<lparr>cn_sent = sent, cn_written = out, cn_result = err\<rparr>
            else Some \<lparr>cn_sent = sent, cn_written = [], cn_result = Some WriteFailed\<rparr>)
      in (case read_ipc_line rs of
            None \<Rightarrow> None
          | Some (Inl e) \<Rightarrow> finish None (lit ''err '' @ e @ [10]) None
          | Some (Inr line) \<Rightarrow>
              (case parse_ipc_command line of
                 Inl e \<Rightarrow> finish None (lit ''err '' @ e @ [10]) None
               | Inr kind \<Rightarrow>
                   (case dispatch_cmd kind of
                      DispatchClosed \<Rightarrow>
                        finish None (lit ''err daemon unavailable'' @ [10]) (Some CommandChannelClosed)
                    | DispatchReply reply \<Rightarrow> finish (Some kind) (as_ipc_line reply @ [10]) None
                    | DispatchDropped \<Rightarrow>
                        finish (Some kind) (lit ''err no reply'' @ [10]) (Some ResponseDropped)))))"

section \<open>The server\<close>

definition validate_peer_uid :: "u32 \<Rightarrow> u32 \<Rightarrow> bool" where
  "validate_peer_uid peer expected \<longleftrightarrow> peer = expected"

text \<open>How the socket answers an \<open>accept\<close>: a peer with its credentials (or none), or an error.\<close>

datatype raw_accept = Peer "u32 option" | AcceptFailed ustr

text \<open>\<open>IpcServer::accept\<close>: peers of another user are dropped and the loop accepts again.\<close>

fun accept :: "u32 \<Rightarrow> raw_accept list \<Rightarrow> ((ustr + unit) \<times> raw_accept list) option" where
  "accept euid [] = None"
| "accept euid (AcceptFailed e # rs) = Some (Inl e, rs)"
| "accept euid (Peer uid # rs) =
     (if uid \<noteq> None \<and> validate_peer_uid (the uid) euid then Some (Inr (), rs) else accept euid rs)"

datatype joined = JoinedOk | JoinedErr ustr | JoinCancelled | JoinPanicked

datatype task_disposition = Continue | Shutdown

definition classify_connection_join :: "joined \<Rightarrow> task_disposition" where
  "classify_connection_join j =
     (case j of JoinedOk \<Rightarrow> Continue | JoinedErr e \<Rightarrow> Continue | JoinCancelled \<Rightarrow> Shutdown
      | JoinPanicked \<Rightarrow> Continue)"

definition ACCEPT_DELAYS :: "int list" where
  "ACCEPT_DELAYS = [millis 100, millis 500]"

datatype serve_event = Accepted | AcceptErr ustr | Joined joined

record serve_state =
  sv_failures :: usize
  sv_connections :: nat
  sv_slept :: "int list"

text \<open>
  \<open>serve\<close>: the loop's end (with the state it ended in), or \<open>None\<close> while it goes on. A joined
  connection is only awaited while there is one.
\<close>

fun serve_loop :: "serve_event list \<Rightarrow> serve_state \<Rightarrow> ((ustr option) \<times> serve_state) option" where
  "serve_loop [] st = None"
| "serve_loop (Accepted # es) st =
     serve_loop es (st\<lparr>sv_failures := 0, sv_connections := sv_connections st + 1\<rparr>)"
| "serve_loop (AcceptErr e # es) st =
     (if sv_failures st = length ACCEPT_DELAYS then Some (Some e, st)
      else serve_loop es (st\<lparr>sv_slept := sv_slept st @ [ACCEPT_DELAYS ! sv_failures st],
                             sv_failures := sv_failures st + 1\<rparr>))"
| "serve_loop (Joined j # es) st =
     (if sv_connections st = 0 then serve_loop es st
      else if classify_connection_join j = Shutdown
      then Some (None, st\<lparr>sv_connections := sv_connections st - 1\<rparr>)
      else serve_loop es (st\<lparr>sv_connections := sv_connections st - 1\<rparr>))"

definition serve :: "serve_event list \<Rightarrow> (ustr option \<times> serve_state) option" where
  "serve es = serve_loop es \<lparr>sv_failures = 0, sv_connections = 0, sv_slept = []\<rparr>"

end
