(* ===== verification/EvdevHooks.thy ===== *)
theory EvdevHooks
  imports Config
begin

text \<open>
  \<^verbatim>\<open>crates/daemon/src/evdev_hooks.rs\<close>: the desktop hooks run around the evdev grab, their
  lookup, the setup and cleanup runs, the marker left on disk for a crash, and its recovery.
  Hook scripts, the file system and the JSON library are parameters; the state of the world
  they act on is a type variable threaded through every call.
\<close>

section \<open>The outside world\<close>

text \<open>
  Paths are strings. \<^verbatim>\<open>Path::join\<close> puts a slash in between unless the first part is empty or ends
  in one; an absolute second part replaces the first.
\<close>

type_synonym path = ustr

definition path_join :: "path \<Rightarrow> ustr \<Rightarrow> path" where
  "path_join dir name =
     (if name \<noteq> [] \<and> hd name = 47 then name
      else if dir = [] \<or> last dir = 47 then dir @ name
      else dir @ [47] @ name)"

text \<open>The errors, with what their messages show; \<open>OsError\<close> and \<open>JsonError\<close> come from outside.\<close>

datatype hook_error =
    OsError ustr
  | JsonError ustr
  | CanonicalizeHook path ustr
  | StatHook path ustr
  | HookNotRegular path
  | HookWritable path
  | HookOwner path u32 u32
  | RunningHook path ustr ustr
  | SetFailed ustr int
  | UnsetFailed ustr int
  | HookNameEmpty
  | HookNameInvalid ustr
  | HomeNotSet
  | RuntimeDirNotSet
  | ReadMarker path ustr
  | ParseMarker path ustr

record file_meta =
  fm_is_file :: bool
  fm_mode :: u32
  fm_uid :: u32

record hook_spec =
  hk_name :: ustr
  hk_set_path :: path
  hk_unset_path :: path

text \<open>The fields of the JSON document, and its two versions as they are read back.\<close>

datatype marker_file = MarkerV2 "hook_spec list" | MarkerLegacy "ustr list"

datatype remove_result = Removed | RemoveNotFound | RemoveFailed ustr

text \<open>
  What the code asks of the operating system. \<open>os_status\<close> runs a program with variables added to
  its environment; its exit code is \<open>None\<close> when a signal ended it. The functions that change a
  file answer with an error or nothing.
\<close>

record 'w os =
  os_status :: "path \<Rightarrow> (string \<times> ustr) list \<Rightarrow> 'w \<Rightarrow> (ustr + int option) \<times> 'w"
  os_current_exe :: "path option"
  os_canonicalize :: "'w \<Rightarrow> path \<Rightarrow> ustr + path"
  os_metadata :: "'w \<Rightarrow> path \<Rightarrow> ustr + file_meta"
  os_euid :: u32
  os_is_file :: "'w \<Rightarrow> path \<Rightarrow> bool"
  os_is_dir :: "'w \<Rightarrow> path \<Rightarrow> bool"
  os_exists :: "'w \<Rightarrow> path \<Rightarrow> bool"
  os_env :: "string \<Rightarrow> ustr option"
  os_pid :: ustr
  os_open_truncate :: "path \<Rightarrow> 'w \<Rightarrow> ustr option \<times> 'w"
  os_write_all :: "path \<Rightarrow> ustr \<Rightarrow> 'w \<Rightarrow> ustr option \<times> 'w"
  os_sync_all :: "path \<Rightarrow> 'w \<Rightarrow> ustr option \<times> 'w"
  os_rename :: "path \<Rightarrow> path \<Rightarrow> 'w \<Rightarrow> ustr option \<times> 'w"
  os_set_permissions :: "path \<Rightarrow> u32 \<Rightarrow> 'w \<Rightarrow> ustr option \<times> 'w"
  os_remove_file :: "path \<Rightarrow> 'w \<Rightarrow> remove_result \<times> 'w"
  os_read_to_string :: "'w \<Rightarrow> path \<Rightarrow> ustr + ustr"
  os_marker_to_json :: "hook_spec list \<Rightarrow> ustr + ustr"
  os_marker_from_json :: "ustr \<Rightarrow> ustr + marker_file"

section \<open>Running one hook\<close>

definition exit_code :: "int option \<Rightarrow> int" where
  "exit_code st = (case st of Some c \<Rightarrow> c | None \<Rightarrow> 128)"

definition validate_hook_script_path :: "'w os \<Rightarrow> 'w \<Rightarrow> path \<Rightarrow> hook_error + path" where
  "validate_hook_script_path os w path =
     (case os_canonicalize os w path of
        Inl e \<Rightarrow> Inl (CanonicalizeHook path e)
      | Inr canonical \<Rightarrow>
          (case os_metadata os w canonical of
             Inl e \<Rightarrow> Inl (StatHook canonical e)
           | Inr meta \<Rightarrow>
               if \<not> fm_is_file meta then Inl (HookNotRegular canonical)
               else if fm_mode meta AND 0x12 \<noteq> 0
               then Inl (HookWritable canonical)
               else if fm_uid meta \<noteq> os_euid os \<and> fm_uid meta \<noteq> 0
               then Inl (HookOwner canonical (fm_uid meta) (os_euid os))
               else Inr canonical))"

definition resolve_builtin_dir :: "'w os \<Rightarrow> string \<Rightarrow> ustr option \<Rightarrow> path option" where
  "resolve_builtin_dir os env_key compile_time =
     (case os_env os env_key of
        Some v \<Rightarrow> if v \<noteq> [] then Some v
                  else (case compile_time of Some s \<Rightarrow> if s \<noteq> [] then Some s else None | None \<Rightarrow> None)
      | None \<Rightarrow> (case compile_time of Some s \<Rightarrow> if s \<noteq> [] then Some s else None | None \<Rightarrow> None))"

definition builtin_xkb_dir :: "'w os \<Rightarrow> ustr option \<Rightarrow> 'w \<Rightarrow> path option" where
  "builtin_xkb_dir os compile_time w =
     (case resolve_builtin_dir os ''DAKLAK_BUILTIN_XKB_DIR'' compile_time of
        Some d \<Rightarrow> Some d
      | None \<Rightarrow>
          (let c1 = (case os_env os ''XDG_CONFIG_HOME'' of
                       Some config \<Rightarrow> [path_join (path_join config (lit ''daklak'')) (lit ''xkb'')]
                     | None \<Rightarrow>
                         (case os_env os ''HOME'' of
                            Some home \<Rightarrow>
                              [path_join (path_join (path_join home (lit ''.config'')) (lit ''daklak'')) (lit ''xkb'')]
                          | None \<Rightarrow> []));
               c2 = (case os_env os ''HOME'' of
                       Some home \<Rightarrow>
                         [path_join (path_join (path_join (path_join home (lit ''.local'')) (lit ''share''))
                            (lit ''daklak'')) (lit ''xkb'')]
                     | None \<Rightarrow> [])
           in List.find (os_is_dir os w) (c1 @ c2 @ [lit ''/usr/share/daklak/xkb''])))"

text \<open>\<^verbatim>\<open>ProcessHookRunner::run\<close>, the trait's implementation of the daemon.\<close>

type_synonym 'w hook_runner = "path \<Rightarrow> ustr \<Rightarrow> ustr \<Rightarrow> 'w \<Rightarrow> (hook_error + int) \<times> 'w"

definition hook_environment :: "'w os \<Rightarrow> ustr option \<Rightarrow> ustr \<Rightarrow> ustr \<Rightarrow> 'w \<Rightarrow> (string \<times> ustr) list" where
  "hook_environment os compile_time phase name w =
     [(''DAKLAK_HOOK_NAME'', name), (''DAKLAK_HOOK_PHASE'', phase),
      (''DAKLAK_BIN'', case os_current_exe os of Some exe \<Rightarrow> exe | None \<Rightarrow> lit ''daklak''),
      (''DAKLAK_UINPUT_NAME'', lit ''daklak''), (''DAKLAK_UINPUT_VENDOR'', lit ''56001''),
      (''DAKLAK_UINPUT_PRODUCT'', lit ''44033'')] @
     (case builtin_xkb_dir os compile_time w of
        Some dir \<Rightarrow> [(''DAKLAK_XKB_DIR'', dir)]
      | None \<Rightarrow> [])"

definition process_hook_runner :: "'w os \<Rightarrow> ustr option \<Rightarrow> 'w hook_runner" where
  "process_hook_runner os compile_time path phase name w =
     (case validate_hook_script_path os w path of
        Inl e \<Rightarrow> (Inl e, w)
      | Inr exec_path \<Rightarrow>
          (case os_status os exec_path (hook_environment os compile_time phase name w) w of
             (Inl e, w') \<Rightarrow> (Inl (RunningHook exec_path phase e), w')
           | (Inr status, w') \<Rightarrow> (Inr (exit_code status), w')))"

section \<open>Setup and cleanup\<close>

datatype setup_outcome = HookApplied ustr | HookSkipped ustr

definition hook_scripts_present :: "'w os \<Rightarrow> 'w \<Rightarrow> hook_spec \<Rightarrow> bool" where
  "hook_scripts_present os w hook \<longleftrightarrow> os_is_file os w (hk_set_path hook) \<and> os_is_file os w (hk_unset_path hook)"

fun run_cleanup_loop ::
    "'w hook_runner \<Rightarrow> hook_spec list \<Rightarrow> hook_error option \<Rightarrow> 'w \<Rightarrow> hook_error option \<times> 'w" where
  "run_cleanup_loop runner [] first_error w = (first_error, w)"
| "run_cleanup_loop runner (hook # hooks) first_error w =
     (case runner (hk_unset_path hook) (lit ''unset'') (hk_name hook) w of
        (Inr code, w') \<Rightarrow>
          if code = 0 \<or> code = 10 then run_cleanup_loop runner hooks first_error w'
          else run_cleanup_loop runner hooks
                 (if first_error = None then Some (UnsetFailed (hk_name hook) code) else first_error) w'
      | (Inl e, w') \<Rightarrow>
          run_cleanup_loop runner hooks (if first_error = None then Some e else first_error) w')"

text \<open>The hooks applied last are undone first; the first error is the one returned.\<close>

definition run_cleanup_hooks_inner ::
    "hook_spec list \<Rightarrow> 'w hook_runner \<Rightarrow> 'w \<Rightarrow> hook_error option \<times> 'w" where
  "run_cleanup_hooks_inner applied runner w =
     run_cleanup_loop runner (rev applied) None w"

definition run_cleanup_hooks ::
    "hook_spec list \<Rightarrow> 'w hook_runner \<Rightarrow> 'w \<Rightarrow> hook_error option \<times> 'w" where
  "run_cleanup_hooks applied runner w = run_cleanup_hooks_inner applied runner w"

fun run_setup_loop ::
    "'w os \<Rightarrow> 'w hook_runner \<Rightarrow> bool \<Rightarrow> hook_spec list \<Rightarrow> hook_spec list \<Rightarrow>
      setup_outcome list \<Rightarrow> 'w \<Rightarrow> (hook_error + hook_spec list \<times> setup_outcome list) \<times> 'w" where
  "run_setup_loop os runner check_files [] applied outcomes w = (Inr (applied, outcomes), w)"
| "run_setup_loop os runner check_files (hook # hooks) applied outcomes w =
     (if check_files \<and> \<not> hook_scripts_present os w hook
      then run_setup_loop os runner check_files hooks applied
             (outcomes @ [HookSkipped (hk_name hook)]) w
      else (case runner (hk_set_path hook) (lit ''set'') (hk_name hook) w of
              (Inl e, w') \<Rightarrow> (Inl e, w')
            | (Inr code, w') \<Rightarrow>
                if code = 0
                then run_setup_loop os runner check_files hooks (applied @ [hook])
                       (outcomes @ [HookApplied (hk_name hook)]) w'
                else if code = 10
                then run_setup_loop os runner check_files hooks applied
                       (outcomes @ [HookSkipped (hk_name hook)]) w'
                else (Inl (SetFailed (hk_name hook) code),
                      snd (run_cleanup_hooks_inner applied runner w'))))"

definition run_setup_hooks_inner ::
    "'w os \<Rightarrow> hook_spec list \<Rightarrow> 'w hook_runner \<Rightarrow> bool \<Rightarrow> 'w \<Rightarrow>
      (hook_error + hook_spec list \<times> setup_outcome list) \<times> 'w" where
  "run_setup_hooks_inner os hooks runner check_files w =
     run_setup_loop os runner check_files hooks [] [] w"

definition run_setup_hooks ::
    "'w os \<Rightarrow> hook_spec list \<Rightarrow> 'w hook_runner \<Rightarrow> 'w \<Rightarrow>
      (hook_error + hook_spec list \<times> setup_outcome list) \<times> 'w" where
  "run_setup_hooks os hooks runner w = run_setup_hooks_inner os hooks runner True w"

section \<open>Finding the scripts\<close>

definition hook_name_byte :: "uchar \<Rightarrow> bool" where
  "hook_name_byte b \<longleftrightarrow> is_ascii_alphabetic b \<or> is_ascii_digit b \<or> b = 95 \<or> b = 45"

text \<open>The source tests the bytes; a character beyond ASCII has only bytes from 128 up.\<close>

definition validate_hook_name :: "ustr \<Rightarrow> hook_error option" where
  "validate_hook_name name =
     (if name = [] then Some HookNameEmpty
      else if \<not> list_all hook_name_byte name
      then Some (HookNameInvalid name)
      else None)"

definition hook_dir :: "'w os \<Rightarrow> hook_error + path" where
  "hook_dir os =
     (case os_env os ''XDG_CONFIG_HOME'' of
        Some xdg \<Rightarrow> Inr (path_join (path_join xdg (lit ''daklak'')) (lit ''hooks''))
      | None \<Rightarrow>
          (case os_env os ''HOME'' of
             None \<Rightarrow> Inl HomeNotSet
           | Some home \<Rightarrow>
               Inr (path_join (path_join (path_join home (lit ''.config'')) (lit ''daklak'')) (lit ''hooks''))))"

definition builtin_hook_dir :: "'w os \<Rightarrow> ustr option \<Rightarrow> path option" where
  "builtin_hook_dir os compile_time = resolve_builtin_dir os ''DAKLAK_BUILTIN_HOOK_DIR'' compile_time"

definition hook_search_dirs :: "'w os \<Rightarrow> ustr option \<Rightarrow> path list" where
  "hook_search_dirs os compile_time =
     (let d1 = (case hook_dir os of Inr d \<Rightarrow> [d] | Inl e \<Rightarrow> []);
          d2 = (case os_env os ''HOME'' of
                  Some home \<Rightarrow>
                    [path_join (path_join (path_join (path_join home (lit ''.local'')) (lit ''libexec''))
                       (lit ''daklak'')) (lit ''hooks'')]
                | None \<Rightarrow> []);
          dirs = d1 @ d2 @ [lit ''/usr/libexec/daklak/hooks'']
      in (case builtin_hook_dir os compile_time of
            Some d \<Rightarrow> if d \<notin> set dirs then dirs @ [d] else dirs
          | None \<Rightarrow> dirs))"

definition hook_pair_paths :: "path \<Rightarrow> ustr \<Rightarrow> path \<times> path" where
  "hook_pair_paths dir name = (path_join dir (name @ lit ''-set''), path_join dir (name @ lit ''-unset''))"

definition hook_pair_exists :: "'w os \<Rightarrow> 'w \<Rightarrow> path \<times> path \<Rightarrow> bool" where
  "hook_pair_exists os w p \<longleftrightarrow> os_is_file os w (fst p) \<and> os_is_file os w (snd p)"

definition hook_pair_is_partial :: "'w os \<Rightarrow> 'w \<Rightarrow> path \<times> path \<Rightarrow> bool" where
  "hook_pair_is_partial os w p \<longleftrightarrow> os_exists os w (fst p) \<or> os_exists os w (snd p)"

definition resolve_hook_pair :: "'w os \<Rightarrow> 'w \<Rightarrow> ustr \<Rightarrow> path list \<Rightarrow> path \<times> path" where
  "resolve_hook_pair os w name dirs =
     (case List.find (\<lambda>dir. hook_pair_exists os w (hook_pair_paths dir name)) dirs of
        Some dir \<Rightarrow> hook_pair_paths dir name
      | None \<Rightarrow>
          (case List.find (\<lambda>dir. hook_pair_is_partial os w (hook_pair_paths dir name)) dirs of
             Some dir \<Rightarrow> hook_pair_paths dir name
           | None \<Rightarrow>
               hook_pair_paths (case dirs of first # _ \<Rightarrow> first | [] \<Rightarrow> []) name))"

fun resolve_hooks_loop :: "'w os \<Rightarrow> 'w \<Rightarrow> path list \<Rightarrow> ustr list \<Rightarrow> hook_spec list \<Rightarrow> hook_error + hook_spec list" where
  "resolve_hooks_loop os w dirs [] out = Inr out"
| "resolve_hooks_loop os w dirs (name # names) out =
     (case validate_hook_name name of
        Some e \<Rightarrow> Inl e
      | None \<Rightarrow>
          (case resolve_hook_pair os w name dirs of
             (set_path, unset_path) \<Rightarrow>
               resolve_hooks_loop os w dirs names
                 (out @ [\<lparr>hk_name = name, hk_set_path = set_path, hk_unset_path = unset_path\<rparr>])))"

definition resolve_hooks_in_dirs :: "'w os \<Rightarrow> 'w \<Rightarrow> config \<Rightarrow> path list \<Rightarrow> hook_error + hook_spec list" where
  "resolve_hooks_in_dirs os w cfg dirs = resolve_hooks_loop os w dirs (cf_evdev_grab_hooks cfg) []"

definition resolve_hooks :: "'w os \<Rightarrow> ustr option \<Rightarrow> 'w \<Rightarrow> config \<Rightarrow> hook_error + hook_spec list" where
  "resolve_hooks os compile_time w cfg = resolve_hooks_in_dirs os w cfg (hook_search_dirs os compile_time)"

section \<open>The rollback marker\<close>

definition rollback_marker_path :: "'w os \<Rightarrow> hook_error + path" where
  "rollback_marker_path os =
     (case os_env os ''XDG_RUNTIME_DIR'' of
        None \<Rightarrow> Inl RuntimeDirNotSet
      | Some runtime \<Rightarrow> Inr (path_join runtime (lit ''daklak-evdev-hooks.json'')))"

text \<open>\<^verbatim>\<open>path.with\_extension(format!("json.tmp.{}", pid))\<close> on the marker's own name.\<close>

definition marker_tmp :: "'w os \<Rightarrow> path \<Rightarrow> path" where
  "marker_tmp os path = path @ lit ''.tmp.'' @ os_pid os"

text \<open>One fallible step after another on the world, stopping at the first error.\<close>

fun try_steps :: "('w \<Rightarrow> ustr option \<times> 'w) list \<Rightarrow> 'w \<Rightarrow> hook_error option \<times> 'w" where
  "try_steps [] w = (None, w)"
| "try_steps (f # fs) w =
     (case f w of (Some e, w') \<Rightarrow> (Some (OsError e), w') | (None, w') \<Rightarrow> try_steps fs w')"

definition write_rollback_marker :: "'w os \<Rightarrow> hook_spec list \<Rightarrow> 'w \<Rightarrow> hook_error option \<times> 'w" where
  "write_rollback_marker os applied w =
     (if applied = [] then (None, w)
      else (case rollback_marker_path os of
              Inl e \<Rightarrow> (Some e, w)
            | Inr path \<Rightarrow>
                (case os_marker_to_json os applied of
                   Inl e \<Rightarrow> (Some (JsonError e), w)
                 | Inr json \<Rightarrow>
                     try_steps
                       [os_open_truncate os (marker_tmp os path),
                        os_write_all os (marker_tmp os path) json,
                        os_sync_all os (marker_tmp os path),
                        os_rename os (marker_tmp os path) path,
                        os_set_permissions os path 0x180] w)))"

definition clear_rollback_marker :: "'w os \<Rightarrow> 'w \<Rightarrow> 'w" where
  "clear_rollback_marker os w =
     (case rollback_marker_path os of
        Inl e \<Rightarrow> w
      | Inr path \<Rightarrow> snd (os_remove_file os path w))"

definition applied_of_marker ::
    "'w os \<Rightarrow> ustr option \<Rightarrow> 'w \<Rightarrow> config \<Rightarrow> marker_file \<Rightarrow> hook_error + hook_spec list" where
  "applied_of_marker os compile_time w cfg marker =
     (case marker of
        MarkerV2 applied \<Rightarrow> Inr applied
      | MarkerLegacy names \<Rightarrow>
          (case resolve_hooks os compile_time w cfg of
             Inl e \<Rightarrow> Inl e
           | Inr all_hooks \<Rightarrow>
               Inr (List.map_filter (\<lambda>name. List.find (\<lambda>h. hk_name h = name) all_hooks) names)))"

definition recover_stale_rollback ::
    "'w os \<Rightarrow> ustr option \<Rightarrow> config \<Rightarrow> 'w hook_runner \<Rightarrow> 'w \<Rightarrow> hook_error option \<times> 'w" where
  "recover_stale_rollback os compile_time cfg runner w =
     (case rollback_marker_path os of
        Inl e \<Rightarrow> (None, w)
      | Inr path \<Rightarrow>
          if \<not> os_exists os w path then (None, w)
          else (case os_read_to_string os w path of
                  Inl e \<Rightarrow> (Some (ReadMarker path e), w)
                | Inr json \<Rightarrow>
                    (case os_marker_from_json os json of
                       Inl e \<Rightarrow> (Some (ParseMarker path e), w)
                     | Inr marker \<Rightarrow>
                         (case applied_of_marker os compile_time w cfg marker of
                            Inl e \<Rightarrow> (Some e, w)
                          | Inr applied \<Rightarrow>
                              (case run_cleanup_hooks applied runner w of
                                 (None, w') \<Rightarrow> (None, clear_rollback_marker os w')
                               | (Some e, w') \<Rightarrow> (Some e, w'))))))"

end
