(* ===== verification/Supervisor.thy ===== *)
theory Supervisor
  imports Ipc EvdevHooks
begin

text \<open>
  \<^verbatim>\<open>crates/daemon/src/transport/supervisor.rs\<close>: the supervisor that runs one input backend after
  another and serves control commands meanwhile. Each \<^verbatim>\<open>select!\<close> is fed by the next event of a
  script, each attempt to start a backend by the next entry of a list of outcomes; a function
  returns \<open>None\<close> where the code still waits. The hooks around an evdev grab act on the world of
  \<open>EvdevHooks\<close>. The watch channels are tokio's, a parameter.
\<close>

section \<open>State\<close>

datatype pending_action = SwitchTo input_backend | QuitAction

text \<open>
  The two watch channels are kept by their current values; \<open>su_observed\<close> says whether the tray,
  the only holder of their receivers, is still there.
\<close>

record supervisor =
  su_config :: config
  su_enabled :: bool
  su_backend :: input_backend
  su_state :: bool
  su_observed :: bool
  su_ibus_suspend :: "bool option"
  su_pending :: "pending_action option"

text \<open>
  \<^verbatim>\<open>watch::Sender::send\<close>: from whether receivers are left, the value held and the value sent to
  the value held afterwards and whether the call succeeded.
\<close>

record watch_lib =
  watch_send_backend :: "bool \<Rightarrow> input_backend \<Rightarrow> input_backend \<Rightarrow> input_backend \<times> bool"
  watch_send_state :: "bool \<Rightarrow> bool \<Rightarrow> bool \<Rightarrow> bool \<times> bool"

datatype sv_error =
    WaylandConnect ustr | IbusConnect ustr | Preflight ustr | PrepareFailed ustr | GrabFailed ustr
  | Transport ustr | HookFailure hook_error
  | NoBackendEnabled | NoNativeBackend | IbusNotCompiled | EvdevNotCompiled | AutoNotResolved

definition supervisor_new :: "config \<Rightarrow> bool \<Rightarrow> bool \<Rightarrow> input_backend \<Rightarrow> supervisor" where
  "supervisor_new cfg enabled state backend =
     \<lparr>su_config = cfg, su_enabled = enabled, su_backend = backend, su_state = state,
      su_observed = True, su_ibus_suspend = None, su_pending = None\<rparr>"

definition backend_supported_at_build :: "features \<Rightarrow> input_backend \<Rightarrow> sv_error option" where
  "backend_supported_at_build ft b =
     (case b of
        IbusBackend \<Rightarrow> if ft_ibus ft then None else Some IbusNotCompiled
      | EvdevBackend \<Rightarrow> if ft_evdev_grab ft then None else Some EvdevNotCompiled
      | WaylandBackend \<Rightarrow> None
      | AutoBackend \<Rightarrow> None)"

definition publish_backend :: "watch_lib \<Rightarrow> input_backend \<Rightarrow> supervisor \<Rightarrow> supervisor" where
  "publish_backend wl b s =
     s\<lparr>su_backend := fst (watch_send_backend wl (su_observed s) (su_backend s) b)\<rparr>"

definition publish_enabled :: "watch_lib \<Rightarrow> bool \<Rightarrow> supervisor \<Rightarrow> supervisor" where
  "publish_enabled wl v s =
     s\<lparr>su_state := fst (watch_send_state wl (su_observed s) (su_state s) v)\<rparr>"

definition resolve_target :: "features \<Rightarrow> supervisor \<Rightarrow> backend_target \<Rightarrow> sv_error + input_backend" where
  "resolve_target ft s requested =
     (let target =
            (case requested of
               NativeTarget \<Rightarrow> native_from_config ft (su_config s)
             | EvdevTarget \<Rightarrow> EvdevBackend
             | ToggleTarget \<Rightarrow>
                 if su_backend s = EvdevBackend then native_from_config ft (su_config s)
                 else EvdevBackend)
      in if target = AutoBackend then Inl NoNativeBackend
         else (case backend_supported_at_build ft target of Some e \<Rightarrow> Inl e | None \<Rightarrow> Inr target))"

section \<open>Control commands\<close>

text \<open>\<open>show_error\<close> renders an error in a reply; \<open>preflight\<close> is what the preflight check answers now.\<close>

definition handle_cmd ::
    "features \<Rightarrow> watch_lib \<Rightarrow> (sv_error \<Rightarrow> ustr) \<Rightarrow> ustr option \<Rightarrow> cmd_kind \<Rightarrow> supervisor \<Rightarrow>
      control_reply \<times> supervisor" where
  "handle_cmd ft wl show_error preflight kind s =
     (case kind of
        CmdToggle \<Rightarrow>
          (let v = \<not> su_enabled s in (ReplyEnabled v, publish_enabled wl v (s\<lparr>su_enabled := v\<rparr>)))
      | CmdEnable \<Rightarrow> (ReplyEnabled True, publish_enabled wl True (s\<lparr>su_enabled := True\<rparr>))
      | CmdDisable \<Rightarrow> (ReplyEnabled False, publish_enabled wl False (s\<lparr>su_enabled := False\<rparr>))
      | CmdStatus \<Rightarrow> (ReplyEnabled (su_enabled s), s)
      | CmdBackendStatus \<Rightarrow> (ReplyBackend (su_backend s), s)
      | CmdSetBackend requested \<Rightarrow>
          (case resolve_target ft s requested of
             Inl e \<Rightarrow>
               (ReplyError (lit ''backend '' @ target_display requested @ lit '' unavailable: '' @ show_error e), s)
           | Inr target \<Rightarrow>
               if su_backend s = target then (ReplyOk (lit ''backend '' @ backend_as_str target), s)
               else if ft_evdev_grab ft \<and> target = EvdevBackend \<and> preflight \<noteq> None
               then (ReplyError (lit ''backend evdev unavailable: '' @ show_error (Preflight (the preflight))), s)
               else (ReplyOk (lit ''backend '' @ backend_as_str target),
                     s\<lparr>su_pending := Some (SwitchTo target)\<rparr>))
      | CmdQuit \<Rightarrow> (ReplyEnabled (su_enabled s), s\<lparr>su_pending := Some QuitAction\<rparr>))"

section \<open>The loop around a transport\<close>

text \<open>
  What a \<^verbatim>\<open>select!\<close> can see: a command (with what the preflight check would answer), the
  command channel closed, the transport's own end; and the tray may go away.
\<close>

datatype sv_event =
    Received cmd_kind "ustr option"
  | CommandsClosed
  | TransportEnded "ustr option"
  | TrayGone

text \<open>How such a loop is left.\<close>

datatype loop_exit = ShutDown | ChannelClosed | Ended "ustr option"

text \<open>
  The loop shared by \<open>run_wayland_loop\<close>, \<open>run_evdev_loop\<close> and the IBus slot. On a pending action
  the transport is told to stop and awaited, its result only logged.
\<close>

fun transport_loop ::
    "features \<Rightarrow> watch_lib \<Rightarrow> (sv_error \<Rightarrow> ustr) \<Rightarrow> supervisor \<Rightarrow> sv_event list \<Rightarrow>
      (loop_exit \<times> supervisor \<times> sv_event list) option" where
  "transport_loop ft wl show_error s [] =
     (if su_pending s \<noteq> None then Some (ShutDown, s, []) else None)"
| "transport_loop ft wl show_error s (e # es) =
     (if su_pending s \<noteq> None then Some (ShutDown, s, e # es)
      else (case e of
              Received kind preflight \<Rightarrow>
                transport_loop ft wl show_error (snd (handle_cmd ft wl show_error preflight kind s)) es
            | CommandsClosed \<Rightarrow> Some (ChannelClosed, s, es)
            | TransportEnded r \<Rightarrow> Some (Ended r, s, es)
            | TrayGone \<Rightarrow> transport_loop ft wl show_error (s\<lparr>su_observed := False\<rparr>) es))"

section \<open>Starting and running one backend\<close>

text \<open>What one attempt to start a backend meets, error by error in the order of the calls.\<close>

record start =
  st_connect :: "ustr option"
  st_preflight :: "ustr option"
  st_prepare :: "ustr option"
  st_grab :: "ustr option"

text \<open>
  The outside: the outcomes of the attempts to start, the events, the world of the hooks, the
  directory compiled in, and the rendering of errors.
\<close>

record 'w env =
  en_starts :: "start list"
  en_events :: "sv_event list"
  en_world :: 'w

record 'w world_ops =
  wo_features :: features
  wo_watch :: watch_lib
  wo_os :: "'w os"
  wo_hook_dir :: "ustr option"
  wo_xkb_dir :: "ustr option"
  wo_show_error :: "sv_error \<Rightarrow> ustr"

definition sv_runner :: "'w world_ops \<Rightarrow> 'w hook_runner" where
  "sv_runner wo = process_hook_runner (wo_os wo) (wo_xkb_dir wo)"

text \<open>The blocking task that applies the hooks and leaves the marker.\<close>

definition setup_task :: "'w os \<Rightarrow> 'w hook_runner \<Rightarrow> hook_spec list \<Rightarrow> 'w \<Rightarrow> (hook_error + hook_spec list) \<times> 'w" where
  "setup_task os runner hooks w =
     (case run_setup_hooks os hooks runner w of
        (Inl e, w1) \<Rightarrow> (Inl e, w1)
      | (Inr (applied, outcomes), w1) \<Rightarrow>
          (case write_rollback_marker os applied w1 of
             (Some e, w2) \<Rightarrow> (Inl e, w2)
           | (None, w2) \<Rightarrow> (Inr applied, w2)))"

text \<open>
  The evdev transport once the adapter's own run has ended with \<open>result\<close>: the setup is awaited if
  it is still on its way, its failure ends the transport there; then the hooks are undone and the
  marker is removed. A failing setup also ends a run that still goes on.
\<close>

definition evdev_transport ::
    "'w os \<Rightarrow> 'w hook_runner \<Rightarrow> hook_spec list \<Rightarrow> ustr option \<Rightarrow> 'w \<Rightarrow> sv_error option \<times> 'w" where
  "evdev_transport os runner hooks result w =
     (case setup_task os runner hooks w of
        (Inl e, w1) \<Rightarrow> (Some (HookFailure e), w1)
      | (Inr applied, w1) \<Rightarrow>
          (case run_cleanup_hooks applied runner w1 of
             (cleanup, w2) \<Rightarrow>
               ((case result of
                   Some e \<Rightarrow> Some (Transport e)
                 | None \<Rightarrow> map_option HookFailure cleanup),
                if cleanup = None then clear_rollback_marker os w2 else w2)))"

text \<open>
  The end of the loop around the evdev transport: on a shutdown the transport is awaited and its
  error dropped; on a closed channel the transport is dropped, only its setup task runs on.
\<close>

definition evdev_exit ::
    "'w os \<Rightarrow> 'w hook_runner \<Rightarrow> hook_spec list \<Rightarrow> loop_exit \<Rightarrow> 'w \<Rightarrow> sv_error option \<times> 'w" where
  "evdev_exit os runner hooks ex w =
     (case ex of
        ShutDown \<Rightarrow> (None, snd (evdev_transport os runner hooks None w))
      | ChannelClosed \<Rightarrow> (None, snd (setup_task os runner hooks w))
      | Ended r \<Rightarrow> evdev_transport os runner hooks r w)"

definition run_wayland_loop ::
    "'w world_ops \<Rightarrow> supervisor \<Rightarrow> 'w env \<Rightarrow> (sv_error option \<times> supervisor \<times> 'w env) option" where
  "run_wayland_loop wo s en =
     (case en_starts en of
        [] \<Rightarrow> None
      | st # sts \<Rightarrow>
          (let en1 = en\<lparr>en_starts := sts\<rparr> in
           case st_connect st of
             Some e \<Rightarrow> Some (Some (WaylandConnect e), s, en1)
           | None \<Rightarrow>
               (case transport_loop (wo_features wo) (wo_watch wo) (wo_show_error wo)
                       (publish_backend (wo_watch wo) WaylandBackend s) (en_events en1) of
                  None \<Rightarrow> None
                | Some (ex, s1, es) \<Rightarrow>
                    Some (case ex of Ended r \<Rightarrow> map_option Transport r | _ \<Rightarrow> None,
                          s1, en1\<lparr>en_events := es\<rparr>))))"

definition run_evdev_loop ::
    "'w world_ops \<Rightarrow> supervisor \<Rightarrow> 'w env \<Rightarrow> (sv_error option \<times> supervisor \<times> 'w env) option" where
  "run_evdev_loop wo s en =
     (if \<not> ft_evdev_grab (wo_features wo) then Some (Some EvdevNotCompiled, s, en)
      else (case en_starts en of
        [] \<Rightarrow> None
      | st # sts \<Rightarrow>
          (let en1 = en\<lparr>en_starts := sts\<rparr> in
           case st_preflight st of
             Some e \<Rightarrow> Some (Some (Preflight e), s, en1)
           | None \<Rightarrow>
          (case st_prepare st of
             Some e \<Rightarrow> Some (Some (PrepareFailed e), s, en1)
           | None \<Rightarrow>
          (case resolve_hooks (wo_os wo) (wo_hook_dir wo) (en_world en1) (su_config s) of
             Inl e \<Rightarrow> Some (Some (HookFailure e), s, en1)
           | Inr hooks \<Rightarrow>
          (case st_grab st of
             Some e \<Rightarrow> Some (Some (GrabFailed e), s, en1)
           | None \<Rightarrow>
               (case transport_loop (wo_features wo) (wo_watch wo) (wo_show_error wo)
                       (publish_backend (wo_watch wo) EvdevBackend s) (en_events en1) of
                  None \<Rightarrow> None
                | Some (ex, s1, es) \<Rightarrow>
                    (case evdev_exit (wo_os wo) (sv_runner wo) hooks ex (en_world en1) of
                       (r, w) \<Rightarrow> Some (r, s1, en1\<lparr>en_events := es, en_world := w\<rparr>)))))))))"

definition set_suspend :: "bool \<Rightarrow> supervisor \<Rightarrow> supervisor" where
  "set_suspend v s = s\<lparr>su_ibus_suspend := map_option (\<lambda>_. v) (su_ibus_suspend s)\<rparr>"

text \<open>The grab layered over a live IBus connection; every error is only logged.\<close>

definition run_evdev_in_ibus_slot ::
    "'w world_ops \<Rightarrow> supervisor \<Rightarrow> 'w env \<Rightarrow> (supervisor \<times> 'w env) option" where
  "run_evdev_in_ibus_slot wo s en =
     (if \<not> ft_evdev_grab (wo_features wo) then Some (s, en)
      else (case en_starts en of
        [] \<Rightarrow> None
      | st # sts \<Rightarrow>
          (let en1 = en\<lparr>en_starts := sts\<rparr> in
           if st_preflight st \<noteq> None then Some (s, en1)
           else (case resolve_hooks (wo_os wo) (wo_hook_dir wo) (en_world en1) (su_config s) of
             Inl e \<Rightarrow> Some (s, en1)
           | Inr hooks \<Rightarrow>
               if st_prepare st \<noteq> None then Some (s, en1)
               else if st_grab st \<noteq> None then Some (s, en1)
               else (case transport_loop (wo_features wo) (wo_watch wo) (wo_show_error wo)
                            (publish_backend (wo_watch wo) EvdevBackend (set_suspend True s)) (en_events en1) of
                       None \<Rightarrow> None
                     | Some (ex, s1, es) \<Rightarrow>
                         Some (set_suspend False s1,
                               en1\<lparr>en_events := es,
                                   en_world := snd (evdev_exit (wo_os wo) (sv_runner wo) hooks ex (en_world en1))\<rparr>))))))"

text \<open>Every loop leaves the starts and the events it did not use.\<close>

definition env_size :: "'w env \<Rightarrow> nat" where
  "env_size en = length (en_starts en) + length (en_events en)"

lemma transport_loop_events:
  "transport_loop ft wl sh s es = Some (ex, s1, es1) \<Longrightarrow> length es1 \<le> length es"
  by (induction ft wl sh s es rule: transport_loop.induct) (auto split: if_splits sv_event.splits)

lemma evdev_slot_size:
  "run_evdev_in_ibus_slot wo s en = Some (s1, en1) \<Longrightarrow> env_size en1 \<le> env_size en"
  by (auto simp: run_evdev_in_ibus_slot_def env_size_def Let_def
      split: if_splits list.splits sum.splits option.splits prod.splits
      dest!: transport_loop_events)

lemma wayland_loop_size:
  "run_wayland_loop wo s en = Some (r, s1, en1) \<Longrightarrow> env_size en1 < env_size en"
  by (auto simp: run_wayland_loop_def env_size_def Let_def
      split: list.splits option.splits prod.splits dest!: transport_loop_events)

lemma evdev_loop_size:
  assumes "run_evdev_loop wo s en = Some (r, s1, en1)"
  shows "env_size en1 < env_size en \<or> (s1 = s \<and> en1 = en)"
  using assms
  by (auto simp: run_evdev_loop_def env_size_def Let_def
      split: if_splits list.splits sum.splits option.splits prod.splits
      dest!: transport_loop_events)

text \<open>
  The loop of \<open>run_ibus_loop\<close> once connected. A switch to evdev runs the grab in the slot and
  comes back to the same connection; any other action is left to the outer loop.
\<close>

function ibus_loop ::
    "'w world_ops \<Rightarrow> supervisor \<Rightarrow> 'w env \<Rightarrow> (sv_error option \<times> supervisor \<times> 'w env) option" where
  "ibus_loop wo s en =
     (case su_pending s of
        Some (SwitchTo EvdevBackend) \<Rightarrow>
          (case run_evdev_in_ibus_slot wo (s\<lparr>su_pending := None\<rparr>) en of
             None \<Rightarrow> None
           | Some (s1, en1) \<Rightarrow>
               if su_pending s1 = None \<or> su_pending s1 = Some (SwitchTo IbusBackend)
               then ibus_loop wo (publish_backend (wo_watch wo) IbusBackend (s1\<lparr>su_pending := None\<rparr>)) en1
               else Some (None, s1, en1))
      | Some other \<Rightarrow> Some (None, s, en)
      | None \<Rightarrow>
          (case en_events en of
             [] \<Rightarrow> None
           | e # es \<Rightarrow>
               (case e of
                  Received kind preflight \<Rightarrow>
                    ibus_loop wo
                      (snd (handle_cmd (wo_features wo) (wo_watch wo) (wo_show_error wo) preflight kind s))
                      (en\<lparr>en_events := es\<rparr>)
                | CommandsClosed \<Rightarrow> Some (None, s, en\<lparr>en_events := es\<rparr>)
                | TransportEnded r \<Rightarrow> Some (None, s, en\<lparr>en_events := es\<rparr>)
                | TrayGone \<Rightarrow> ibus_loop wo (s\<lparr>su_observed := False\<rparr>) (en\<lparr>en_events := es\<rparr>))))"
  by pat_completeness auto
termination
  by (relation "measure (\<lambda>(wo, s, en). 2 * env_size en + (if su_pending s = None then 0 else 1))")
    (auto simp: env_size_def publish_backend_def dest!: evdev_slot_size)

declare ibus_loop.simps [simp del]

lemma ibus_loop_size:
  "ibus_loop wo s en = Some (r, s1, en1) \<Longrightarrow> env_size en1 \<le> env_size en"
proof (induction wo s en rule: ibus_loop.induct)
  case (1 wo s en)
  from "1.prems" show ?case
    apply (subst (asm) ibus_loop.simps)
    apply (simp split: option.splits pending_action.splits input_backend.splits prod.splits if_splits
        list.splits sv_event.splits)
           apply (use "1.IH" evdev_slot_size in \<open>fastforce simp: env_size_def\<close>)+
    done
qed

definition run_ibus_loop ::
    "'w world_ops \<Rightarrow> supervisor \<Rightarrow> 'w env \<Rightarrow> (sv_error option \<times> supervisor \<times> 'w env) option" where
  "run_ibus_loop wo s0 en =
     (let s = s0\<lparr>su_ibus_suspend := Some False\<rparr> in
      case en_starts en of
        [] \<Rightarrow> None
      | st # sts \<Rightarrow>
          (let en1 = en\<lparr>en_starts := sts\<rparr> in
           case st_connect st of
             Some e \<Rightarrow> Some (Some (IbusConnect e), s, en1)
           | None \<Rightarrow> ibus_loop wo (publish_backend (wo_watch wo) IbusBackend s) en1))"

definition run_single ::
    "'w world_ops \<Rightarrow> input_backend \<Rightarrow> supervisor \<Rightarrow> 'w env \<Rightarrow>
      (sv_error option \<times> supervisor \<times> 'w env) option" where
  "run_single wo b s en =
     (case b of
        WaylandBackend \<Rightarrow> run_wayland_loop wo s en
      | IbusBackend \<Rightarrow>
          if ft_ibus (wo_features wo) then run_ibus_loop wo s en
          else Some (Some IbusNotCompiled, s, en)
      | EvdevBackend \<Rightarrow> run_evdev_loop wo s en
      | AutoBackend \<Rightarrow> Some (Some AutoNotResolved, s, en))"

lemma run_single_size:
  assumes "run_single wo b s en = Some (r, s1, en1)"
  shows "env_size en1 < env_size en \<or> (s1 = s \<and> en1 = en)"
proof -
  have "env_size en1 < env_size en" if "run_ibus_loop wo s en = Some (r, s1, en1)"
    using that by (auto simp: run_ibus_loop_def env_size_def Let_def split: list.splits option.splits
        dest!: ibus_loop_size)
  with assms show ?thesis
    by (auto simp: run_single_def dest: wayland_loop_size evdev_loop_size
        split: input_backend.splits if_splits)
qed

section \<open>The outer loop\<close>

lemma native_not_evdev [simp]: "native_from_config ft cfg \<noteq> EvdevBackend"
  by (simp add: native_from_config_def)

text \<open>The loop of \<open>run\<close>: it also answers with the backend that ran last.\<close>

function run_loop ::
    "'w world_ops \<Rightarrow> input_backend \<Rightarrow> supervisor \<Rightarrow> 'w env \<Rightarrow>
      (sv_error option \<times> input_backend \<times> supervisor \<times> 'w env) option" where
  "run_loop wo current s en =
     (case run_single wo current s en of
        None \<Rightarrow> None
      | Some (r, s1, en1) \<Rightarrow>
          (case su_pending s1 of
             Some (SwitchTo b) \<Rightarrow> run_loop wo b (s1\<lparr>su_pending := None\<rparr>) en1
           | Some QuitAction \<Rightarrow> Some (r, current, s1\<lparr>su_pending := None\<rparr>, en1)
           | None \<Rightarrow>
               if current = EvdevBackend \<and> r \<noteq> None
                  \<and> native_from_config (wo_features wo) (su_config s1) \<noteq> AutoBackend
               then run_loop wo (native_from_config (wo_features wo) (su_config s1)) s1 en1
               else Some (r, current, s1, en1)))"
  by pat_completeness auto
termination
  by (relation "measure (\<lambda>(wo, b, s, en). 4 * env_size en + (if su_pending s = None then 0 else 2)
        + (if b = EvdevBackend then 1 else 0))")
    (auto dest!: run_single_size)

declare run_loop.simps [simp del]

definition run ::
    "'w world_ops \<Rightarrow> supervisor \<Rightarrow> 'w env \<Rightarrow>
      (sv_error option \<times> input_backend \<times> supervisor \<times> 'w env) option" where
  "run wo s0 en0 =
     (let en = (if ft_evdev_grab (wo_features wo)
                then en0\<lparr>en_world := snd (recover_stale_rollback (wo_os wo) (wo_hook_dir wo) (su_config s0)
                                            (sv_runner wo) (en_world en0))\<rparr>
                else en0);
          current = startup_from_config (wo_features wo) (su_config s0)
      in if current = AutoBackend then Some (Some NoBackendEnabled, current, s0, en)
         else (let s = (if cf_enable_evdev_grab (su_config s0) \<and> current \<noteq> EvdevBackend
                        then s0\<lparr>su_pending := Some (SwitchTo EvdevBackend)\<rparr> else s0)
               in run_loop wo current s en))"

end
