(* ===== verification/HookLaws.thy ===== *)
theory HookLaws
  imports Supervisor "HOL-Library.Sublist"
begin

text \<open>
  The contracts around the hook scripts of \<^verbatim>\<open>daemon/src/evdev\_hooks.rs\<close>: the locale
  \<open>honest_runner\<close> says what running the scripts of some hooks does, \<open>honest_files\<close> what the file
  system does with the rollback marker, \<open>hook_system\<close> both together. Under them setup, cleanup and
  the whole evdev transport are shown to undo what they do. \<open>script_programs\<close> is the contract of the
  programs themselves; under it the daemon's own runner, \<open>process_hook_runner\<close>, is honest.
\<close>

section \<open>Running scripts\<close>

text \<open>
  \<open>F w\<close> lists the hooks in force in world \<open>w\<close>, the latest first. A set script that exits with 0
  puts its hook in force and any other outcome changes nothing; undoing the latest hook succeeds.
\<close>

locale honest_runner =
  fixes runner :: "'w hook_runner" and F :: "'w \<Rightarrow> ustr list" and hooks :: "hook_spec list"
  assumes set_law: "h \<in> set hooks \<Longrightarrow>
      F (snd (runner (hk_set_path h) (lit ''set'') (hk_name h) w)) =
        (if fst (runner (hk_set_path h) (lit ''set'') (hk_name h) w) = Inr 0
         then hk_name h # F w else F w)"
    and unset_law: "h \<in> set hooks \<Longrightarrow> F w = hk_name h # rest \<Longrightarrow>
      fst (runner (hk_unset_path h) (lit ''unset'') (hk_name h) w) = Inr 0 \<and>
      F (snd (runner (hk_unset_path h) (lit ''unset'') (hk_name h) w)) = rest"

lemma honest_runner_mono:
  "honest_runner runner F hooks \<Longrightarrow> set hooks' \<subseteq> set hooks \<Longrightarrow> honest_runner runner F hooks'"
  by (auto simp: honest_runner_def)

text \<open>The ways one hook can go in the setup.\<close>

lemma run_setup_loop_cases:
  assumes "run_setup_loop os runner cf (h # hs) applied outs w = (res, w')"
  obtains (missing) "run_setup_loop os runner cf hs applied (outs @ [HookSkipped (hk_name h)]) w = (res, w')"
    | (broken) e where "runner (hk_set_path h) (lit ''set'') (hk_name h) w = (Inl e, w')" "res = Inl e"
    | (taken) w1 where "runner (hk_set_path h) (lit ''set'') (hk_name h) w = (Inr 0, w1)"
        "run_setup_loop os runner cf hs (applied @ [h]) (outs @ [HookApplied (hk_name h)]) w1 = (res, w')"
    | (skipped) w1 where "runner (hk_set_path h) (lit ''set'') (hk_name h) w = (Inr 10, w1)"
        "run_setup_loop os runner cf hs applied (outs @ [HookSkipped (hk_name h)]) w1 = (res, w')"
    | (refused) code w1 where "runner (hk_set_path h) (lit ''set'') (hk_name h) w = (Inr code, w1)" "code \<noteq> 0"
        "res = Inl (SetFailed (hk_name h) code)" "w' = snd (run_cleanup_hooks applied runner w1)"
proof (cases "cf \<and> \<not> hook_scripts_present os w h")
  case True
  with assms missing show ?thesis by simp
next
  case False
  obtain r w1 where r: "runner (hk_set_path h) (lit ''set'') (hk_name h) w = (r, w1)"
    by (cases "runner (hk_set_path h) (lit ''set'') (hk_name h) w")
  note step = assms [simplified run_setup_loop.simps if_not_P [OF False] r prod.case]
  show ?thesis
  proof (cases r)
    case (Inl e)
    with step have "res = Inl e" "w' = w1" by simp_all
    with broken r Inl show ?thesis by simp
  next
    case (Inr code)
    consider "code = 0" | "code = 10" | "code \<noteq> 0" "code \<noteq> 10" by blast
    then show ?thesis
    proof cases
      case 1
      with taken r Inr step show ?thesis by simp
    next
      case 2
      with skipped r Inr step show ?thesis by simp
    next
      case 3
      with step Inr have "res = Inl (SetFailed (hk_name h) code)" "w' = snd (run_cleanup_hooks applied runner w1)"
        by (simp_all add: run_cleanup_hooks_def)
      with refused r Inr 3 show ?thesis by simp
    qed
  qed
qed

context honest_runner
begin

lemma set_step:
  "h \<in> set hooks \<Longrightarrow> runner (hk_set_path h) (lit ''set'') (hk_name h) w = (r, w') \<Longrightarrow>
   F w' = (if r = Inr 0 then hk_name h # F w else F w)"
  using set_law [of h w] by simp

lemma unset_step:
  "h \<in> set hooks \<Longrightarrow> F w = hk_name h # rest \<Longrightarrow>
   \<exists>w'. runner (hk_unset_path h) (lit ''unset'') (hk_name h) w = (Inr 0, w') \<and> F w' = rest"
  using unset_law [of h w rest] by (metis prod.collapse)

lemma cleanup_loop_exact:
  "set hs \<subseteq> set hooks \<Longrightarrow> F w = map hk_name hs @ base \<Longrightarrow>
   \<exists>w'. run_cleanup_loop runner hs err w = (err, w') \<and> F w' = base"
proof (induction hs arbitrary: w)
  case (Cons h hs)
  then obtain w1 where
    "runner (hk_unset_path h) (lit ''unset'') (hk_name h) w = (Inr 0, w1)" "F w1 = map hk_name hs @ base"
    using unset_step [of h w "map hk_name hs @ base"] by auto
  with Cons show ?case by simp
qed simp

lemma cleanup_exact:
  "set applied \<subseteq> set hooks \<Longrightarrow> F w = rev (map hk_name applied) @ base \<Longrightarrow>
   \<exists>w'. run_cleanup_hooks applied runner w = (None, w') \<and> F w' = base"
  using cleanup_loop_exact [of "rev applied" w base None]
  by (simp add: run_cleanup_hooks_def run_cleanup_hooks_inner_def rev_map)

lemma setup_loop_ok:
  assumes "set hs \<subseteq> set hooks"
    and "run_setup_loop os runner cf hs applied outs w = (Inr (applied', outs'), w')"
    and "F w = rev (map hk_name applied) @ base"
  shows "\<exists>new. applied' = applied @ new \<and> subseq new hs \<and> F w' = rev (map hk_name applied') @ base"
  using assms
proof (induction hs arbitrary: applied outs w)
  case Nil
  then have "applied' = applied" "w' = w" by simp_all
  with Nil.prems(3) show ?case by (intro exI [of _ "[]"]) simp
next
  case (Cons h hs)
  from Cons.prems(1) have h: "h \<in> set hooks" and hs: "set hs \<subseteq> set hooks" by simp_all
  from Cons.prems(2) show ?case
  proof (cases rule: run_setup_loop_cases)
    case missing
    from Cons.IH [OF hs this Cons.prems(3)] show ?thesis by auto
  next
    case (taken w1)
    from set_step [OF h taken(1)] Cons.prems(3) have "F w1 = rev (map hk_name (applied @ [h])) @ base" by simp
    from Cons.IH [OF hs taken(2) this] obtain new where
      "applied' = (applied @ [h]) @ new" "subseq new hs" "F w' = rev (map hk_name applied') @ base" by blast
    then show ?thesis by (intro exI [of _ "h # new"]) simp
  next
    case (skipped w1)
    from set_step [OF h skipped(1)] Cons.prems(3) have "F w1 = rev (map hk_name applied) @ base" by simp
    from Cons.IH [OF hs skipped(2) this] show ?thesis by auto
  qed auto
qed

lemma setup_hooks_ok:
  assumes "set hs \<subseteq> set hooks" "run_setup_hooks os hs runner w = (Inr (applied, outs), w')"
  shows "subseq applied hs" "F w' = rev (map hk_name applied) @ F w"
  using setup_loop_ok [of hs os True "[]" "[]" w applied outs w' "F w"] assms
  by (auto simp: run_setup_hooks_def run_setup_hooks_inner_def)

text \<open>A setup that a failing set script ends has undone what it had applied.\<close>

lemma setup_loop_failed:
  assumes "set (applied @ hs) \<subseteq> set hooks"
    and "run_setup_loop os runner cf hs applied outs w = (Inl e, w')"
    and "F w = rev (map hk_name applied) @ base"
  shows "F w' = base \<or> (\<exists>h\<in>set hs. \<exists>w1. fst (runner (hk_set_path h) (lit ''set'') (hk_name h) w1) = Inl e)"
  using assms
proof (induction hs arbitrary: applied outs w)
  case (Cons h hs)
  from Cons.prems(1) have h: "h \<in> set hooks" and a: "set applied \<subseteq> set hooks"
    and hs: "set (applied @ hs) \<subseteq> set hooks" "set ((applied @ [h]) @ hs) \<subseteq> set hooks" by auto
  from Cons.prems(2) show ?case
  proof (cases rule: run_setup_loop_cases)
    case missing
    from Cons.IH [OF hs(1) this Cons.prems(3)] show ?thesis by auto
  next
    case (broken e')
    then have "fst (runner (hk_set_path h) (lit ''set'') (hk_name h) w) = Inl e" by simp
    then show ?thesis by auto
  next
    case (taken w1)
    from set_step [OF h taken(1)] Cons.prems(3) have "F w1 = rev (map hk_name (applied @ [h])) @ base" by simp
    from Cons.IH [OF hs(2) taken(2) this] show ?thesis by auto
  next
    case (skipped w1)
    from set_step [OF h skipped(1)] Cons.prems(3) have "F w1 = rev (map hk_name applied) @ base" by simp
    from Cons.IH [OF hs(1) skipped(2) this] show ?thesis by auto
  next
    case (refused code w1)
    from set_step [OF h refused(1)] refused(2) Cons.prems(3) have "F w1 = rev (map hk_name applied) @ base" by simp
    from cleanup_exact [OF a this] refused(4) have "F w' = base" by fastforce
    then show ?thesis ..
  qed
qed simp

lemma setup_hooks_failed:
  assumes "run_setup_hooks os hooks runner w = (Inl e, w')"
  shows "F w' = F w \<or> (\<exists>h\<in>set hooks. \<exists>w1. fst (runner (hk_set_path h) (lit ''set'') (hk_name h) w1) = Inl e)"
  using setup_loop_failed [of "[]" hooks os True "[]" w e w' "F w"] assms
  by (simp add: run_setup_hooks_def run_setup_hooks_inner_def)

end

section \<open>The daemon's runner\<close>

text \<open>
  The programs: a set script that is found valid and exits with 0 puts its hook in force, and does
  nothing otherwise; the unset script of the latest hook is valid, exits with 0 and undoes it.
\<close>

locale script_programs =
  fixes os :: "'w os" and dir :: "ustr option" and F :: "'w \<Rightarrow> ustr list" and hooks :: "hook_spec list"
  assumes set_program: "h \<in> set hooks \<Longrightarrow> validate_hook_script_path os w (hk_set_path h) = Inr p \<Longrightarrow>
      F (snd (os_status os p (hook_environment os dir (lit ''set'') (hk_name h) w) w)) =
        (if fst (os_status os p (hook_environment os dir (lit ''set'') (hk_name h) w) w) = Inr (Some 0)
         then hk_name h # F w else F w)"
    and unset_program: "h \<in> set hooks \<Longrightarrow> F w = hk_name h # rest \<Longrightarrow>
      \<exists>p. validate_hook_script_path os w (hk_unset_path h) = Inr p \<and>
        fst (os_status os p (hook_environment os dir (lit ''unset'') (hk_name h) w) w) = Inr (Some 0) \<and>
        F (snd (os_status os p (hook_environment os dir (lit ''unset'') (hk_name h) w) w)) = rest"

lemma exit_code_0 [simp]: "exit_code st = 0 \<longleftrightarrow> st = Some 0"
  by (simp add: exit_code_def split: option.split)

sublocale script_programs \<subseteq> process: honest_runner "process_hook_runner os dir" F hooks
proof
  fix h w
  assume h: "h \<in> set hooks"
  show "F (snd (process_hook_runner os dir (hk_set_path h) (lit ''set'') (hk_name h) w)) =
      (if fst (process_hook_runner os dir (hk_set_path h) (lit ''set'') (hk_name h) w) = Inr 0
       then hk_name h # F w else F w)"
  proof (cases "validate_hook_script_path os w (hk_set_path h)")
    case (Inr p)
    from set_program [OF h this] Inr show ?thesis
      by (auto simp: process_hook_runner_def split: prod.splits sum.splits)
  qed (simp add: process_hook_runner_def)
next
  fix h w rest
  assume "h \<in> set hooks" "F w = hk_name h # rest"
  from unset_program [OF this]
  show "fst (process_hook_runner os dir (hk_unset_path h) (lit ''unset'') (hk_name h) w) = Inr 0 \<and>
      F (snd (process_hook_runner os dir (hk_unset_path h) (lit ''unset'') (hk_name h) w)) = rest"
    by (auto simp: process_hook_runner_def split: prod.splits sum.splits)
qed

section \<open>The marker\<close>

text \<open>The files by their content; the operations on them leave the hooks in force alone.\<close>

locale honest_files =
  fixes os :: "'w os" and files :: "'w \<Rightarrow> path \<Rightarrow> ustr option" and F :: "'w \<Rightarrow> ustr list"
  assumes open_law: "fst (os_open_truncate os p w) = None \<Longrightarrow>
      files (snd (os_open_truncate os p w)) = (files w)(p := Some [])"
    and write_law: "fst (os_write_all os p t w) = None \<Longrightarrow>
      files (snd (os_write_all os p t w)) = (files w)(p := map_option (\<lambda>c. c @ t) (files w p))"
    and sync_law: "fst (os_sync_all os p w) = None \<Longrightarrow> files (snd (os_sync_all os p w)) = files w"
    and rename_law: "fst (os_rename os p q w) = None \<Longrightarrow>
      files (snd (os_rename os p q w)) = (files w)(q := files w p, p := None)"
    and chmod_law: "fst (os_set_permissions os p m w) = None \<Longrightarrow>
      files (snd (os_set_permissions os p m w)) = files w"
    and remove_law: "files (snd (os_remove_file os p w)) = (files w)(p := None)"
    and read_law: "files w p = Some t \<Longrightarrow> os_read_to_string os w p = Inr t"
    and exists_law: "os_exists os w p \<longleftrightarrow> files w p \<noteq> None"
    and keeps: "F (snd (os_open_truncate os p w)) = F w" "F (snd (os_write_all os p t w)) = F w"
      "F (snd (os_sync_all os p w)) = F w" "F (snd (os_rename os p q w)) = F w"
      "F (snd (os_set_permissions os p m w)) = F w" "F (snd (os_remove_file os p w)) = F w"

lemma try_steps_keep:
  "(\<And>f w. f \<in> set fs \<Longrightarrow> F (snd (f w)) = F w) \<Longrightarrow> F (snd (try_steps fs w)) = F w"
proof (induction fs arbitrary: w)
  case (Cons f fs)
  from Cons.prems [of f w] have "F (snd (f w)) = F w" by simp
  with Cons show ?case by (cases "f w") (auto split: option.splits)
qed simp

lemma try_steps_Cons_ok:
  "try_steps (f # fs) w = (None, w') \<longleftrightarrow> fst (f w) = None \<and> try_steps fs (snd (f w)) = (None, w')"
  by (cases "f w") (auto split: option.splits)

lemma marker_tmp_neq [simp]: "marker_tmp os path \<noteq> path" "path \<noteq> marker_tmp os path"
  by (auto simp: marker_tmp_def lit_def)

context honest_files
begin

lemma marker_write_keeps: "F (snd (write_rollback_marker os applied w)) = F w"
  by (auto simp: write_rollback_marker_def keeps simp del: try_steps.simps split: sum.splits
      intro!: try_steps_keep)

lemma marker_written:
  assumes "applied \<noteq> []" "rollback_marker_path os = Inr path"
    and "write_rollback_marker os applied w = (None, w')"
  shows "\<exists>json. os_marker_to_json os applied = Inr json \<and> files w' path = Some json"
proof -
  from assms obtain json where j: "os_marker_to_json os applied = Inr json"
    and t: "try_steps [os_open_truncate os (marker_tmp os path), os_write_all os (marker_tmp os path) json,
      os_sync_all os (marker_tmp os path), os_rename os (marker_tmp os path) path,
      os_set_permissions os path 0x180] w = (None, w')"
    by (auto simp: write_rollback_marker_def split: sum.splits)
  from t have "files w' path = Some json"
    unfolding try_steps_Cons_ok by (auto simp: open_law write_law sync_law rename_law chmod_law)
  with j show ?thesis by blast
qed

lemma marker_clear_keeps: "F (clear_rollback_marker os w) = F w"
  by (auto simp: clear_rollback_marker_def keeps split: sum.splits)

lemma marker_cleared:
  "rollback_marker_path os = Inr path \<Longrightarrow> files (clear_rollback_marker os w) path = None"
  by (simp add: clear_rollback_marker_def remove_law)

end

section \<open>Both together\<close>

text \<open>Scripts and files behave, the set scripts can always be run and the marker always written.\<close>

locale hook_files = run: honest_runner runner F hooks + fs: honest_files os files F
  for runner :: "'w hook_runner" and F :: "'w \<Rightarrow> ustr list" and hooks :: "hook_spec list"
    and os :: "'w os" and files :: "'w \<Rightarrow> path \<Rightarrow> ustr option"

locale hook_system = hook_files +
  assumes set_runs: "h \<in> set hooks \<Longrightarrow> \<exists>c. fst (runner (hk_set_path h) (lit ''set'') (hk_name h) w) = Inr c"
    and marker_writes: "fst (write_rollback_marker os applied w) = None"

context hook_files
begin

lemma setup_task_ok:
  assumes "setup_task os runner hooks w = (Inr applied, w')"
  shows "set applied \<subseteq> set hooks" "F w' = rev (map hk_name applied) @ F w"
proof -
  from assms obtain outs w1 where s: "run_setup_hooks os hooks runner w = (Inr (applied, outs), w1)"
    and w: "write_rollback_marker os applied w1 = (None, w')"
    by (auto simp: setup_task_def split: prod.splits sum.splits option.splits)
  from run.setup_hooks_ok [OF subset_refl s]
  have "subseq applied hooks" "F w1 = rev (map hk_name applied) @ F w" .
  with w fs.marker_write_keeps [of applied w1]
  show "F w' = rev (map hk_name applied) @ F w" "set applied \<subseteq> set hooks"
    by (auto dest: list_emb_set)
qed

text \<open>What a setup has applied, a cleanup undoes, also when it starts from the marker.\<close>

lemma cleanup_after_setup:
  assumes "setup_task os runner hooks w = (Inr applied, w1)"
  shows "\<exists>w2. run_cleanup_hooks applied runner w1 = (None, w2) \<and> F w2 = F w"
  using run.cleanup_exact [OF setup_task_ok [OF assms]] .

end

context hook_system
begin

lemma setup_task_failed:
  assumes "setup_task os runner hooks w = (Inl e, w')"
  shows "F w' = F w"
proof -
  have m: "write_rollback_marker os applied w1 \<noteq> (Some x, w2)" for applied w1 x w2
    using marker_writes [of applied w1] by auto
  from assms have "run_setup_hooks os hooks runner w = (Inl e, w')"
    by (auto simp: setup_task_def m split: prod.splits sum.splits option.splits)
  from run.setup_hooks_failed [OF this] set_runs show ?thesis by (metis sum.distinct(1))
qed

lemma transport_restores: "F (snd (evdev_transport os runner hooks r w)) = F w"
proof (cases "setup_task os runner hooks w")
  case (Pair s w1)
  show ?thesis
  proof (cases s)
    case (Inl e)
    with Pair setup_task_failed [of w e w1] show ?thesis by (simp add: evdev_transport_def)
  next
    case (Inr applied)
    with Pair cleanup_after_setup [of w applied w1]
    obtain w2 where "run_cleanup_hooks applied runner w1 = (None, w2)" "F w2 = F w" by auto
    with Pair Inr show ?thesis by (simp add: evdev_transport_def fs.marker_clear_keeps)
  qed
qed

end

end
