(* ===== verification/SupervisorLemmas.thy ===== *)
theory SupervisorLemmas
  imports HookLaws
begin

text \<open>
  The lemmas on the supervisor's loops: what they leave alone, and that whatever they run leaves
  the hooks in force as they were, by the contracts of \<open>HookLaws\<close>.
\<close>

section \<open>The loops\<close>

lemma handle_cmd_frame [simp]:
  "su_config (snd (handle_cmd ft wl sh pf kind s)) = su_config s"
  "su_ibus_suspend (snd (handle_cmd ft wl sh pf kind s)) = su_ibus_suspend s"
  by (auto simp: handle_cmd_def publish_enabled_def Let_def split: cmd_kind.splits sum.splits)

lemma publish_backend_frame [simp]:
  "su_config (publish_backend wl b s) = su_config s"
  "su_ibus_suspend (publish_backend wl b s) = su_ibus_suspend s"
  "su_pending (publish_backend wl b s) = su_pending s"
  by (simp_all add: publish_backend_def)

lemma set_suspend_frame [simp]:
  "su_config (set_suspend v s) = su_config s" "su_pending (set_suspend v s) = su_pending s"
  "su_ibus_suspend (set_suspend v s) = map_option (\<lambda>_. v) (su_ibus_suspend s)"
  by (simp_all add: set_suspend_def)

lemma transport_loop_frame:
  "transport_loop ft wl sh s es = Some (ex, s1, es1) \<Longrightarrow>
   su_config s1 = su_config s \<and> su_ibus_suspend s1 = su_ibus_suspend s \<and> set es1 \<subseteq> set es \<and>
   (ex = ChannelClosed \<longrightarrow> CommandsClosed \<in> set es)"
  by (induction ft wl sh s es rule: transport_loop.induct) (auto split: if_splits sv_event.splits)

lemma transport_loop_subset:
  "transport_loop ft wl sh s es = Some (ex, s1, es1) \<Longrightarrow> e \<in> set es1 \<Longrightarrow> e \<in> set es"
  using transport_loop_frame by blast

text \<open>
  The hooks of configuration \<open>cfg\<close> behave, their scripts can always be run, and the marker can
  always be written.
\<close>

definition hook_world ::
    "'w world_ops \<Rightarrow> ('w \<Rightarrow> path \<Rightarrow> ustr option) \<Rightarrow> ('w \<Rightarrow> ustr list) \<Rightarrow> config \<Rightarrow> bool" where
  "hook_world wo files F cfg \<longleftrightarrow>
     honest_files (wo_os wo) files F \<and>
     (\<forall>applied w. fst (write_rollback_marker (wo_os wo) applied w) = None) \<and>
     (\<forall>w hooks. resolve_hooks (wo_os wo) (wo_hook_dir wo) w cfg = Inr hooks \<longrightarrow>
        honest_runner (sv_runner wo) F hooks \<and>
        (\<forall>h\<in>set hooks. \<forall>w'. \<exists>c. fst (sv_runner wo (hk_set_path h) (lit ''set'') (hk_name h) w') = Inr c))"

lemma hook_world_system:
  assumes "hook_world wo files F cfg" "resolve_hooks (wo_os wo) (wo_hook_dir wo) w0 cfg = Inr hooks"
  shows "hook_system (sv_runner wo) F hooks (wo_os wo) files"
proof (intro hook_system.intro hook_files.intro hook_system_axioms.intro)
  show "honest_runner (sv_runner wo) F hooks" "honest_files (wo_os wo) files F"
    using assms by (auto simp: hook_world_def)
  show "\<exists>c. fst (sv_runner wo (hk_set_path h) (lit ''set'') (hk_name h) w) = Inr c" if "h \<in> set hooks" for h w
    using assms that by (auto simp: hook_world_def)
  show "fst (write_rollback_marker (wo_os wo) applied w) = None" for applied w
    using assms(1) by (simp add: hook_world_def)
qed

definition settled_env :: "('w \<Rightarrow> ustr list) \<Rightarrow> 'w env \<Rightarrow> 'w env \<Rightarrow> bool" where
  "settled_env F en en1 \<longleftrightarrow> set (en_events en1) \<subseteq> set (en_events en) \<and> F (en_world en1) = F (en_world en)"

lemma settled_env_refl [simp]: "settled_env F en en"
  by (simp add: settled_env_def)

lemma settled_env_trans: "settled_env F en en1 \<Longrightarrow> settled_env F en1 en2 \<Longrightarrow> settled_env F en en2"
  by (auto simp: settled_env_def)

lemma evdev_exit_restores:
  assumes "hook_world wo files F cfg" "resolve_hooks (wo_os wo) (wo_hook_dir wo) w0 cfg = Inr hooks"
    and "ex \<noteq> ChannelClosed"
  shows "F (snd (evdev_exit (wo_os wo) (sv_runner wo) hooks ex w)) = F w"
proof -
  from hook_world_system [OF assms(1,2)]
  have "F (snd (evdev_transport (wo_os wo) (sv_runner wo) hooks r w)) = F w" for r
    by (rule hook_system.transport_restores)
  with assms(3) show ?thesis by (cases ex) (simp_all add: evdev_exit_def)
qed

lemma wayland_loop_settled:
  "run_wayland_loop wo s en = Some (r, s1, en1) \<Longrightarrow>
   su_config s1 = su_config s \<and> su_ibus_suspend s1 = su_ibus_suspend s \<and> settled_env F en en1"
  by (auto simp: run_wayland_loop_def settled_env_def Let_def
      split: list.splits option.splits prod.splits dest!: transport_loop_frame)

lemma evdev_loop_settled:
  assumes "hook_world wo files F (su_config s)" "CommandsClosed \<notin> set (en_events en)"
    and "run_evdev_loop wo s en = Some (r, s1, en1)"
  shows "su_config s1 = su_config s \<and> su_ibus_suspend s1 = su_ibus_suspend s \<and> settled_env F en en1"
proof -
  have f: "F w = F w0"
    if "evdev_exit (wo_os wo) (sv_runner wo) hooks ex w0 = (r', w)"
      "resolve_hooks (wo_os wo) (wo_hook_dir wo) w0 (su_config s) = Inr hooks"
      "transport_loop ft wl sh s2 (en_events en) = Some (ex, s3, es)" for hooks ex w0 w r' ft wl sh s2 s3 es
  proof -
    from transport_loop_frame [OF that(3)] assms(2) have "ex \<noteq> ChannelClosed" by blast
    from evdev_exit_restores [OF assms(1) that(2) this, of w0] that(1) show ?thesis by simp
  qed
  from assms(3) show ?thesis
    by (auto simp: run_evdev_loop_def settled_env_def Let_def f
        split: if_splits list.splits option.splits sum.splits prod.splits
        dest: transport_loop_frame transport_loop_subset)
qed

lemma evdev_slot_settled:
  assumes "hook_world wo files F (su_config s)" "CommandsClosed \<notin> set (en_events en)"
    and "run_evdev_in_ibus_slot wo s en = Some (s1, en1)"
  shows "su_config s1 = su_config s \<and> settled_env F en en1"
proof -
  have f: "F (snd (evdev_exit (wo_os wo) (sv_runner wo) hooks ex w0)) = F w0"
    if "resolve_hooks (wo_os wo) (wo_hook_dir wo) w0 (su_config s) = Inr hooks"
      "transport_loop ft wl sh s2 (en_events en) = Some (ex, s3, es)" for hooks ex w0 ft wl sh s2 s3 es
  proof -
    from transport_loop_frame [OF that(2)] assms(2) have "ex \<noteq> ChannelClosed" by blast
    from evdev_exit_restores [OF assms(1) that(1) this] show ?thesis .
  qed
  from assms(3) show ?thesis
    by (auto simp: run_evdev_in_ibus_slot_def settled_env_def Let_def f
        split: if_splits list.splits option.splits sum.splits prod.splits
        dest: transport_loop_frame transport_loop_subset)
qed

lemma evdev_slot_suspend:
  assumes "run_evdev_in_ibus_slot wo s en = Some (s1, en1)" "su_ibus_suspend s \<noteq> Some True"
  shows "su_ibus_suspend s1 \<noteq> Some True"
  using assms
  by (auto simp: run_evdev_in_ibus_slot_def Let_def
      split: if_splits list.splits option.splits sum.splits prod.splits dest: transport_loop_frame)

text \<open>One step of the IBus loop: it stops, or goes on after a command, the tray's end or the slot.\<close>

inductive ibus_step :: "'w world_ops \<Rightarrow> supervisor \<Rightarrow> 'w env \<Rightarrow> supervisor \<Rightarrow> 'w env \<Rightarrow> bool" for wo where
  slot_back: "su_pending s = Some (SwitchTo EvdevBackend) \<Longrightarrow>
    run_evdev_in_ibus_slot wo (s\<lparr>su_pending := None\<rparr>) en = Some (s1, en1) \<Longrightarrow>
    ibus_step wo s en (publish_backend (wo_watch wo) IbusBackend (s1\<lparr>su_pending := None\<rparr>)) en1"
| command: "en_events en = Received kind pf # es \<Longrightarrow>
    ibus_step wo s en (snd (handle_cmd (wo_features wo) (wo_watch wo) (wo_show_error wo) pf kind s))
      (en\<lparr>en_events := es\<rparr>)"
| tray_gone: "en_events en = TrayGone # es \<Longrightarrow>
    ibus_step wo s en (s\<lparr>su_observed := False\<rparr>) (en\<lparr>en_events := es\<rparr>)"

inductive ibus_stop :: "'w world_ops \<Rightarrow> supervisor \<Rightarrow> 'w env \<Rightarrow> supervisor \<Rightarrow> 'w env \<Rightarrow> bool" for wo where
  left_alone: "su_pending s \<noteq> None \<Longrightarrow> ibus_stop wo s en s en"
| slot_away: "run_evdev_in_ibus_slot wo (s\<lparr>su_pending := None\<rparr>) en = Some (s1, en1) \<Longrightarrow> ibus_stop wo s en s1 en1"
| over: "su_pending s = None \<Longrightarrow> en_events en = e # es \<Longrightarrow> ibus_stop wo s en s (en\<lparr>en_events := es\<rparr>)"

text \<open>What every step keeps and the last one gives holds of the loop's end.\<close>

lemma ibus_loop_rule:
  assumes "ibus_loop wo s en = Some (r, s1, en1)" "Q s en"
    and step: "\<And>s en s1 en1. Q s en \<Longrightarrow> ibus_step wo s en s1 en1 \<Longrightarrow> Q s1 en1"
    and stop: "\<And>s en s1 en1. Q s en \<Longrightarrow> ibus_stop wo s en s1 en1 \<Longrightarrow> R s1 en1"
  shows "r = None \<and> R s1 en1"
  using assms
proof (induction wo s en rule: ibus_loop.induct)
  case (1 wo s en)
  note step = "1.prems"(3) and stop = "1.prems"(4)
  note eq = "1.prems"(1) [unfolded ibus_loop.simps [of wo s en]]
  show ?case
  proof (cases "su_pending s")
    case None
    note eq = eq [unfolded None option.case]
    show ?thesis
    proof (cases "en_events en")
      case Nil
      with eq show ?thesis by simp
    next
      case (Cons e es)
      note over = stop [OF "1.prems"(2) over [OF None Cons]]
      show ?thesis
      proof (cases e)
        case (Received kind pf)
        with eq Cons have "ibus_loop wo (snd (handle_cmd (wo_features wo) (wo_watch wo) (wo_show_error wo) pf kind s))
          (en\<lparr>en_events := es\<rparr>) = Some (r, s1, en1)" by simp
        from "1.IH"(1) [OF None Cons Received this step [OF "1.prems"(2) command [OF Cons [unfolded Received]]] step stop]
        show ?thesis .
      next
        case TrayGone
        with eq Cons have "ibus_loop wo (s\<lparr>su_observed := False\<rparr>) (en\<lparr>en_events := es\<rparr>) = Some (r, s1, en1)" by simp
        from "1.IH"(2) [OF None Cons TrayGone this step [OF "1.prems"(2) tray_gone [OF Cons [unfolded TrayGone]]] step stop]
        show ?thesis .
      qed (use eq Cons over in auto)
    qed
  next
    case (Some a)
    show ?thesis
    proof (cases "a = SwitchTo EvdevBackend")
      case True
      note pend = Some [unfolded True]
      from eq pend obtain s2 en2 where
        slot: "run_evdev_in_ibus_slot wo (s\<lparr>su_pending := None\<rparr>) en = Some (s2, en2)"
        by (auto split: option.splits)
      show ?thesis
      proof (cases "su_pending s2 = None \<or> su_pending s2 = Some (SwitchTo IbusBackend)")
        case True
        with eq pend slot have
          "ibus_loop wo (publish_backend (wo_watch wo) IbusBackend (s2\<lparr>su_pending := None\<rparr>)) en2 = Some (r, s1, en1)"
          by simp
        from "1.IH"(3) [OF pend refl refl slot refl True this step [OF "1.prems"(2) slot_back [OF pend slot]] step stop]
        show ?thesis .
      next
        case False
        with eq pend slot have "r = None" "s1 = s2" "en1 = en2" by auto
        with stop [OF "1.prems"(2) slot_away [OF slot]] show ?thesis by simp
      qed
    next
      case False
      with eq Some have "r = None" "s1 = s" "en1 = en"
        by (auto split: pending_action.splits input_backend.splits)
      with stop [OF "1.prems"(2) left_alone] Some show ?thesis by simp
    qed
  qed
qed

text \<open>The same for the outer loop.\<close>

lemma no_pending_upd [simp]: "su_pending s = None \<Longrightarrow> s\<lparr>su_pending := None\<rparr> = s"
  by (cases s) simp

lemma run_loop_rule:
  assumes "run_loop wo b s en = Some (r, b1, s1, en1)" "Q b s en"
    and switch: "\<And>b s en r s1 en1 b'. Q b s en \<Longrightarrow> run_single wo b s en = Some (r, s1, en1) \<Longrightarrow>
      su_pending s1 = Some (SwitchTo b') \<Longrightarrow> Q b' (s1\<lparr>su_pending := None\<rparr>) en1"
    and fall_back: "\<And>s en e s1 en1. Q EvdevBackend s en \<Longrightarrow>
      run_single wo EvdevBackend s en = Some (Some e, s1, en1) \<Longrightarrow> su_pending s1 = None \<Longrightarrow>
      Q (native_from_config (wo_features wo) (su_config s1)) s1 en1"
    and stop: "\<And>b s en r s1 en1. Q b s en \<Longrightarrow> run_single wo b s en = Some (r, s1, en1) \<Longrightarrow>
      su_pending s1 = Some QuitAction \<or> su_pending s1 = None \<and> \<not> (b = EvdevBackend \<and> r \<noteq> None \<and>
        native_from_config (wo_features wo) (su_config s1) \<noteq> AutoBackend) \<Longrightarrow>
      R r b (s1\<lparr>su_pending := None\<rparr>) en1"
  shows "R r b1 s1 en1"
  using assms
proof (induction wo b s en rule: run_loop.induct)
  case (1 wo b s en)
  note switch = "1.prems"(3) and fall_back = "1.prems"(4) and stop = "1.prems"(5)
  from "1.prems"(1) obtain r2 s2 en2 where single: "run_single wo b s en = Some (r2, s2, en2)"
    by (subst (asm) run_loop.simps) (auto split: option.splits)
  note eq = "1.prems"(1) [unfolded run_loop.simps [of wo b s en] single option.case prod.case]
  note stop' = stop [OF "1.prems"(2) single]
  show ?case
  proof (cases "su_pending s2")
    case None
    show ?thesis
    proof (cases "b = EvdevBackend \<and> r2 \<noteq> None \<and> native_from_config (wo_features wo) (su_config s2) \<noteq> AutoBackend")
      case True
      then obtain e where e: "r2 = Some e" by auto
      from eq None True have "run_loop wo (native_from_config (wo_features wo) (su_config s2)) s2 en2 =
        Some (r, b1, s1, en1)" by simp
      from fall_back [of s en e s2 en2] "1.prems"(2) single True e None
      have "Q (native_from_config (wo_features wo) (su_config s2)) s2 en2" by simp
      from "1.IH"(1) [OF single refl refl None True \<open>run_loop wo _ s2 en2 = _\<close> this switch fall_back stop]
      show ?thesis .
    next
      case False
      with eq None have "r = r2" "b1 = b" "s1 = s2" "en1 = en2" by auto
      with stop' None False show ?thesis by simp
    qed
  next
    case (Some a)
    show ?thesis
    proof (cases a)
      case (SwitchTo b')
      with eq Some have "run_loop wo b' (s2\<lparr>su_pending := None\<rparr>) en2 = Some (r, b1, s1, en1)" by simp
      from "1.IH"(2) [OF single refl refl Some SwitchTo this
        switch [OF "1.prems"(2) single Some [unfolded SwitchTo]] switch fall_back stop]
      show ?thesis .
    next
      case QuitAction
      with eq Some have "r = r2" "b1 = b" "s1 = s2\<lparr>su_pending := None\<rparr>" "en1 = en2" by auto
      with stop' Some QuitAction show ?thesis by simp
    qed
  qed
qed

text \<open>A run recovers from a crash, and unless no backend is enabled it enters the outer loop.\<close>

lemma run_cases:
  assumes "run wo s en = Some (r, b, s1, en1)"
    and "recover_stale_rollback (wo_os wo) (wo_hook_dir wo) (su_config s) (sv_runner wo) (en_world en) =
      (None, en_world en)"
  obtains (disabled) "s1 = s" "en1 = en" "b = AutoBackend"
    | (looped) b' p where "p \<in> {su_pending s, Some (SwitchTo EvdevBackend)}"
        "run_loop wo b' (s\<lparr>su_pending := p\<rparr>) en = Some (r, b, s1, en1)"
proof -
  have w: "en\<lparr>en_world := en_world en\<rparr> = en" "s\<lparr>su_pending := su_pending s\<rparr> = s" by simp_all
  show ?thesis
    using assms disabled looped [of "su_pending s"] looped [of "Some (SwitchTo EvdevBackend)"]
    by (cases "startup_from_config (wo_features wo) (su_config s) = AutoBackend";
        cases "cf_enable_evdev_grab (su_config s) \<and> startup_from_config (wo_features wo) (su_config s) \<noteq> EvdevBackend")
      (auto simp: run_def Let_def w split: if_splits)
qed

section \<open>What every backend leaves behind\<close>

definition leaves :: "supervisor \<Rightarrow> supervisor \<Rightarrow> bool" where
  "leaves s s1 \<longleftrightarrow> su_config s1 = su_config s \<and>
     (su_ibus_suspend s \<noteq> Some True \<longrightarrow> su_ibus_suspend s1 \<noteq> Some True)"

lemma leaves_refl [simp]: "leaves s s"
  by (simp add: leaves_def)

lemma leaves_trans: "leaves s s1 \<Longrightarrow> leaves s1 s2 \<Longrightarrow> leaves s s2"
  by (simp add: leaves_def)

lemma leaves_upd [simp]:
  "leaves s (s1\<lparr>su_pending := p\<rparr>) = leaves s s1" "leaves (s\<lparr>su_pending := p\<rparr>) s1 = leaves s s1"
  "leaves s (publish_backend wl b s1) = leaves s s1" "leaves s (s1\<lparr>su_observed := v\<rparr>) = leaves s s1"
  "leaves s (snd (handle_cmd ft wl sh pf kind s1)) = leaves s s1"
  by (simp_all add: leaves_def)

lemma slot_leaves: "run_evdev_in_ibus_slot wo s en = Some (s1, en1) \<Longrightarrow> leaves s s1"
  by (auto simp: run_evdev_in_ibus_slot_def leaves_def Let_def
      split: if_splits list.splits option.splits sum.splits prod.splits dest: transport_loop_frame)

lemma run_ibus_loop_leaves:
  assumes "run_ibus_loop wo s en = Some (r, s1, en1)"
  shows "leaves s s1"
proof -
  have start: "leaves s (s\<lparr>su_ibus_suspend := Some False\<rparr>)" by (simp add: leaves_def)
  have slot: "leaves s s2" if "leaves s s'" "run_evdev_in_ibus_slot wo (s'\<lparr>su_pending := None\<rparr>) en' = Some (s2, en2)"
    for s' s2 en' en2 using slot_leaves [OF that(2)] leaves_trans [OF that(1)] by simp
  have step: "leaves s s2" if "leaves s s'" "ibus_step wo s' en' s2 en2" for s' en' s2 en2
    using that(2,1) by cases (auto intro: slot)
  have stop: "leaves s s2" if "leaves s s'" "ibus_stop wo s' en' s2 en2" for s' en' s2 en2
    using that(2,1) by cases (auto intro: slot)
  have "leaves s s1" if "ibus_loop wo s0 en0 = Some (r, s1, en1)" "leaves s s0" for s0 en0
    using ibus_loop_rule [of wo s0 en0 r s1 en1 "\<lambda>s' _. leaves s s'" "\<lambda>s' _. leaves s s'", OF that step stop]
    by simp
  with assms start show ?thesis
    by (auto simp: run_ibus_loop_def Let_def split: list.splits option.splits)
qed

lemma run_single_leaves:
  assumes "run_single wo b s en = Some (r, s1, en1)"
  shows "leaves s s1"
proof -
  have "leaves s s1" if "run_wayland_loop wo s en = Some (r, s1, en1)"
    using that by (auto simp: run_wayland_loop_def leaves_def Let_def
        split: list.splits option.splits prod.splits dest!: transport_loop_frame)
  moreover have "leaves s s1" if "run_evdev_loop wo s en = Some (r, s1, en1)"
    using that by (auto simp: run_evdev_loop_def leaves_def Let_def
        split: if_splits list.splits option.splits sum.splits prod.splits dest: transport_loop_frame)
  ultimately show ?thesis
    using assms by (auto simp: run_single_def split: input_backend.splits if_splits dest: run_ibus_loop_leaves)
qed

lemma transport_loop_ended:
  "transport_loop ft wl sh s es = Some (Ended r, s1, es1) \<Longrightarrow> su_pending s1 = None"
  by (induction ft wl sh s es rule: transport_loop.induct) (auto split: if_splits sv_event.splits)

text \<open>Evdev only fails with no action pending, or before it looked at the actions at all.\<close>

lemma run_evdev_loop_failed:
  assumes "run_evdev_loop wo s en = Some (Some e, s1, en1)"
  shows "su_pending s1 = None \<or> su_pending s1 = su_pending s"
  using assms
  by (auto simp: run_evdev_loop_def evdev_exit_def Let_def
      split: if_splits list.splits option.splits sum.splits prod.splits loop_exit.splits
      dest: transport_loop_ended)

end
