(* ===== verification/SupervisorProperties.thy ===== *)
theory SupervisorProperties
  imports SupervisorLemmas
begin

text \<open>
  The properties of the supervisor and of the hooks around an evdev grab, and the worlds their
  witnesses run in.
\<close>

section \<open>Runs\<close>

lemma run_ibus_loop_settled:
  assumes "hook_world wo files F (su_config s)" "CommandsClosed \<notin> set (en_events en)"
    and "run_ibus_loop wo s en = Some (r, s1, en1)"
  shows "su_config s1 = su_config s \<and> settled_env F en en1"
proof -
  define Q where "Q s' en' \<longleftrightarrow> su_config s' = su_config s \<and> settled_env F en en'" for s' :: supervisor and en'
  have closed: "CommandsClosed \<notin> set (en_events en')" if "Q s' en'" for s' en'
    using that assms(2) by (auto simp: Q_def settled_env_def)
  have slot: "Q s2 en2" if "Q s' en'" "run_evdev_in_ibus_slot wo (s'\<lparr>su_pending := None\<rparr>) en' = Some (s2, en2)"
    for s' en' s2 en2
    using evdev_slot_settled [OF _ closed [OF that(1)] that(2), of files F] assms(1) that(1)
    by (auto simp: Q_def dest: settled_env_trans)
  have step: "Q s2 en2" if "Q s' en'" "ibus_step wo s' en' s2 en2" for s' en' s2 en2
    using that(2)
  proof cases
    case (slot_back s3)
    from slot [OF that(1) slot_back(3)] slot_back(1) show ?thesis by (simp add: Q_def)
  qed (use that(1) in \<open>auto simp: Q_def settled_env_def\<close>)
  have stop: "Q s2 en2" if "Q s' en'" "ibus_stop wo s' en' s2 en2" for s' en' s2 en2
    using that(2)
  proof cases
    case slot_away
    from slot [OF that(1) this] show ?thesis .
  qed (use that(1) in \<open>auto simp: Q_def settled_env_def\<close>)
  have start: "Q (s\<lparr>su_ibus_suspend := v\<rparr>) (en\<lparr>en_starts := sts\<rparr>)"
    "Q (publish_backend wl b (s\<lparr>su_ibus_suspend := v\<rparr>)) (en\<lparr>en_starts := sts\<rparr>)" for v sts wl b
    by (simp_all add: Q_def settled_env_def)
  from assms(3) have "Q s1 en1"
    by (auto simp: run_ibus_loop_def Let_def split: list.splits option.splits
        intro: start dest!: ibus_loop_rule [where Q = Q and R = Q, OF _ start(2) step stop])
  then show ?thesis by (simp add: Q_def)
qed

lemma run_single_settled:
  assumes "hook_world wo files F (su_config s)" "CommandsClosed \<notin> set (en_events en)"
    and "run_single wo b s en = Some (r, s1, en1)"
  shows "su_config s1 = su_config s \<and> settled_env F en en1"
  using assms wayland_loop_settled [of wo s en r s1 en1 F] evdev_loop_settled [of wo files F s en r s1 en1]
    run_ibus_loop_settled [of wo files F s en r s1 en1]
  by (auto simp: run_single_def split: input_backend.splits if_splits)

lemma run_loop_settled:
  assumes "run_loop wo b s en = Some (r, b1, s1, en1)"
    and "hook_world wo files F (su_config s)" "CommandsClosed \<notin> set (en_events en)"
  shows "su_config s1 = su_config s \<and> settled_env F en en1"
proof -
  define Q where "Q s' en' \<longleftrightarrow> su_config s' = su_config s \<and> settled_env F en en'" for s' :: supervisor and en'
  have step: "Q s2 en2" if "Q s' en'" "run_single wo b' s' en' = Some (r', s2, en2)" for b' s' en' r' s2 en2
    using run_single_settled [of wo files F s' en' b' r' s2 en2] that assms(2,3)
    by (auto simp: Q_def settled_env_def)
  have upd: "Q (s'\<lparr>su_pending := p\<rparr>) en' = Q s' en'" for s' en' p by (simp add: Q_def)
  have "Q s en" by (simp add: Q_def)
  then have "Q s1 en1"
    by (rule run_loop_rule [OF assms(1), where Q = "\<lambda>_. Q" and R = "\<lambda>_ _. Q"])
      ((simp only: upd)?, erule (1) step)+
  then show ?thesis by (simp add: Q_def)
qed

text \<open>
  Once the supervisor has stopped, for whatever reason but a closed command channel, the
  desktop is as it found it: every hook applied for an evdev grab, in a slot of IBus or on its own,
  through switches, failures and a quit, has been undone. This needs scripts that do what their
  exit codes say and can be run, and a marker that can be written.
\<close>

theorem supervisor_restores_hooks:
  assumes "hook_world wo files F (su_config s)" "rollback_marker_path (wo_os wo) = Inr path"
    and "files (en_world en) path = None" "CommandsClosed \<notin> set (en_events en)"
    and "run wo s en = Some (r, b, s1, en1)"
  shows "F (en_world en1) = F (en_world en)"
proof -
  from assms(1) have "honest_files (wo_os wo) files F" by (simp add: hook_world_def)
  from honest_files.exists_law [OF this] assms(2,3)
  have "recover_stale_rollback (wo_os wo) (wo_hook_dir wo) (su_config s) (sv_runner wo) (en_world en) =
    (None, en_world en)"
    by (simp add: recover_stale_rollback_def)
  with assms(5) show ?thesis
  proof (cases rule: run_cases)
    case (looped b' p)
    from run_loop_settled [OF looped(2)] assms(1,4) show ?thesis by (auto simp: settled_env_def)
  qed simp
qed

lemma supervisor_end:
  assumes "run_loop wo b s en = Some (r, b1, s1, en1)" "su_pending s \<noteq> Some QuitAction"
  shows "leaves s s1 \<and> (b1 = EvdevBackend \<and> r \<noteq> None \<longrightarrow> native_from_config (wo_features wo) (su_config s) = AutoBackend)"
proof -
  define Q where "Q s' \<longleftrightarrow> leaves s s' \<and> su_pending s' \<noteq> Some QuitAction" for s'
  define R where "R r b s' \<longleftrightarrow> leaves s s' \<and>
    (b = EvdevBackend \<and> r \<noteq> None \<longrightarrow> native_from_config (wo_features wo) (su_config s) = AutoBackend)"
    for r :: "sv_error option" and b s'
  have single: "leaves s s2" if "Q s'" "run_single wo b' s' en' = Some (r', s2, en2)" for b' s' en' r' s2 en2
    using run_single_leaves [OF that(2)] that(1) leaves_trans by (auto simp: Q_def)
  have stop: "R r' b' (s2\<lparr>su_pending := None\<rparr>)"
    if "Q s'" "run_single wo b' s' en' = Some (r', s2, en2)"
      "su_pending s2 = Some QuitAction \<or> su_pending s2 = None \<and> \<not> (b' = EvdevBackend \<and> r' \<noteq> None \<and>
        native_from_config (wo_features wo) (su_config s2) \<noteq> AutoBackend)" for b' s' en' r' s2 en2
  proof -
    have l: "leaves s s2" by (rule single [OF that(1,2)])
    note disj = that(3)
    have "native_from_config (wo_features wo) (su_config s) = AutoBackend" if e: "b' = EvdevBackend" "r' = Some e" for e
    proof -
      from \<open>run_single wo b' s' en' = _\<close> e have "run_evdev_loop wo s' en' = Some (Some e, s2, en2)"
        by (simp add: run_single_def)
      from run_evdev_loop_failed [OF this] \<open>Q s'\<close> have "su_pending s2 \<noteq> Some QuitAction" by (auto simp: Q_def)
      with disj e l show ?thesis by (simp add: leaves_def)
    qed
    with l show ?thesis by (auto simp: R_def)
  qed
  have "Q s" using assms(2) by (simp add: Q_def)
  then have "R r b1 s1"
  proof (rule run_loop_rule [OF assms(1), where Q = "\<lambda>_ s' _. Q s'" and R = "\<lambda>r b s' _. R r b s'"])
    fix b' s' en' r' s2 en2 b2
    assume "Q s'" "run_single wo b' s' en' = Some (r', s2, en2)"
    from single [OF this] show "Q (s2\<lparr>su_pending := None\<rparr>)" by (simp add: Q_def)
  next
    fix s' en' e s2 en2
    assume "Q s'" "run_single wo EvdevBackend s' en' = Some (Some e, s2, en2)" "su_pending s2 = None"
    with single [OF this(1,2)] show "Q s2" by (simp add: Q_def)
  next
    fix b' s' en' r' s2 en2
    assume "Q s'" "run_single wo b' s' en' = Some (r', s2, en2)"
      "su_pending s2 = Some QuitAction \<or> su_pending s2 = None \<and> \<not> (b' = EvdevBackend \<and> r' \<noteq> None \<and>
        native_from_config (wo_features wo) (su_config s2) \<noteq> AutoBackend)"
    then show "R r' b' (s2\<lparr>su_pending := None\<rparr>)" by (rule stop)
  qed
  then show ?thesis by (simp add: R_def)
qed

lemma run_end:
  assumes "run wo s en = Some (r, b, s1, en1)" "su_pending s \<noteq> Some QuitAction"
  shows "leaves s s1 \<and> (b = EvdevBackend \<and> r \<noteq> None \<longrightarrow> native_from_config (wo_features wo) (su_config s) = AutoBackend)"
proof -
  consider "s1 = s" "b = AutoBackend"
    | b' p en' where "p \<noteq> Some QuitAction" "run_loop wo b' (s\<lparr>su_pending := p\<rparr>) en' = Some (r, b, s1, en1)"
    using assms(1) by (simp add: run_def Let_def split: if_splits; metis assms(2) supervisor.unfold_congs(7)
      supervisor.surjective supervisor.update_convs(7) pending_action.distinct(1) option.inject)
  then show ?thesis
  proof cases
    case 2
    from supervisor_end [OF 2(2)] 2(1) show ?thesis by simp
  qed simp
qed

text \<open>
  C12: An evdev grab that fails (preflight, hooks, device, grab or a transport error) does not end
  the daemon while a native backend is configured, and a run never leaves IBus in passthrough.
\<close>

theorem evdev_failure_falls_back:
  assumes "run wo s en = Some (r, b, s1, en1)" "su_pending s = None"
  shows "(b = EvdevBackend \<longrightarrow> r = None \<or> native_from_config (wo_features wo) (su_config s) = AutoBackend) \<and>
    (su_ibus_suspend s \<noteq> Some True \<longrightarrow> su_ibus_suspend s1 \<noteq> Some True)"
  using run_end [OF assms(1)] assms(2) by (auto simp: leaves_def)

text \<open>
  C24: A crash with the hooks applied is undone by the next start: the marker written after the
  setup gives back exactly the hooks applied, their cleanup leaves none in force, and the marker
  is gone.
\<close>

theorem crash_recovery:
  assumes "honest_runner runner F hooks" "honest_files os files F" "rollback_marker_path os = Inr path"
    and "\<And>applied json. os_marker_to_json os applied = Inr json \<Longrightarrow>
      os_marker_from_json os json = Inr (MarkerV2 applied)"
    and "setup_task os runner hooks w = (Inr applied, w1)" "applied \<noteq> []"
  shows "\<exists>w2. recover_stale_rollback os dir cfg runner w1 = (None, w2) \<and> F w2 = F w \<and> files w2 path = None"
proof -
  from assms(5) obtain w0 where "write_rollback_marker os applied w0 = (None, w1)"
    by (auto simp: setup_task_def split: prod.splits sum.splits option.splits)
  from honest_files.marker_written [OF assms(2,6,3) this] assms(4)
  obtain json where json: "os_marker_from_json os json = Inr (MarkerV2 applied)" "files w1 path = Some json"
    by blast
  from hook_files.cleanup_after_setup [OF hook_files.intro [OF assms(1,2)] assms(5)]
  obtain w2 where "run_cleanup_hooks applied runner w1 = (None, w2)" "F w2 = F w" by auto
  with json assms(3) show ?thesis
    by (simp add: recover_stale_rollback_def applied_of_marker_def honest_files.read_law [OF assms(2)]
        honest_files.exists_law [OF assms(2)] honest_files.marker_clear_keeps [OF assms(2)]
        honest_files.marker_cleared [OF assms(2,3)])
qed

lemma run_setup_loop_append:
  "run_setup_loop os runner cf pre applied outs w = (Inr (applied', outs'), w') \<Longrightarrow>
   run_setup_loop os runner cf (pre @ hooks) applied outs w = run_setup_loop os runner cf hooks applied' outs' w'"
proof (induction pre arbitrary: applied outs w)
  case (Cons h pre)
  then show ?case
    by (cases "runner (hk_set_path h) (lit ''set'') (hk_name h) w") (auto split: if_splits sum.splits)
qed simp

text \<open>
  C34: A set script that cannot be run at all, or a marker that cannot be written, ends the evdev
  transport with the hooks applied so far still in force: nothing undoes them.
\<close>

theorem hook_error_leaks:
  assumes "honest_runner runner F (pre @ [h])" "honest_files os files F"
    and "run_setup_hooks os pre runner w = (Inr (applied, outs), w1)"
  shows "(hook_scripts_present os w1 h \<and> runner (hk_set_path h) (lit ''set'') (hk_name h) w1 = (Inl e, w2) \<longrightarrow>
      evdev_transport os runner (pre @ h # post) r w = (Some (HookFailure e), w2) \<and>
      F w2 = rev (map hk_name applied) @ F w) \<and>
    (write_rollback_marker os applied w1 = (Some e, w2) \<longrightarrow>
      evdev_transport os runner pre r w = (Some (HookFailure e), w2) \<and>
      F w2 = rev (map hk_name applied) @ F w)"
proof (intro conjI impI; (elim conjE)?)
  have f: "F w1 = rev (map hk_name applied) @ F w"
    using honest_runner.setup_hooks_ok(2) [OF assms(1) _ assms(3)] by auto
  show "F w2 = rev (map hk_name applied) @ F w"
    if "runner (hk_set_path h) (lit ''set'') (hk_name h) w1 = (Inl e, w2)"
    using honest_runner.set_step [OF assms(1) _ that] f by simp
  show "F w2 = rev (map hk_name applied) @ F w" if "write_rollback_marker os applied w1 = (Some e, w2)"
    using honest_files.marker_write_keeps [OF assms(2), of applied w1] that f by simp
  show "evdev_transport os runner pre r w = (Some (HookFailure e), w2)"
    if "write_rollback_marker os applied w1 = (Some e, w2)"
    using that assms(3) by (simp add: evdev_transport_def setup_task_def)
  show "evdev_transport os runner (pre @ h # post) r w = (Some (HookFailure e), w2)"
    if "hook_scripts_present os w1 h" "runner (hk_set_path h) (lit ''set'') (hk_name h) w1 = (Inl e, w2)"
    using that assms(3)
    by (simp add: evdev_transport_def setup_task_def run_setup_hooks_def run_setup_hooks_inner_def
        run_setup_loop_append)
qed

text \<open>
  Without the tray nobody observes the published backend, and a value sent without an observer
  is not kept: after a switch to evdev the toggle asks for evdev again and the grab is restarted,
  where with the tray it goes back to the native backend.
\<close>

definition watch_doc :: "watch_lib \<Rightarrow> bool" where
  "watch_doc wl \<longleftrightarrow>
     (\<forall>old new. watch_send_backend wl True old new = (new, True) \<and> watch_send_backend wl False old new = (old, False))"

theorem toggle_stuck_without_tray:
  assumes "watch_doc wl" "ft_evdev_grab ft" "su_backend s \<noteq> EvdevBackend"
    and "native_from_config ft (su_config s) \<noteq> AutoBackend"
  shows "su_pending (snd (handle_cmd ft wl show_error None (CmdSetBackend ToggleTarget)
           (publish_backend wl EvdevBackend s))) =
    Some (SwitchTo (if su_observed s then native_from_config ft (su_config s) else EvdevBackend))"
proof -
  have "backend_supported_at_build ft (native_from_config ft (su_config s)) = None"
    by (auto simp: backend_supported_at_build_def native_from_config_def)
  with assms show ?thesis
    by (auto simp: handle_cmd_def resolve_target_def Let_def publish_backend_def watch_doc_def
        backend_supported_at_build_def dest: sym)
qed

section \<open>Witnesses\<close>

text \<open>A desktop of files and hooks in force, on which one program may be missing.\<close>

record desktop =
  dt_files :: "path \<Rightarrow> ustr option"
  dt_force :: "ustr list"

definition hook_phase :: "(string \<times> ustr) list \<Rightarrow> string \<Rightarrow> ustr" where
  "hook_phase env key = (case map_of env key of Some v \<Rightarrow> v | None \<Rightarrow> [])"

definition demo_os :: "path option \<Rightarrow> (hook_spec list \<Rightarrow> ustr + ustr) \<Rightarrow> (ustr \<Rightarrow> ustr + marker_file) \<Rightarrow> desktop os" where
  "demo_os missing to_json from_json =
     \<lparr>os_status = (\<lambda>p env w.
        (Inr (Some 0),
         if hook_phase env ''DAKLAK_HOOK_PHASE'' = lit ''set''
         then w\<lparr>dt_force := hook_phase env ''DAKLAK_HOOK_NAME'' # dt_force w\<rparr>
         else w\<lparr>dt_force := tl (dt_force w)\<rparr>)),
      os_current_exe = None,
      os_canonicalize = (\<lambda>w p. if Some p = missing then Inl (lit ''not found'') else Inr p),
      os_metadata = (\<lambda>w p. Inr \<lparr>fm_is_file = True, fm_mode = 0x1ED, fm_uid = 0\<rparr>),
      os_euid = 1000,
      os_is_file = (\<lambda>w p. True), os_is_dir = (\<lambda>w p. False),
      os_exists = (\<lambda>w p. dt_files w p \<noteq> None),
      os_env = (\<lambda>v. if v = ''XDG_RUNTIME_DIR'' then Some (lit ''/run'') else None),
      os_pid = lit ''7'',
      os_open_truncate = (\<lambda>p w. (None, w\<lparr>dt_files := (dt_files w)(p := Some [])\<rparr>)),
      os_write_all = (\<lambda>p t w. (None, w\<lparr>dt_files := (dt_files w)(p := map_option (\<lambda>c. c @ t) (dt_files w p))\<rparr>)),
      os_sync_all = (\<lambda>p w. (None, w)),
      os_rename = (\<lambda>p q w. (None, w\<lparr>dt_files := (dt_files w)(q := dt_files w p, p := None)\<rparr>)),
      os_set_permissions = (\<lambda>p m w. (None, w)),
      os_remove_file = (\<lambda>p w. (Removed, w\<lparr>dt_files := (dt_files w)(p := None)\<rparr>)),
      os_read_to_string = (\<lambda>w p. case dt_files w p of Some t \<Rightarrow> Inr t | None \<Rightarrow> Inl (lit ''not found'')),
      os_marker_to_json = to_json, os_marker_from_json = from_json\<rparr>"

interpretation desktop_files: honest_files "demo_os missing to_json from_json" dt_files dt_force
  for missing to_json from_json
  by unfold_locales (simp_all add: demo_os_def)

lemma demo_marker_path: "rollback_marker_path (demo_os missing to_json from_json) = Inr (lit ''/run/daklak-evdev-hooks.json'')"
  by (simp add: rollback_marker_path_def demo_os_def path_join_def lit_def)

lemma demo_runner:
  "process_hook_runner (demo_os missing to_json from_json) dir p phase name w =
     (if Some p = missing then (Inl (CanonicalizeHook p (lit ''not found'')), w)
      else (Inr 0, if phase = lit ''set'' then w\<lparr>dt_force := name # dt_force w\<rparr>
                   else w\<lparr>dt_force := tl (dt_force w)\<rparr>))"
  by (simp add: process_hook_runner_def validate_hook_script_path_def demo_os_def hook_environment_def
      hook_phase_def exit_code_def)

text \<open>The programs of this desktop keep their contract, and so does the daemon's runner on them.\<close>

interpretation desktop_scripts: script_programs "demo_os None to_json from_json" dir dt_force hooks
  for to_json from_json dir hooks
  by unfold_locales (auto simp: demo_os_def validate_hook_script_path_def hook_environment_def hook_phase_def lit_def)

lemma demo_honest:
  assumes "\<And>h. h \<in> set hooks \<Longrightarrow> missing \<noteq> Some (hk_unset_path h)"
  shows "honest_runner (process_hook_runner (demo_os missing to_json from_json) dir) dt_force hooks"
  using assms by unfold_locales (auto simp: demo_runner lit_def)

definition demo_hook :: "string \<Rightarrow> hook_spec" where
  "demo_hook n = \<lparr>hk_name = lit n, hk_set_path = lit (''/h/'' @ n @ ''-set''), hk_unset_path = lit (''/h/'' @ n @ ''-unset'')\<rparr>"

definition demo_desktop :: desktop where
  "demo_desktop = \<lparr>dt_files = (\<lambda>_. None), dt_force = []\<rparr>"

definition demo_wo :: "desktop world_ops" where
  "demo_wo =
     \<lparr>wo_features = \<lparr>ft_ibus = True, ft_evdev_grab = True\<rparr>,
      wo_watch = \<lparr>watch_send_backend = (\<lambda>alive old new. if alive then (new, True) else (old, False)),
                  watch_send_state = (\<lambda>alive old new. if alive then (new, True) else (old, False))\<rparr>,
      wo_os = demo_os None (\<lambda>_. Inr []) (\<lambda>_. Inl []),
      wo_hook_dir = None, wo_xkb_dir = None, wo_show_error = (\<lambda>_. [])\<rparr>"

definition demo_supervisor :: supervisor where
  "demo_supervisor =
     supervisor_new (config_default\<lparr>cf_enable_evdev_grab := True, cf_evdev_grab_hooks := [lit ''kde'']\<rparr>)
       True True AutoBackend"

definition demo_start :: "ustr option \<Rightarrow> start" where
  "demo_start grab = \<lparr>st_connect = None, st_preflight = None, st_prepare = None, st_grab = grab\<rparr>"

text \<open>Evdev at first, then the native backend on request, then quit.\<close>

definition demo_env :: "desktop env" where
  "demo_env =
     \<lparr>en_starts = [demo_start None, demo_start None],
      en_events = [Received (CmdSetBackend NativeTarget) None, Received CmdQuit None],
      en_world = demo_desktop\<rparr>"

lemma demo_hook_world: "hook_world demo_wo dt_files dt_force cfg"
proof -
  have "fst (write_rollback_marker (wo_os demo_wo) applied w) = None" for applied w
    by (simp add: write_rollback_marker_def demo_wo_def demo_marker_path) (simp add: demo_os_def)
  then show ?thesis
    by (auto simp: hook_world_def demo_wo_def sv_runner_def desktop_files.honest_files_axioms demo_honest demo_runner)
qed

text \<open>The whole contract, as the supervisor's theorems use it.\<close>

interpretation desktop: hook_system "sv_runner demo_wo" dt_force hooks "wo_os demo_wo" dt_files
  for hooks
proof -
  have "honest_runner (sv_runner demo_wo) dt_force hooks"
    unfolding sv_runner_def demo_wo_def world_ops.simps by (rule desktop_scripts.process.honest_runner_axioms)
  moreover have "honest_files (wo_os demo_wo) dt_files dt_force"
    using demo_hook_world by (simp add: hook_world_def)
  ultimately show "hook_system (sv_runner demo_wo) dt_force hooks (wo_os demo_wo) dt_files"
    using demo_hook_world
    by (intro hook_system.intro hook_files.intro hook_system_axioms.intro)
      (auto simp: hook_world_def sv_runner_def demo_wo_def demo_runner)
qed

lemma demo_wo_simps [simp]:
  "wo_features demo_wo = \<lparr>ft_ibus = True, ft_evdev_grab = True\<rparr>"
  "watch_send_backend (wo_watch demo_wo) True b1 b2 = (b2, True)"
  by (simp_all add: demo_wo_def)

lemma demo_supervisor_simps [simp]:
  "su_pending demo_supervisor = None" "su_observed demo_supervisor = True"
  "startup_from_config \<lparr>ft_ibus = True, ft_evdev_grab = True\<rparr> (su_config demo_supervisor) = EvdevBackend"
  "native_from_config \<lparr>ft_ibus = True, ft_evdev_grab = True\<rparr> (su_config demo_supervisor) = WaylandBackend"
  by (simp_all add: demo_supervisor_def supervisor_new_def config_default_def startup_from_config_def
      native_from_config_def)

lemma demo_resolves:
  "\<exists>hooks. resolve_hooks (wo_os demo_wo) (wo_hook_dir demo_wo) w (su_config demo_supervisor) = Inr hooks"
  by (simp add: resolve_hooks_def resolve_hooks_in_dirs_def demo_supervisor_def supervisor_new_def
      validate_hook_name_def lit_def hook_name_byte_def is_ascii_alphabetic_def is_ascii_lowercase_def
      split: prod.splits)

lemma demo_evdev_switches:
  "\<exists>w. run_evdev_loop demo_wo demo_supervisor demo_env =
     Some (None, demo_supervisor\<lparr>su_backend := EvdevBackend, su_pending := Some (SwitchTo WaylandBackend)\<rparr>,
       \<lparr>en_starts = [demo_start None], en_events = [Received CmdQuit None], en_world = w\<rparr>)"
proof -
  obtain hs where
    "resolve_hooks (wo_os demo_wo) (wo_hook_dir demo_wo) demo_desktop (su_config demo_supervisor) = Inr hs"
    using demo_resolves by blast
  then show ?thesis
    by (simp add: run_evdev_loop_def Let_def demo_env_def demo_start_def publish_backend_def handle_cmd_def
        resolve_target_def backend_supported_at_build_def evdev_exit_def split: prod.splits)
qed

lemma demo_wayland_quits:
  "su_pending s = None \<Longrightarrow> \<exists>r s1 en1. run_loop demo_wo WaylandBackend s
     \<lparr>en_starts = [demo_start None], en_events = [Received CmdQuit None], en_world = w\<rparr> =
     Some (r, WaylandBackend, s1, en1)"
  by (subst run_loop.simps)
    (simp add: run_single_def run_wayland_loop_def Let_def demo_start_def publish_backend_def handle_cmd_def)

lemma demo_runs:
  "\<exists>r s1 en1. run demo_wo demo_supervisor demo_env = Some (r, WaylandBackend, s1, en1)"
proof -
  have "recover_stale_rollback (wo_os demo_wo) (wo_hook_dir demo_wo) (su_config demo_supervisor)
      (sv_runner demo_wo) (en_world demo_env) = (None, en_world demo_env)"
    by (simp add: recover_stale_rollback_def demo_wo_def demo_marker_path)
      (simp add: demo_os_def demo_env_def demo_desktop_def)
  then have "run demo_wo demo_supervisor demo_env = run_loop demo_wo EvdevBackend demo_supervisor demo_env"
    by (simp add: run_def)
  with demo_evdev_switches demo_wayland_quits show ?thesis
    by (subst (asm) run_loop.simps) (fastforce simp: run_single_def)
qed

theorem supervisor_restores_hooks_witness:
  "\<exists>r b s1 en1. run demo_wo demo_supervisor demo_env = Some (r, b, s1, en1) \<and> dt_force (en_world en1) = []"
proof -
  obtain r s1 en1 where run: "run demo_wo demo_supervisor demo_env = Some (r, WaylandBackend, s1, en1)"
    using demo_runs by blast
  have "rollback_marker_path (wo_os demo_wo) = Inr (lit ''/run/daklak-evdev-hooks.json'')"
    by (simp add: demo_wo_def demo_marker_path)
  from supervisor_restores_hooks [OF demo_hook_world this _ _ run] run show ?thesis
    by (auto simp: demo_env_def demo_desktop_def)
qed

text \<open>Without the device the grab fails and the native backend takes over.\<close>

theorem evdev_failure_falls_back_witness:
  "let en = demo_env\<lparr>en_starts := [demo_start (Some []), demo_start None], en_events := [Received CmdQuit None]\<rparr>
   in \<exists>r s1 en1. run demo_wo demo_supervisor en = Some (r, WaylandBackend, s1, en1) \<and> su_ibus_suspend s1 \<noteq> Some True"
proof -
  let ?en = "demo_env\<lparr>en_starts := [demo_start (Some []), demo_start None], en_events := [Received CmdQuit None]\<rparr>"
  obtain hs where
    "resolve_hooks (wo_os demo_wo) (wo_hook_dir demo_wo) demo_desktop (su_config demo_supervisor) = Inr hs"
    using demo_resolves by blast
  then have "run_evdev_loop demo_wo demo_supervisor ?en = Some (Some (GrabFailed []), demo_supervisor,
      \<lparr>en_starts = [demo_start None], en_events = [Received CmdQuit None], en_world = demo_desktop\<rparr>)"
    by (simp add: run_evdev_loop_def Let_def demo_env_def demo_start_def)
  moreover have "recover_stale_rollback (wo_os demo_wo) (wo_hook_dir demo_wo) (su_config demo_supervisor)
      (sv_runner demo_wo) (en_world ?en) = (None, en_world ?en)"
    by (simp add: recover_stale_rollback_def demo_wo_def demo_marker_path)
      (simp add: demo_os_def demo_env_def demo_desktop_def)
  then have "run demo_wo demo_supervisor ?en = run_loop demo_wo EvdevBackend demo_supervisor ?en"
    by (simp add: run_def)
  ultimately obtain r s1 en1 where run: "run demo_wo demo_supervisor ?en = Some (r, WaylandBackend, s1, en1)"
    using demo_wayland_quits [of demo_supervisor demo_desktop]
    by (subst (asm) run_loop.simps) (auto simp: run_single_def)
  have "su_ibus_suspend demo_supervisor \<noteq> Some True" by (simp add: demo_supervisor_def supervisor_new_def)
  with evdev_failure_falls_back [OF run] run show ?thesis by (simp add: Let_def)
qed

text \<open>One hook is applied and marked; then the daemon dies and starts again.\<close>

theorem crash_recovery_witness:
  "let os = demo_os None (\<lambda>hs. if hs = [demo_hook ''a''] then Inr [1] else Inl []) (\<lambda>_. Inr (MarkerV2 [demo_hook ''a'']));
       runner = process_hook_runner os None
   in \<exists>w1 w2. setup_task os runner [demo_hook ''a''] demo_desktop = (Inr [demo_hook ''a''], w1) \<and>
        dt_force w1 = [lit ''a''] \<and>
        recover_stale_rollback os None config_default runner w1 = (None, w2) \<and> dt_force w2 = []"
proof -
  define os where "os = demo_os None (\<lambda>hs. if hs = [demo_hook ''a''] then Inr [1] else Inl [])
    (\<lambda>_. Inr (MarkerV2 [demo_hook ''a'']))"
  define runner where "runner = process_hook_runner os None"
  have json: "os_marker_to_json os hs = Inr j \<Longrightarrow> os_marker_from_json os j = Inr (MarkerV2 hs)" for hs j
    by (auto simp: os_def demo_os_def split: if_splits)
  have honest: "honest_runner runner dt_force [demo_hook ''a'']" "honest_files os dt_files dt_force"
    "rollback_marker_path os = Inr (lit ''/run/daklak-evdev-hooks.json'')"
    by (simp_all add: runner_def os_def demo_honest desktop_files.honest_files_axioms demo_marker_path)
  have "run_setup_hooks os [demo_hook ''a''] runner demo_desktop =
      (Inr ([demo_hook ''a''], [HookApplied (lit ''a'')]), demo_desktop\<lparr>dt_force := [lit ''a'']\<rparr>)"
    by (simp add: run_setup_hooks_def run_setup_hooks_inner_def runner_def os_def demo_runner
        hook_scripts_present_def) (simp add: demo_os_def demo_hook_def demo_desktop_def)
  moreover obtain w1 where "write_rollback_marker os [demo_hook ''a''] (demo_desktop\<lparr>dt_force := [lit ''a'']\<rparr>) = (None, w1)"
    by (simp add: write_rollback_marker_def honest(3)) (simp add: os_def demo_os_def)
  ultimately have done_setup: "setup_task os runner [demo_hook ''a''] demo_desktop = (Inr [demo_hook ''a''], w1)"
    by (simp add: setup_task_def)
  from crash_recovery [OF honest json done_setup, of None config_default]
  obtain w2 where "recover_stale_rollback os None config_default runner w1 = (None, w2)" "dt_force w2 = []"
    by (auto simp: demo_desktop_def)
  moreover from hook_files.setup_task_ok(2) [OF hook_files.intro [OF honest(1,2)] done_setup] have "dt_force w1 = [lit ''a'']"
    by (simp add: demo_hook_def demo_desktop_def)
  ultimately show ?thesis
    unfolding Let_def os_def [symmetric] runner_def [symmetric] using done_setup by blast
qed

text \<open>The second hook's set script is gone: the first one stays in force.\<close>

theorem hook_error_leaks_witness:
  "let os = demo_os (Some (hk_set_path (demo_hook ''b''))) (\<lambda>_. Inr []) (\<lambda>_. Inl []);
       runner = process_hook_runner os None
   in \<exists>e w2. evdev_transport os runner [demo_hook ''a'', demo_hook ''b''] None demo_desktop = (Some (HookFailure e), w2) \<and>
        dt_force w2 = [lit ''a'']"
proof -
  define os where "os = demo_os (Some (hk_set_path (demo_hook ''b''))) (\<lambda>_. Inr []) (\<lambda>_. Inl [])"
  define runner where "runner = process_hook_runner os None"
  have honest: "honest_runner runner dt_force ([demo_hook ''a''] @ [demo_hook ''b''])" "honest_files os dt_files dt_force"
    unfolding runner_def os_def by (rule demo_honest, auto simp: demo_hook_def lit_def) (rule desktop_files.honest_files_axioms)
  let ?w1 = "demo_desktop\<lparr>dt_force := [lit ''a'']\<rparr>"
  have s: "run_setup_hooks os [demo_hook ''a''] runner demo_desktop =
      (Inr ([demo_hook ''a''], [HookApplied (lit ''a'')]), ?w1)"
    by (simp add: run_setup_hooks_def run_setup_hooks_inner_def runner_def os_def demo_runner
        hook_scripts_present_def) (simp add: demo_os_def demo_hook_def demo_desktop_def lit_def)
  have b: "hook_scripts_present os ?w1 (demo_hook ''b'')"
    "runner (hk_set_path (demo_hook ''b'')) (lit ''set'') (hk_name (demo_hook ''b'')) ?w1 =
      (Inl (CanonicalizeHook (hk_set_path (demo_hook ''b'')) (lit ''not found'')), ?w1)"
    by (simp add: hook_scripts_present_def os_def demo_os_def) (simp add: runner_def os_def demo_runner)
  from hook_error_leaks [OF honest s, THEN conjunct1, rule_format, OF conjI, OF b]
  show ?thesis
    unfolding Let_def os_def [symmetric] runner_def [symmetric] by (auto simp: demo_hook_def demo_desktop_def)
qed

theorem toggle_stuck_without_tray_witness:
  "su_pending (snd (handle_cmd (wo_features demo_wo) (wo_watch demo_wo) (wo_show_error demo_wo) None
       (CmdSetBackend ToggleTarget)
       (publish_backend (wo_watch demo_wo) EvdevBackend (demo_supervisor\<lparr>su_observed := False\<rparr>)))) =
     Some (SwitchTo EvdevBackend)"
  by (subst toggle_stuck_without_tray)
    (simp_all add: watch_doc_def demo_wo_def demo_supervisor_def supervisor_new_def native_from_config_def
      config_default_def)

end
