(* ===== verification/Cli.thy ===== *)
theory Cli
  imports Ipc
begin

text \<open>
  The command line of \<^verbatim>\<open>crates/daemon/src/main.rs\<close>: the argument parser, the overrides it puts
  on the configuration, and what \<^verbatim>\<open>main\<close> does with the result. Printing, the socket and the
  runtime are the outside; errors are values instead of formatted messages.
\<close>

section \<open>Arguments\<close>

datatype cli_command =
  CliToggle | CliEnable | CliDisable | CliStatus | CliBackend | CliGenKeymap | CliHelp

record cli_overrides =
  ov_ibus :: bool
  ov_config_path :: "ustr option"
  ov_log_level :: "ustr option"
  ov_log_path :: "ustr option"
  ov_log_modules :: "ustr list"

record cli =
  cl_command :: "cli_command option"
  cl_overrides :: cli_overrides
  cl_gen_keymap_symbols :: bool
  cl_gen_keymap_rules :: bool
  cl_backend_arg :: "backend_target option"

definition cli_default :: cli where
  "cli_default =
     \<lparr>cl_command = None,
      cl_overrides = \<lparr>ov_ibus = False, ov_config_path = None, ov_log_level = None,
                      ov_log_path = None, ov_log_modules = []\<rparr>,
      cl_gen_keymap_symbols = False, cl_gen_keymap_rules = False, cl_backend_arg = None\<rparr>"

datatype cli_error =
    UnknownBackend ustr
  | MissingValue ustr
  | MultipleSubcommands
  | UnknownOption ustr
  | UnknownSubcommand ustr
  | SymbolsWithoutGenKeymap
  | RulesWithoutGenKeymap
  | SymbolsAndRules

definition starts_with :: "ustr \<Rightarrow> ustr \<Rightarrow> bool" where
  "starts_with s p \<longleftrightarrow> take (length p) s = p"

definition set_command :: "cli_command option \<Rightarrow> cli_command \<Rightarrow> ustr \<Rightarrow> cli_error + cli_command option" where
  "set_command slot command arg =
     (case slot of
        Some prev \<Rightarrow> if prev \<noteq> command then Inl MultipleSubcommands else Inr slot
      | None \<Rightarrow> if arg = lit ''help'' then Inr (Some CliHelp) else Inr (Some command))"

definition next_value :: "ustr list \<Rightarrow> ustr \<Rightarrow> cli_error + ustr \<times> ustr list" where
  "next_value args flag = (case args of [] \<Rightarrow> Inl (MissingValue flag) | v # rest \<Rightarrow> Inr (v, rest))"

definition value_after_equals :: "ustr \<Rightarrow> ustr \<Rightarrow> cli_error + ustr" where
  "value_after_equals arg flag =
     (case str_split_once 61 arg of
        Some (_, v) \<Rightarrow> if v \<noteq> [] then Inr v else Inl (MissingValue flag)
      | None \<Rightarrow> Inl (MissingValue flag))"

definition parse_csv_list :: "ustr \<Rightarrow> ustr list" where
  "parse_csv_list raw = filter (\<lambda>s. s \<noteq> []) (map str_trim (str_split 44 raw))"

section \<open>The parser\<close>

text \<open>
  One turn of the loop: the argument taken, the arguments left, the settings so far; it answers
  with the arguments left afterwards.
\<close>

definition upd_overrides :: "(cli_overrides \<Rightarrow> cli_overrides) \<Rightarrow> cli \<Rightarrow> cli" where
  "upd_overrides f c = c\<lparr>cl_overrides := f (cl_overrides c)\<rparr>"

definition with_command :: "cli_command \<Rightarrow> ustr \<Rightarrow> ustr list \<Rightarrow> cli \<Rightarrow> cli_error + cli \<times> ustr list" where
  "with_command command arg args c =
     (case set_command (cl_command c) command arg of
        Inl e \<Rightarrow> Inl e
      | Inr slot \<Rightarrow> Inr (c\<lparr>cl_command := slot\<rparr>, args))"

definition with_next ::
    "ustr \<Rightarrow> (ustr \<Rightarrow> cli_overrides \<Rightarrow> cli_overrides) \<Rightarrow> ustr list \<Rightarrow> cli \<Rightarrow> cli_error + cli \<times> ustr list" where
  "with_next flag f args c =
     (case next_value args flag of
        Inl e \<Rightarrow> Inl e
      | Inr (v, rest) \<Rightarrow> Inr (upd_overrides (f v) c, rest))"

definition with_equals ::
    "ustr \<Rightarrow> ustr \<Rightarrow> (ustr \<Rightarrow> cli_overrides \<Rightarrow> cli_overrides) \<Rightarrow> ustr list \<Rightarrow> cli \<Rightarrow>
      cli_error + cli \<times> ustr list" where
  "with_equals arg flag f args c =
     (case value_after_equals arg flag of
        Inl e \<Rightarrow> Inl e
      | Inr v \<Rightarrow> Inr (upd_overrides (f v) c, args))"

definition backend_argument :: "ustr list \<Rightarrow> cli \<Rightarrow> cli_error + cli \<times> ustr list" where
  "backend_argument args c =
     (case args of
        [] \<Rightarrow> Inr (c, [])
      | raw # rest \<Rightarrow>
          if starts_with raw (lit ''-'') then Inr (c, args)
          else (case backend_target_parse raw of
                  None \<Rightarrow> Inl (UnknownBackend raw)
                | Some t \<Rightarrow> Inr (c\<lparr>cl_backend_arg := Some t\<rparr>, rest)))"

definition parse_arg :: "ustr \<Rightarrow> ustr list \<Rightarrow> cli \<Rightarrow> cli_error + cli \<times> ustr list" where
  "parse_arg arg args c =
     (if arg = lit ''--ibus'' then Inr (upd_overrides (ov_ibus_update (\<lambda>_. True)) c, args)
      else if arg = lit ''--help'' \<or> arg = lit ''-h'' \<or> arg = lit ''help''
      then Inr (c\<lparr>cl_command := Some CliHelp\<rparr>, args)
      else if arg = lit ''toggle'' then with_command CliToggle arg args c
      else if arg = lit ''enable'' then with_command CliEnable arg args c
      else if arg = lit ''disable'' then with_command CliDisable arg args c
      else if arg = lit ''status'' then with_command CliStatus arg args c
      else if arg = lit ''gen-keymap'' then with_command CliGenKeymap arg args c
      else if arg = lit ''backend''
      then (case with_command CliBackend arg args c of
              Inl e \<Rightarrow> Inl e
            | Inr (c1, args1) \<Rightarrow> backend_argument args1 c1)
      else if arg = lit ''--symbols'' then Inr (c\<lparr>cl_gen_keymap_symbols := True\<rparr>, args)
      else if arg = lit ''--rules'' then Inr (c\<lparr>cl_gen_keymap_rules := True\<rparr>, args)
      else if arg = lit ''--config'' \<or> arg = lit ''-c''
      then with_next (lit ''--config'') (\<lambda>v. ov_config_path_update (\<lambda>_. Some v)) args c
      else if starts_with arg (lit ''--config='') \<or> starts_with arg (lit ''-c='')
      then with_equals arg (lit ''--config'') (\<lambda>v. ov_config_path_update (\<lambda>_. Some v)) args c
      else if arg = lit ''--log-level''
      then with_next arg (\<lambda>v. ov_log_level_update (\<lambda>_. Some v)) args c
      else if starts_with arg (lit ''--log-level='')
      then with_equals arg (lit ''--log-level'') (\<lambda>v. ov_log_level_update (\<lambda>_. Some v)) args c
      else if arg = lit ''--log-path''
      then with_next arg (\<lambda>v. ov_log_path_update (\<lambda>_. Some v)) args c
      else if starts_with arg (lit ''--log-path='')
      then with_equals arg (lit ''--log-path'') (\<lambda>v. ov_log_path_update (\<lambda>_. Some v)) args c
      else if arg = lit ''--log-module''
      then with_next arg (\<lambda>v. ov_log_modules_update (\<lambda>l. l @ [v])) args c
      else if starts_with arg (lit ''--log-module='')
      then with_equals arg (lit ''--log-module'') (\<lambda>v. ov_log_modules_update (\<lambda>l. l @ [v])) args c
      else if arg = lit ''--log-modules''
      then with_next arg (\<lambda>v. ov_log_modules_update (\<lambda>l. l @ parse_csv_list v)) args c
      else if starts_with arg (lit ''--log-modules='')
      then with_equals arg (lit ''--log-modules'') (\<lambda>v. ov_log_modules_update (\<lambda>l. l @ parse_csv_list v)) args c
      else if starts_with arg (lit ''-'') then Inl (UnknownOption arg)
      else Inl (UnknownSubcommand arg))"

lemma next_value_shorter: "next_value args flag = Inr (v, rest) \<Longrightarrow> length rest < length args"
  by (auto simp: next_value_def split: list.splits)

lemma parse_arg_shorter:
  assumes "parse_arg arg args c = Inr (c', args')"
  shows "length args' \<le> length args"
proof -
  have n: "length args' \<le> length args" if "with_next flag f args c = Inr (c', args')" for flag f
    using that by (auto simp: with_next_def dest: next_value_shorter split: sum.splits)
  have e: "args' = args" if "with_equals a flag f args c = Inr (c', args')" for a flag f
    using that by (auto simp: with_equals_def split: sum.splits)
  have k: "args2 = args" if "with_command cmd a args c = Inr (c2, args2)" for cmd a c2 args2
    using that by (auto simp: with_command_def split: sum.splits)
  have b: "length args' \<le> length as" if "backend_argument as c1 = Inr (c', args')" for as c1
    using that by (auto simp: backend_argument_def split: list.splits if_splits option.splits)
  from assms show ?thesis
    unfolding parse_arg_def
    by (auto dest!: n e k b split: if_splits sum.splits)
qed

function parse_args :: "ustr list \<Rightarrow> cli \<Rightarrow> cli_error + cli" where
  "parse_args [] c = Inr c"
| "parse_args (arg # args) c =
     (case parse_arg arg args c of
        Inl e \<Rightarrow> Inl e
      | Inr (c', args') \<Rightarrow> parse_args args' c')"
  by pat_completeness auto
termination
  by (relation "measure (\<lambda>(args, c). length args)")
    (auto dest!: parse_arg_shorter)

definition parse_cli_from :: "ustr list \<Rightarrow> cli_error + cli" where
  "parse_cli_from raw_args =
     (case parse_args raw_args cli_default of
        Inl e \<Rightarrow> Inl e
      | Inr c \<Rightarrow>
          if cl_gen_keymap_symbols c \<and> cl_command c \<noteq> Some CliGenKeymap then Inl SymbolsWithoutGenKeymap
          else if cl_gen_keymap_rules c \<and> cl_command c \<noteq> Some CliGenKeymap then Inl RulesWithoutGenKeymap
          else if cl_gen_keymap_symbols c \<and> cl_gen_keymap_rules c then Inl SymbolsAndRules
          else Inr c)"

section \<open>What \<^verbatim>\<open>main\<close> does\<close>

definition apply_overrides :: "features \<Rightarrow> cli_overrides \<Rightarrow> config \<Rightarrow> config" where
  "apply_overrides ft ov cfg0 =
     (let cfg1 = (case ov_log_level ov of Some l \<Rightarrow> cfg0\<lparr>cf_log_level := l\<rparr> | None \<Rightarrow> cfg0);
          cfg2 = (case ov_log_path ov of Some p \<Rightarrow> cfg1\<lparr>cf_log_path := p\<rparr> | None \<Rightarrow> cfg1);
          cfg3 = (if ov_log_modules ov \<noteq> [] then cfg2\<lparr>cf_log_modules := ov_log_modules ov\<rparr> else cfg2)
      in if ov_ibus ov \<and> ft_ibus ft then cfg3\<lparr>cf_ibus_requested := True\<rparr> else cfg3)"

datatype keymap_print = PrintKeymap | PrintSymbols | PrintRules

datatype main_action = PrintHelp | IpcSend ustr | GenKeymap keymap_print | RunDaemon "ustr option"

definition main_dispatch :: "(string \<Rightarrow> ustr option) \<Rightarrow> cli \<Rightarrow> main_action" where
  "main_dispatch env c =
     (case cl_command c of
        Some CliHelp \<Rightarrow> PrintHelp
      | Some CliToggle \<Rightarrow> IpcSend (lit ''toggle'')
      | Some CliEnable \<Rightarrow> IpcSend (lit ''enable'')
      | Some CliDisable \<Rightarrow> IpcSend (lit ''disable'')
      | Some CliStatus \<Rightarrow> IpcSend (lit ''status'')
      | Some CliBackend \<Rightarrow>
          IpcSend (case cl_backend_arg c of
                     Some target \<Rightarrow> lit ''backend '' @ target_display target
                   | None \<Rightarrow> lit ''backend'')
      | Some CliGenKeymap \<Rightarrow>
          GenKeymap (if cl_gen_keymap_rules c then PrintRules
                     else if cl_gen_keymap_symbols c then PrintSymbols else PrintKeymap)
      | None \<Rightarrow>
          RunDaemon (case ov_config_path (cl_overrides c) of
                       Some p \<Rightarrow> Some p
                     | None \<Rightarrow> env ''DAKLAK_CONFIG''))"

text \<open>\<open>ipc_send\<close>: the bytes \<^verbatim>\<open>writeln!\<close> puts on the socket.\<close>

definition ipc_send_bytes :: "ustr \<Rightarrow> nat list" where
  "ipc_send_bytes cmd = bytes_of (cmd @ [10])"

definition ipc_send_reply :: "ustr \<Rightarrow> ustr" where
  "ipc_send_reply reply = str_trim reply"

text \<open>How the end of a background task is classified.\<close>

datatype background_task = IpcTask | TrayTask

datatype background_join = TaskOk background_task | TaskErr background_task ustr | TaskCancelled | TaskPanicked

datatype background_event = Exited background_task | Failed background_task | Cancelled | Panicked

definition classify_background_join :: "background_join \<Rightarrow> background_event" where
  "classify_background_join j =
     (case j of TaskOk t \<Rightarrow> Exited t | TaskErr t e \<Rightarrow> Failed t | TaskCancelled \<Rightarrow> Cancelled
      | TaskPanicked \<Rightarrow> Panicked)"

end
