(* ===== verification/ControlProperties.thy ===== *)
theory ControlProperties
  imports Cli
begin

text \<open>
  The properties of the control socket: the way of a command from the command line to the
  supervisor and of its reply, and the bound on a command line.
\<close>

section \<open>Reading a line\<close>

lemma read_ipc_line_loop_line:
  "10 \<notin> set bs \<Longrightarrow> length buf + length bs < 4096 \<Longrightarrow>
   read_ipc_line_loop (map ReadByte (bs @ [10]) @ rs) buf =
     Some (case from_utf8 (buf @ bs @ [10]) of Some line \<Rightarrow> Inr line | None \<Rightarrow> Inl (lit ''command must be UTF-8''))"
proof (induction bs arbitrary: buf)
  case (Cons b bs)
  from Cons.IH [of "buf @ [b]"] Cons.prems show ?case by (simp add: MAX_IPC_LINE_BYTES_def)
qed (simp add: MAX_IPC_LINE_BYTES_def)

lemma read_ipc_line_loop_long:
  "10 \<notin> set bs \<Longrightarrow> length buf \<le> 4096 \<Longrightarrow> 4096 < length buf + length bs \<Longrightarrow>
   read_ipc_line_loop (map ReadByte bs @ rs) buf = Some (Inl (lit ''command too long (max 4096 bytes)''))"
proof (induction bs arbitrary: buf)
  case (Cons b bs)
  from Cons.IH [of "buf @ [b]"] Cons.prems show ?case by (auto simp: MAX_IPC_LINE_BYTES_def Let_def)
qed simp

lemma read_ipc_line_loop_short:
  "10 \<notin> set bs \<Longrightarrow> length buf + length bs \<le> 4096 \<Longrightarrow> read_ipc_line_loop (map ReadByte bs) buf = None"
proof (induction bs arbitrary: buf)
  case (Cons b bs)
  from Cons.IH [of "buf @ [b]"] Cons.prems show ?case by (simp add: MAX_IPC_LINE_BYTES_def)
qed simp

text \<open>Every stream of bytes is one of three kinds.\<close>

lemma byte_stream_cases:
  fixes bs :: "nat list"
  obtains (line) l r where "bs = l @ 10 # r" "10 \<notin> set l" "length l < 4096"
    | (long) l r where "bs = l @ r" "10 \<notin> set l" "length l = 4097"
    | (long_line) l r where "bs = l @ 10 # r" "10 \<notin> set l" "length l = 4096"
    | (short) "10 \<notin> set bs" "length bs \<le> 4096"
proof (cases "10 \<in> set bs")
  case True
  then obtain l r where b: "bs = l @ 10 # r" "10 \<notin> set l" using split_list_first by fastforce
  consider "length l < 4096" | "length l = 4096" | "length l > 4096" by linarith
  then show ?thesis
  proof cases
    case 3
    with b have "bs = take 4097 l @ drop 4097 l @ 10 # r" "length (take 4097 l) = 4097" by simp_all
    with long b(2) show ?thesis by (metis in_set_takeD)
  qed (use b line long_line in blast)+
next
  case False
  then show ?thesis
  proof (cases "length bs \<le> 4096")
    case True
    with short False show ?thesis by blast
  next
    case F: False
    then have "bs = take 4097 bs @ drop 4097 bs" "length (take 4097 bs) = 4097" by simp_all
    with long False show ?thesis by (metis in_set_takeD)
  qed
qed

lemma read_ipc_line_stream:
  "read_ipc_line (map ReadByte (l @ 10 # r)) =
     (if length l < 4096 then
        Some (case from_utf8 (l @ [10]) of Some line \<Rightarrow> Inr line | None \<Rightarrow> Inl (lit ''command must be UTF-8''))
      else Some (Inl (lit ''command too long (max 4096 bytes)'')))" if "10 \<notin> set l" "length l \<le> 4096"
proof (cases "length l < 4096")
  case True
  with read_ipc_line_loop_line [OF that(1), of "[]" "map ReadByte r"] show ?thesis
    by (simp add: read_ipc_line_def)
next
  case False
  have "read_ipc_line_loop (map ReadByte l @ ReadByte 10 # rs) buf =
      Some (Inl (lit ''command too long (max 4096 bytes)''))"
    if "10 \<notin> set l" "length buf + length l = 4096" for rs buf l
    using that
  proof (induction l arbitrary: buf)
    case (Cons b l)
    from Cons.IH [of "buf @ [b]"] Cons.prems show ?case by (simp add: MAX_IPC_LINE_BYTES_def)
  qed (simp add: MAX_IPC_LINE_BYTES_def)
  from this [of l "[]"] that False show ?thesis by (simp add: read_ipc_line_def)
qed

text \<open>
  C27: A command line is taken exactly when a newline comes within its first 4096 bytes and the
  bytes up to it are UTF-8; and after 4097 bytes the connection always has its answer.
\<close>

theorem ipc_line_bounded:
  "(read_ipc_line (map ReadByte bs) = Some (Inr s) \<longleftrightarrow>
     (\<exists>l r. bs = l @ 10 # r \<and> 10 \<notin> set l \<and> length l < 4096 \<and> from_utf8 (l @ [10]) = Some s)) \<and>
   (4096 < length bs \<longrightarrow> read_ipc_line (map ReadByte bs) \<noteq> None)"
proof -
  have unique: "l = l' \<and> r = r'" if "l @ 10 # r = l' @ 10 # r'" "10 \<notin> set l" "10 \<notin> set l'" for l r l' r' :: "nat list"
    using that by (metis option.inject prod.inject str_split_once_Some)
  show ?thesis
  proof (cases bs rule: byte_stream_cases)
    case (line l r)
    then have "read_ipc_line (map ReadByte bs) =
        Some (case from_utf8 (l @ [10]) of Some line \<Rightarrow> Inr line | None \<Rightarrow> Inl (lit ''command must be UTF-8''))"
      using read_ipc_line_stream [of l r] by simp
    with line unique [of l r] show ?thesis by (auto split: option.splits)
  next
    case (long l r)
    with read_ipc_line_loop_long [of l "[]" "map ReadByte r"]
    have "read_ipc_line (map ReadByte bs) = Some (Inl (lit ''command too long (max 4096 bytes)''))"
      by (simp add: read_ipc_line_def)
    moreover have False if "l @ r = l' @ 10 # r'" "length l' < 4096" for l' r'
    proof -
      have n: "length l' < length l" using that(2) long(3) by simp
      then have "l ! length l' = (l @ r) ! length l'" by (simp add: nth_append)
      also have "\<dots> = 10" unfolding that(1) by simp
      finally show False using n long(2) by (metis nth_mem)
    qed
    ultimately show ?thesis using long by auto
  next
    case (long_line l r)
    then have "read_ipc_line (map ReadByte bs) = Some (Inl (lit ''command too long (max 4096 bytes)''))"
      using read_ipc_line_stream [of l r] by simp
    with long_line unique [of l r] show ?thesis by auto
  next
    case short
    with read_ipc_line_loop_short [of bs "[]"] show ?thesis by (auto simp: read_ipc_line_def)
  qed
qed

section \<open>From the command line to the supervisor\<close>








section \<open>Witnesses\<close>

theorem ipc_line_bounded_witness:
  "read_ipc_line (map ReadByte [113, 117, 105, 116, 10, 120]) = Some (Inr (lit ''quit'' @ [10]))"
proof -
  have "\<exists>l r. [113, 117, 105, 116, 10, 120] = l @ (10::nat) # r \<and> 10 \<notin> set l \<and> length l < 4096 \<and>
      from_utf8 (l @ [10]) = Some (lit ''quit'' @ [10])"
    by (rule exI [of _ "[113, 117, 105, 116]"], rule exI [of _ "[120]"]) code_simp
  then show ?thesis using ipc_line_bounded [of "[113, 117, 105, 116, 10, 120]" "lit ''quit'' @ [10]"] by blast
qed


end
