(* ===== verification/KeymapUpload.thy ===== *)
theory KeymapUpload
  imports Keymap Utf8
begin

text \<open>
  \<^verbatim>\<open>crates/key-emitter/src/keymap.rs\<close>: the generated keymap is checked by libxkbcommon and
  written to a memfd for the compositor. The compiler, \<^verbatim>\<open>memfd\_create\<close> and \<^verbatim>\<open>write\<close> are
  parameters; the loop around \<^verbatim>\<open>write\<close> may not return.
\<close>

record 'w memfd_lib =
  mf_compiles :: "ustr \<Rightarrow> bool"
  mf_create :: "'w \<Rightarrow> int \<times> 'w"
  mf_write :: "int \<Rightarrow> nat list \<Rightarrow> 'w \<Rightarrow> int \<times> 'w"

record daklak_keymap =
  km_fd :: int
  km_size :: u32

datatype keymap_error = XkbRejected | MemfdCreate | WriteKeymap

text \<open>The loop \<^verbatim>\<open>while offset < buf.len()\<close>; it answers whether every write succeeded.\<close>

partial_function (option) write_keymap_loop ::
    "(nat list \<Rightarrow> 'w \<Rightarrow> int \<times> 'w) \<Rightarrow> nat list \<Rightarrow> nat \<Rightarrow> 'w \<Rightarrow> (bool \<times> 'w) option" where
  "write_keymap_loop wr buf offset w =
     (if offset < length buf
      then (case wr (drop offset buf) w of
              (n, w') \<Rightarrow>
                if n < 0 then Some (False, w')
                else write_keymap_loop wr buf (offset + nat n) w')
      else Some (True, w))"

definition keymap_buffer :: "nat list" where
  "keymap_buffer = bytes_of (lit keymap_text) @ [0]"

definition keymap_build :: "'w memfd_lib \<Rightarrow> 'w \<Rightarrow> ((keymap_error + daklak_keymap) \<times> 'w) option" where
  "keymap_build lib w =
     (if \<not> mf_compiles lib (lit keymap_text) then Some (Inl XkbRejected, w)
      else (case mf_create lib w of
              (raw, w1) \<Rightarrow>
                if raw < 0 then Some (Inl MemfdCreate, w1)
                else (case write_keymap_loop (mf_write lib raw) keymap_buffer 0 w1 of
                        None \<Rightarrow> None
                      | Some (ok, w2) \<Rightarrow>
                          Some (if ok then Inr \<lparr>km_fd = raw, km_size = of_nat (length keymap_buffer)\<rparr>
                                else Inl WriteKeymap, w2))))"

section \<open>What \<^verbatim>\<open>write\<close> is documented to do\<close>

text \<open>
  \<open>content w fd\<close> are the bytes of a file. \<^verbatim>\<open>write\<close> appends as many bytes as it says it wrote, at
  most those it was given; a negative answer is an error.
\<close>

definition write_doc :: "'w memfd_lib \<Rightarrow> ('w \<Rightarrow> int \<Rightarrow> nat list) \<Rightarrow> bool" where
  "write_doc lib content \<longleftrightarrow>
     (\<forall>fd bs w. let n = fst (mf_write lib fd bs w) in
        n \<le> int (length bs) \<and>
        (0 \<le> n \<longrightarrow> content (snd (mf_write lib fd bs w)) fd = content w fd @ take (nat n) bs))"

lemma write_docD:
  assumes "write_doc lib content" "mf_write lib fd bs w = (n, w')"
  shows "n \<le> int (length bs)" "0 \<le> n \<Longrightarrow> content w' fd = content w fd @ take (nat n) bs"
  using assms by (auto simp: write_doc_def Let_def dest: spec [of _ fd] split: prod.splits)
    (metis fst_conv snd_conv)+

text \<open>Each write of at least one byte brings the loop closer to its end.\<close>

lemma write_keymap_loop_returns:
  assumes doc: "write_doc lib content"
    and progress: "\<And>bs w. bs \<noteq> [] \<Longrightarrow> fst (mf_write lib fd bs w) \<noteq> 0"
    and "offset \<le> length buf"
  shows "\<exists>ok w'. write_keymap_loop (mf_write lib fd) buf offset w = Some (ok, w') \<and>
    (ok \<longrightarrow> content w' fd = content w fd @ drop offset buf)"
  using assms(3)
proof (induction "length buf - offset" arbitrary: offset w rule: less_induct)
  case less
  show ?case
  proof (cases "offset < length buf")
    case False
    with less.prems show ?thesis by (subst write_keymap_loop.simps) (simp add: exI [of _ True])
  next
    case True
    obtain n w1 where wr: "mf_write lib fd (drop offset buf) w = (n, w1)" by fastforce
    note wd = write_docD [OF doc wr]
    from progress [of "drop offset buf" w] True wr have "n \<noteq> 0" by simp
    show ?thesis
    proof (cases "n < 0")
      case neg: True
      with True wr have "write_keymap_loop (mf_write lib fd) buf offset w = Some (False, w1)"
        by (subst write_keymap_loop.simps) simp
      then show ?thesis by blast
    next
      case False
      with \<open>n \<noteq> 0\<close> have n: "0 < n" by simp
      with wd(1) True have le: "offset + nat n \<le> length buf" by simp
      from n True have "length buf - (offset + nat n) < length buf - offset" by simp
      from less.hyps [OF this le, of w1] obtain ok w2 where
        loop: "write_keymap_loop (mf_write lib fd) buf (offset + nat n) w1 = Some (ok, w2)"
        and c: "ok \<longrightarrow> content w2 fd = content w1 fd @ drop (offset + nat n) buf" by blast
      have "take (nat n) (drop offset buf) @ drop (offset + nat n) buf = drop offset buf"
        by (metis add.commute append_take_drop_id drop_drop)
      with loop c wd(2) n True wr False show ?thesis
        by (subst write_keymap_loop.simps) auto
    qed
  qed
qed

text \<open>A call that takes nothing changes nothing: a loop that returns had nothing to write.\<close>

lemma write_keymap_loop_stuck:
  assumes ret: "write_keymap_loop wr buf offset w = Some r" and zero: "\<And>bs w. fst (wr bs w) = 0"
  shows "length buf \<le> offset"
proof -
  have "(\<forall>bs w. fst (wr bs w) = 0) \<longrightarrow> length buf \<le> offset"
  proof (rule write_keymap_loop.raw_induct [where P = "\<lambda>wr buf offset w r.
        (\<forall>bs w. fst (wr bs w) = 0) \<longrightarrow> length buf \<le> offset", OF _ ret], rule impI)
    fix f wr buf offset w r
    assume ih: "\<And>wr buf offset w r. f wr buf offset w = Some r \<Longrightarrow>
        (\<forall>bs w. fst (wr bs w) = 0) \<longrightarrow> length buf \<le> offset"
      and eq: "(if offset < length buf then case wr (drop offset buf) w of
          (n, w') \<Rightarrow> if n < 0 then Some (False, w') else f wr buf (offset + nat n) w'
        else Some (True, w)) = Some r"
      and zero: "\<forall>bs w. fst (wr bs w) = 0"
    show "length buf \<le> offset"
    proof (rule ccontr)
      assume "\<not> length buf \<le> offset"
      then have less: "offset < length buf" by simp
      obtain n w' where wr: "wr (drop offset buf) w = (n, w')" by fastforce
      with zero have "n = 0" by (metis fst_conv)
      with eq less wr have "f wr buf offset w' = Some r" by simp
      from ih [OF this] zero less show False by simp
    qed
  qed
  with zero show ?thesis by blast
qed

text \<open>
  C30: The keymap upload returns as long as every \<^verbatim>\<open>write\<close> either fails or takes at least one byte;
  when it succeeds the file has gained exactly the generated keymap and its terminating zero.
\<close>

theorem keymap_upload_total:
  assumes "write_doc lib content" "\<And>fd bs w. bs \<noteq> [] \<Longrightarrow> fst (mf_write lib fd bs w) \<noteq> 0"
  shows "\<exists>res w'. keymap_build lib w = Some (res, w') \<and>
    (\<forall>km. res = Inr km \<longrightarrow>
       content w' (km_fd km) = content (snd (mf_create lib w)) (km_fd km) @ bytes_of (lit keymap_text) @ [0])"
proof (cases "mf_create lib w")
  case (Pair raw w1)
  from write_keymap_loop_returns [OF assms, of 0 keymap_buffer raw w1]
  obtain ok w2 where "write_keymap_loop (mf_write lib raw) keymap_buffer 0 w1 = Some (ok, w2)"
    "ok \<longrightarrow> content w2 raw = content w1 raw @ keymap_buffer" by auto
  with Pair show ?thesis by (auto simp: keymap_build_def keymap_buffer_def)
qed

text \<open>
  A \<^verbatim>\<open>write\<close> that takes nothing and reports no error is called again for ever: the upload does
  not return.
\<close>

theorem keymap_upload_stuck:
  assumes "mf_compiles lib (lit keymap_text)" "0 \<le> fst (mf_create lib w)"
    and "\<And>fd bs w. fst (mf_write lib fd bs w) = 0"
  shows "keymap_build lib w = None"
proof -
  have "write_keymap_loop (mf_write lib fd) keymap_buffer 0 w1 = None" for fd w1
  proof (rule ccontr)
    assume "write_keymap_loop (mf_write lib fd) keymap_buffer 0 w1 \<noteq> None"
    then obtain r where "write_keymap_loop (mf_write lib fd) keymap_buffer 0 w1 = Some r" by blast
    from write_keymap_loop_stuck [OF this] assms(3) show False by (simp add: keymap_buffer_def)
  qed
  with assms(1,2) show ?thesis by (cases "mf_create lib w") (simp add: keymap_build_def)
qed

section \<open>Witnesses\<close>

text \<open>A kernel that takes the bytes in pieces of at most \<open>k\<close>, into one file.\<close>

definition demo_memfd :: "nat \<Rightarrow> nat list memfd_lib" where
  "demo_memfd k =
     \<lparr>mf_compiles = (\<lambda>_. True), mf_create = (\<lambda>w. (3, w)),
      mf_write = (\<lambda>fd bs w. (int (min k (length bs)), w @ take k bs))\<rparr>"

theorem keymap_upload_total_witness:
  "\<exists>res w'. keymap_build (demo_memfd 4096) [] = Some (res, w') \<and>
     (\<forall>km. res = Inr km \<longrightarrow> w' = bytes_of (lit keymap_text) @ [0])"
proof -
  have doc: "write_doc (demo_memfd 4096) (\<lambda>w _. w)"
    by (simp add: write_doc_def demo_memfd_def Let_def min_def)
  have progress: "fst (mf_write (demo_memfd 4096) fd bs w) \<noteq> 0" if "bs \<noteq> []" for fd bs w
    using that by (simp add: demo_memfd_def)
  have "snd (mf_create (demo_memfd 4096) []) = []" by (simp add: demo_memfd_def)
  with keymap_upload_total [OF doc progress, of "[]"] show ?thesis by simp
qed

theorem keymap_upload_stuck_witness: "keymap_build (demo_memfd 0) [] = None"
  by (rule keymap_upload_stuck) (simp_all add: demo_memfd_def)

end
