(* ===== verification/Tray.thy ===== *)
theory Tray
  imports Daemon EvdevHooks Ipc
begin

text \<open>
  \<^verbatim>\<open>crates/daemon/src/tray.rs\<close>: the tray's menu and what its items do, the hooks it offers, and
  the edit of the configuration file that keeps the user's comments. Offsets into the file are
  byte offsets as in the source; a slice that is not on character boundaries panics, which is the
  \<open>None\<close> of the functions below. The desktop bus, the TOML library and the file system are
  outside.
\<close>

section \<open>The menu\<close>

record tray =
  tr_config_path :: "ustr option"
  tr_enabled :: bool
  tr_method :: method_config
  tr_modern_style :: bool
  tr_evdev_enabled :: bool
  tr_backend :: input_backend
  tr_evdev_grab_hooks :: "ustr list"

definition evdev_toggle_label :: "bool \<Rightarrow> ustr" where
  "evdev_toggle_label evdev_enabled =
     (if evdev_enabled then lit ''Evdev grab backend active'' else lit ''Enable evdev grab backend'')"

definition icon_name_for :: "bool \<Rightarrow> input_backend \<Rightarrow> ustr" where
  "icon_name_for enabled backend =
     (if \<not> enabled then lit ''input-keyboard-symbolic''
      else (case backend of EvdevBackend \<Rightarrow> lit ''daklak-evdev'' | _ \<Rightarrow> lit ''daklak-native''))"

text \<open>What selecting an item does; \<open>tray_perform\<close> is the closure behind it.\<close>

datatype tray_action =
    FireCmd cmd_kind
  | SelectMode nat
  | ToggleLegacyTone
  | ToggleEvdev
  | ToggleHook ustr

datatype menu_item =
    StandardItem ustr tray_action
  | CheckmarkItem ustr bool tray_action
  | RadioGroup nat "(ustr \<times> tray_action) list"
  | SubMenu ustr "menu_item list"

text \<open>The label of the tone item shows both placements; its two accented letters are given by their
  code points.\<close>

definition legacy_label :: ustr where
  "legacy_label = lit ''Legacy tone placement ('' @ [0xF2, 97] @ lit '' vs o'' @ [0xE0] @ lit '')''"

definition tray_menu :: "features \<Rightarrow> ustr list \<Rightarrow> tray \<Rightarrow> menu_item list" where
  "tray_menu ft hook_names t =
     [if tr_enabled t then StandardItem (lit ''Off'') (FireCmd CmdDisable)
      else StandardItem (lit ''On'') (FireCmd CmdEnable),
      SubMenu (lit ''Mode'')
        [RadioGroup (case tr_method t of TelexConfig \<Rightarrow> 0 | VniConfig \<Rightarrow> 1 | ViqrConfig \<Rightarrow> 2)
           [(lit ''Telex'', SelectMode 0), (lit ''VNI'', SelectMode 1), (lit ''VIQR'', SelectMode 2)]],
      CheckmarkItem legacy_label (\<not> tr_modern_style t) ToggleLegacyTone] @
     (if ft_evdev_grab ft
      then [CheckmarkItem (evdev_toggle_label (tr_evdev_enabled t)) (tr_evdev_enabled t) ToggleEvdev,
            SubMenu (lit ''Evdev hooks'')
              (map (\<lambda>name. CheckmarkItem name (name \<in> set (tr_evdev_grab_hooks t)) (ToggleHook name)) hook_names)]
      else []) @
     [StandardItem (lit ''Quit'') (FireCmd CmdQuit)]"

text \<open>What an action sends: a command to the supervisor, a change to the daemon, a file to write.\<close>

datatype tray_effect =
    Fired cmd_kind
  | ChangeSent config_change
  | SaveConfig ustr config_change "ustr list"

definition save_current_config :: "tray \<Rightarrow> tray_effect list" where
  "save_current_config t =
     (case tr_config_path t of
        Some path \<Rightarrow>
          [SaveConfig path \<lparr>cc_method = tr_method t, cc_modern_style = tr_modern_style t,
                           cc_enable_evdev_grab = tr_evdev_enabled t\<rparr> (tr_evdev_grab_hooks t)]
      | None \<Rightarrow> [])"

definition tray_apply :: "config_change \<Rightarrow> tray \<Rightarrow> tray_effect list" where
  "tray_apply change t = ChangeSent change # save_current_config t"

definition toggle_evdev_hook :: "ustr \<Rightarrow> tray \<Rightarrow> tray \<times> tray_effect list" where
  "toggle_evdev_hook name t =
     (let hooks = tr_evdev_grab_hooks t;
          t' = t\<lparr>tr_evdev_grab_hooks := (if name \<in> set hooks then remove1 name hooks else hooks @ [name])\<rparr>
      in (t', save_current_config t'))"

definition tray_perform :: "tray_action \<Rightarrow> tray \<Rightarrow> tray \<times> tray_effect list" where
  "tray_perform a t =
     (case a of
        FireCmd k \<Rightarrow> (t, [Fired k])
      | SelectMode idx \<Rightarrow>
          (let set_mode = (\<lambda>m. let t' = t\<lparr>tr_method := m\<rparr> in
                 (t', tray_apply \<lparr>cc_method = m, cc_modern_style = tr_modern_style t',
                                 cc_enable_evdev_grab = tr_evdev_enabled t'\<rparr> t'))
           in if idx = 0 then set_mode TelexConfig
              else if idx = 1 then set_mode VniConfig
              else if idx = 2 then set_mode ViqrConfig
              else (t, []))
      | ToggleLegacyTone \<Rightarrow>
          (let t' = t\<lparr>tr_modern_style := \<not> tr_modern_style t\<rparr> in
           (t', tray_apply \<lparr>cc_method = tr_method t', cc_modern_style = tr_modern_style t',
                           cc_enable_evdev_grab = tr_evdev_enabled t'\<rparr> t'))
      | ToggleEvdev \<Rightarrow>
          (let t' = t\<lparr>tr_evdev_enabled := \<not> tr_evdev_enabled t\<rparr> in
           (t', save_current_config t' @
                [Fired (CmdSetBackend (if tr_evdev_enabled t' then EvdevTarget else NativeTarget))]))
      | ToggleHook name \<Rightarrow> toggle_evdev_hook name t)"

text \<open>A left click on the icon.\<close>

definition tray_activate :: "tray \<Rightarrow> tray_effect list" where
  "tray_activate t = [Fired (if tr_enabled t then CmdDisable else CmdEnable)]"

section \<open>The hooks on offer\<close>

definition builtin_hook_names :: "ustr list" where
  "builtin_hook_names = [lit ''gnome'', lit ''kde'', lit ''sway'', lit ''x11'']"

definition hook_name_is_safe :: "ustr \<Rightarrow> bool" where
  "hook_name_is_safe name \<longleftrightarrow> name \<noteq> [] \<and> list_all hook_name_byte name"

definition strip_suffix :: "ustr \<Rightarrow> ustr \<Rightarrow> ustr option" where
  "strip_suffix s suf =
     (if length suf \<le> length s \<and> drop (length s - length suf) s = suf
      then Some (take (length s - length suf) s) else None)"

text \<open>
  \<open>entries\<close> are the readable names of the directory, or \<open>None\<close> when it cannot be listed. The
  names come out of a \<^verbatim>\<open>BTreeSet\<close>: each once, in byte order.
\<close>

definition byte_less_eq :: "ustr \<Rightarrow> ustr \<Rightarrow> bool" where
  "byte_less_eq a b \<longleftrightarrow> a = b \<or> (bytes_of a, bytes_of b) \<in> lexord {(x, y). x < y}"

fun btree_insert :: "ustr \<Rightarrow> ustr list \<Rightarrow> ustr list" where
  "btree_insert x [] = [x]"
| "btree_insert x (y # ys) =
     (if x = y then y # ys else if byte_less_eq x y then x # y # ys else y # btree_insert x ys)"

definition discover_hook_names_in :: "'w os \<Rightarrow> 'w \<Rightarrow> path \<Rightarrow> ustr list option \<Rightarrow> ustr list" where
  "discover_hook_names_in os w dir entries =
     (case entries of
        None \<Rightarrow> foldr btree_insert builtin_hook_names []
      | Some files \<Rightarrow>
          foldr btree_insert
            (builtin_hook_names @
             filter (\<lambda>name. hook_name_is_safe name \<and> os_is_file os w (path_join dir (name @ lit ''-unset'')))
               (List.map_filter (\<lambda>f. strip_suffix f (lit ''-set'')) files)) [])"

section \<open>Editing the configuration file\<close>

text \<open>\<^verbatim>\<open>str::find\<close> with a string: the byte offset of the first occurrence.\<close>

fun find_str :: "ustr \<Rightarrow> ustr \<Rightarrow> nat option" where
  "find_str needle [] = (if needle = [] then Some 0 else None)"
| "find_str needle (c # s) =
     (if take (length needle) (c # s) = needle then Some 0
      else map_option (\<lambda>n. len_utf8 c + n) (find_str needle s))"

text \<open>\<^verbatim>\<open>&s[i..j]\<close>, with its panic.\<close>

definition str_range :: "ustr \<Rightarrow> nat \<Rightarrow> nat \<Rightarrow> ustr option" where
  "str_range s i j =
     (if i \<le> j then (case str_to s j of Some t \<Rightarrow> str_from t i | None \<Rightarrow> None) else None)"

text \<open>\<^verbatim>\<open>String::replace\_range\<close>.\<close>

definition replace_range :: "ustr \<Rightarrow> nat \<Rightarrow> nat \<Rightarrow> ustr \<Rightarrow> ustr option" where
  "replace_range s i j new =
     (if i \<le> j then (case (str_to s i, str_from s j) of
                        (Some a, Some b) \<Rightarrow> Some (a @ new @ b)
                      | _ \<Rightarrow> None)
      else None)"

text \<open>\<open>value_end\<close>: the end of the value that starts at \<open>val_start\<close>.\<close>

definition value_end :: "ustr \<Rightarrow> nat \<Rightarrow> nat \<Rightarrow> nat \<Rightarrow> nat option" where
  "value_end txt search_until val_start line_end =
     (case str_range txt val_start line_end of
        None \<Rightarrow> None
      | Some first_line \<Rightarrow>
          if dropWhile is_whitespace first_line \<noteq> [] \<and> hd (dropWhile is_whitespace first_line) = 91
          then (let array_start = val_start + (case find_str [91] first_line of Some n \<Rightarrow> n | None \<Rightarrow> 0) in
                case str_range txt array_start search_until of
                  None \<Rightarrow> None
                | Some rest \<Rightarrow>
                    Some (case find_str [93] rest of
                            Some close_rel \<Rightarrow> array_start + close_rel + 1
                          | None \<Rightarrow> line_end))
          else Some line_end)"

text \<open>
  The value at \<open>val_start\<close> is replaced unless it starts a comment or lies behind the region. The
  outer \<open>None\<close> is a panic, the inner one means that nothing was replaced.
\<close>

definition replace_value_at :: "ustr \<Rightarrow> nat \<Rightarrow> nat \<Rightarrow> ustr \<Rightarrow> ustr option option" where
  "replace_value_at txt search_until val_start new_val =
     (case str_from txt val_start of
        None \<Rightarrow> None
      | Some tail \<Rightarrow>
          (let line_end = (case find_str [10] tail of Some n \<Rightarrow> val_start + n | None \<Rightarrow> search_until) in
           if val_start < search_until
           then (case str_range txt val_start line_end of
                   None \<Rightarrow> None
                 | Some v \<Rightarrow>
                     if str_trim v \<noteq> [] \<and> hd (str_trim v) = 35 then Some None
                     else (case value_end txt search_until val_start line_end of
                             None \<Rightarrow> None
                           | Some val_end \<Rightarrow> map_option Some (replace_range txt val_start val_end new_val)))
           else Some None))"

text \<open>The attempts in order: the first that replaces ends the function.\<close>

fun first_replacement :: "(unit \<Rightarrow> ustr option option) list \<Rightarrow> ustr \<Rightarrow> (ustr \<times> bool) option" where
  "first_replacement [] txt = Some (txt, False)"
| "first_replacement (f # fs) txt =
     (case f () of
        None \<Rightarrow> None
      | Some (Some txt') \<Rightarrow> Some (txt', True)
      | Some None \<Rightarrow> first_replacement fs txt)"

definition try_needle :: "ustr \<Rightarrow> nat \<Rightarrow> ustr \<Rightarrow> ustr \<Rightarrow> ustr option option" where
  "try_needle txt search_until new_val needle =
     (case str_to txt search_until of
        None \<Rightarrow> None
      | Some region \<Rightarrow>
          (case find_str needle region of
             Some pos \<Rightarrow>
               if pos + blen needle \<le> search_until
               then replace_value_at txt search_until (pos + blen needle) new_val
               else Some None
           | None \<Rightarrow> Some None))"

definition try_prefix :: "ustr \<Rightarrow> nat \<Rightarrow> ustr \<Rightarrow> ustr \<Rightarrow> ustr option option" where
  "try_prefix txt search_until new_val prefix =
     (if take (length prefix) txt = prefix \<and> blen prefix \<le> search_until
      then replace_value_at txt search_until (blen prefix) new_val
      else Some None)"

definition replace_toml_value :: "ustr \<Rightarrow> ustr \<Rightarrow> ustr \<Rightarrow> nat option \<Rightarrow> (ustr \<times> bool) option" where
  "replace_toml_value txt key new_val bound =
     (let search_until = (case bound of Some n \<Rightarrow> n | None \<Rightarrow> blen txt) in
      first_replacement
        [\<lambda>_. try_needle txt search_until new_val ([10] @ key @ lit '' = ''),
         \<lambda>_. try_needle txt search_until new_val ([10] @ key @ lit '' =''),
         \<lambda>_. try_prefix txt search_until new_val (key @ lit '' = ''),
         \<lambda>_. try_prefix txt search_until new_val (key @ lit '' ='')]
        txt)"

text \<open>\<^verbatim>\<open>str::lines\<close>: lines end in a newline, which goes with a carriage return before it.\<close>

fun split_inclusive :: "ustr \<Rightarrow> ustr list" where
  "split_inclusive [] = []"
| "split_inclusive (c # s) =
     (if c = 10 then [10] # split_inclusive s
      else (case split_inclusive s of [] \<Rightarrow> [[c]] | w # ws \<Rightarrow> (c # w) # ws))"

definition strip_newline :: "ustr \<Rightarrow> ustr" where
  "strip_newline l =
     (if l \<noteq> [] \<and> last l = 10
      then (if butlast l \<noteq> [] \<and> last (butlast l) = 13 then butlast (butlast l) else butlast l)
      else l)"

definition str_lines :: "ustr \<Rightarrow> ustr list" where
  "str_lines s = map strip_newline (split_inclusive s)"

definition is_table_line :: "ustr \<Rightarrow> bool" where
  "is_table_line line \<longleftrightarrow>
     (let without_comment = rev (dropWhile is_whitespace (rev (takeWhile (\<lambda>c. c \<noteq> 35) (str_trim line))))
      in without_comment \<noteq> [] \<and> hd without_comment = 91 \<and> last without_comment = 93)"

fun table_pos_loop :: "ustr list \<Rightarrow> nat \<Rightarrow> nat option" where
  "table_pos_loop [] offset = None"
| "table_pos_loop (line # lines) offset =
     (if is_table_line line then Some offset else table_pos_loop lines (offset + blen line + 1))"

definition find_first_table_pos :: "ustr \<Rightarrow> nat option" where
  "find_first_table_pos txt = table_pos_loop (str_lines txt) 0"

text \<open>One call of the closure \<open>append\<close>: the text and the pending lines.\<close>

definition append_setting :: "ustr \<times> ustr \<Rightarrow> (ustr \<times> ustr) option \<Rightarrow> (ustr \<times> ustr) option" where
  "append_setting kv st =
     (case (kv, st) of
        ((key, val), Some (out, pending)) \<Rightarrow>
          (case replace_toml_value out key val (find_first_table_pos out) of
             None \<Rightarrow> None
           | Some (out', replaced) \<Rightarrow>
               Some (out', if replaced then pending else pending @ [10] @ key @ lit '' = '' @ val))
      | (_, None) \<Rightarrow> None)"

text \<open>
  The pending lines go before the first table. The source asks \<^verbatim>\<open>pos < out.len()\<close> after the
  insertion, where it always holds.
\<close>

definition insert_pending :: "ustr \<Rightarrow> ustr \<Rightarrow> ustr option" where
  "insert_pending out pending =
     (if pending = [] then Some out
      else (let pos = (case find_first_table_pos out of Some n \<Rightarrow> n | None \<Rightarrow> blen out) in
            case (str_to out pos, str_from out pos) of
              (Some a, Some b) \<Rightarrow>
                Some (a @ pending @ (if b \<noteq> [] \<and> hd b = 10 then [] else [10]) @ b)
            | _ \<Rightarrow> None))"

definition edit_config :: "ustr \<Rightarrow> (ustr \<times> ustr) list \<Rightarrow> ustr option" where
  "edit_config txt settings =
     (case fold append_setting settings (Some (txt, [])) of
        None \<Rightarrow> None
      | Some (out, pending) \<Rightarrow> insert_pending out pending)"

definition method_str :: "method_config \<Rightarrow> ustr" where
  "method_str m = (case m of TelexConfig \<Rightarrow> lit ''telex'' | VniConfig \<Rightarrow> lit ''vni'' | ViqrConfig \<Rightarrow> lit ''viqr'')"

definition bool_str :: "bool \<Rightarrow> ustr" where
  "bool_str b = (if b then lit ''true'' else lit ''false'')"

definition tray_settings :: "config_change \<Rightarrow> ustr \<Rightarrow> (ustr \<times> ustr) list" where
  "tray_settings change hooks_str =
     [(lit ''method'', [34] @ method_str (cc_method change) @ [34]),
      (lit ''modern_style'', bool_str (cc_modern_style change)),
      (lit ''enable_evdev_grab'', bool_str (cc_enable_evdev_grab change)),
      (lit ''evdev_grab_hooks'', hooks_str)]"

text \<open>
  \<open>save_config\<close>: what it writes, given what reading the file gave (\<open>Inl True\<close>: it does not exist),
  the installed example, and the TOML library: its array syntax, its parser's verdict and the
  text of a generated configuration.
\<close>

record toml_lib =
  tm_array :: "ustr list \<Rightarrow> ustr"
  tm_valid :: "ustr \<Rightarrow> bool"
  tm_generate :: "config \<Rightarrow> ustr option"

datatype saved = Written ustr | NotSaved | SavePanicked

definition generated_config :: "config_change \<Rightarrow> ustr list \<Rightarrow> config" where
  "generated_config change hooks =
     config_default\<lparr>cf_method := cc_method change, cf_modern_style := cc_modern_style change,
                    cf_enable_evdev_grab := cc_enable_evdev_grab change, cf_evdev_grab_hooks := hooks\<rparr>"

definition save_config :: "toml_lib \<Rightarrow> bool + ustr \<Rightarrow> ustr option \<Rightarrow> config_change \<Rightarrow> ustr list \<Rightarrow> saved" where
  "save_config lib file example change hooks =
     (let generate = (case tm_generate lib (generated_config change hooks) of Some s \<Rightarrow> Written s | None \<Rightarrow> NotSaved);
          check = (\<lambda>out. if tm_valid lib out then Written out else generate)
      in case (case file of
                 Inr t \<Rightarrow> Some t
               | Inl not_found \<Rightarrow> if not_found then Some (case example of Some t \<Rightarrow> t | None \<Rightarrow> []) else None) of
           None \<Rightarrow> NotSaved
         | Some txt \<Rightarrow>
             if txt = [] \<or> \<not> tm_valid lib txt
             then (case generate of Written s \<Rightarrow> check s | r \<Rightarrow> r)
             else (case edit_config txt (tray_settings change (tm_array lib hooks)) of
                     None \<Rightarrow> SavePanicked
                   | Some out \<Rightarrow> check out))"

end
