(* ===== verification/TrayProperties.thy ===== *)
theory TrayProperties
  imports Tray
begin

text \<open>
  The properties of the edit of the configuration file: what a replacement may touch, that files
  with plain newlines are always edited, and that files with carriage returns can make it panic.
\<close>

section \<open>Offsets\<close>

lemma append_blen_prefix:
  assumes "a @ q = p @ b" "blen a \<le> blen p"
  obtains m where "p = a @ m" "q = m @ b"
proof -
  from assms(1) obtain us where "a = p @ us \<and> us @ q = b \<or> a @ us = p \<and> q = us @ b"
    by (auto simp: append_eq_append_conv2)
  then show ?thesis
  proof
    assume "a = p @ us \<and> us @ q = b"
    with assms(2) that [of "[]"] show ?thesis by simp
  next
    assume "a @ us = p \<and> q = us @ b"
    with that [of us] show ?thesis by simp
  qed
qed

lemma find_str_Some: "find_str needle s = Some n \<Longrightarrow> \<exists>a b. s = a @ needle @ b \<and> blen a = n"
proof (induction s arbitrary: n)
  case Nil
  then show ?case by (auto split: if_splits)
next
  case (Cons c s)
  show ?case
  proof (cases "take (length needle) (c # s) = needle")
    case True
    with Cons.prems have "n = 0" by simp
    moreover have "c # s = [] @ needle @ drop (length needle) (c # s)"
      using True by (metis append_Nil append_take_drop_id)
    ultimately show ?thesis by (metis blen.simps(1))
  next
    case False
    with Cons.prems obtain k where "find_str needle s = Some k" "n = len_utf8 c + k" by auto
    with Cons.IH [of k] obtain a b where "s = a @ needle @ b" "blen a = k" by blast
    with \<open>n = _\<close> show ?thesis by (intro exI [of _ "c # a"] exI [of _ b]) simp
  qed
qed

lemma find_char_Some: "find_str [x] s = Some n \<Longrightarrow> \<exists>a b. s = a @ x # b \<and> blen a = n \<and> x \<notin> set a"
proof (induction s arbitrary: n)
  case (Cons c s)
  show ?case
  proof (cases "c = x")
    case True
    with Cons.prems show ?thesis by (intro exI [of _ "[]"] exI [of _ s]) simp
  next
    case False
    with Cons.prems obtain k where "find_str [x] s = Some k" "n = len_utf8 c + k" by auto
    with Cons.IH [of k] obtain a b where "s = a @ x # b" "blen a = k" "x \<notin> set a" by blast
    with \<open>n = _\<close> False show ?thesis by (intro exI [of _ "c # a"] exI [of _ b]) simp
  qed
qed simp

lemma find_char_None: "find_str [x] s = None \<Longrightarrow> x \<notin> set s"
  by (induction s) (auto split: if_splits)

lemma replace_range_Some:
  assumes "replace_range s i j new = Some s'"
  obtains a m b where "s = a @ m @ b" "blen a = i" "s' = a @ new @ b"
proof -
  from assms obtain a b where ab: "str_to s i = Some a" "str_from s j = Some b" "i \<le> j" "s' = a @ new @ b"
    by (auto simp: replace_range_def split: if_splits option.splits)
  then obtain q p where s: "s = a @ q" "blen a = i" "s = p @ b" "blen p = j" "i \<le> j" "s' = a @ new @ b"
    unfolding str_to_eq_Some str_from_eq_Some by blast
  then obtain m where "p = a @ m" "q = m @ b" using append_blen_prefix [of a q p b] by auto
  with s that show ?thesis by simp
qed

lemma str_range_eq: "s = a @ m @ b \<Longrightarrow> i = blen a \<Longrightarrow> j = blen a + blen m \<Longrightarrow> str_range s i j = Some m"
proof -
  assume s: "s = a @ m @ b" and i: "i = blen a" and j: "j = blen a + blen m"
  from str_to_append [of "a @ m" b] s j have "str_to s j = Some (a @ m)" by simp
  with str_from_append [of a m] i j show ?thesis by (simp add: str_range_def)
qed

lemma replace_range_eq:
  "s = a @ m @ b \<Longrightarrow> i = blen a \<Longrightarrow> j = blen a + blen m \<Longrightarrow> replace_range s i j new = Some (a @ new @ b)"
proof -
  assume s: "s = a @ m @ b" and i: "i = blen a" and j: "j = blen a + blen m"
  from str_to_append [of a "m @ b"] s i have "str_to s i = Some a" by simp
  moreover from str_from_append [of "a @ m" b] s j have "str_from s j = Some b" by simp
  ultimately show ?thesis using i j by (simp add: replace_range_def)
qed

section \<open>A replacement touches the value only\<close>

lemma first_replacement_total: "(\<And>f. f \<in> set fs \<Longrightarrow> f () \<noteq> None) \<Longrightarrow> first_replacement fs t \<noteq> None"
proof (induction fs)
  case (Cons f fs)
  from Cons.prems [of f] obtain r where "f () = Some r" by auto
  with Cons show ?case by (cases r) simp_all
qed simp

lemma first_replacement_Some:
  "first_replacement fs t = Some (t', r) \<Longrightarrow> if r then \<exists>f\<in>set fs. f () = Some (Some t') else t' = t"
  by (induction fs) (auto split: option.splits)

lemma replace_toml_value_cases:
  assumes "replace_toml_value t key new bound = Some (t', True)"
  obtains (needle) eq su where "eq \<in> {lit '' = '', lit '' =''}" "try_needle t su new ([10] @ key @ eq) = Some (Some t')"
    | (prefix) eq su where "eq \<in> {lit '' = '', lit '' =''}" "try_prefix t su new (key @ eq) = Some (Some t')"
proof -
  from first_replacement_Some [OF assms [unfolded replace_toml_value_def Let_def]] show ?thesis
    using needle prefix by auto
qed

lemma replace_value_at_Some:
  assumes "replace_value_at txt su vs new = Some (Some txt')"
  obtains a m b where "txt = a @ m @ b" "blen a = vs" "txt' = a @ new @ b"
proof -
  from assms obtain ve where "replace_range txt vs ve new = Some txt'"
    by (auto simp: replace_value_at_def Let_def split: option.splits if_splits)
  then show ?thesis by (rule replace_range_Some) (rule that)
qed

lemma try_needle_Some:
  assumes "try_needle txt su new ([10] @ head) = Some (Some txt')"
  shows "\<exists>pre m b. txt = pre @ head @ m @ b \<and> txt' = pre @ head @ new @ b \<and> pre \<noteq> [] \<and> last pre = 10"
proof -
  from assms obtain region pos where region: "str_to txt su = Some region"
    and pos: "find_str ([10] @ head) region = Some pos"
    and v: "replace_value_at txt su (pos + blen ([10] @ head)) new = Some (Some txt')"
    by (auto simp: try_needle_def split: option.splits if_splits)
  from region obtain r where r: "txt = region @ r" by (auto simp: str_to_eq_Some)
  from find_str_Some [OF pos] obtain x y where x: "region = x @ [10] @ head @ y" "blen x = pos" by auto
  from v obtain a m b where a: "txt = a @ m @ b" "blen a = pos + blen ([10] @ head)" "txt' = a @ new @ b"
    by (rule replace_value_at_Some)
  have "a = x @ [10] @ head"
    by (rule prefix_blen_unique [where q = "m @ b" and q' = "y @ r"]) (use a r x in auto)
  with a show ?thesis by (intro exI [of _ "x @ [10]"] exI [of _ m] exI [of _ b]) simp
qed

lemma try_prefix_Some:
  assumes "try_prefix txt su new head = Some (Some txt')"
  shows "\<exists>m b. txt = head @ m @ b \<and> txt' = head @ new @ b"
proof -
  from assms have h: "take (length head) txt = head"
    and v: "replace_value_at txt su (blen head) new = Some (Some txt')"
    by (auto simp: try_prefix_def split: if_splits)
  from v obtain a m b where a: "txt = a @ m @ b" "blen a = blen head" "txt' = a @ new @ b"
    by (rule replace_value_at_Some)
  from h have "txt = head @ drop (length head) txt" by (metis append_take_drop_id)
  with a(1,2) have "a = head" by (metis prefix_blen_unique)
  with a show ?thesis by blast
qed

lemma replace_touches:
  assumes "replace_toml_value txt key new bound = Some (txt', True)"
  shows "\<exists>pre eq old post. eq \<in> {lit '' = '', lit '' =''} \<and> (pre = [] \<or> last pre = 10) \<and>
    txt = pre @ key @ eq @ old @ post \<and> txt' = pre @ key @ eq @ new @ post"
proof -
  from assms show ?thesis
  proof (cases rule: replace_toml_value_cases)
    case (needle eq su)
    from try_needle_Some [OF needle(2)] obtain pre m b where
      "txt = pre @ (key @ eq) @ m @ b" "txt' = pre @ (key @ eq) @ new @ b" "last pre = 10" by blast
    with needle(1) show ?thesis by (metis append.assoc)
  next
    case (prefix eq su)
    from try_prefix_Some [OF prefix(2)] obtain m b where
      "txt = (key @ eq) @ m @ b" "txt' = (key @ eq) @ new @ b" by blast
    with prefix(1) show ?thesis by (metis append.assoc append_Nil)
  qed
qed

lemma replace_touches_only:
  assumes "replace_toml_value txt key new bound = Some (txt', True)"
  shows "\<exists>pre old post. txt = pre @ old @ post \<and> txt' = pre @ new @ post"
proof -
  from replace_touches [OF assms] obtain pre eq old post where
    "txt = (pre @ key @ eq) @ old @ post" "txt' = (pre @ key @ eq) @ new @ post" by auto
  then show ?thesis by blast
qed


section \<open>Files with plain newlines\<close>

lemma concat_split_inclusive: "concat (split_inclusive s) = s"
proof (induction s)
  case (Cons c s)
  then show ?case by (cases "split_inclusive s") auto
qed simp

lemma split_inclusive_lines: "w \<in> set (butlast (split_inclusive s)) \<Longrightarrow> w \<noteq> [] \<and> last w = 10"
proof (induction s arbitrary: w)
  case (Cons c s)
  then show ?case
    by (cases "split_inclusive s") (auto split: if_splits)
qed simp

lemma blen_strip_newline: "l \<noteq> [] \<Longrightarrow> last l = 10 \<Longrightarrow> 13 \<notin> set l \<Longrightarrow> blen (strip_newline l) + 1 = blen l"
proof -
  assume l: "l \<noteq> []" "last l = 10" "13 \<notin> set l"
  then obtain p where p: "l = p @ [10]" by (metis append_butlast_last_id)
  with l(3) have "13 \<notin> set p" by simp
  then have "\<not> (p \<noteq> [] \<and> last p = 13)" using last_in_set by metis
  with p have "strip_newline l = p" by (auto simp: strip_newline_def)
  with p show ?thesis by (simp add: len_utf8_def)
qed

lemma table_pos_loop_Some:
  "table_pos_loop (map strip_newline ws) off = Some n \<Longrightarrow> (\<And>w. w \<in> set (butlast ws) \<Longrightarrow> w \<noteq> [] \<and> last w = 10) \<Longrightarrow>
   13 \<notin> set (concat ws) \<Longrightarrow>
   \<exists>a l b. ws = a @ l # b \<and> n = off + blen (concat a) \<and> is_table_line (strip_newline l) \<and>
     (\<forall>w\<in>set a. \<not> is_table_line (strip_newline w))"
proof (induction ws arbitrary: off)
  case (Cons w ws)
  show ?case
  proof (cases "is_table_line (strip_newline w)")
    case True
    with Cons.prems show ?thesis by (intro exI [of _ "[]"] exI [of _ w] exI [of _ ws]) simp
  next
    case False
    with Cons.prems(1) have t: "table_pos_loop (map strip_newline ws) (off + blen (strip_newline w) + 1) = Some n"
      by simp
    then have ne: "ws \<noteq> []" by auto
    with Cons.prems(2,3) have w: "blen (strip_newline w) + 1 = blen w" by (intro blen_strip_newline) auto
    from Cons.IH [OF t] Cons.prems(2,3) ne obtain a l b where "ws = a @ l # b"
      "n = off + blen (strip_newline w) + 1 + blen (concat a)" "is_table_line (strip_newline l)"
      "\<forall>w\<in>set a. \<not> is_table_line (strip_newline w)" by auto
    with w False show ?thesis by (intro exI [of _ "w # a"] exI [of _ l] exI [of _ b]) simp
  qed
qed simp

text \<open>An offset is a line start when it is the end of the file or follows a newline.\<close>

definition line_start :: "ustr \<Rightarrow> nat \<Rightarrow> bool" where
  "line_start txt n \<longleftrightarrow> (\<exists>pre post. txt = pre @ post \<and> blen pre = n \<and> (post = [] \<or> pre = [] \<or> last pre = 10))"

lemma line_start_end: "line_start txt (blen txt)"
  by (auto simp: line_start_def)

lemma table_pos_line_start:
  assumes "13 \<notin> set txt" "find_first_table_pos txt = Some n"
  shows "line_start txt n"
proof -
  let ?ws = "split_inclusive txt"
  from table_pos_loop_Some [of ?ws 0 n] assms split_inclusive_lines [of _ "txt"] concat_split_inclusive [of "txt"]
  obtain a l b where a: "?ws = a @ l # b" "n = blen (concat a)"
    by (auto simp: find_first_table_pos_def str_lines_def)
  have "a = [] \<or> last (concat a) = 10 \<and> concat a \<noteq> []"
  proof (cases a rule: rev_cases)
    case (snoc a' w)
    with a(1) have "w \<in> set (butlast ?ws)" by (simp add: butlast_append)
    with split_inclusive_lines snoc show ?thesis by fastforce
  qed simp
  moreover from a(1) concat_split_inclusive [of "txt"] have "txt = concat a @ concat (l # b)" by (metis concat_append)
  ultimately show ?thesis using a(2) by (fastforce simp: line_start_def)
qed

lemma value_end_Some:
  assumes "txt = a @ line @ post" "vs = blen a" "le = blen a + blen line"
    and "txt = pre @ rest" "su = blen pre" "le \<le> su"
  shows "\<exists>m b. txt = a @ m @ b \<and> value_end txt su vs le = Some (blen a + blen m)"
proof -
  have line: "str_range txt vs le = Some line" by (rule str_range_eq [OF assms(1-3)])
  show ?thesis
  proof (cases "dropWhile is_whitespace line \<noteq> [] \<and> hd (dropWhile is_whitespace line) = 91")
    case False
    then have "value_end txt su vs le = Some le" by (simp only: value_end_def line option.case if_False)
    with assms(1,3) show ?thesis by blast
  next
    case True
    then have "91 \<in> set line" by (metis list.set_sel(1) set_dropWhileD)
    then obtain k where k: "find_str [91] line = Some k" using find_char_None by fastforce
    from find_char_Some [OF k] obtain x y where x: "line = x @ 91 # y" "blen x = k" by blast
    obtain o' where pre: "pre = (a @ line) @ o'" "post = o' @ rest"
      using append_blen_prefix [of "a @ line" post pre rest] assms by auto
    have r: "str_range txt (vs + k) su = Some (91 # y @ o')"
      by (rule str_range_eq [where a = "a @ x" and b = rest]) (use assms x pre in simp_all)
    show ?thesis
    proof (cases "find_str [93] (91 # y @ o')")
      case None
      with line True k r have "value_end txt su vs le = Some le"
        by (simp add: value_end_def Let_def del: find_str.simps)
      with assms(1,3) show ?thesis by blast
    next
      case (Some c)
      from find_char_Some [OF Some] obtain p q where p: "91 # y @ o' = p @ 93 # q" "blen p = c" by blast
      from line True k r Some have v: "value_end txt su vs le = Some (vs + k + c + 1)"
        by (simp add: value_end_def Let_def del: find_str.simps)
      have "txt = a @ (x @ p @ [93]) @ (q @ rest)" using assms(1) x(1) pre(2) p(1) by simp
      moreover have "vs + k + c + 1 = blen a + blen (x @ p @ [93])" using assms(2) x(2) p(2) by (simp add: len_utf8_def)
      ultimately show ?thesis using v by metis
    qed
  qed
qed

lemma replace_value_at_total:
  assumes "txt = a @ b" "vs = blen a" "line_start txt su" "vs \<le> su"
  shows "replace_value_at txt su vs new \<noteq> None"
proof -
  from assms(3) obtain pre post where p: "txt = pre @ post" "blen pre = su" "post = [] \<or> pre = [] \<or> last pre = 10"
    by (auto simp: line_start_def)
  from str_from_append [of a b] assms(1,2) have tail: "str_from txt vs = Some b" by simp
  obtain m where m: "pre = a @ m" "b = m @ post"
    using append_blen_prefix [of a b pre post] assms(1,2,4) p(1,2) by metis
  show ?thesis
  proof (cases "vs < su")
    case False
    with tail show ?thesis by (simp add: replace_value_at_def)
  next
    case True
    with m(1) p(2) assms(2) have "m \<noteq> []" by auto
    have "\<exists>line rest. b = line @ rest \<and> blen a + blen line \<le> su \<and>
        (case find_str [10] b of Some n \<Rightarrow> vs + n | None \<Rightarrow> su) = blen a + blen line"
    proof (cases "find_str [10] b")
      case None
      then have "10 \<notin> set b" by (rule find_char_None)
      then have "10 \<notin> set m" using m(2) by simp
      then have "last m \<noteq> 10" using \<open>m \<noteq> []\<close> last_in_set by metis
      with m(1) p(3) \<open>m \<noteq> []\<close> have "post = []" by simp
      with None m p(2) assms(2) show ?thesis by (intro exI [of _ b] exI [of _ "[]"]) auto
    next
      case (Some n)
      from find_char_Some [OF this] obtain x y where x: "b = x @ 10 # y" "blen x = n" "10 \<notin> set x" by blast
      have "blen x \<le> blen m"
      proof (cases "post = []")
        case True
        with x m(2) show ?thesis by (metis append_Nil2 blen_append le_add1)
      next
        case False
        with p(3) m(1) \<open>m \<noteq> []\<close> have "10 \<in> set m" by (metis append_is_Nil_conv last_appendR last_in_set)
        show ?thesis
        proof (rule ccontr)
          assume "\<not> blen x \<le> blen m"
          with append_blen_prefix [of m post x "10 # y"] m(2) x(1) obtain k where "x = m @ k" by auto
          with \<open>10 \<in> set m\<close> x(3) show False by simp
        qed
      qed
      with Some x m p(2) assms(2) show ?thesis by (intro exI [of _ x] exI [of _ "10 # y"]) auto
    qed
    then obtain line rest where l: "b = line @ rest" "blen a + blen line \<le> su"
      "(case find_str [10] b of Some n \<Rightarrow> vs + n | None \<Rightarrow> su) = blen a + blen line" by blast
    have r: "str_range txt vs (blen a + blen line) = Some line"
      by (rule str_range_eq [where a = a and b = rest]) (use assms(1,2) l(1) in simp_all)
    obtain m' b' where ve: "txt = a @ m' @ b'"
      "value_end txt su vs (blen a + blen line) = Some (blen a + blen m')"
      using value_end_Some [of "txt" a line rest vs "blen a + blen line" pre post su] assms(1,2) l p(1,2) by auto
    have "replace_range txt vs (blen a + blen m') new = Some (a @ new @ b')"
      by (rule replace_range_eq [OF ve(1)]) (use assms(2) in simp_all)
    with tail l(3) r ve(2) show ?thesis by (simp add: replace_value_at_def Let_def)
  qed
qed

lemma replace_toml_value_total:
  assumes "line_start txt su" "su = (case bound of Some n \<Rightarrow> n | None \<Rightarrow> blen txt)"
  shows "replace_toml_value txt key new bound \<noteq> None"
proof -
  from assms(1) obtain region r where region: "txt = region @ r" "blen region = su" by (auto simp: line_start_def)
  then have to: "str_to txt su = Some region" by (auto simp: str_to_eq_Some)
  have needle: "try_needle txt su new n \<noteq> None" for n
  proof (cases "find_str n region")
    case None
    with to show ?thesis by (simp add: try_needle_def)
  next
    case (Some pos)
    from find_str_Some [OF this] obtain x y where "region = x @ n @ y" "blen x = pos" by blast
    then have "replace_value_at txt su (pos + blen n) new \<noteq> None" if "pos + blen n \<le> su"
      using that replace_value_at_total [of "txt" "x @ n" "y @ r" "pos + blen n" su new] assms(1) region by simp
    with to Some show ?thesis by (simp add: try_needle_def)
  qed
  have prefix: "try_prefix txt su new n \<noteq> None" for n
  proof (cases "take (length n) txt = n \<and> blen n \<le> su")
    case True
    then have "txt = n @ drop (length n) txt" by (metis append_take_drop_id)
    from replace_value_at_total [OF this refl assms(1)] True show ?thesis by (simp add: try_prefix_def)
  next
    case False
    then have "try_prefix txt su new n = Some None" by (simp only: try_prefix_def if_False)
    then show ?thesis by simp
  qed
  show ?thesis
    unfolding replace_toml_value_def Let_def assms(2) [symmetric]
    by (rule first_replacement_total) (use needle prefix in auto)
qed

lemma replace_toml_value_no_cr:
  assumes "replace_toml_value txt key new bound = Some (txt', r)" "13 \<notin> set txt" "13 \<notin> set new"
  shows "13 \<notin> set txt'"
proof (cases r)
  case True
  with assms(1) have "replace_toml_value txt key new bound = Some (txt', True)" by simp
  from replace_touches_only [OF this] obtain pre old post where
    "txt = pre @ old @ post" "txt' = pre @ new @ post" by blast
  with assms(2,3) show ?thesis by simp
next
  case False
  with first_replacement_Some [OF assms(1) [unfolded replace_toml_value_def Let_def]] assms(2) show ?thesis by simp
qed

lemma fold_append_setting:
  assumes "13 \<notin> set out" "\<And>kv. kv \<in> set settings \<Longrightarrow> 13 \<notin> set (snd kv)"
  shows "\<exists>out' pending'. fold append_setting settings (Some (out, pending)) = Some (out', pending') \<and> 13 \<notin> set out'"
  using assms
proof (induction settings arbitrary: out pending)
  case (Cons kv settings)
  obtain key val where kv: "kv = (key, val)" by fastforce
  let ?bound = "find_first_table_pos out"
  have "line_start out (case ?bound of Some n \<Rightarrow> n | None \<Rightarrow> blen out)"
    using table_pos_line_start [OF Cons.prems(1)] line_start_end by (auto split: option.splits)
  from replace_toml_value_total [OF this refl, of key val] obtain out1 r where
    r: "replace_toml_value out key val ?bound = Some (out1, r)" by auto
  with replace_toml_value_no_cr [OF r Cons.prems(1)] Cons.prems(2) [of kv] kv have "13 \<notin> set out1" by simp
  with Cons.IH [of out1] Cons.prems(2) kv r show ?case by (simp add: append_setting_def)
qed simp

text \<open>
  C32: A configuration file with plain newlines can always be edited: whatever it and the new
  values hold, no slice of the edit panics.
\<close>

theorem config_edit_total:
  assumes "13 \<notin> set txt" "13 \<notin> set hooks_str"
  shows "edit_config txt (tray_settings change hooks_str) \<noteq> None"
proof -
  have "13 \<notin> set (snd kv)" if "kv \<in> set (tray_settings change hooks_str)" for kv
    using that assms(2) by (auto simp: tray_settings_def method_str_def bool_str_def lit_def split: method_config.splits if_splits)
  with fold_append_setting [OF assms(1)] obtain out pending where
    f: "fold append_setting (tray_settings change hooks_str) (Some (txt, [])) = Some (out, pending)" "13 \<notin> set out"
    by blast
  have "line_start out (case find_first_table_pos out of Some n \<Rightarrow> n | None \<Rightarrow> blen out)"
    using table_pos_line_start [OF f(2)] line_start_end by (auto split: option.splits)
  then obtain a b where "out = a @ b" "blen a = (case find_first_table_pos out of Some n \<Rightarrow> n | None \<Rightarrow> blen out)"
    by (auto simp: line_start_def)
  then have "insert_pending out pending \<noteq> None"
    using str_to_append [of a b] str_from_append [of a b] by (auto simp: insert_pending_def Let_def)
  with f(1) show ?thesis by (simp add: edit_config_def)
qed

section \<open>Files with carriage returns\<close>

text \<open>Three comment lines, the last in Vietnamese, before the first table, with CR LF line ends.\<close>

definition crlf_config :: ustr where
  "crlf_config = [35, 13, 10, 35, 13, 10, 35, 0xE0, 13, 10, 91, 97, 93, 13, 10]"

text \<open>
  C33: The offset of the first table counts one byte for every line end, two-byte line ends
  included. In a file with CR LF it falls short, here inside a letter, and saving from the tray's
  menu panics.
\<close>

theorem crlf_config_panics:
  assumes "tm_valid lib crlf_config"
  shows "save_config lib (Inr crlf_config) example change hooks = SavePanicked"
proof -
  have pos: "find_first_table_pos crlf_config = Some 8" by code_simp
  have cut: "str_to crlf_config 8 = None" by code_simp
  have "replace_toml_value crlf_config key new (Some 8) = None" for key new
    by (simp add: replace_toml_value_def try_needle_def cut)
  then have "fold append_setting (tray_settings change t) (Some (crlf_config, [])) = None" for t
    by (simp add: tray_settings_def append_setting_def pos)
  moreover have "crlf_config \<noteq> []" by (simp add: crlf_config_def)
  ultimately show ?thesis using assms by (simp add: save_config_def edit_config_def Let_def)
qed

section \<open>Witnesses\<close>


theorem config_edit_total_witness:
  "\<exists>out. edit_config (lit ''method = '' @ [34, 34, 10] @ lit ''[t]'')
     (tray_settings config_change_default (lit ''[]'')) = Some out"
  using config_edit_total [of "lit ''method = '' @ [34, 34, 10] @ lit ''[t]''" "lit ''[]''" config_change_default]
  by (simp add: lit_def)

theorem crlf_config_panics_witness:
  "save_config \<lparr>tm_array = (\<lambda>_. []), tm_valid = (\<lambda>_. True), tm_generate = (\<lambda>_. None)\<rparr> (Inr crlf_config) None
     config_change_default [] = SavePanicked"
  by (rule crlf_config_panics) simp

end
