(* ===== verification/Focus.thy ===== *)
theory Focus
  imports WaylandAdapter Utf8 "HOL-Library.AList"
begin

text \<open>
  Which application is focused: the toplevel tracking of \<^verbatim>\<open>wayland-adapter/src/dispatch.rs\<close> over
  the wlroots and the Plasma protocol with \<^verbatim>\<open>focus/wlr.rs\<close> and \<^verbatim>\<open>focus/kde.rs\<close>, and the
  XWayland bridge of \<^verbatim>\<open>crates/focus/src/x11.rs\<close>. A hash map is an association list; the order
  in which it is iterated is a parameter. Proxies are their object numbers, and the X11 replies
  are values.
\<close>

section \<open>The XWayland bridge\<close>

record x11_window =
  xw_class_instance :: "ustr option"
  xw_class_class :: "ustr option"
  xw_net_wm_name :: "ustr option"
  xw_net_wm_pid :: "nat option"

definition eq_ignore_ascii_case :: "ustr \<Rightarrow> ustr \<Rightarrow> bool" where
  "eq_ignore_ascii_case a b \<longleftrightarrow> str_lower a = str_lower b"

text \<open>\<open>matches\<close> over the windows in the map, in any order: it only asks whether one matches.\<close>

definition window_matches :: "ustr option \<Rightarrow> ustr option \<Rightarrow> x11_window \<Rightarrow> bool" where
  "window_matches app_id title w \<longleftrightarrow>
     (case (app_id, xw_class_class w) of (Some n, Some c) \<Rightarrow> eq_ignore_ascii_case n c | _ \<Rightarrow> False) \<or>
     (case (app_id, xw_class_instance w) of (Some n, Some c) \<Rightarrow> eq_ignore_ascii_case n c | _ \<Rightarrow> False) \<or>
     (case (title, xw_net_wm_name w) of (Some n, Some m) \<Rightarrow> n = m | _ \<Rightarrow> False)"

definition bridge_matches :: "x11_window list \<Rightarrow> ustr option \<Rightarrow> ustr option \<Rightarrow> bool" where
  "bridge_matches ws app_id title = list_ex (window_matches app_id title) ws"

text \<open>Splitting the bytes of \<^verbatim>\<open>WM\_CLASS\<close> at its zeros.\<close>

definition utf8_nonempty :: "nat list \<Rightarrow> ustr option" where
  "utf8_nonempty bs = (case from_utf8 bs of Some s \<Rightarrow> if s = [] then None else Some s | None \<Rightarrow> None)"

text \<open>
  \<open>fetch_window\<close>: the bytes of the three properties, \<open>None\<close> where the request failed.
\<close>

definition fetch_window :: "nat list option \<Rightarrow> nat list option \<Rightarrow> nat list option \<Rightarrow> x11_window option" where
  "fetch_window wm_class wm_name wm_pid =
     (let parts = (case wm_class of Some v \<Rightarrow> if v \<noteq> [] then str_split 0 v else [] | None \<Rightarrow> []);
          instance = (case parts of p # _ \<Rightarrow> utf8_nonempty p | [] \<Rightarrow> None);
          cls = (case parts of _ # p # _ \<Rightarrow> utf8_nonempty p | _ \<Rightarrow> None);
          name = (case wm_name of Some v \<Rightarrow> utf8_nonempty v | None \<Rightarrow> None);
          pid = (case wm_pid of
                   Some (a # b # c # d # _) \<Rightarrow> Some (a + 256 * b + 65536 * c + 16777216 * d)
                 | _ \<Rightarrow> None)
      in if cls = None \<and> instance = None \<and> name = None then None
         else Some \<lparr>xw_class_instance = instance, xw_class_class = cls, xw_net_wm_name = name,
                    xw_net_wm_pid = pid\<rparr>)"

text \<open>
  \<open>X11Bridge::spawn\<close>: whether a display is named, and what the server answers to the connection,
  the subscription at the root, the query of its children, the fetch of each of them, the flush and
  the start of the thread. Whether a child's property changes could be subscribed is only logged.
\<close>

record x11_server =
  xs_display :: bool
  xs_connect :: "ustr option"
  xs_subscribe_root :: "ustr option"
  xs_query_tree :: "ustr + nat list"
  xs_fetch :: "nat \<Rightarrow> x11_window option"
  xs_flush :: "ustr option"
  xs_thread :: "ustr option"

definition fetch_into :: "nat \<Rightarrow> x11_window option \<Rightarrow> (nat \<times> x11_window) list \<Rightarrow> (nat \<times> x11_window) list" where
  "fetch_into win fetched m = (case fetched of Some e \<Rightarrow> AList.update win e m | None \<Rightarrow> m)"

definition bridge_try_spawn :: "x11_server \<Rightarrow> ustr + (nat \<times> x11_window) list" where
  "bridge_try_spawn xs =
     (case xs_connect xs of
        Some e \<Rightarrow> Inl e
      | None \<Rightarrow>
     (case xs_subscribe_root xs of
        Some e \<Rightarrow> Inl e
      | None \<Rightarrow>
     (case xs_query_tree xs of
        Inl e \<Rightarrow> Inl e
      | Inr children \<Rightarrow>
     (let inner = fold (\<lambda>win. fetch_into win (xs_fetch xs win)) children [] in
      case xs_flush xs of
        Some e \<Rightarrow> Inl e
      | None \<Rightarrow> (case xs_thread xs of Some e \<Rightarrow> Inl e | None \<Rightarrow> Inr inner)))))"

definition bridge_spawn :: "x11_server \<Rightarrow> (nat \<times> x11_window) list option" where
  "bridge_spawn xs =
     (if \<not> xs_display xs then None
      else (case bridge_try_spawn xs of Inr b \<Rightarrow> Some b | Inl e \<Rightarrow> None))"

text \<open>The bridge's thread: one event, with what fetching the window gives then.\<close>

datatype x11_event =
    CreateNotify nat bool "x11_window option"
  | DestroyNotify nat
  | PropertyNotify nat "x11_window option"
  | OtherX11

definition x11_step :: "x11_event \<Rightarrow> (nat \<times> x11_window) list \<Rightarrow> (nat \<times> x11_window) list" where
  "x11_step ev m =
     (case ev of
        CreateNotify win on_root fetched \<Rightarrow> if on_root then fetch_into win fetched m else m
      | DestroyNotify win \<Rightarrow> AList.delete win m
      | PropertyNotify win fetched \<Rightarrow> fetch_into win fetched m
      | OtherX11 \<Rightarrow> m)"

text \<open>The thread ends at the first error of the connection; \<open>False\<close> means that it still waits.\<close>

fun x11_loop :: "(ustr + x11_event) list \<Rightarrow> (nat \<times> x11_window) list \<Rightarrow> bool \<times> (nat \<times> x11_window) list" where
  "x11_loop [] m = (False, m)"
| "x11_loop (Inl e # evs) m = (True, m)"
| "x11_loop (Inr ev # evs) m = x11_loop evs (x11_step ev m)"

section \<open>Toplevels\<close>

record toplevel_entry =
  te_app_id :: "ustr option"
  te_title :: "ustr option"
  te_activated :: bool
  te_pending_app_id :: "ustr option"
  te_pending_title :: "ustr option"
  te_pending_activated :: "bool option"

definition toplevel_default :: toplevel_entry where
  "toplevel_default =
     \<lparr>te_app_id = None, te_title = None, te_activated = False, te_pending_app_id = None,
      te_pending_title = None, te_pending_activated = None\<rparr>"

text \<open>\<^verbatim>\<open>ToplevelEntry::commit\<close>, with whether the activation changed.\<close>

definition entry_commit :: "toplevel_entry \<Rightarrow> toplevel_entry \<times> bool" where
  "entry_commit e =
     (let e1 = (case te_pending_app_id e of Some a \<Rightarrow> e\<lparr>te_app_id := Some a, te_pending_app_id := None\<rparr> | None \<Rightarrow> e);
          e2 = (case te_pending_title e1 of Some t \<Rightarrow> e1\<lparr>te_title := Some t, te_pending_title := None\<rparr> | None \<Rightarrow> e1);
          e3 = e2\<lparr>te_pending_activated := None\<rparr>
      in (case te_pending_activated e2 of
            Some new \<Rightarrow> if new \<noteq> te_activated e3 then (e3\<lparr>te_activated := new\<rparr>, True) else (e3, False)
          | None \<Rightarrow> (e3, False)))"

record plasma_entry =
  pe_uuid :: ustr
  pe_app_id :: "ustr option"
  pe_title :: "ustr option"
  pe_activated :: bool
  pe_pid :: "nat option"

text \<open>
  The fields of the adapter's state that belong to focus tracking; \<open>fo_observed\<close> says whether a
  channel to the main loop is there, \<open>fo_sent\<close> is what went through it.
\<close>

record focus_state =
  fo_toplevels :: "(nat \<times> toplevel_entry) list"
  fo_plasma :: "(nat \<times> plasma_entry) list"
  fo_active :: "nat option"
  fo_manager :: bool
  fo_current :: "focus_event option"
  fo_observed :: bool
  fo_sent :: "focus_event list"
  fo_bridge :: "x11_window list option"
  fo_destroyed :: "nat list"

definition focus_event_default :: focus_event where
  "focus_event_default = \<lparr>fe_app_id = None, fe_is_xwayland = False\<rparr>"

text \<open>The event for an entry with this app id and title.\<close>

definition focus_event_of :: "focus_state \<Rightarrow> ustr option \<Rightarrow> ustr option \<Rightarrow> focus_event" where
  "focus_event_of st app_id0 title =
     (let app_id = (case app_id0 of Some s \<Rightarrow> if str_trim s \<noteq> [] then Some s else None | None \<Rightarrow> None)
      in \<lparr>fe_app_id = app_id,
          fe_is_xwayland = (case fo_bridge st of Some ws \<Rightarrow> bridge_matches ws app_id title | None \<Rightarrow> False)\<rparr>)"

definition publish_focus :: "focus_event \<Rightarrow> focus_state \<Rightarrow> focus_state" where
  "publish_focus ev st =
     st\<lparr>fo_current := Some ev, fo_sent := (if fo_observed st then fo_sent st @ [ev] else fo_sent st)\<rparr>"

text \<open>\<^verbatim>\<open>toplevels.iter().find(|(\_, e)| e.activated)\<close>, in the order of this iteration.\<close>

definition first_activated :: "('e \<Rightarrow> bool) \<Rightarrow> ((nat \<times> 'e) list \<Rightarrow> (nat \<times> 'e) list) \<Rightarrow> (nat \<times> 'e) list \<Rightarrow> nat option" where
  "first_activated activated order m = map_option fst (List.find (\<lambda>ke. activated (snd ke)) (order m))"

text \<open>
  \<^verbatim>\<open>FocusBackend::next_event\<close>: the next event of the channel; \<open>Some (None, _)\<close> when its sender is
  gone and it is empty, and \<open>None\<close> while it waits.
\<close>

definition backend_next_event :: "bool \<Rightarrow> focus_event list \<Rightarrow> (focus_event option \<times> focus_event list) option" where
  "backend_next_event sender_alive rx =
     (case rx of
        ev # rest \<Rightarrow> Some (Some ev, rest)
      | [] \<Rightarrow> if sender_alive then None else Some (None, []))"

definition backend_name :: "focus_source \<Rightarrow> ustr option" where
  "backend_name src =
     (case src of
        WlrForeignToplevel \<Rightarrow> Some (lit ''wlr-foreign-toplevel'')
      | KdePlasma \<Rightarrow> Some (lit ''kde-plasma-window-management'')
      | FocusNone \<Rightarrow> None)"

section \<open>The wlroots protocol\<close>

fun chunks_exact4 :: "nat list \<Rightarrow> nat list list" where
  "chunks_exact4 (a # b # c # d # r) = [a, b, c, d] # chunks_exact4 r"
| "chunks_exact4 _ = []"

text \<open>The state array holds native 32-bit numbers (little endian here); 2 is ACTIVATED.\<close>

definition state_activated :: "nat list \<Rightarrow> bool" where
  "state_activated bytes = list_ex (\<lambda>b. b = [2, 0, 0, 0]) (chunks_exact4 bytes)"

datatype wlr_event =
    ManagerToplevel nat
  | ManagerFinished
  | HandleAppId nat ustr
  | HandleTitle nat ustr
  | HandleState nat "nat list"
  | HandleDone nat
  | HandleClosed nat

definition on_entry :: "nat \<Rightarrow> (toplevel_entry \<Rightarrow> toplevel_entry) \<Rightarrow> focus_state \<Rightarrow> focus_state" where
  "on_entry i f st = st\<lparr>fo_toplevels := AList.map_entry i f (fo_toplevels st)\<rparr>"

definition lose_active :: "nat \<Rightarrow> focus_state \<Rightarrow> focus_state" where
  "lose_active i st =
     (if fo_active st = Some i then publish_focus focus_event_default (st\<lparr>fo_active := None\<rparr>) else st)"

definition handle_done :: "((nat \<times> toplevel_entry) list \<Rightarrow> (nat \<times> toplevel_entry) list) \<Rightarrow> nat \<Rightarrow> focus_state \<Rightarrow> focus_state" where
  "handle_done order i st =
     (let entry_changed = (case map_of (fo_toplevels st) i of Some e \<Rightarrow> snd (entry_commit e) | None \<Rightarrow> False);
          st1 = on_entry i (\<lambda>e. fst (entry_commit e)) st;
          new_active = first_activated te_activated order (fo_toplevels st1);
          active_changed = (new_active \<noteq> fo_active st)
      in if entry_changed \<or> active_changed
         then (let st2 = st1\<lparr>fo_active := new_active\<rparr> in
               publish_focus
                 (case (case new_active of Some k \<Rightarrow> map_of (fo_toplevels st2) k | None \<Rightarrow> None) of
                    Some e \<Rightarrow> focus_event_of st2 (te_app_id e) (te_title e)
                  | None \<Rightarrow> focus_event_default) st2)
         else st1)"

definition wlr_dispatch ::
    "((nat \<times> toplevel_entry) list \<Rightarrow> (nat \<times> toplevel_entry) list) \<Rightarrow> wlr_event \<Rightarrow> focus_state \<Rightarrow> focus_state" where
  "wlr_dispatch order ev st =
     (case ev of
        ManagerToplevel i \<Rightarrow> st\<lparr>fo_toplevels := AList.update i toplevel_default (fo_toplevels st)\<rparr>
      | ManagerFinished \<Rightarrow> st\<lparr>fo_toplevels := [], fo_active := None, fo_manager := False\<rparr>
      | HandleAppId i app_id \<Rightarrow> on_entry i (te_pending_app_id_update (\<lambda>_. Some app_id)) st
      | HandleTitle i title \<Rightarrow> on_entry i (te_pending_title_update (\<lambda>_. Some title)) st
      | HandleState i bytes \<Rightarrow> on_entry i (te_pending_activated_update (\<lambda>_. Some (state_activated bytes))) st
      | HandleDone i \<Rightarrow> handle_done order i st
      | HandleClosed i \<Rightarrow>
          (let st1 = lose_active i (st\<lparr>fo_toplevels := AList.delete i (fo_toplevels st)\<rparr>)
           in st1\<lparr>fo_destroyed := fo_destroyed st1 @ [i]\<rparr>))"

section \<open>The Plasma protocol\<close>

datatype plasma_event =
    WindowWithUuid nat ustr
  | AppIdChanged nat ustr
  | TitleChanged nat ustr
  | StateChanged nat u32
  | PidChanged nat nat
  | Unmapped nat
  | OtherPlasma nat

definition on_plasma :: "nat \<Rightarrow> (plasma_entry \<Rightarrow> plasma_entry) \<Rightarrow> focus_state \<Rightarrow> focus_state" where
  "on_plasma i f st = st\<lparr>fo_plasma := AList.map_entry i f (fo_plasma st)\<rparr>"

text \<open>After every event of a window the active window is computed anew.\<close>

definition plasma_refocus :: "((nat \<times> plasma_entry) list \<Rightarrow> (nat \<times> plasma_entry) list) \<Rightarrow> focus_state \<Rightarrow> focus_state" where
  "plasma_refocus order st =
     (let new_active = first_activated pe_activated order (fo_plasma st)
      in if new_active \<noteq> fo_active st
         then (let st1 = st\<lparr>fo_active := new_active\<rparr> in
               publish_focus
                 (case (case new_active of Some k \<Rightarrow> map_of (fo_plasma st1) k | None \<Rightarrow> None) of
                    Some e \<Rightarrow> focus_event_of st1 (pe_app_id e) (pe_title e)
                  | None \<Rightarrow> focus_event_default) st1)
         else st)"

definition plasma_dispatch ::
    "((nat \<times> plasma_entry) list \<Rightarrow> (nat \<times> plasma_entry) list) \<Rightarrow> plasma_event \<Rightarrow> focus_state \<Rightarrow> focus_state" where
  "plasma_dispatch order ev st =
     (case ev of
        WindowWithUuid i uuid \<Rightarrow>
          st\<lparr>fo_plasma := AList.update i \<lparr>pe_uuid = uuid, pe_app_id = None, pe_title = None,
                                         pe_activated = False, pe_pid = None\<rparr> (fo_plasma st)\<rparr>
      | AppIdChanged i app_id \<Rightarrow> plasma_refocus order (on_plasma i (pe_app_id_update (\<lambda>_. Some app_id)) st)
      | TitleChanged i title \<Rightarrow> plasma_refocus order (on_plasma i (pe_title_update (\<lambda>_. Some title)) st)
      | StateChanged i flags \<Rightarrow>
          plasma_refocus order (on_plasma i (pe_activated_update (\<lambda>_. flags AND 1 \<noteq> 0)) st)
      | PidChanged i pid \<Rightarrow> plasma_refocus order (on_plasma i (pe_pid_update (\<lambda>_. Some pid)) st)
      | Unmapped i \<Rightarrow>
          (let st1 = lose_active i (st\<lparr>fo_plasma := AList.delete i (fo_plasma st)\<rparr>)
           in plasma_refocus order (st1\<lparr>fo_destroyed := fo_destroyed st1 @ [i]\<rparr>))
      | OtherPlasma i \<Rightarrow> plasma_refocus order st)"

section \<open>Facts\<close>

text \<open>
  The bridge's map, window by window: an event that names another window does nothing to it, a
  destruction forgets it, a successful fetch replaces what is known, a failed one keeps it.
\<close>

fun window_step :: "nat \<Rightarrow> x11_event \<Rightarrow> x11_window option \<Rightarrow> x11_window option" where
  "window_step win (CreateNotify w on_root fetched) k = (if w = win \<and> on_root \<and> fetched \<noteq> None then fetched else k)"
| "window_step win (DestroyNotify w) k = (if w = win then None else k)"
| "window_step win (PropertyNotify w fetched) k = (if w = win \<and> fetched \<noteq> None then fetched else k)"
| "window_step win OtherX11 k = k"

lemma x11_step_window: "map_of (x11_step ev m) win = window_step win ev (map_of m win)"
  by (cases ev) (auto simp: x11_step_def fetch_into_def update_conv' delete_conv' split: option.split)

lemma bridge_map_exact: "map_of (snd (x11_loop (map Inr evs) m)) win = fold (window_step win) evs (map_of m win)"
  by (induction evs arbitrary: m) (simp_all add: x11_step_window)

text \<open>An iteration meets every entry of the map and nothing else.\<close>

definition iterates :: "((nat \<times> 'e) list \<Rightarrow> (nat \<times> 'e) list) \<Rightarrow> bool" where
  "iterates order \<longleftrightarrow> (\<forall>m. set (order m) = set m)"

lemma first_activated_Some:
  assumes "iterates order" "first_activated act order m = Some k"
  shows "\<exists>e. (k, e) \<in> set m \<and> act e"
proof -
  from assms(2) obtain e where found: "List.find (\<lambda>ke. act (snd ke)) (order m) = Some (k, e)"
    by (auto simp: first_activated_def)
  from found obtain j where "j < length (order m)" "act (snd (order m ! j))" "(k, e) = order m ! j"
    unfolding find_Some_iff by blast
  then have "act (snd (k, e))" "(k, e) \<in> set (order m)" by (simp_all del: snd_conv)
  then have "(k, e) \<in> set (order m)" "act e"
    by simp_all
  with assms(1) show ?thesis by (auto simp: iterates_def)
qed

lemma first_activated_single:
  assumes "iterates order" "act e"
  shows "first_activated act order [(k, e)] = Some k"
proof -
  from assms(1) have "set (order [(k, e)]) = {(k, e)}" by (simp add: iterates_def)
  then obtain l where "order [(k, e)] = (k, e) # l" by (cases "order [(k, e)]") auto
  with assms(2) show ?thesis by (simp add: first_activated_def)
qed

definition active_entry_ok :: "focus_state \<Rightarrow> bool" where
  "active_entry_ok st \<longleftrightarrow>
     (\<forall>k. fo_active st = Some k \<longrightarrow> (\<exists>e. (k, e) \<in> set (fo_toplevels st) \<and> te_activated e))"

definition new_ids :: "wlr_event \<Rightarrow> focus_state \<Rightarrow> bool" where
  "new_ids ev st = (case ev of ManagerToplevel i \<Rightarrow> i \<notin> fst ` set (fo_toplevels st) | _ \<Rightarrow> True)"

lemma publish_focus_frame [simp]:
  "fo_active (publish_focus ev st) = fo_active st" "fo_toplevels (publish_focus ev st) = fo_toplevels st"
  "fo_plasma (publish_focus ev st) = fo_plasma st" "fo_current (publish_focus ev st) = Some ev"
  by (simp_all add: publish_focus_def)

lemma map_entry_keeps:
  "(k, e) \<in> set m \<Longrightarrow> (\<And>e. te_activated (f e) = te_activated e) \<Longrightarrow> te_activated e \<Longrightarrow>
   \<exists>e'. (k, e') \<in> set (AList.map_entry i f m) \<and> te_activated e'"
proof (induction m)
  case (Cons x m)
  then show ?case by (cases x) auto
qed simp

lemma update_new: "i \<notin> fst ` set m \<Longrightarrow> set (AList.update i v m) = insert (i, v) (set m)"
proof (induction m)
  case (Cons x m)
  then show ?case by (cases x) auto
qed simp

lemma active_entry_on_entry:
  assumes "active_entry_ok st" "\<And>e. te_activated (f e) = te_activated e"
  shows "active_entry_ok (on_entry i f st)"
proof -
  have "\<exists>e. (k, e) \<in> set (AList.map_entry i f (fo_toplevels st)) \<and> te_activated e"
    if "fo_active st = Some k" for k
  proof -
    from assms(1) that obtain e where "(k, e) \<in> set (fo_toplevels st)" "te_activated e"
      by (auto simp: active_entry_ok_def)
    from map_entry_keeps [OF this(1) assms(2) this(2)] show ?thesis .
  qed
  then show ?thesis by (simp add: active_entry_ok_def on_entry_def)
qed

lemma active_entry_done:
  assumes "iterates order"
  shows "active_entry_ok (handle_done order i st)"
proof -
  let ?st1 = "on_entry i (\<lambda>e. fst (entry_commit e)) st"
  have "fo_toplevels (handle_done order i st) = fo_toplevels ?st1"
    "fo_active (handle_done order i st) = first_activated te_activated order (fo_toplevels ?st1)"
    by (simp_all add: handle_done_def Let_def) (simp_all add: on_entry_def)
  with first_activated_Some [OF assms] show ?thesis by (simp add: active_entry_ok_def)
qed

lemma active_entry_step:
  assumes "iterates order" "active_entry_ok st" "new_ids ev st"
  shows "active_entry_ok (wlr_dispatch order ev st)"
proof (cases ev)
  case (HandleDone i)
  with active_entry_done [OF assms(1)] show ?thesis by (simp add: wlr_dispatch_def)
next
  case (HandleClosed i)
  with assms(2) show ?thesis
    by (auto simp: wlr_dispatch_def active_entry_ok_def lose_active_def Let_def AList.delete_eq)
next
  case (ManagerToplevel i)
  with assms(2,3) show ?thesis by (auto simp: wlr_dispatch_def active_entry_ok_def new_ids_def update_new)
qed (use assms(2) in \<open>auto simp: wlr_dispatch_def active_entry_ok_def [of "_\<lparr>fo_manager := _\<rparr>"] intro!: active_entry_on_entry\<close>)

fun wlr_run ::
    "((nat \<times> toplevel_entry) list \<Rightarrow> (nat \<times> toplevel_entry) list) \<Rightarrow> wlr_event list \<Rightarrow> focus_state \<Rightarrow> focus_state option" where
  "wlr_run order [] st = Some st"
| "wlr_run order (ev # evs) st = (if new_ids ev st then wlr_run order evs (wlr_dispatch order ev st) else None)"

text \<open>
  C28: In every run of toplevel events, object numbers being new when they appear, the toplevel
  taken for focused is one that exists and is activated, whatever order the map is iterated in.
\<close>

theorem focused_toplevel_activated:
  assumes "iterates order" "fo_active st = None" "wlr_run order evs st = Some st'"
    and "fo_active st' = Some k"
  shows "\<exists>e. (k, e) \<in> set (fo_toplevels st') \<and> te_activated e"
proof -
  have "active_entry_ok st'" if "wlr_run order evs st = Some st'" "active_entry_ok st" for evs st
    using that by (induction evs arbitrary: st) (auto split: if_splits intro: active_entry_step [OF assms(1)])
  with assms(2-4) show ?thesis by (simp add: active_entry_ok_def)
qed

text \<open>
  An application id that becomes known only after its window is focused is never published: with
  wlroots when it comes in a later batch, with Plasma when the state arrives first.
\<close>

theorem late_app_id_lost:
  assumes "iterates order" "fo_toplevels st = [(1, toplevel_default\<lparr>te_activated := True\<rparr>)]" "fo_active st = Some 1"
  shows "fo_current (wlr_dispatch order (HandleDone 1) (wlr_dispatch order (HandleAppId 1 app) st)) = fo_current st"
  by (simp add: wlr_dispatch_def handle_done_def on_entry_def entry_commit_def Let_def assms(2,3)
      toplevel_default_def first_activated_single [OF assms(1)])

theorem late_plasma_app_id_lost:
  assumes "iterates order" "fo_active st = Some 2"
    and "fo_plasma st = [(2, \<lparr>pe_uuid = u, pe_app_id = None, pe_title = None, pe_activated = True, pe_pid = None\<rparr>)]"
  shows "fo_current (plasma_dispatch order (AppIdChanged 2 app) st) = fo_current st"
  by (simp add: plasma_dispatch_def plasma_refocus_def on_plasma_def assms(2,3) first_activated_single [OF assms(1)])

section \<open>Witness\<close>

definition demo_focus :: focus_state where
  "demo_focus =
     \<lparr>fo_toplevels = [], fo_plasma = [], fo_active = None, fo_manager = True, fo_current = None,
      fo_observed = True, fo_sent = [], fo_bridge = None, fo_destroyed = []\<rparr>"

text \<open>A window appears, names itself and is activated.\<close>

theorem focused_toplevel_activated_witness:
  "\<exists>st' e. wlr_run id [ManagerToplevel 1, HandleAppId 1 (lit ''foot''), HandleState 1 [2, 0, 0, 0], HandleDone 1] demo_focus
       = Some st' \<and> fo_active st' = Some 1 \<and> (1, e) \<in> set (fo_toplevels st') \<and> te_activated e"
proof -
  obtain st' where run: "wlr_run id [ManagerToplevel 1, HandleAppId 1 (lit ''foot''), HandleState 1 [2, 0, 0, 0],
      HandleDone 1] demo_focus = Some st'" "fo_active st' = Some 1"
    by (simp add: demo_focus_def wlr_dispatch_def handle_done_def on_entry_def entry_commit_def Let_def
        new_ids_def toplevel_default_def first_activated_def state_activated_def publish_focus_def)
  have "iterates (id :: (nat \<times> toplevel_entry) list \<Rightarrow> _)" "fo_active demo_focus = None"
    by (simp_all add: iterates_def demo_focus_def)
  from focused_toplevel_activated [OF this run] run show ?thesis by blast
qed

end
