(* ===== verification/WaylandLoop.thy ===== *)
theory WaylandLoop
  imports WaylandSession KeymapUpload
begin

text \<open>
  The life of a Wayland session: \<open>connect\<close> of \<^verbatim>\<open>wayland-adapter/src/lib.rs\<close>, the keyboard of the v1
  protocol in \<^verbatim>\<open>dispatch\_v1.rs\<close>, \<^verbatim>\<open>wayland\_handle.rs\<close>, and the daemon's event loop in
  \<^verbatim>\<open>daemon/src/main\_loop.rs\<close>. What the compositor offers and what the branches of the loop find
  ready are arguments. Of the focus protocols, whose dispatch is in the theory \<open>Focus\<close>, only the
  focused application they publish comes in.
\<close>

section \<open>Connecting\<close>

text \<open>Which globals can be bound.\<close>

record globals =
  gl_seat :: bool
  gl_im_manager_v2 :: bool
  gl_vk_manager :: bool
  gl_im_v1 :: bool
  gl_ftl :: bool
  gl_plasma :: bool

text \<open>The outcomes of the calls around them, an error each.\<close>

record connecting =
  co_display :: "ustr option"
  co_registry :: "ustr option"
  co_first_roundtrip :: "ustr option"
  co_second_roundtrip :: "ustr option"
  co_async_fd :: "ustr option"

datatype connect_error =
    ConnectDisplay ustr | RegistryInit ustr | BindSeat | BindVkManager | FirstRoundtrip ustr
  | NoInputMethod | SecondRoundtrip ustr | AsyncFdFailed ustr

text \<open>
  \<open>WaylandHandle\<close>: the handler, the adapter's state with the grab beside it, whether a focus
  backend is there, and the requests that take the session down.
\<close>

datatype teardown_request = GrabRelease | ImDestroy | VkDestroy

record ('e, 'k, 's) wayland_handle =
  wh_handler :: "'e daemon"
  wh_state :: "('k, 's) adapter_state"
  wh_grab :: bool
  wh_focus_backend :: bool
  wh_torn :: "teardown_request list"

definition probe_focus :: "bool \<Rightarrow> globals \<Rightarrow> focus_source \<times> bool" where
  "probe_focus kde gl =
     (if gl_ftl gl then (WlrForeignToplevel, True)
      else if kde \<and> gl_plasma gl then (KdePlasma, True)
      else (FocusNone, False))"

text \<open>
  The input method of v2 with its virtual keyboard, which gets the keymap built when there is
  one. At the first roundtrip only the seat speaks, and its events are ignored.
\<close>

definition create_v2 :: "daklak_keymap option \<Rightarrow> ('k, 's) adapter_state \<Rightarrow> ('k, 's) adapter_state" where
  "create_v2 keymap st =
     (case keymap of
        Some km \<Rightarrow> (send (VkKeymap 1 (km_size km)) st)\<lparr>as_keymap_init := True, as_im := True, as_vk := True\<rparr>
      | None \<Rightarrow> st\<lparr>as_im := True, as_vk := True\<rparr>)"

text \<open>Events at the second roundtrip go through \<open>dispatch\<close>, as later ones do.\<close>

definition connect ::
    "bool \<Rightarrow> globals \<Rightarrow> connecting \<Rightarrow> daklak_keymap option \<Rightarrow>
      ('e daemon \<times> ('k, 's) adapter_state \<Rightarrow> 'e daemon \<times> ('k, 's) adapter_state) \<Rightarrow> 'e daemon \<Rightarrow>
      connect_error + ('e, 'k, 's) wayland_handle" where
  "connect kde gl co keymap dispatch handler =
     (case co_display co of Some e \<Rightarrow> Inl (ConnectDisplay e) | None \<Rightarrow>
     (case co_registry co of Some e \<Rightarrow> Inl (RegistryInit e) | None \<Rightarrow>
      if \<not> gl_seat gl then Inl BindSeat
      else (case (if gl_im_manager_v2 gl then
                    if \<not> gl_vk_manager gl then Inl BindVkManager
                    else (case co_first_roundtrip co of
                            Some e \<Rightarrow> Inl (FirstRoundtrip e)
                          | None \<Rightarrow> Inr (ImV2, create_v2 keymap adapter_state_new))
                  else if gl_im_v1 gl then
                    (case co_first_roundtrip co of
                       Some e \<Rightarrow> Inl (FirstRoundtrip e)
                     | None \<Rightarrow> Inr (ImV1, adapter_state_new))
                  else Inl NoInputMethod) of
              Inl e \<Rightarrow> Inl e
            | Inr (protocol, st) \<Rightarrow>
                (let (focus, backend) = probe_focus kde gl;
                     (h, st1) = dispatch
                       (handler, st\<lparr>as_profile := (for_protocol protocol)\<lparr>tp_focus := focus\<rparr>\<rparr>)
                 in (case co_second_roundtrip co of Some e \<Rightarrow> Inl (SecondRoundtrip e) | None \<Rightarrow>
                    (case co_async_fd co of Some e \<Rightarrow> Inl (AsyncFdFailed e) | None \<Rightarrow>
                       Inr \<lparr>wh_handler = h, wh_state = st1, wh_grab = (protocol = ImV2),
                            wh_focus_backend = backend, wh_torn = []\<rparr>))))))"

section \<open>Events\<close>

text \<open>The \<^verbatim>\<open>wl\_keyboard\<close> of v1; entering and leaving a surface is only traced.\<close>

datatype 'k keyboard_event =
    KbKeymap "'k option" | KbKey u32 u32 u32 | KbModifiers u32 u32 u32 u32 | KbRepeatInfo int int
  | KbEnter | KbLeave | KbOther

definition dispatch_keyboard_v1 ::
    "('h, ('k, 's) adapter_state) adapter_handler \<Rightarrow> ('k, 's) xkb_lib \<Rightarrow> time \<Rightarrow> 'k keyboard_event \<Rightarrow>
      'h \<times> ('k, 's) adapter_state \<Rightarrow> 'h \<times> ('k, 's) adapter_state" where
  "dispatch_keyboard_v1 ah lib now event = (\<lambda>(h, st).
     case event of
       KbKeymap keymap \<Rightarrow> (h, take_keymap lib keymap st)
     | KbKey time key key_state \<Rightarrow>
         if key_state = 1 then dispatch_key_press ah lib now time key (h, st)
         else if key_state = 2 then dispatch_key_repeat ah lib time key (h, st)
         else dispatch_key_release ah now time key (h, st)
     | KbModifiers dep lat lock grp \<Rightarrow> handle_modifiers ah lib now (dep, lat, lock, grp) (h, st)
     | KbRepeatInfo rate delay \<Rightarrow>
         (h, st\<lparr>as_client_repeat := repeat_set_info rate delay (as_client_repeat st)\<rparr>)
     | _ \<Rightarrow> (h, st))"

datatype 'k wl_event = ImEvent v2_event | GrabEvent "'k grab_event" | ContextEvent v1_event
  | KeyboardEvent "'k keyboard_event" | FocusUpdate focus_event

definition dispatch_event ::
    "('h, ('k, 's) adapter_state) adapter_handler \<Rightarrow> ('k, 's) xkb_lib \<Rightarrow> time \<Rightarrow> 'k wl_event \<Rightarrow>
      'h \<times> ('k, 's) adapter_state \<Rightarrow> 'h \<times> ('k, 's) adapter_state" where
  "dispatch_event ah lib now event s =
     (case event of
        ImEvent e \<Rightarrow> dispatch_v2 ah e s
      | GrabEvent e \<Rightarrow> dispatch_key ah lib now e s
      | ContextEvent e \<Rightarrow> dispatch_v1 ah e s
      | KeyboardEvent e \<Rightarrow> dispatch_keyboard_v1 ah lib now e s
      | FocusUpdate ev \<Rightarrow> (fst s, (snd s)\<lparr>as_focus_current := Some ev\<rparr>))"

text \<open>The queue, each event at the time it is handled; the daemon is the handler.\<close>

fun dispatch_pending ::
    "'e vnkey \<Rightarrow> ('k, 's) xkb_lib \<Rightarrow> (time \<times> 'k wl_event) list \<Rightarrow>
      'e daemon \<times> ('k, 's) adapter_state \<Rightarrow> 'e daemon \<times> ('k, 's) adapter_state" where
  "dispatch_pending vk lib [] s = s"
| "dispatch_pending vk lib ((now, ev) # evs) s =
     dispatch_pending vk lib evs (dispatch_event (daemon_adapter vk lib now) lib now ev s)"

section \<open>The loop\<close>

text \<open>\<open>flush\_nonblocking\<close> and the read answer a would-block with success.\<close>

datatype io_result = IoOk | WouldBlock | IoFailed ustr

definition flush_nonblocking :: "io_result \<Rightarrow> ustr option" where
  "flush_nonblocking r = (case r of IoFailed e \<Rightarrow> Some e | _ \<Rightarrow> None)"

text \<open>
  What a ready socket leads to: the readiness itself, the read, the flush before the queue is
  dispatched, the queue's events and its own error.
\<close>

record 'k socket =
  so_ready :: "ustr option"
  so_read :: io_result
  so_flush :: io_result
  so_events :: "(time \<times> 'k wl_event) list"
  so_dispatch :: "ustr option"

datatype shutdown = ShutdownValue bool | OwnerDropped

record 'k poll =
  po_flush :: io_result
  po_guard :: bool
  po_now :: time
  po_shutdown :: "shutdown option"
  po_ctrl_c :: bool
  po_socket :: "'k socket option"
  po_focus :: "focus_event option"

datatype 'a step = Goes 'a | Stops 'a | Fails ustr

definition with_state ::
    "'e daemon \<times> ('k, 's) adapter_state \<Rightarrow> ('e, 'k, 's) wayland_handle \<Rightarrow> ('e, 'k, 's) wayland_handle" where
  "with_state s w = w\<lparr>wh_handler := fst s, wh_state := snd s\<rparr>"

text \<open>\<^verbatim>\<open>WaylandHandle::dispatch\<close>, with the state it leaves.\<close>

definition handle_dispatch ::
    "'e vnkey \<Rightarrow> ('k, 's) xkb_lib \<Rightarrow> time \<Rightarrow> 'k socket \<Rightarrow> 'e daemon \<times> ('k, 's) adapter_state \<Rightarrow>
      ustr + 'e daemon \<times> ('k, 's) adapter_state" where
  "handle_dispatch vk lib now so s =
     (case flush_nonblocking (so_flush so) of
        Some e \<Rightarrow> Inl e
      | None \<Rightarrow>
          (let s1 = dispatch_pending vk lib (so_events so) s
           in case so_dispatch so of
                Some e \<Rightarrow> Inl e
              | None \<Rightarrow> Inr (snd (dispatch_end (daemon_adapter vk lib now) s1))))"

definition socket_branch ::
    "'e vnkey \<Rightarrow> ('k, 's) xkb_lib \<Rightarrow> 'k poll \<Rightarrow> 'k socket \<Rightarrow> ('e, 'k, 's) wayland_handle \<Rightarrow>
      ('e, 'k, 's) wayland_handle step" where
  "socket_branch vk lib p so w =
     (case so_ready so of
        Some e \<Rightarrow> Fails e
      | None \<Rightarrow>
          (case (if po_guard p then flush_nonblocking (so_read so) else None) of
             Some e \<Rightarrow> Fails e
           | None \<Rightarrow>
               (case handle_dispatch vk lib (po_now p) so (wh_handler w, wh_state w) of
                  Inl e \<Rightarrow> Fails e
                | Inr s \<Rightarrow>
                    (if as_should_exit (snd s) then Stops (with_state s w) else Goes (with_state s w)))))"

text \<open>The branch of the timer is ready once the deadline has passed.\<close>

definition repeat_due :: "time \<Rightarrow> client_repeat \<Rightarrow> bool" where
  "repeat_due now r = (case repeat_deadline r of Some deadline \<Rightarrow> deadline \<le> now | None \<Rightarrow> False)"

definition focus_branch ::
    "'e vnkey \<Rightarrow> ('k, 's) xkb_lib \<Rightarrow> time \<Rightarrow> focus_event \<Rightarrow> ('e, 'k, 's) wayland_handle \<Rightarrow> ('e, 'k, 's) wayland_handle" where
  "focus_branch vk lib now ev w =
     (let st = (wh_state w)\<lparr>as_client_repeat := repeat_cancel (as_client_repeat (wh_state w))\<rparr>
      in w\<lparr>wh_state := st,
           wh_handler := on_focus_changed vk now (context_of lib now st) (fe_app_id ev) (wh_handler w)\<rparr>)"

text \<open>
  One turn of the loop: the biased \<^verbatim>\<open>select!\<close> takes the first branch that is ready, in the order
  written. A shutdown channel that changed to false only restarts the loop.
\<close>

definition loop_turn ::
    "'e vnkey \<Rightarrow> ('k, 's) xkb_lib \<Rightarrow> 'k poll \<Rightarrow> ('e, 'k, 's) wayland_handle \<Rightarrow> ('e, 'k, 's) wayland_handle step" where
  "loop_turn vk lib p w =
     (case flush_nonblocking (po_flush p) of
        Some e \<Rightarrow> Fails e
      | None \<Rightarrow>
          (case po_shutdown p of
             Some s \<Rightarrow> if s = ShutdownValue False then Goes w else Stops w
           | None \<Rightarrow>
               if po_ctrl_c p then Stops w
               else (case po_socket p of
                       Some so \<Rightarrow> socket_branch vk lib p so w
                     | None \<Rightarrow>
                         if repeat_due (po_now p) (as_client_repeat (wh_state w))
                         then Goes (with_state
                           (dispatch_client_repeat (daemon_adapter vk lib (po_now p)) lib (po_now p)
                             (wh_handler w, wh_state w)) w)
                         else (case po_focus p of
                                 Some ev \<Rightarrow> if wh_focus_backend w then Goes (focus_branch vk lib (po_now p) ev w)
                                            else Goes w
                               | None \<Rightarrow> Goes w))))"

text \<open>The end of the session; the flush after it is only logged.\<close>

definition teardown :: "('e, 'k, 's) wayland_handle \<Rightarrow> ('e, 'k, 's) wayland_handle" where
  "teardown w =
     w\<lparr>wh_torn := wh_torn w @ (if wh_grab w then [GrabRelease] else []) @
         (if as_im (wh_state w) then [ImDestroy] else []) @ (if as_vk (wh_state w) then [VkDestroy] else []),
       wh_grab := False, wh_state := (wh_state w)\<lparr>as_im := False, as_vk := False\<rparr>\<rparr>"

text \<open>The loop over what its turns find, \<open>None\<close> while it goes on; an error skips the teardown.\<close>

fun core_loop ::
    "'e vnkey \<Rightarrow> ('k, 's) xkb_lib \<Rightarrow> 'k poll list \<Rightarrow> ('e, 'k, 's) wayland_handle \<Rightarrow>
      ('e, 'k, 's) wayland_handle step" where
  "core_loop vk lib [] w = Goes w"
| "core_loop vk lib (p # ps) w =
     (case loop_turn vk lib p w of
        Goes w' \<Rightarrow> core_loop vk lib ps w'
      | Stops w' \<Rightarrow> Stops (teardown w')
      | Fails e \<Rightarrow> Fails e)"

end
