(* ===== verification/WaylandLoopProperties.thy ===== *)
theory WaylandLoopProperties
  imports WaylandLoop
begin

text \<open>
  Whole Wayland sessions, from \<open>connect\<close> through the event loop to the teardown: what no handler
  touches, the serial that counts the compositor's frames, the proxies an edit needs, and the
  repeat timer against the queue.
\<close>

unbundle bit_operations_syntax

section \<open>What a sink and a handler leave alone\<close>

definition sink_touches :: "('k, 's) adapter_state \<Rightarrow> ('k, 's) adapter_state \<Rightarrow> bool" where
  "sink_touches st st' \<longleftrightarrow>
     (\<exists>w f sm ack. st' = st\<lparr>as_wire := w, as_flushes := f, as_synthetic_mods := sm,
                          as_pending_im_commit_ack := ack\<rparr>)"

lemma sink_touchesI:
  "st'\<lparr>as_wire := [], as_flushes := [], as_synthetic_mods := sm, as_pending_im_commit_ack := False\<rparr> =
   st\<lparr>as_wire := [], as_flushes := [], as_synthetic_mods := sm, as_pending_im_commit_ack := False\<rparr> \<Longrightarrow>
   sink_touches st st'"
  unfolding sink_touches_def
  by (rule exI [of _ "as_wire st'"], rule exI [of _ "as_flushes st'"], rule exI [of _ "as_synthetic_mods st'"],
      rule exI [of _ "as_pending_im_commit_ack st'"]) (cases st; cases st'; simp)

lemma sink_touches_refl [simp]: "sink_touches st st"
  by (rule sink_touchesI) simp

lemma sink_touches_trans: "sink_touches st st' \<Longrightarrow> sink_touches st' st'' \<Longrightarrow> sink_touches st st''"
  by (clarsimp simp: sink_touches_def, intro exI, rule refl)

lemma sink_touches_wire: "sink_touches st (st\<lparr>as_wire := w\<rparr>)"
  "sink_touches st (st\<lparr>as_wire := w, as_synthetic_mods := sm\<rparr>)"
  by (rule sink_touchesI, simp)+

lemma forward_emitter_wire:
  "\<exists>w. ke_emit_key (forward_emitter st0) time key v st = st\<lparr>as_wire := w\<rparr>"
  "\<exists>w. ke_emit_modifiers (forward_emitter st0) dep lat lock grp st = st\<lparr>as_wire := w\<rparr>"
  by (auto simp: forward_emitter_def on_wire_def split: im_protocol.split)

lemma touches_emitter:
  "sink_touches st (ke_emit_key (forward_emitter st0) time key v st)"
  "sink_touches st (ke_emit_modifiers (forward_emitter st0) dep lat lock grp st)"
  using forward_emitter_wire [of st0] sink_touches_wire(1) by metis+

lemma touches_send [simp]: "sink_touches st (send r st)"
  by (simp add: send_def sink_touches_wire)

lemma touches_flush [simp]: "sink_touches st (snd (flush_connection st))"
  by (cases "as_flushes st") (auto simp: flush_connection_def intro: sink_touchesI)

lemma touches_requests [simp]:
  "sink_touches st (sink_commit_string t st)" "sink_touches st (sink_commit serial st)"
  "sink_touches st (sink_delete_surrounding_text n1 n2 n3 n4 st)"
  by (auto simp: sink_commit_string_def sink_commit_def sink_delete_surrounding_text_def send_def
      intro: sink_touchesI split: im_protocol.split)

lemma touches_vk_key: "sink_touches st (sink_vk_key raw time key state st)"
proof -
  obtain dep lat lock grp where "raw = (dep, lat, lock, grp)" by (metis prod_cases4)
  then show ?thesis
    by (cases "forward_backspace_needs_modifier_guard key raw"; cases state)
      (auto simp: sink_vk_key_def Let_def intro: touches_emitter sink_touches_trans)
qed

lemma touches_char: "sink_touches st (snd (sink_vk_commit_char now raw held time c st))"
proof (cases "tp_protocol (as_profile st)")
  case ImV2
  obtain ok sm rs where "emit_char vk_v2_emitter now
      \<lparr>ep_raw_mods = raw, ep_held_user_kc = held, ep_time = time, ep_c = c\<rparr>
      (as_synthetic_mods st, []) = (ok, sm, rs)" by (metis prod_cases3)
  from sink_char_wire [OF ImV2 this] show ?thesis by (auto intro: sink_touchesI)
qed (simp add: sink_vk_commit_char_def)

lemma touches_char_flush:
  assumes "sink_vk_commit_char now raw held time c st = (b, st1)" "flush_connection st1 = (b', st2)"
  shows "sink_touches st st1" "sink_touches st st2"
  using touches_char [of st now raw held time c] touches_flush [of st1] assms
  by (auto intro: sink_touches_trans)

lemma touches_commit_via_vk: "sink_touches st (commit_via_vk now raw held serial time t buf st)"
proof (induction t arbitrary: buf st)
  case Nil
  then show ?case by (auto intro: sink_touches_trans [OF touches_requests(1) touches_requests(2)])
next
  case (Cons c t)
  then show ?case
    by (auto split: prod.split intro: sink_touches_trans dest: touches_char_flush)
qed

lemma touches_key_channel_chars: "sink_touches st (snd (key_channel_chars now raw held time t st))"
proof (induction t arbitrary: st)
  case (Cons c t)
  then show ?case
    by (auto split: prod.split intro: sink_touches_trans dest: touches_char_flush)
qed simp

lemma touches_v1_char: "sink_touches st (snd (v1_send_char lib raw held csf serial time c st))"
proof -
  obtain dep lat lock grp where raw: "raw = (dep, lat, lock, grp)" by (metis prod_cases4)
  have tap: "sink_touches s (send r2 (send r1 s))" for r1 r2 and s :: "('a, 'b) adapter_state"
    by (rule sink_touches_trans) (rule touches_send)+
  show ?thesis
    unfolding v1_send_char_def raw Let_def prod.case
    by (auto split: option.split intro: touches_emitter tap sink_touches_trans [OF _ tap]
        sink_touches_trans [OF touches_emitter(1)] sink_touches_trans [OF _ touches_emitter(2)])
qed

lemma touches_keysym_v1: "sink_touches st (snd (commit_via_keysym_v1 lib raw held csf serial time t st))"
proof (induction t arbitrary: st)
  case (Cons c t)
  obtain sent st1 where c: "v1_send_char lib raw held csf serial time c st = (sent, st1)" by force
  obtain b st2 where f: "flush_connection st1 = (b, st2)" by force
  have "sink_touches st st1" "sink_touches st st2"
    using touches_v1_char [of st lib raw held csf serial time c] touches_flush [of st1] c f
    by (auto intro: sink_touches_trans)
  with Cons [of st2] c f show ?case by (auto intro: sink_touches_trans)
qed simp

text \<open>So whatever edit the daemon asks for, the adapter's state is the same but for these fields.\<close>

interpretation touched: sink_invariant "adapter_sink lib now raw held csf" "sink_touches st0"
  for lib :: "('k, 's) xkb_lib" and now raw held csf st0
proof unfold_locales
  fix st :: "('k, 's) adapter_state" and time serial :: u32 and t
  assume st: "sink_touches st0 st"
  show "sink_touches st0 (snd (os_commit_via_keysym (adapter_sink lib now raw held csf) serial time t st))"
    "sink_touches st0 (snd (os_commit_key_channel_text (adapter_sink lib now raw held csf) serial time t st))"
    using st sink_touches_trans [OF st touches_commit_via_vk] sink_touches_trans [OF st touches_key_channel_chars]
      sink_touches_trans [OF st touches_keysym_v1]
    by (simp_all add: adapter_sink_def sink_commit_via_keysym_def sink_commit_key_channel_text_def
        split: im_protocol.split)
qed (auto simp: adapter_sink_def intro: sink_touches_trans touches_vk_key touches_requests)

lemma context_sink:
  "cx_sink (context_of lib now st0) raw held csf = Some snk \<Longrightarrow> snk = adapter_sink lib now raw held csf"
  by (simp add: context_of_def ctx_with_sink_def split: im_protocol.splits if_splits)

lemma touches_apply_pending:
  "sink_touches st (snd (apply_pending vk (context_of lib now st0) time bs commit raw held (d, st)))"
  by (auto simp: apply_pending_def case_prod_beta Let_def touched.apply_to_sink_holds(1) [OF sink_touches_refl]
      split: option.split dest!: context_sink)

lemma touches_forward: "sink_touches st (emit_forward_key time key v st)"
  by (simp add: emit_forward_key_def touches_emitter)

text \<open>Every branch of a handler either leaves the state alone or hands it to one of the above.\<close>

lemma touches_branch:
  "P (snd x) \<Longrightarrow> P (snd y) \<Longrightarrow> P (snd (if b then x else y))"
  "P (snd x) \<Longrightarrow> (\<And>v. e = Some v \<Longrightarrow> P (snd (f v))) \<Longrightarrow> P (snd (case e of None \<Rightarrow> x | Some v \<Rightarrow> f v))"
  by (cases b; simp) (cases e; simp)

lemma touches_wl_surrounding:
  "sink_touches st (snd (wl_surrounding vk now (context_of lib now st0) activate deactivate t cu an (c, st)))"
  unfolding wl_surrounding_def Let_def case_prod_beta fst_conv snd_conv
  by (intro touches_branch [where P = "sink_touches st"])
    (auto simp: touched.apply_to_sink_holds(2) [OF sink_touches_refl] dest!: context_sink)

lemma touches_done_frame:
  "sink_touches st (snd (on_done_frame vk now (context_of lib now st0) frame (d, st)))"
  using touches_wl_surrounding
  by (auto simp: on_done_frame_def Let_def case_prod_beta split: option.split)

lemma touches_key_pressed:
  "sink_touches st (snd (snd (on_key_pressed vk now (context_of lib now0 st0) time key ch (d, st))))"
proof -
  have ctx: "cx_vk_key_press_unstamped (context_of lib now0 st0) = ctx_vk_key_press_unstamped"
    by (simp add: context_of_def)
  show ?thesis
    unfolding on_key_pressed_def Let_def case_prod_beta fst_conv snd_conv ctx
    by (intro touches_branch [where P = "\<lambda>x. sink_touches st (snd x)"])
      (simp_all add: ctx_vk_key_press_unstamped_def touches_forward)
qed

section \<open>What an event leaves alone\<close>

text \<open>The proxies, the protocol and the serial, which only the end of a frame moves.\<close>

definition kept :: "('k, 's) adapter_state \<Rightarrow> ('k, 's) adapter_state \<Rightarrow> bool" where
  "kept st st' \<longleftrightarrow>
     as_profile st' = as_profile st \<and> as_im st' = as_im st \<and> as_vk st' = as_vk st \<and> as_serial st' = as_serial st"

lemma kept_refl [simp]: "kept st st"
  by (simp add: kept_def)

lemma kept_trans: "kept st st' \<Longrightarrow> kept st' st'' \<Longrightarrow> kept st st''"
  by (simp add: kept_def)

lemma sink_touchesD:
  "sink_touches st st' \<Longrightarrow> kept st st'"
  "sink_touches st st' \<Longrightarrow> as_client_repeat st' = as_client_repeat st"
  "sink_touches st st' \<Longrightarrow> as_pending_frame st' = as_pending_frame st"
  by (auto simp: sink_touches_def kept_def)

text \<open>A key that the repeat timer does not hold.\<close>

definition not_held :: "u32 \<Rightarrow> ('k, 's) adapter_state \<Rightarrow> bool" where
  "not_held key st \<longleftrightarrow> (\<forall>h. cr_held (as_client_repeat st) = Some h \<longrightarrow> hr_key h \<noteq> key)"

lemma not_held_cong: "as_client_repeat st' = as_client_repeat st \<Longrightarrow> not_held key st' = not_held key st"
  by (simp add: not_held_def)

lemma not_held_updates [simp]:
  "not_held key (st\<lparr>as_client_repeat := repeat_cancel r\<rparr>)"
  "not_held key (st\<lparr>as_client_repeat := repeat_release key (as_client_repeat st)\<rparr>)"
  "not_held key st \<Longrightarrow> not_held key (st\<lparr>as_client_repeat := repeat_release k (as_client_repeat st)\<rparr>)"
  "not_held key st \<Longrightarrow> not_held key (st\<lparr>as_client_repeat := repeat_set_info rate delay (as_client_repeat st)\<rparr>)"
  "not_held key st \<Longrightarrow> k \<noteq> key \<Longrightarrow> not_held key (st\<lparr>as_client_repeat := repeat_arm k t now (as_client_repeat st)\<rparr>)"
  by (auto simp: not_held_def repeat_cancel_def repeat_release_def repeat_set_info_def repeat_arm_def Let_def
      split: option.splits)

lemma not_held_no_fire: "not_held key st \<Longrightarrow> fst (repeat_fire now (as_client_repeat st)) \<noteq> Some (key, t)"
  by (auto simp: not_held_def repeat_fire_def Let_def split: option.splits if_splits)

lemma not_held_fire:
  "not_held key st \<Longrightarrow> repeat_fire now (as_client_repeat st) = (e, r) \<Longrightarrow> not_held key (st\<lparr>as_client_repeat := r\<rparr>)"
  by (auto simp: not_held_def repeat_fire_def Let_def split: option.splits if_splits)

text \<open>Keys and modifiers, with the daemon as the handler.\<close>

lemma release_keeps:
  "kept st (snd (dispatch_key_release (daemon_adapter vk lib now0) now time k (d, st)))"
  "not_held k (snd (dispatch_key_release (daemon_adapter vk lib now0) now time k (d, st)))"
  "not_held key st \<Longrightarrow> not_held key (snd (dispatch_key_release (daemon_adapter vk lib now0) now time k (d, st)))"
proof -
  define st1 where "st1 = st\<lparr>as_client_repeat := repeat_release k (as_client_repeat st)\<rparr>"
  define st2 where "st2 = emit_forward_key time k 0 st1"
  have t: "sink_touches st1 st2" by (simp add: st2_def touches_forward)
  have r: "snd (dispatch_key_release (daemon_adapter vk lib now0) now time k (d, st)) =
      st2\<lparr>as_last_forwarded_release := Some (k, now)\<rparr>"
    by (simp add: dispatch_key_release_def daemon_adapter_def default_on_key_released_def Let_def st1_def st2_def)
  have c: "as_client_repeat (st2\<lparr>as_last_forwarded_release := Some (k, now)\<rparr>) = as_client_repeat st1"
    using sink_touchesD(2) [OF t] by simp
  show "kept st (snd (dispatch_key_release (daemon_adapter vk lib now0) now time k (d, st)))"
    using sink_touchesD(1) [OF t] by (simp add: r kept_def st1_def)
  show "not_held k (snd (dispatch_key_release (daemon_adapter vk lib now0) now time k (d, st)))"
    by (simp add: r not_held_cong [OF c] st1_def)
  show "not_held key (snd (dispatch_key_release (daemon_adapter vk lib now0) now time k (d, st)))"
    if "not_held key st" using that by (simp add: r not_held_cong [OF c] st1_def)
qed

lemma emit_values_touches: "sink_touches st (emit_values time k vs st)"
  by (induction time k vs st rule: emit_values.induct) (auto intro: sink_touches_trans touches_forward)

lemma repeat_keeps:
  "kept st (snd (dispatch_key_repeat_inner (daemon_adapter vk lib now) lib time k timer (d, st)))"
  "as_client_repeat (snd (dispatch_key_repeat_inner (daemon_adapter vk lib now) lib time k timer (d, st))) =
    as_client_repeat st"
proof -
  let ?st1 = "st\<lparr>as_forwarding_repeat := True\<rparr>"
  obtain decision h1 st1 where p: "on_key_pressed vk now (context_of lib now ?st1) time k (decode_key lib st k)
      (d, ?st1) = (decision, h1, st1)" by (metis prod_cases3)
  from touches_key_pressed [of ?st1 vk now lib now ?st1 time k "decode_key lib st k" d] p
  have t1: "sink_touches ?st1 st1" by simp
  define r where "r = (case decision of
      Consumed \<Rightarrow> (h1, st1)
    | ForwardRaw \<Rightarrow> (h1, emit_values time k (repeat_forward_values timer) st1)
    | Apply m bs commit \<Rightarrow>
        (let st' = st1\<lparr>as_forwarding_repeat := False\<rparr>
         in apply_pending vk (context_of lib now st') time bs commit (as_raw_mods st') (held_user_kc st') (h1, st')))"
  have "kept st1 (snd r) \<and> as_client_repeat (snd r) = as_client_repeat st1"
  proof (cases decision)
    case (Apply m bs commit)
    let ?st' = "st1\<lparr>as_forwarding_repeat := False\<rparr>"
    from touches_apply_pending [of ?st' vk lib now ?st' time bs commit "as_raw_mods ?st'" "held_user_kc ?st'" h1]
    have "sink_touches ?st' (snd r)" by (simp add: r_def Apply Let_def)
    from sink_touchesD [OF this] show ?thesis by (simp add: kept_def)
  next
    case ForwardRaw
    from emit_values_touches [of st1 time k "repeat_forward_values timer"] show ?thesis
      by (auto simp: r_def ForwardRaw dest: sink_touchesD)
  qed (simp_all add: r_def)
  moreover have "snd (dispatch_key_repeat_inner (daemon_adapter vk lib now) lib time k timer (d, st)) =
      (snd r)\<lparr>as_forwarding_repeat := False\<rparr>"
    using p by (cases decision)
      (simp_all add: dispatch_key_repeat_inner_def daemon_adapter_def Let_def r_def split: prod.split)
  ultimately show "kept st (snd (dispatch_key_repeat_inner (daemon_adapter vk lib now) lib time k timer (d, st)))"
    "as_client_repeat (snd (dispatch_key_repeat_inner (daemon_adapter vk lib now) lib time k timer (d, st))) =
      as_client_repeat st"
    using sink_touchesD [OF t1] by (simp_all add: kept_def)
qed

lemma press_keeps:
  "kept st (snd (dispatch_key_press (daemon_adapter vk lib now0) lib now time k (d, st)))"
  "k \<noteq> key \<Longrightarrow> not_held key (snd (dispatch_key_press (daemon_adapter vk lib now0) lib now time k (d, st)))"
proof -
  let ?st1 = "st\<lparr>as_client_repeat := repeat_cancel (as_client_repeat st)\<rparr>"
  obtain decision h1 st2 where p: "on_key_pressed vk now0 (context_of lib now0 ?st1) time k (decode_key lib ?st1 k)
      (d, ?st1) = (decision, h1, st2)" by (metis prod_cases3)
  from touches_key_pressed [of ?st1 vk now0 lib now0 ?st1 time k "decode_key lib ?st1 k" d] p
  have t: "sink_touches ?st1 st2" by simp
  have k2: "kept st st2" "not_held key st2"
    using sink_touchesD(1) [OF t] not_held_cong [OF sink_touchesD(2) [OF t]] by (simp_all add: kept_def)
  define r where "r = (case decision of
      Consumed \<Rightarrow> (h1, st2)
    | ForwardRaw \<Rightarrow> (h1, (emit_forward_key time k 1 st2)\<lparr>as_last_forwarded_key := Some (k, now)\<rparr>)
    | Apply m bs commit \<Rightarrow>
        (let st3 = (if (case as_xkb st2 of None \<Rightarrow> True | Some xkb \<Rightarrow> key_repeats lib xkb k)
                    then st2\<lparr>as_client_repeat := repeat_arm k time now (as_client_repeat st2)\<rparr> else st2)
         in apply_pending vk (context_of lib now0 st3) time bs commit (as_raw_mods st3) (held_user_kc st3) (h1, st3)))"
  have "kept st2 (snd r) \<and> (k \<noteq> key \<longrightarrow> not_held key (snd r))"
  proof (cases decision)
    case (Apply m bs commit)
    define st3 where "st3 = (if (case as_xkb st2 of None \<Rightarrow> True | Some xkb \<Rightarrow> key_repeats lib xkb k)
      then st2\<lparr>as_client_repeat := repeat_arm k time now (as_client_repeat st2)\<rparr> else st2)"
    from touches_apply_pending [of st3 vk lib now0 st3 time bs commit "as_raw_mods st3" "held_user_kc st3" h1]
    have t3: "sink_touches st3 (snd r)" by (simp add: r_def Apply Let_def st3_def)
    have "kept st2 st3" "k \<noteq> key \<longrightarrow> not_held key st3" using k2(2) by (simp_all add: st3_def kept_def)
    with sink_touchesD(1) [OF t3] not_held_cong [OF sink_touchesD(2) [OF t3]] show ?thesis
      by (auto intro: kept_trans)
  next
    case ForwardRaw
    from sink_touchesD(1,2) [OF touches_forward [of st2 time k 1]] k2(2) show ?thesis
      by (simp add: r_def ForwardRaw kept_def not_held_def)
  qed (simp add: r_def k2)
  moreover have "dispatch_key_press (daemon_adapter vk lib now0) lib now time k (d, st) = r"
    using p by (cases decision) (simp_all add: dispatch_key_press_def daemon_adapter_def Let_def r_def)
  ultimately show "kept st (snd (dispatch_key_press (daemon_adapter vk lib now0) lib now time k (d, st)))"
    "k \<noteq> key \<Longrightarrow> not_held key (snd (dispatch_key_press (daemon_adapter vk lib now0) lib now time k (d, st)))"
    using k2(1) by (auto intro: kept_trans)
qed

lemma emitter_keeps [simp]:
  "as_profile (ke_emit_modifiers (forward_emitter st0) dep lat lock grp st) = as_profile st"
  "as_im (ke_emit_modifiers (forward_emitter st0) dep lat lock grp st) = as_im st"
  "as_vk (ke_emit_modifiers (forward_emitter st0) dep lat lock grp st) = as_vk st"
  "as_serial (ke_emit_modifiers (forward_emitter st0) dep lat lock grp st) = as_serial st"
  "as_client_repeat (ke_emit_modifiers (forward_emitter st0) dep lat lock grp st) = as_client_repeat st"
  using sink_touchesD(1,2) [OF touches_emitter(2) [of st st0 dep lat lock grp]] by (simp_all add: kept_def)

lemma modifiers_keep:
  "kept st (snd (handle_modifiers (daemon_adapter vk lib now0) lib now incoming (d, st)))"
  "as_client_repeat (snd (handle_modifiers (daemon_adapter vk lib now0) lib now incoming (d, st))) =
    as_client_repeat st"
proof -
  obtain dep lat lock grp where i: "incoming = (dep, lat, lock, grp)" by (metis prod_cases4)
  show "kept st (snd (handle_modifiers (daemon_adapter vk lib now0) lib now incoming (d, st)))"
    "as_client_repeat (snd (handle_modifiers (daemon_adapter vk lib now0) lib now incoming (d, st))) =
      as_client_repeat st"
    by (simp_all add: handle_modifiers_def i Let_def daemon_adapter_def kept_def)
qed

text \<open>The end of a frame: the serial moves on by one, and nothing else of the above.\<close>

lemma frame_keeps:
  "kept (st\<lparr>as_serial := as_serial st + 1\<rparr>) (snd (apply_done_frame (daemon_adapter vk lib now) (d, st)))"
  "as_client_repeat (snd (apply_done_frame (daemon_adapter vk lib now) (d, st))) = as_client_repeat st"
proof -
  define st1 where "st1 = st\<lparr>as_serial := as_serial st + 1, as_pending_im_commit_ack := False\<rparr>"
  obtain h st2 where r: "on_done_frame vk now (context_of lib now st1) (snapshot_of st1) (d, st1) = (h, st2)" by force
  from touches_done_frame [of st1 vk now lib st1 "snapshot_of st1" d] r have t: "sink_touches st1 st2" by simp
  show "kept (st\<lparr>as_serial := as_serial st + 1\<rparr>) (snd (apply_done_frame (daemon_adapter vk lib now) (d, st)))"
    "as_client_repeat (snd (apply_done_frame (daemon_adapter vk lib now) (d, st))) = as_client_repeat st"
    using sink_touchesD [OF t] r
    by (simp_all add: apply_done_frame_def Let_def daemon_adapter_def kept_def send_def flip: st1_def)
      (simp_all add: st1_def)
qed

section \<open>Events and turns\<close>

definition done_event :: "'k wl_event \<Rightarrow> bool" where
  "done_event ev = (case ev of ImEvent V2Done \<Rightarrow> True | _ \<Rightarrow> False)"

text \<open>A v2 session has no v1 input method that could send events.\<close>

definition not_v1 :: "'k wl_event \<Rightarrow> bool" where
  "not_v1 ev = (case ev of ContextEvent e \<Rightarrow> False | _ \<Rightarrow> True)"

definition presses :: "u32 \<Rightarrow> 'k wl_event \<Rightarrow> bool" where
  "presses key ev =
     (case ev of GrabEvent (GrabKey time k s) \<Rightarrow> k = key \<and> s = 1
      | KeyboardEvent (KbKey time k s) \<Rightarrow> k = key \<and> s = 1 | _ \<Rightarrow> False)"

definition releases :: "u32 \<Rightarrow> 'k wl_event \<Rightarrow> bool" where
  "releases key ev =
     (case ev of GrabEvent (GrabKey time k s) \<Rightarrow> k = key \<and> s \<noteq> 1 \<and> s \<noteq> 2
      | KeyboardEvent (KbKey time k s) \<Rightarrow> k = key \<and> s \<noteq> 1 \<and> s \<noteq> 2 | _ \<Rightarrow> False)"

lemma apply_event_keeps [simp]:
  "kept st0 (apply_event e st) = kept st0 st" "as_client_repeat (apply_event e st) = as_client_repeat st"
  by (auto simp: apply_event_def Let_def kept_def split: frame_event.split)

lemma keymap_keeps [simp]:
  "kept st0 (take_keymap lib km st) = kept st0 st" "as_client_repeat (take_keymap lib km st) = as_client_repeat st"
  "kept st0 (pass_keymap f n st) = kept st0 st" "as_client_repeat (pass_keymap f n st) = as_client_repeat st"
  by (auto simp: take_keymap_def pass_keymap_def send_def kept_def)

lemma kept_client_repeat [simp]: "kept st0 (st\<lparr>as_client_repeat := r\<rparr>) = kept st0 st"
  by (simp add: kept_def)

lemma event_keeps:
  assumes "not_v1 ev"
  shows "kept (if done_event ev then st\<lparr>as_serial := as_serial st + 1\<rparr> else st)
    (snd (dispatch_event (daemon_adapter vk lib now) lib now ev (d, st)))"
proof (cases ev)
  case (ImEvent e)
  then show ?thesis
    by (cases e) (simp_all add: dispatch_event_def dispatch_v2_def done_event_def frame_keeps(1))
next
  case (GrabEvent e)
  then show ?thesis
    by (cases e) (simp_all add: dispatch_event_def dispatch_key_def done_event_def press_keeps(1)
        dispatch_key_repeat_def repeat_keeps(1) release_keeps(1) modifiers_keep(1))
next
  case (KeyboardEvent e)
  then show ?thesis
    by (cases e) (simp_all add: dispatch_event_def dispatch_keyboard_v1_def done_event_def press_keeps(1)
        dispatch_key_repeat_def repeat_keeps(1) release_keeps(1) modifiers_keep(1))
next
  case (FocusUpdate ev)
  then show ?thesis by (simp add: dispatch_event_def done_event_def kept_def)
qed (use assms in \<open>simp add: not_v1_def\<close>)

lemma repeat_not_held:
  "not_held key (snd (dispatch_key_repeat ah lib time k (d, st))) = not_held key st"
  if "ah = daemon_adapter vk lib now"
  using that by (simp add: dispatch_key_repeat_def not_held_cong [OF repeat_keeps(2)])

lemma event_not_held:
  assumes "releases key ev \<or> (not_held key st \<and> \<not> presses key ev)"
  shows "not_held key (snd (dispatch_event (daemon_adapter vk lib now) lib now ev (d, st)))"
proof (cases ev)
  case (ImEvent e)
  with assms show ?thesis
    by (cases e) (simp_all add: dispatch_event_def dispatch_v2_def releases_def not_held_cong [OF frame_keeps(2)]
        not_held_cong [OF apply_event_keeps(2)])
next
  case (ContextEvent e)
  with assms show ?thesis
    by (cases e) (auto simp: dispatch_event_def dispatch_v1_def releases_def frame_keeps(2)
        send_def not_held_def repeat_cancel_def Let_def)
next
  case (GrabEvent e)
  with assms show ?thesis
    by (cases e) (auto simp: dispatch_event_def dispatch_key_def releases_def presses_def press_keeps(2)
        repeat_not_held release_keeps(2,3) not_held_cong [OF modifiers_keep(2)] not_held_cong [OF keymap_keeps(2)]
        not_held_cong [OF keymap_keeps(4)])
next
  case (KeyboardEvent e)
  with assms show ?thesis
    by (cases e) (auto simp: dispatch_event_def dispatch_keyboard_v1_def releases_def presses_def press_keeps(2)
        repeat_not_held release_keeps(2,3) not_held_cong [OF modifiers_keep(2)] not_held_cong [OF keymap_keeps(2)])
next
  case (FocusUpdate ev)
  with assms show ?thesis by (simp add: dispatch_event_def releases_def not_held_def)
qed

text \<open>The whole queue.\<close>

definition dones :: "(time \<times> 'k wl_event) list \<Rightarrow> nat" where
  "dones evs = length (filter (\<lambda>e. done_event (snd e)) evs)"

lemma dones_append [simp]: "dones (xs @ ys) = dones xs + dones ys"
  by (simp add: dones_def)

lemma pending_keeps:
  "list_all (\<lambda>e. not_v1 (snd e)) evs \<Longrightarrow>
   kept (st\<lparr>as_serial := as_serial st + of_nat (dones evs)\<rparr>) (snd (dispatch_pending vk lib evs (d, st)))"
proof (induction evs arbitrary: d st)
  case (Cons x evs)
  obtain now ev where x: "x = (now, ev)" by force
  obtain d1 st1 where s: "dispatch_event (daemon_adapter vk lib now) lib now ev (d, st) = (d1, st1)" by force
  from event_keeps [of ev st vk lib now d] Cons.prems s x
  have "kept (if done_event ev then st\<lparr>as_serial := as_serial st + 1\<rparr> else st) st1" by simp
  with Cons.IH [of st1 d1] Cons.prems x s show ?case
    by (auto simp: kept_def dones_def split: if_splits)
qed (simp add: dones_def)

lemma pending_not_held:
  "not_held key st \<Longrightarrow> \<not> list_ex (\<lambda>e. presses key (snd e)) evs \<Longrightarrow>
   not_held key (snd (dispatch_pending vk lib evs (d, st)))"
proof (induction evs arbitrary: d st)
  case (Cons x evs)
  obtain now ev where x: "x = (now, ev)" by force
  obtain d1 st1 where s: "dispatch_event (daemon_adapter vk lib now) lib now ev (d, st) = (d1, st1)" by force
  from event_not_held [of key ev st vk lib now d] Cons.prems s x have "not_held key st1" by simp
  with Cons.IH [of st1 d1] Cons.prems x s show ?case by simp
qed simp

lemma pending_append:
  "dispatch_pending vk lib (xs @ ys) s = dispatch_pending vk lib ys (dispatch_pending vk lib xs s)"
  by (induction vk lib xs s rule: dispatch_pending.induct) simp_all

text \<open>The end of \<open>dispatch\<close> matters to v1 only.\<close>

lemma dispatch_end_keeps:
  "tp_protocol (as_profile st) = ImV2 \<Longrightarrow> snd (dispatch_end ah (d, st)) = (d, st)"
  "as_client_repeat (snd (snd (dispatch_end (daemon_adapter vk lib now) (d, st)))) = as_client_repeat st"
  using frame_keeps(2) [of vk lib now d "st\<lparr>as_pending_commit := False\<rparr>"]
  by (simp_all add: dispatch_end_def case_prod_beta Let_def)

text \<open>The events a turn of the loop hands to the dispatchers.\<close>

definition dispatched :: "'k poll \<Rightarrow> (time \<times> 'k wl_event) list" where
  "dispatched p =
     (if po_shutdown p = None \<and> \<not> po_ctrl_c p
      then (case po_socket p of Some so \<Rightarrow> so_events so | None \<Rightarrow> []) else [])"

definition v2_session :: "u32 \<Rightarrow> ('e, 'k, 's) wayland_handle \<Rightarrow> bool" where
  "v2_session n w \<longleftrightarrow>
     tp_protocol (as_profile (wh_state w)) = ImV2 \<and> as_im (wh_state w) \<and> as_vk (wh_state w) \<and>
     as_serial (wh_state w) = n \<and> wh_grab w \<and> wh_torn w = []"

lemma v2_session_kept:
  "v2_session n w \<Longrightarrow> kept ((wh_state w)\<lparr>as_serial := m\<rparr>) (snd s) \<Longrightarrow> v2_session m (with_state s w)"
  by (simp add: v2_session_def kept_def with_state_def)

lemma socket_branch_cases:
  assumes "socket_branch vk lib p so w = r" "r = Goes w' \<or> r = Stops w'"
  shows "w' = with_state (snd (dispatch_end (daemon_adapter vk lib (po_now p))
    (dispatch_pending vk lib (so_events so) (wh_handler w, wh_state w)))) w"
  using assms
  by (auto simp: socket_branch_def handle_dispatch_def Let_def split: option.splits sum.splits if_splits)

lemma loop_turn_cases:
  assumes "loop_turn vk lib p w = r" "r = Goes w' \<or> r = Stops w'"
  obtains (same) "w' = w" "dispatched p = []"
  | (socket) so where "po_socket p = Some so" "dispatched p = so_events so"
      "w' = with_state (snd (dispatch_end (daemon_adapter vk lib (po_now p))
        (dispatch_pending vk lib (so_events so) (wh_handler w, wh_state w)))) w"
  | (timer) "dispatched p = []"
      "w' = with_state (dispatch_client_repeat (daemon_adapter vk lib (po_now p)) lib (po_now p)
        (wh_handler w, wh_state w)) w"
  | (focus) ev where "dispatched p = []" "w' = focus_branch vk lib (po_now p) ev w"
  using assms socket_branch_cases [of vk lib p "the (po_socket p)" w r w']
  by (auto simp: loop_turn_def dispatched_def split: option.splits if_splits)

lemma client_repeat_keeps:
  "kept st (snd (dispatch_client_repeat (daemon_adapter vk lib now) lib now (d, st)))"
  "not_held key st \<Longrightarrow> not_held key (snd (dispatch_client_repeat (daemon_adapter vk lib now) lib now (d, st)))"
proof -
  obtain e r where r: "repeat_fire now (as_client_repeat st) = (e, r)" by force
  show "kept st (snd (dispatch_client_repeat (daemon_adapter vk lib now) lib now (d, st)))"
    using repeat_keeps(1) [of "st\<lparr>as_client_repeat := r\<rparr>" vk lib now]
    by (auto simp: dispatch_client_repeat_def r kept_def split: option.split)
  show "not_held key (snd (dispatch_client_repeat (daemon_adapter vk lib now) lib now (d, st)))" if "not_held key st"
    using not_held_fire [OF that r]
    by (auto simp: dispatch_client_repeat_def r not_held_cong [OF repeat_keeps(2)] split: option.split)
qed

lemma turn_session:
  assumes "v2_session n w" "list_all (\<lambda>e. not_v1 (snd e)) (dispatched p)"
    and "loop_turn vk lib p w = r" "r = Goes w' \<or> r = Stops w'"
  shows "v2_session (n + of_nat (dones (dispatched p))) w'"
  using assms(3,4)
proof (cases rule: loop_turn_cases)
  case same
  with assms(1) show ?thesis by (simp add: dones_def)
next
  case (socket so)
  obtain d1 st1 where s: "dispatch_pending vk lib (so_events so) (wh_handler w, wh_state w) = (d1, st1)" by force
  from pending_keeps [of "so_events so" "wh_state w" vk lib "wh_handler w"] assms(1,2) socket s
  have k: "kept ((wh_state w)\<lparr>as_serial := n + of_nat (dones (dispatched p))\<rparr>) st1"
    by (simp add: v2_session_def)
  with assms(1) have "tp_protocol (as_profile st1) = ImV2" by (simp add: kept_def v2_session_def)
  then have "w' = with_state (d1, st1) w" by (simp add: socket(3) s dispatch_end_keeps(1))
  with v2_session_kept [OF assms(1), of _ "(d1, st1)"] k show ?thesis by simp
next
  case timer
  let ?s = "dispatch_client_repeat (daemon_adapter vk lib (po_now p)) lib (po_now p) (wh_handler w, wh_state w)"
  have "kept (wh_state w) (snd ?s)" by (rule client_repeat_keeps(1))
  with assms(1) timer show ?thesis
    by (simp add: dones_def v2_session_def kept_def with_state_def)
next
  case (focus ev)
  with assms(1) show ?thesis by (simp add: focus_branch_def v2_session_def dones_def Let_def)
qed

lemma turn_not_held:
  assumes "not_held key (wh_state w)" "\<not> list_ex (\<lambda>e. presses key (snd e)) (dispatched p)"
    and "loop_turn vk lib p w = Goes w'"
  shows "not_held key (wh_state w')"
  using assms(3) disjI1 [OF refl]
proof (cases rule: loop_turn_cases)
  case (socket so)
  obtain d1 st1 where s: "dispatch_pending vk lib (so_events so) (wh_handler w, wh_state w) = (d1, st1)" by force
  from pending_not_held [OF assms(1), of "so_events so" vk lib "wh_handler w"] assms(2) socket s
  have "not_held key st1" by simp
  with socket(3) s show ?thesis by (simp add: with_state_def not_held_cong [OF dispatch_end_keeps(2)])
next
  case timer
  with client_repeat_keeps(2) [OF assms(1)] show ?thesis by (simp add: with_state_def)
qed (use assms(1) in \<open>simp_all add: focus_branch_def Let_def\<close>)

section \<open>Sessions\<close>

lemma connect_session:
  assumes "connect kde gl co keymap (dispatch_pending vk lib evs) h = Inr w" "gl_im_manager_v2 gl"
    and "list_all (\<lambda>e. not_v1 (snd e)) evs"
  shows "v2_session (of_nat (dones evs)) w"
proof -
  let ?st = "(create_v2 keymap adapter_state_new)
    \<lparr>as_profile := (for_protocol ImV2)\<lparr>tp_focus := fst (probe_focus kde gl)\<rparr>\<rparr>"
  obtain h1 st1 where s: "dispatch_pending vk lib evs (h, ?st) = (h1, st1)" by force
  from pending_keeps [OF assms(3), of ?st vk lib h] s
  have k: "kept (?st\<lparr>as_serial := of_nat (dones evs)\<rparr>) st1"
    by (simp add: create_v2_def adapter_state_new_def send_def split: option.splits)
  have "wh_state w = st1 \<and> wh_grab w \<and> wh_torn w = []"
    using assms(1,2) s
    by (auto simp: connect_def Let_def case_prod_beta split: option.splits if_splits)
  with k show ?thesis
    by (auto simp: v2_session_def kept_def for_protocol_def create_v2_def send_def split: option.splits)
qed

lemma core_loop_session:
  assumes "v2_session n w" "list_all (\<lambda>p. list_all (\<lambda>e. not_v1 (snd e)) (dispatched p)) ps"
  shows "core_loop vk lib ps w = Goes w' \<Longrightarrow> v2_session (n + of_nat (dones (concat (map dispatched ps)))) w'"
    and "core_loop vk lib ps w = Stops w' \<Longrightarrow> \<exists>m w0. v2_session m w0 \<and> w' = teardown w0"
  using assms
proof (induction ps arbitrary: n w)
  case (Cons p ps)
  {
    case 1
    then obtain w1 where "loop_turn vk lib p w = Goes w1" "core_loop vk lib ps w1 = Goes w'"
      by (auto split: step.splits)
    with Cons.IH(1) [of w1 "n + of_nat (dones (dispatched p))"] turn_session [of n w p vk lib _ w1] 1
    show ?case by (simp add: add.assoc)
  next
    case 2
    show ?case
    proof (cases "loop_turn vk lib p w")
      case (Goes w1)
      with Cons.IH(2) [of w1] turn_session [of n w p vk lib _ w1] 2 show ?thesis by simp
    next
      case (Stops w1)
      with turn_session [of n w p vk lib _ w1] 2 show ?thesis by auto
    qed (use 2 in simp)
  }
qed (simp_all add: dones_def)

text \<open>
  C13: In a v2 session, from connecting on and as long as the loop runs, the serial the adapter
  acknowledges with is the number of \<^verbatim>\<open>Done\<close> events the compositor has sent, and the proxies
  an edit needs are there, so that no edit is dropped for want of a sink.
\<close>

theorem wayland_serial_counts_frames:
  assumes "connect kde gl co keymap (dispatch_pending vk lib evs) h = Inr w" "gl_im_manager_v2 gl"
    and "list_all (\<lambda>e. not_v1 (snd e)) evs" "list_all (\<lambda>p. list_all (\<lambda>e. not_v1 (snd e)) (dispatched p)) ps"
    and "core_loop vk lib ps w = Goes w'"
  shows "as_serial (wh_state w') = of_nat (dones (evs @ concat (map dispatched ps))) \<and>
    cx_sink (context_of lib now (wh_state w')) raw held csf = Some (adapter_sink lib now raw held csf)"
  using core_loop_session(1) [OF connect_session [OF assms(1-3)] assms(4,5)]
  by (simp_all add: v2_session_def context_of_def ctx_with_sink_def)

text \<open>
  A v2 session whose loop ends without an error releases the keyboard grab and destroys the
  input method and the virtual keyboard, each once and in this order; none is left.
\<close>

theorem wayland_teardown_complete:
  assumes "connect kde gl co keymap (dispatch_pending vk lib evs) h = Inr w" "gl_im_manager_v2 gl"
    and "list_all (\<lambda>e. not_v1 (snd e)) evs" "list_all (\<lambda>p. list_all (\<lambda>e. not_v1 (snd e)) (dispatched p)) ps"
    and "core_loop vk lib ps w = Stops w'"
  shows "wh_torn w' = [GrabRelease, ImDestroy, VkDestroy] \<and> \<not> wh_grab w' \<and>
    \<not> as_im (wh_state w') \<and> \<not> as_vk (wh_state w')"
  using core_loop_session(2) [OF connect_session [OF assms(1-3)] assms(4,5)]
  by (auto simp: v2_session_def teardown_def)

text \<open>
  C14: A key whose release waits in the queue is not repeated any more: the turn that finds the
  socket ready takes the queue before the timer, even when the timer is due, and from then on the
  timer does not fire for the key until it is pressed again.
\<close>

theorem released_key_not_repeated:
  assumes "core_loop vk lib (p # ps) w = Goes w'"
    and "dispatched p = pre @ (t, ev) # post" "releases key ev"
    and "\<not> list_ex (\<lambda>e. presses key (snd e)) (post @ concat (map dispatched ps))"
  shows "fst (repeat_fire now (as_client_repeat (wh_state w'))) \<noteq> Some (key, stamp)"
proof -
  obtain w1 where turn: "loop_turn vk lib p w = Goes w1" and loop: "core_loop vk lib ps w1 = Goes w'"
    using assms(1) by (auto split: step.splits)
  have "not_held key (wh_state w1)"
    using turn disjI1 [OF refl]
  proof (cases rule: loop_turn_cases)
    case (socket so)
    obtain d0 st0 where s0: "dispatch_pending vk lib pre (wh_handler w, wh_state w) = (d0, st0)" by force
    obtain d1 st1 where s1: "dispatch_event (daemon_adapter vk lib t) lib t ev (d0, st0) = (d1, st1)" by force
    obtain d2 st2 where s2: "dispatch_pending vk lib post (d1, st1) = (d2, st2)" by force
    from event_not_held [of key ev st0 vk lib t d0] assms(3) s1 have "not_held key st1" by simp
    from pending_not_held [OF this, of post vk lib d1] assms(4) s2 have "not_held key st2" by simp
    moreover have "dispatch_pending vk lib (pre @ (t, ev) # post) (wh_handler w, wh_state w) = (d2, st2)"
      by (simp add: pending_append s0 s1 s2)
    then have "dispatch_pending vk lib (so_events so) (wh_handler w, wh_state w) = (d2, st2)"
      using socket(2) assms(2) by simp
    ultimately show ?thesis
      using socket(3) by (simp add: with_state_def not_held_cong [OF dispatch_end_keeps(2)])
  qed (use assms(2) in simp_all)
  moreover have "not_held key (wh_state w')"
    if "not_held key (wh_state w1)" "core_loop vk lib ps w1 = Goes w'"
      "\<not> list_ex (\<lambda>e. presses key (snd e)) (concat (map dispatched ps))" for w1
    using that
  proof (induction ps arbitrary: w1)
    case (Cons q qs)
    then obtain w2 where "loop_turn vk lib q w1 = Goes w2" "core_loop vk lib qs w2 = Goes w'"
      by (auto split: step.splits)
    with Cons.IH [of w2] turn_not_held [of key w1 q vk lib w2] Cons.prems show ?case by simp
  qed simp
  ultimately show ?thesis using loop assms(4) by (intro not_held_no_fire) simp
qed

section \<open>A concrete session\<close>

definition demo_connect :: "connect_error + (ustr, unit, u32) wayland_handle" where
  "demo_connect =
     connect False \<lparr>gl_seat = True, gl_im_manager_v2 = True, gl_vk_manager = True, gl_im_v1 = False,
                    gl_ftl = True, gl_plasma = False\<rparr>
       \<lparr>co_display = None, co_registry = None, co_first_roundtrip = None, co_second_roundtrip = None,
        co_async_fd = None\<rparr> (Some \<lparr>km_fd = 7, km_size = 9\<rparr>)
       (dispatch_pending toy_vnkey toy_xkb [(0, ImEvent V2Activate), (0, ImEvent V2Done)])
       (daemon_new config_default True None)"

definition demo_poll :: "(time \<times> unit wl_event) list \<Rightarrow> unit poll" where
  "demo_poll evs =
     \<lparr>po_flush = IoOk, po_guard = True, po_now = 5, po_shutdown = None, po_ctrl_c = False,
      po_socket = Some \<lparr>so_ready = None, so_read = WouldBlock, so_flush = IoOk, so_events = evs, so_dispatch = None\<rparr>,
      po_focus = None\<rparr>"

definition demo_keys :: "(time \<times> unit wl_event) list" where
  "demo_keys =
     [(1, GrabEvent (GrabKeymap 1 9 (Some ()))), (2, GrabEvent (GrabKey 2 30 1)), (3, GrabEvent (GrabKey 3 31 1))]"

definition demo_session :: "(ustr, unit, u32) wayland_handle step" where
  "demo_session =
     (case demo_connect of Inr w \<Rightarrow> core_loop toy_vnkey toy_xkb [demo_poll demo_keys] w | Inl e \<Rightarrow> Fails [])"

abbreviation demo_shutdown :: "unit poll" where
  "demo_shutdown \<equiv> (demo_poll [])\<lparr>po_shutdown := Some (ShutdownValue True)\<rparr>"

text \<open>Before its release the last key is armed, and the timer would fire for it.\<close>

lemma demo_session_eval:
  "case demo_session of
     Goes w \<Rightarrow>
       repeat_due (millis 1000) (as_client_repeat (wh_state w)) \<and>
       (case core_loop toy_vnkey toy_xkb [demo_poll [(4, GrabEvent (GrabKey 4 31 0))]] w of
          Goes w1 \<Rightarrow> True | _ \<Rightarrow> False) \<and>
       (case core_loop toy_vnkey toy_xkb [demo_shutdown] w of Stops w1 \<Rightarrow> True | _ \<Rightarrow> False)
   | _ \<Rightarrow> False"
  by code_simp

lemma core_loop_append:
  "core_loop vk lib (ps @ qs) w =
     (case core_loop vk lib ps w of Goes w' \<Rightarrow> core_loop vk lib qs w' | r \<Rightarrow> r)"
  by (induction vk lib ps w rule: core_loop.induct) (simp_all split: step.split)

lemma demo_session_run:
  obtains w w1 w2 w3 where "demo_connect = Inr w"
    "core_loop toy_vnkey toy_xkb [demo_poll demo_keys] w = Goes w1"
    "repeat_due (millis 1000) (as_client_repeat (wh_state w1))"
    "core_loop toy_vnkey toy_xkb [demo_poll [(4, GrabEvent (GrabKey 4 31 0))]] w1 = Goes w2"
    "core_loop toy_vnkey toy_xkb [demo_poll demo_keys, demo_shutdown] w = Stops w3"
proof (cases demo_session)
  case (Goes w1)
  then obtain w where w: "demo_connect = Inr w" "core_loop toy_vnkey toy_xkb [demo_poll demo_keys] w = Goes w1"
    by (auto simp: demo_session_def simp del: core_loop.simps split: sum.splits)
  from demo_session_eval [unfolded Goes step.case] obtain w2 w3 where
    r: "repeat_due (millis 1000) (as_client_repeat (wh_state w1))"
      "core_loop toy_vnkey toy_xkb [demo_poll [(4, GrabEvent (GrabKey 4 31 0))]] w1 = Goes w2"
      "core_loop toy_vnkey toy_xkb [demo_shutdown] w1 = Stops w3"
    by (auto simp del: core_loop.simps split: step.splits)
  have "core_loop toy_vnkey toy_xkb ([demo_poll demo_keys] @ [demo_shutdown]) w = Stops w3"
    unfolding core_loop_append w(2) step.case by (rule r(3))
  with that w r show ?thesis by (simp del: core_loop.simps)
next
  case (Stops x)
  show ?thesis using demo_session_eval [unfolded Stops step.case] ..
next
  case (Fails x)
  show ?thesis using demo_session_eval [unfolded Fails step.case] ..
qed

theorem wayland_serial_counts_frames_witness:
  "\<exists>w w'. demo_connect = Inr w \<and> core_loop toy_vnkey toy_xkb [demo_poll demo_keys] w = Goes w' \<and>
     as_serial (wh_state w') = 1"
proof -
  obtain w w1 where w: "demo_connect = Inr w" "core_loop toy_vnkey toy_xkb [demo_poll demo_keys] w = Goes w1"
    by (rule demo_session_run)
  have s: "as_serial (wh_state w1) =
      of_nat (dones ([(0, ImEvent V2Activate), (0, ImEvent V2Done)] @ concat (map dispatched [demo_poll demo_keys])))"
    by (rule wayland_serial_counts_frames [OF w(1) [unfolded demo_connect_def] _ _ _ w(2), THEN conjunct1])
      (simp_all add: not_v1_def dispatched_def demo_poll_def demo_keys_def)
  have "as_serial (wh_state w1) = 1"
    unfolding s by (simp add: dones_def done_event_def dispatched_def demo_poll_def demo_keys_def)
  with w show ?thesis by blast
qed

theorem wayland_teardown_complete_witness:
  "\<exists>w w'. demo_connect = Inr w \<and> core_loop toy_vnkey toy_xkb [demo_poll demo_keys, demo_shutdown] w = Stops w' \<and>
     wh_torn w' = [GrabRelease, ImDestroy, VkDestroy]"
proof -
  obtain w w3 where w: "demo_connect = Inr w"
      "core_loop toy_vnkey toy_xkb [demo_poll demo_keys, demo_shutdown] w = Stops w3"
    by (rule demo_session_run)
  have "wh_torn w3 = [GrabRelease, ImDestroy, VkDestroy] \<and> \<not> wh_grab w3 \<and>
      \<not> as_im (wh_state w3) \<and> \<not> as_vk (wh_state w3)"
    by (rule wayland_teardown_complete [OF w(1) [unfolded demo_connect_def] _ _ _ w(2)])
      (simp_all add: not_v1_def dispatched_def demo_poll_def demo_keys_def)
  with w show ?thesis by blast
qed

theorem released_key_not_repeated_witness:
  "\<exists>w1 w2. repeat_due (millis 1000) (as_client_repeat (wh_state w1)) \<and>
     core_loop toy_vnkey toy_xkb [demo_poll [(4, GrabEvent (GrabKey 4 31 0))]] w1 = Goes w2 \<and>
     fst (repeat_fire (millis 1000) (as_client_repeat (wh_state w2))) \<noteq> Some (31, 997)"
proof -
  obtain w1 w2 where w: "repeat_due (millis 1000) (as_client_repeat (wh_state w1))"
      "core_loop toy_vnkey toy_xkb [demo_poll [(4, GrabEvent (GrabKey 4 31 0))]] w1 = Goes w2"
    by (rule demo_session_run)
  have "fst (repeat_fire (millis 1000) (as_client_repeat (wh_state w2))) \<noteq> Some (31, 997)"
    by (rule released_key_not_repeated [OF w(2), where pre = "[]" and post = "[]" and t = 4 and
          ev = "GrabEvent (GrabKey 4 31 0)"])
      (simp_all add: releases_def dispatched_def demo_poll_def)
  with w show ?thesis by blast
qed
end
