(* ===== verification/Startup.thy ===== *)
theory Startup
  imports EvdevHooks Evdev
begin

text \<open>
  What happens before a backend serves keys: reading the configuration (\<^verbatim>\<open>daemon/src/config.rs\<close>),
  the preflight check of the evdev backend (\<^verbatim>\<open>daemon/src/evdev\_preflight.rs\<close>), finding and grabbing
  the keyboards (\<^verbatim>\<open>evdev-adapter/src/adapter.rs\<close>), and the address of the IBus daemon
  (\<^verbatim>\<open>ibus-adapter/src/bus.rs\<close>). Files, directories, groups and devices are arguments.
\<close>

section \<open>Reading a file\<close>

datatype file_read = FileText ustr | FileMissing ustr | FileError ustr

section \<open>The configuration file\<close>

datatype config_error = ReadConfig path ustr | ParseConfig path ustr

definition config_home :: "(string \<Rightarrow> ustr option) \<Rightarrow> path option" where
  "config_home env =
     (case env ''XDG_CONFIG_HOME'' of
        Some d \<Rightarrow> Some d
      | None \<Rightarrow> map_option (\<lambda>h. path_join h (lit ''.config'')) (env ''HOME''))"

definition default_config_path :: "(string \<Rightarrow> ustr option) \<Rightarrow> path option" where
  "default_config_path env =
     map_option (\<lambda>d. path_join (path_join d (lit ''daklak'')) (lit ''config.toml'')) (config_home env)"

definition parse_config :: "(ustr \<Rightarrow> ustr + config) \<Rightarrow> path \<Rightarrow> ustr \<Rightarrow> config_error + config" where
  "parse_config toml path txt =
     (case toml txt of
        Inl e \<Rightarrow> Inl (ParseConfig path e)
      | Inr cfg \<Rightarrow> Inr (cfg\<lparr>cf_config_path := Some path\<rparr>))"

definition load_file :: "(path \<Rightarrow> file_read) \<Rightarrow> (ustr \<Rightarrow> ustr + config) \<Rightarrow> path \<Rightarrow> config_error + config" where
  "load_file read toml path =
     (case read path of
        FileText txt \<Rightarrow> parse_config toml path txt
      | FileMissing e \<Rightarrow> Inl (ReadConfig path e)
      | FileError e \<Rightarrow> Inl (ReadConfig path e))"

definition load_optional_file ::
    "(path \<Rightarrow> file_read) \<Rightarrow> (ustr \<Rightarrow> ustr + config) \<Rightarrow> path \<Rightarrow> config_error + config option" where
  "load_optional_file read toml path =
     (case read path of
        FileText txt \<Rightarrow> map_sum id Some (parse_config toml path txt)
      | FileMissing e \<Rightarrow> Inr None
      | FileError e \<Rightarrow> Inl (ReadConfig path e))"

definition load_default_file ::
    "(path \<Rightarrow> file_read) \<Rightarrow> (ustr \<Rightarrow> ustr + config) \<Rightarrow> (string \<Rightarrow> ustr option) \<Rightarrow> config_error + config option" where
  "load_default_file read toml env =
     (case default_config_path env of
        None \<Rightarrow> Inr None
      | Some path \<Rightarrow> load_optional_file read toml path)"

text \<open>\<open>load\_from\<close> of the theory \<open>Config\<close> on these files.\<close>

definition config_load ::
    "(path \<Rightarrow> file_read) \<Rightarrow> (ustr \<Rightarrow> ustr + config) \<Rightarrow> (string \<Rightarrow> ustr option) \<Rightarrow> path option \<Rightarrow>
      config_error + config" where
  "config_load read toml env path =
     load_from (load_file read toml) (load_default_file read toml env) (default_config_path env) env path"

section \<open>The preflight check\<close>

datatype preflight_problem =
    NoGroup ustr | NotInGroup ustr | UinputAccess ustr | InputDir ustr | InputEntry ustr
  | NoReadableDevice | NoDevice

text \<open>
  \<open>group\_gid\<close>: a line of \<^verbatim>\<open>/etc/group\<close> counts when it has three fields and the third is a
  number; \<open>parse\_u32\<close> is \<^verbatim>\<open>str::parse\<close>.
\<close>

definition group_line :: "(ustr \<Rightarrow> u32 option) \<Rightarrow> ustr \<Rightarrow> ustr \<Rightarrow> u32 option" where
  "group_line parse_u32 name line =
     (case str_split 58 line of
        group_name # passwd # gid # rest \<Rightarrow>
          (case parse_u32 gid of
             Some g \<Rightarrow> if group_name = name then Some g else None
           | None \<Rightarrow> None)
      | _ \<Rightarrow> None)"

fun find_map :: "('a \<Rightarrow> 'b option) \<Rightarrow> 'a list \<Rightarrow> 'b option" where
  "find_map f [] = None"
| "find_map f (x # xs) = (case f x of Some y \<Rightarrow> Some y | None \<Rightarrow> find_map f xs)"

definition group_gid :: "(ustr \<Rightarrow> u32 option) \<Rightarrow> ustr list option \<Rightarrow> ustr \<Rightarrow> u32 option" where
  "group_gid parse_u32 groups name =
     (case groups of None \<Rightarrow> None | Some lines \<Rightarrow> find_map (group_line parse_u32 name) lines)"

text \<open>The effective group, and the supplementary ones as far as \<^verbatim>\<open>getgroups\<close> gives them.\<close>

definition active_gids :: "u32 \<Rightarrow> int \<Rightarrow> int \<times> u32 list \<Rightarrow> u32 set" where
  "active_gids egid n got =
     (if n \<le> 0 then {egid}
      else if fst got > 0 then insert egid (set (take (nat (fst got)) (snd got)))
      else {egid})"

definition require_active_group :: "u32 set \<Rightarrow> u32 option \<Rightarrow> ustr \<Rightarrow> preflight_problem option" where
  "require_active_group active gid name =
     (case gid of
        None \<Rightarrow> Some (NoGroup name)
      | Some g \<Rightarrow> if g \<in> active then None else Some (NotInGroup name))"

text \<open>An entry of \<^verbatim>\<open>/dev/input\<close>: an error, or its file name (if it is UTF-8) and whether it opens.\<close>

type_synonym input_entry = "ustr + ustr option \<times> bool"

definition starts_with_event :: "ustr option \<Rightarrow> bool" where
  "starts_with_event name = (case name of Some n \<Rightarrow> take 5 n = lit ''event'' | None \<Rightarrow> False)"

fun check_entries :: "input_entry list \<Rightarrow> bool \<Rightarrow> preflight_problem option" where
  "check_entries [] saw_event = Some (if saw_event then NoReadableDevice else NoDevice)"
| "check_entries (Inl e # es) saw_event = Some (InputEntry e)"
| "check_entries (Inr (name, opens) # es) saw_event =
     (if \<not> starts_with_event name then check_entries es saw_event
      else if opens then None else check_entries es True)"

definition check_input_access :: "ustr + input_entry list \<Rightarrow> preflight_problem option" where
  "check_input_access dir = (case dir of Inl e \<Rightarrow> Some (InputDir e) | Inr entries \<Rightarrow> check_entries entries False)"

definition check_uinput_access :: "ustr option \<Rightarrow> preflight_problem option" where
  "check_uinput_access opened = map_option UinputAccess opened"

text \<open>\<open>check\<close>: every problem is collected, in this order; no problem is success.\<close>

definition preflight_check ::
    "(ustr \<Rightarrow> u32 option) \<Rightarrow> ustr list option \<Rightarrow> u32 set \<Rightarrow> ustr option \<Rightarrow> ustr + input_entry list \<Rightarrow>
      preflight_problem list" where
  "preflight_check parse_u32 groups active uinput dir =
     List.map_filter id
       [require_active_group active (group_gid parse_u32 groups (lit ''input'')) (lit ''input''),
        require_active_group active (group_gid parse_u32 groups (lit ''uinput'')) (lit ''uinput''),
        check_uinput_access uinput,
        check_input_access dir]"

section \<open>The keyboards\<close>

text \<open>A device as it is found: its keys, its name, and what opening, grabbing and streaming give.\<close>

record input_device =
  dv_path :: path
  dv_keys :: "u32 set option"
  dv_name :: "ustr option"

definition KEY_A :: u32 where
  "KEY_A = 30"

definition DAKLAK_NAME :: ustr where
  "DAKLAK_NAME = lit ''daklak''"

definition is_keyboard :: "input_device \<Rightarrow> bool" where
  "is_keyboard dev = (case dv_keys dev of Some keys \<Rightarrow> KEY_A \<in> keys | None \<Rightarrow> False)"

definition scan_keyboards :: "input_device list \<Rightarrow> (path \<times> ustr) list" where
  "scan_keyboards devs =
     List.map_filter (\<lambda>dev.
       if \<not> is_keyboard dev then None
       else (let name = (case dv_name dev of Some n \<Rightarrow> n | None \<Rightarrow> lit ''(unnamed)'') in
             if name = DAKLAK_NAME then None else Some (dv_path dev, name))) devs"

datatype grab_result = OpenFailed ustr | GrabFailed ustr | StreamFailed ustr | Grabbed

text \<open>The streams are the paths of the keyboards whose grab succeeded.\<close>

fun grab_loop :: "(path \<Rightarrow> grab_result) \<Rightarrow> (path \<times> ustr) list \<Rightarrow> path list \<Rightarrow> path list" where
  "grab_loop grab [] streams = streams"
| "grab_loop grab ((path, name) # ks) streams =
     (case grab path of
        Grabbed \<Rightarrow> grab_loop grab ks (streams @ [path])
      | _ \<Rightarrow> grab_loop grab ks streams)"

definition grab_keyboards :: "input_device list \<Rightarrow> (path \<Rightarrow> grab_result) \<Rightarrow> unit + path list" where
  "grab_keyboards devs grab =
     (let streams = grab_loop grab (scan_keyboards devs) []
      in if streams = [] then Inl () else Inr streams)"

section \<open>The bus address\<close>

datatype bus_error = HomeNotSetBus | ReadBusDir path ustr | NoBusAddress path

definition display_suffix :: "(string \<Rightarrow> ustr option) \<Rightarrow> ustr" where
  "display_suffix env =
     (case env ''WAYLAND_DISPLAY'' of
        Some wl \<Rightarrow> lit ''unix-'' @ wl
      | None \<Rightarrow>
          (case env ''DISPLAY'' of
             Some x \<Rightarrow> lit ''unix-'' @ hd (str_split 46 (dropWhile (\<lambda>c. c = 58) x))
           | None \<Rightarrow> lit ''unix-0''))"

definition ends_with :: "ustr \<Rightarrow> ustr \<Rightarrow> bool" where
  "ends_with suf s \<longleftrightarrow> length suf \<le> length s \<and> drop (length s - length suf) s = suf"

text \<open>
  An entry of the directory: its path, its file name when it is UTF-8, and its lines when it can
  be read. The sort is stable: the matching files come first, each group in directory order.
\<close>

record bus_file =
  bf_name :: "ustr option"
  bf_lines :: "ustr list option"

definition matches_suffix :: "ustr \<Rightarrow> bus_file \<Rightarrow> bool" where
  "matches_suffix suffix f = (case bf_name f of Some n \<Rightarrow> ends_with suffix n | None \<Rightarrow> False)"

definition sort_matching :: "ustr \<Rightarrow> bus_file list \<Rightarrow> bus_file list" where
  "sort_matching suffix fs = sort_key (\<lambda>f. \<not> matches_suffix suffix f) fs"

definition address_of_line :: "ustr \<Rightarrow> ustr option" where
  "address_of_line line =
     (if take 13 line = lit ''IBUS_ADDRESS='' \<and> str_trim (drop 13 line) \<noteq> []
      then Some (str_trim (drop 13 line)) else None)"

definition address_of_file :: "bus_file \<Rightarrow> ustr option" where
  "address_of_file f = (case bf_lines f of Some ls \<Rightarrow> find_map address_of_line ls | None \<Rightarrow> None)"

definition resolve_in_files ::
    "(string \<Rightarrow> ustr option) \<Rightarrow> (path \<Rightarrow> ustr + bus_file list) \<Rightarrow> bus_error + ustr" where
  "resolve_in_files env read_dir =
     (case env ''HOME'' of
        None \<Rightarrow> Inl HomeNotSetBus
      | Some home \<Rightarrow>
          (let dir = path_join home (lit ''.config/ibus/bus'') in
           case read_dir dir of
             Inl e \<Rightarrow> Inl (ReadBusDir dir e)
           | Inr files \<Rightarrow>
               (case find_map address_of_file (sort_matching (display_suffix env) files) of
                  Some addr \<Rightarrow> Inr addr
                | None \<Rightarrow> Inl (NoBusAddress dir))))"

definition resolve_ibus_address ::
    "(string \<Rightarrow> ustr option) \<Rightarrow> (path \<Rightarrow> ustr + bus_file list) \<Rightarrow> bus_error + ustr" where
  "resolve_ibus_address env read_dir =
     (case env ''IBUS_ADDRESS'' of
        Some addr \<Rightarrow> if addr \<noteq> [] then Inr addr else resolve_in_files env read_dir
      | None \<Rightarrow> resolve_in_files env read_dir)"

end
