(* ===== verification/StartupProperties.thy ===== *)
theory StartupProperties
  imports Startup
begin

text \<open>
  What the start of a backend gives: keyboards that are not the daemon's own, a preflight check
  that is passed exactly when the grab can work, the address of the right bus, and a configuration
  that is saved where it was read.
\<close>

section \<open>The keyboards\<close>

lemma grab_loop_filter:
  "grab_loop grab ks streams = streams @ map fst (filter (\<lambda>k. grab (fst k) = Grabbed) ks)"
  by (induction grab ks streams rule: grab_loop.induct) (auto split: grab_result.split)

lemma scan_keyboards_path:
  "(p, n) \<in> set (scan_keyboards devs) \<Longrightarrow> \<exists>dev \<in> set devs. dv_path dev = p \<and> is_keyboard dev \<and> dv_name dev \<noteq> Some DAKLAK_NAME"
  unfolding scan_keyboards_def List.map_filter_def Let_def
  by (clarsimp split: if_splits) (metis option.simps(5))

lemma scan_keyboards_mem:
  assumes "dev \<in> set devs" "is_keyboard dev" "dv_name dev \<noteq> Some DAKLAK_NAME"
  shows "dv_path dev \<in> fst ` set (scan_keyboards devs)"
proof -
  define name where "name = (case dv_name dev of Some n \<Rightarrow> n | None \<Rightarrow> lit ''(unnamed)'')"
  have "name \<noteq> DAKLAK_NAME"
    using assms(3) by (auto simp: name_def DAKLAK_NAME_def lit_def split: option.split)
  with assms(1,2) have "(dv_path dev, name) \<in> set (scan_keyboards devs)"
    by (auto simp: scan_keyboards_def List.map_filter_def Let_def name_def intro!: image_eqI [where x = dev])
  then show ?thesis by force
qed

text \<open>
  Grabbing takes every keyboard that can be grabbed but never the daemon's own virtual device,
  whose keys it would otherwise read back; and it fails exactly when no keyboard could be taken.
\<close>

theorem own_device_never_grabbed:
  assumes "distinct (map dv_path devs)"
  shows "(case grab_keyboards devs grab of
      Inl e \<Rightarrow> \<forall>dev \<in> set devs. is_keyboard dev \<longrightarrow> dv_name dev = Some DAKLAK_NAME \<or> grab (dv_path dev) \<noteq> Grabbed
    | Inr streams \<Rightarrow> streams \<noteq> [] \<and>
        (\<forall>dev \<in> set devs. dv_path dev \<in> set streams \<longleftrightarrow>
           is_keyboard dev \<and> dv_name dev \<noteq> Some DAKLAK_NAME \<and> grab (dv_path dev) = Grabbed))"
proof -
  have "dv_path dev \<in> set (grab_loop grab (scan_keyboards devs) []) \<longleftrightarrow>
      is_keyboard dev \<and> dv_name dev \<noteq> Some DAKLAK_NAME \<and> grab (dv_path dev) = Grabbed"
    if "dev \<in> set devs" for dev
  proof -
    have "dv_path dev \<in> fst ` set (scan_keyboards devs) \<longleftrightarrow> is_keyboard dev \<and> dv_name dev \<noteq> Some DAKLAK_NAME"
    proof
      assume "dv_path dev \<in> fst ` set (scan_keyboards devs)"
      then obtain n where "(dv_path dev, n) \<in> set (scan_keyboards devs)" by force
      then obtain dev' where d: "dev' \<in> set devs" "dv_path dev' = dv_path dev" "is_keyboard dev'"
          "dv_name dev' \<noteq> Some DAKLAK_NAME"
        using scan_keyboards_path by blast
      from d(1,2) that assms have "dev' = dev" by (metis distinct_map inj_onD)
      with d show "is_keyboard dev \<and> dv_name dev \<noteq> Some DAKLAK_NAME" by simp
    qed (use scan_keyboards_mem that in blast)
    then show ?thesis by (auto simp: grab_loop_filter)
  qed
  then show ?thesis
    by (cases "grab_loop grab (scan_keyboards devs) [] = []") (auto simp: grab_keyboards_def Let_def)
qed

section \<open>The preflight check\<close>

lemma split_at_Cons:
  "(\<exists>pre y post. x # xs = pre @ y # post \<and> P y \<and> list_all Q pre) \<longleftrightarrow>
   P x \<or> Q x \<and> (\<exists>pre y post. xs = pre @ y # post \<and> P y \<and> list_all Q pre)" (is "?L \<longleftrightarrow> ?R")
proof
  assume ?L
  then obtain pre y post where s: "x # xs = pre @ y # post" "P y" "list_all Q pre" by blast
  then show ?R by (cases pre) auto
next
  assume ?R
  then show ?L
  proof
    assume "P x"
    then show ?L by (intro exI [of _ "[]"] exI [of _ x] exI [of _ xs]) simp
  next
    assume "Q x \<and> (\<exists>pre y post. xs = pre @ y # post \<and> P y \<and> list_all Q pre)"
    then obtain pre y post where "Q x" "xs = pre @ y # post" "P y" "list_all Q pre" by blast
    then show ?L by (intro exI [of _ "x # pre"] exI [of _ y] exI [of _ post]) simp
  qed
qed

definition usable_entry :: "input_entry \<Rightarrow> bool" where
  "usable_entry e = (case e of Inr (name, opens) \<Rightarrow> opens \<and> starts_with_event name | Inl _ \<Rightarrow> False)"

text \<open>An entry that serves, with no error before it.\<close>

definition usable_dir :: "input_entry list \<Rightarrow> bool" where
  "usable_dir es \<longleftrightarrow> (\<exists>pre e post. es = pre @ e # post \<and> usable_entry e \<and> list_all (Not \<circ> isl) pre)"

lemma usable_dir_simps [simp]:
  "usable_dir [] = False" "usable_dir (e # es) = (usable_entry e \<or> \<not> isl e \<and> usable_dir es)"
  unfolding usable_dir_def split_at_Cons by simp_all

lemma check_entries_None: "check_entries es saw = None \<longleftrightarrow> usable_dir es"
  by (induction es saw rule: check_entries.induct) (simp_all add: usable_entry_def)

text \<open>
  C29: The preflight check is passed exactly when the process is in both groups, the uinput device
  can be written, and an event device can be read before the listing fails.
\<close>

theorem preflight_exact:
  "preflight_check parse_u32 groups active uinput dir = [] \<longleftrightarrow>
   (\<exists>g \<in> active. group_gid parse_u32 groups (lit ''input'') = Some g) \<and>
   (\<exists>g \<in> active. group_gid parse_u32 groups (lit ''uinput'') = Some g) \<and>
   uinput = None \<and>
   (\<exists>pre e post. dir = Inr (pre @ e # post) \<and> usable_entry e \<and> list_all (Not \<circ> isl) pre)"
proof -
  have group: "require_active_group active gid name = None \<longleftrightarrow> (\<exists>g \<in> active. gid = Some g)" for gid name
    by (auto simp: require_active_group_def split: option.splits)
  have dir: "check_input_access dir = None \<longleftrightarrow>
      (\<exists>pre e post. dir = Inr (pre @ e # post) \<and> usable_entry e \<and> list_all (Not \<circ> isl) pre)"
    by (cases dir) (simp_all add: check_input_access_def check_entries_None usable_dir_def)
  have uinput: "check_uinput_access uinput = None \<longleftrightarrow> uinput = None"
    by (simp add: check_uinput_access_def)
  have "preflight_check parse_u32 groups active uinput dir = [] \<longleftrightarrow>
      require_active_group active (group_gid parse_u32 groups (lit ''input'')) (lit ''input'') = None \<and>
      require_active_group active (group_gid parse_u32 groups (lit ''uinput'')) (lit ''uinput'') = None \<and>
      check_uinput_access uinput = None \<and> check_input_access dir = None"
    by (auto simp: preflight_check_def List.map_filter_def)
  then show ?thesis unfolding group uinput dir by simp
qed

section \<open>The bus address\<close>

lemma find_map_Some:
  "find_map f xs = Some y \<Longrightarrow> \<exists>pre x post. xs = pre @ x # post \<and> f x = Some y \<and> list_all (\<lambda>x. f x = None) pre"
proof (induction xs)
  case (Cons a xs)
  show ?case
  proof (cases "f a")
    case None
    with Cons obtain pre x post where "xs = pre @ x # post" "f x = Some y" "list_all (\<lambda>x. f x = None) pre" by auto
    with None show ?thesis by (intro exI [of _ "a # pre"]) auto
  next
    case (Some z)
    with Cons.prems show ?thesis by (intro exI [of _ "[]"]) auto
  qed
qed simp

lemma find_map_None: "find_map f xs = None \<longleftrightarrow> (\<forall>x \<in> set xs. f x = None)"
  by (induction xs) (auto split: option.split)

text \<open>
  An address taken from the bus directory is some file's first non-empty one, and it comes from
  a file of the current display whenever one of those has an address; no address is reported only
  when no file has one.
\<close>

theorem bus_address_preferred:
  assumes "resolve_in_files env read_dir = r" "env ''HOME'' = Some home"
    and "read_dir (path_join home (lit ''.config/ibus/bus'')) = Inr files"
  shows "(case r of
      Inr addr \<Rightarrow> \<exists>f \<in> set files. address_of_file f = Some addr \<and>
        (matches_suffix (display_suffix env) f \<or>
         (\<forall>g \<in> set files. matches_suffix (display_suffix env) g \<longrightarrow> address_of_file g = None))
    | Inl e \<Rightarrow> \<forall>f \<in> set files. address_of_file f = None)"
proof -
  let ?m = "matches_suffix (display_suffix env)"
  let ?fs = "sort_matching (display_suffix env) files"
  have set: "set ?fs = set files" by (simp add: sort_matching_def)
  have r: "r = (case find_map address_of_file ?fs of
      Some addr \<Rightarrow> Inr addr | None \<Rightarrow> Inl (NoBusAddress (path_join home (lit ''.config/ibus/bus''))))"
    using assms by (simp add: resolve_in_files_def Let_def)
  show ?thesis
  proof (cases "find_map address_of_file ?fs")
    case None
    then have "\<forall>f \<in> set files. address_of_file f = None" unfolding find_map_None set .
    with None show ?thesis by (simp add: r)
  next
    case (Some addr)
    from find_map_Some [OF Some] obtain pre f post where
      f: "?fs = pre @ f # post" "address_of_file f = Some addr" "list_all (\<lambda>x. address_of_file x = None) pre" by blast
    have "sorted (map (\<lambda>f. \<not> ?m f) ?fs)" unfolding sort_matching_def by (rule sorted_sort_key)
    then have "sorted (map (\<lambda>f. \<not> ?m f) (f # post))" unfolding f(1) map_append sorted_append by blast
    then have "\<forall>b \<in> set (map (\<lambda>f. \<not> ?m f) post). (\<not> ?m f) \<le> b" unfolding list.map sorted_simps by blast
    then have "\<forall>g \<in> set post. (\<not> ?m f) \<le> (\<not> ?m g)" by simp
    then have later: "\<forall>g \<in> set post. \<not> ?m f \<longrightarrow> \<not> ?m g" by (simp add: le_bool_def)
    have "?m f \<or> (\<forall>g \<in> set files. ?m g \<longrightarrow> address_of_file g = None)"
      unfolding set [symmetric] f(1) using later f(3) by (auto simp: list_all_iff)
    moreover have "f \<in> set files" unfolding set [symmetric] f(1) by simp
    ultimately show ?thesis using f(2) by (auto simp: r Some)
  qed
qed

section \<open>The configuration\<close>

lemma apply_env_path: "cf_config_path (apply_env env cfg) = cf_config_path cfg"
  by (simp add: apply_env_def Let_def split: option.split)

text \<open>The tray saves where the configuration was read: the file given, or else the default one.\<close>

lemma config_saved_where_loaded:
  "config_load read toml env path = Inr cfg \<Longrightarrow>
   cf_config_path cfg = (case path of Some p \<Rightarrow> Some p | None \<Rightarrow> default_config_path env)"
  by (auto simp: config_load_def load_from_def load_file_def load_default_file_def load_optional_file_def
      parse_config_def apply_env_path Let_def split: option.splits sum.splits file_read.splits)

section \<open>Witnesses\<close>

theorem own_device_never_grabbed_witness:
  "grab_keyboards
     [\<lparr>dv_path = lit ''event0'', dv_keys = Some {30, 31}, dv_name = Some (lit ''keyboard'')\<rparr>,
      \<lparr>dv_path = lit ''event1'', dv_keys = Some {30}, dv_name = Some (lit ''daklak'')\<rparr>]
     (\<lambda>_. Grabbed) = Inr [lit ''event0''] \<and> lit ''event1'' \<notin> set [lit ''event0'']"
proof -
  let ?devs = "[\<lparr>dv_path = lit ''event0'', dv_keys = Some {30, 31}, dv_name = Some (lit ''keyboard'')\<rparr>,
      \<lparr>dv_path = lit ''event1'', dv_keys = Some {30}, dv_name = Some (lit ''daklak'')\<rparr>]"
  have g: "grab_keyboards ?devs (\<lambda>_. Grabbed) = Inr [lit ''event0'']"
    by (simp add: grab_keyboards_def scan_keyboards_def is_keyboard_def KEY_A_def DAKLAK_NAME_def lit_def
        List.map_filter_def Let_def)
  have "distinct (map dv_path ?devs)" by (simp add: lit_def)
  from own_device_never_grabbed [OF this, of "\<lambda>_. Grabbed"] g show ?thesis by (simp add: DAKLAK_NAME_def)
qed

theorem bus_address_preferred_witness:
  "\<exists>addr. resolve_in_files [''HOME'' \<mapsto> lit ''/h'', ''DISPLAY'' \<mapsto> lit '':1'']
     (\<lambda>_. Inr [\<lparr>bf_name = Some (lit ''m-unix-0''), bf_lines = Some [lit ''IBUS_ADDRESS=a'']\<rparr>,
               \<lparr>bf_name = Some (lit ''m-unix-1''), bf_lines = Some [lit ''IBUS_ADDRESS=b'']\<rparr>]) = Inr addr \<and>
     addr = lit ''b''"
proof -
  let ?env = "[''HOME'' \<mapsto> lit ''/h'', ''DISPLAY'' \<mapsto> lit '':1'']"
  let ?files = "[\<lparr>bf_name = Some (lit ''m-unix-0''), bf_lines = Some [lit ''IBUS_ADDRESS=a'']\<rparr>,
    \<lparr>bf_name = Some (lit ''m-unix-1''), bf_lines = Some [lit ''IBUS_ADDRESS=b'']\<rparr>]"
  have e: "map address_of_file ?files = [Some (lit ''a''), Some (lit ''b'')]"
    "map (matches_suffix (display_suffix ?env)) ?files = [False, True]"
    by code_simp+
  define r where "r = resolve_in_files ?env (\<lambda>_. Inr ?files)"
  have "case r of
      Inr addr \<Rightarrow> \<exists>f \<in> set ?files. address_of_file f = Some addr \<and>
        (matches_suffix (display_suffix ?env) f \<or>
         (\<forall>g \<in> set ?files. matches_suffix (display_suffix ?env) g \<longrightarrow> address_of_file g = None))
    | Inl e \<Rightarrow> \<forall>f \<in> set ?files. address_of_file f = None"
    by (rule bus_address_preferred [where home = "lit ''/h''" and env = ?env and read_dir = "\<lambda>_. Inr ?files"])
      (simp_all add: r_def)
  with e show ?thesis by (auto simp flip: r_def split: sum.splits)
qed

end
