(* ===== verification/ComposerTyping.thy ===== *)
theory ComposerTyping
  imports ComposerLemmas IbusAdapter
begin

text \<open>
  Strings of the model are lists of code points; in Rust a \<^verbatim>\<open>String\<close> holds Unicode scalar values
  only. Here the composer of \<^verbatim>\<open>daemon/src/composer.rs\<close> is shown to respect that type: called with
  scalar values it stores and answers scalar values, whatever is called in which order. The
  library's output is the only place where bytes come in; \<open>decode_engine_output\<close> checks them.
\<close>

section \<open>Well-typed texts, states and answers\<close>

abbreviation text_ok :: "ustr \<Rightarrow> bool" where
  "text_ok \<equiv> list_all is_scalar"

definition edit_ok :: "pending_engine_edit \<Rightarrow> bool" where
  "edit_ok e \<longleftrightarrow> text_ok (pe_commit e) \<and> text_ok (pe_base_word e)"

definition raw_ok :: "pending_raw \<Rightarrow> bool" where
  "raw_ok p \<longleftrightarrow> is_scalar (pw_ch p) \<and> pred_option edit_ok (pw_edit p)"

definition composer_ok :: "'e composer \<Rightarrow> bool" where
  "composer_ok c \<longleftrightarrow> text_ok (shadow_text c) \<and> text_ok (em_prev_text (cp_edit c)) \<and>
     pred_option is_scalar (cp_last_input_char c) \<and>
     pred_option raw_ok (pending_raw_of (cp_confirmation c))"




section \<open>Pieces of a well-typed text\<close>

lemma text_ok_sub: "text_ok t \<Longrightarrow> set s \<subseteq> set t \<Longrightarrow> text_ok s"
  by (auto simp: list_all_iff)

lemma set_floor_prefix: "set (floor_prefix t n) \<subseteq> set t"
  by (induction t n rule: floor_prefix.induct) auto

lemma set_last_word: "set (last_word t) \<subseteq> set t"
  by (auto simp: last_word_def dest: set_takeWhileD)

lemma set_pop_n: "set (pop_n n t) \<subseteq> set t"
  by (simp add: pop_n_def set_take_subset)

lemma text_ok_floor_prefix [simp, intro]: "text_ok t \<Longrightarrow> text_ok (floor_prefix t n)"
  by (rule text_ok_sub [OF _ set_floor_prefix])

lemma text_ok_last_word [simp, intro]: "text_ok t \<Longrightarrow> text_ok (last_word t)"
  by (rule text_ok_sub [OF _ set_last_word])

lemma text_ok_pop_n [simp, intro]: "text_ok t \<Longrightarrow> text_ok (pop_n n t)"
  by (rule text_ok_sub [OF _ set_pop_n])

lemma text_ok_drop [simp, intro]: "text_ok t \<Longrightarrow> text_ok (drop n t)"
  by (rule text_ok_sub [OF _ set_drop_subset])

lemma text_ok_butlast [simp, intro]: "text_ok t \<Longrightarrow> text_ok (butlast t)"
  by (auto simp: list_all_iff dest: in_set_butlastD)

lemma text_ok_current_word [simp, intro]: "text_ok t \<Longrightarrow> text_ok (current_word_before_cursor t cu)"
  by (simp add: current_word_before_cursor_eq)


section \<open>The engine\<close>





section \<open>The operations\<close>


text \<open>
  An operation whose texts are those of another composer, which ends a confirmation rather than
  starting one and which keeps or forgets the last key, keeps the typing.
\<close>

lemma composer_ok_cong:
  assumes "composer_ok c" "shadow_text c' = shadow_text c"
    "em_prev_text (cp_edit c') = em_prev_text (cp_edit c) \<or> em_prev_text (cp_edit c') = []"
    "cp_last_input_char c' = cp_last_input_char c \<or> cp_last_input_char c' = None"
    "cp_confirmation c' = cp_confirmation c \<or> pending_raw_of (cp_confirmation c') = None"
  shows "composer_ok c'"
  using assms by (auto simp: composer_ok_def)


lemma shadow_text_edit [simp]:
  "shadow_text (c\<lparr>cp_edit := em\<rparr>) = em_shadow_text em"
  "shadow_text (c\<lparr>cp_confirmation := cs\<rparr>) = shadow_text c"
  "shadow_text (c\<lparr>cp_engine := en\<rparr>) = shadow_text c"
  "shadow_text (c\<lparr>cp_firefox := fx\<rparr>) = shadow_text c"
  "shadow_text (c\<lparr>cp_last_input_char := l\<rparr>) = shadow_text c"
  "shadow_text (c\<lparr>cp_retroactive_context := r\<rparr>) = shadow_text c"
  "shadow_text (c\<lparr>cp_last_keystroke_at := now\<rparr>) = shadow_text c"
  "shadow_text (cp_engine_reset vk c) = shadow_text c"
  "shadow_text (seed_if_nonempty vk w c) = shadow_text c"
  "shadow_text (frame_derived_or_live c) = shadow_text c"
  "shadow_text (key_context vk ch c) = shadow_text c"
  by (simp_all add: shadow_text_def)

lemma prev_text_frame [simp]:
  "em_prev_text (em_set_method m em) = em_prev_text em"
  "em_prev_text (em_set_modifiers k em) = em_prev_text em"
  "em_prev_text (em_reset_composition em) = em_prev_text em"
  "em_prev_text (push_forwarded_char ch em) = em_prev_text em"
  "em_prev_text (pop_forwarded_char em) = em_prev_text em"
  "em_prev_text (em_on_surrounding_text t cu an em) = em_prev_text em"
  "em_prev_text (em_clear_prev_surrounding em) = []"
  "em_prev_text (record_surrounding t cu an em) = t"
  by (simp_all add: em_set_method_def em_set_modifiers_def em_reset_composition_def
      push_forwarded_char_def pop_forwarded_char_def em_update_shadow_def
      em_on_surrounding_text_def em_clear_prev_surrounding_def record_surrounding_def)

lemma composer_ok_simple [intro]:
  assumes "composer_ok c"
  shows "composer_ok (mark_action now c)"
    and "composer_ok (set_surrounding_confirmation b c)"
    and "composer_ok (defer_action now c)"
    and "composer_ok (cp_set_method m c)"
    and "composer_ok (snd (note_surrounding_liveness t cu c))"
    and "composer_ok (mark_surrounding_frame_seen c)"
    and "composer_ok (snd (note_surrounding_correction c))"
    and "composer_ok (cp_set_modifiers k c)"
    and "composer_ok (full_reset vk c)"
    and "composer_ok (reset_composition_preserving_surrounding vk c)"
    and "composer_ok (cp_set_input_method vk im c)"
    and "composer_ok (cp_set_modern_style vk e c)"
    and "composer_ok (snd (check_idle_reset vk now c))"
    and "composer_ok (clear_prev_surrounding c)"
    and "composer_ok (revalidate_live_confirmation t c)"
  using assms
  by (auto simp: composer_ok_def shadow_text_def mark_action_def set_surrounding_confirmation_def
      defer_action_def cp_set_method_def Let_def note_surrounding_liveness_def
      mark_surrounding_frame_seen_def note_surrounding_correction_def cp_set_modifiers_def
      full_reset_def reset_composition_preserving_surrounding_def cp_set_input_method_def
      cp_set_modern_style_def check_idle_reset_def clear_prev_surrounding_def
      revalidate_live_confirmation_def split: prod.splits)

lemma key_context_last [simp]: "cp_last_input_char (key_context vk ch c) = cp_last_input_char c"
  by (auto simp: key_context_def Let_def split: option.split prod.split)







lemma channel_apply_prev [simp]:
  "em_prev_text (fst (channel_apply snk bs commit serial time c s)) = em_prev_text (cp_edit c)"
  by (simp add: channel_apply_def)




section \<open>Frames\<close>











section \<open>Sessions\<close>

text \<open>A call of the composer, with its arguments; \<open>call_text\<close> is the text it passes in.\<close>

datatype composer_call =
    CallKey time uchar
  | CallBackspace time
  | CallUnrecord
  | CallApply usize ustr u32
  | CallApplyToSink usize ustr u32 u32
  | CallRepair usize ustr u32 u32
  | CallFrame time ustr u32 u32 bool
  | CallFrameChars time ustr u32 u32
  | CallSkip ustr u32 u32 bool bool
  | CallIdle time
  | CallLiveness ustr u32
  | CallFrameSeen
  | CallCorrection
  | CallMark time
  | CallDefer time
  | CallConfirmation
  | CallMethod backspace_method
  | CallModifiers modifier_state
  | CallInputMethod input_method
  | CallModernStyle bool
  | CallFullReset
  | CallReset
  | CallClearPrev


fun perform :: "'e vnkey \<Rightarrow> 's output_sink \<Rightarrow> composer_call \<Rightarrow> 'e composer \<times> 's \<Rightarrow> 'e composer \<times> 's" where
  "perform vk snk (CallKey now ch) (c, s) = (snd (feed_key vk now ch c), s)"
| "perform vk snk (CallBackspace now) (c, s) = (snd (feed_backspace vk now c), s)"
| "perform vk snk CallUnrecord (c, s) = (unrecord_forwarded_char vk c, s)"
| "perform vk snk (CallApply bs commit time) cs = composer_apply vk snk bs commit time cs"
| "perform vk snk (CallApplyToSink bs commit serial time) cs = apply_to_sink vk snk bs commit serial time cs"
| "perform vk snk (CallRepair bs commit serial time) cs =
     apply_confirmed_repair_to_sink vk snk bs commit serial time cs"
| "perform vk snk (CallFrame now t cu an fr) (c, s) = (snd (observe_surrounding_bytes vk now t cu an fr c), s)"
| "perform vk snk (CallFrameChars now t cu an) (c, s) = (observe_surrounding_chars vk now t cu an c, s)"
| "perform vk snk (CallSkip t cu an ac de) (c, s) = (snd (should_skip_surrounding_frame t cu an ac de c), s)"
| "perform vk snk (CallIdle now) (c, s) = (snd (check_idle_reset vk now c), s)"
| "perform vk snk (CallLiveness t cu) (c, s) = (snd (note_surrounding_liveness t cu c), s)"
| "perform vk snk CallFrameSeen (c, s) = (mark_surrounding_frame_seen c, s)"
| "perform vk snk CallCorrection (c, s) = (snd (note_surrounding_correction c), s)"
| "perform vk snk (CallMark now) (c, s) = (mark_action now c, s)"
| "perform vk snk (CallDefer now) (c, s) = (defer_action now c, s)"
| "perform vk snk CallConfirmation (c, s) = (set_surrounding_confirmation True c, s)"
| "perform vk snk (CallMethod m) (c, s) = (cp_set_method m c, s)"
| "perform vk snk (CallModifiers k) (c, s) = (cp_set_modifiers k c, s)"
| "perform vk snk (CallInputMethod im) (c, s) = (cp_set_input_method vk im c, s)"
| "perform vk snk (CallModernStyle b) (c, s) = (cp_set_modern_style vk b c, s)"
| "perform vk snk CallFullReset (c, s) = (full_reset vk c, s)"
| "perform vk snk CallReset (c, s) = (reset_composition_preserving_surrounding vk c, s)"
| "perform vk snk CallClearPrev (c, s) = (clear_prev_surrounding c, s)"

text \<open>A performed call is a step of \<open>composer_step\<close>, and every step is a performed call.\<close>

lemma perform_step: "composer_step vk snk c (fst (perform vk snk call (c, s)))"
  by (cases call) (auto intro: composer_step.intros)







end
