(* ===== verification/Runtime.thy ===== *)
theory Runtime
  imports Startup IbusAdapter
begin

text \<open>
  The ends of the adapters that talk to the system: registering with the IBus daemon and creating
  engines (\<^verbatim>\<open>ibus-adapter/src/engine.rs\<close>), the \<^verbatim>\<open>select!\<close> around the evdev streams
  (\<^verbatim>\<open>evdev-adapter/src/adapter.rs\<close>), and the log writer (\<^verbatim>\<open>daemon/src/logging.rs\<close>). D-Bus, tokio's
  channels and the file system answer through arguments, one per call.
\<close>

section \<open>Engines of the IBus factory\<close>

text \<open>\<^verbatim>\<open>Display for i32\<close>.\<close>

fun decimal :: "nat \<Rightarrow> ustr" where
  "decimal n = (if n < 10 then [48 + n] else decimal (n div 10) @ [48 + n mod 10])"

declare decimal.simps [simp del]

definition display_i32 :: "32 word \<Rightarrow> ustr" where
  "display_i32 i = (if sint i < 0 then 45 # decimal (nat (- sint i)) else decimal (nat (sint i)))"

text \<open>
  The factory keeps the next identifier; the engines it creates all serve the one shared state of
  \<open>IbusAdapter\<close>. \<open>check_path\<close> is D-Bus's check of an object path and \<open>server_at\<close> the object server:
  each gives an error, or nothing.
\<close>

record ibus_factory =
  fa_next_id :: "32 word"

definition factory_new :: ibus_factory where
  "factory_new = \<lparr>fa_next_id = 0\<rparr>"

definition engine_path :: "32 word \<Rightarrow> ustr" where
  "engine_path i = lit ''/org/freedesktop/IBus/Engine/'' @ display_i32 i"

definition create_engine ::
    "(ustr \<Rightarrow> ustr option) \<Rightarrow> (ustr \<Rightarrow> ustr option) \<Rightarrow> ibus_factory \<Rightarrow> (ustr + ustr) \<times> ibus_factory" where
  "create_engine check_path server_at f =
     (let path = engine_path (fa_next_id f);
          f' = f\<lparr>fa_next_id := fa_next_id f + 1\<rparr>
      in (case check_path path of
            Some e \<Rightarrow> Inl (lit ''bad path: '' @ e)
          | None \<Rightarrow> (case server_at path of Some e \<Rightarrow> Inl e | None \<Rightarrow> Inr path), f'))"

section \<open>The IBus connection\<close>

datatype ibus_connect_error =
    NoAddress bus_error | ConnectIbus ustr | RegisterFactory ustr | RequestName ustr

text \<open>
  \<open>IbusRuntime::connect\<close>: what the bus answers to the connection, to the registration of the
  factory and to the request of the well-known name. It returns the object paths registered.
\<close>

record ibus_bus =
  ib_connect :: "ustr \<Rightarrow> ustr option"
  ib_register :: "ustr option"
  ib_request_name :: "ustr option"

definition ibus_connect ::
    "(string \<Rightarrow> ustr option) \<Rightarrow> (path \<Rightarrow> ustr + bus_file list) \<Rightarrow> ibus_bus \<Rightarrow>
      ibus_connect_error + ustr \<times> ibus_factory" where
  "ibus_connect env read_dir bus =
     (case resolve_ibus_address env read_dir of
        Inl e \<Rightarrow> Inl (NoAddress e)
      | Inr addr \<Rightarrow>
          (case ib_connect bus addr of
             Some e \<Rightarrow> Inl (ConnectIbus e)
           | None \<Rightarrow>
               (case ib_register bus of
                  Some e \<Rightarrow> Inl (RegisterFactory e)
                | None \<Rightarrow>
                    (case ib_request_name bus of
                       Some e \<Rightarrow> Inl (RequestName e)
                     | None \<Rightarrow> Inr (addr, factory_new)))))"

text \<open>
  A watch receiver's \<^verbatim>\<open>changed()\<close> gives the new value, or an error when the sender is gone.
  \<open>run_until_shutdown\<close> of the connection ends at the first such wake-up, whatever it says; \<open>True\<close>
  means that it has returned, which is always with success.
\<close>

datatype shutdown_wake = ShutdownValue bool | SenderGone

fun ibus_run_until_shutdown :: "shutdown_wake list \<Rightarrow> bool" where
  "ibus_run_until_shutdown [] = False"
| "ibus_run_until_shutdown (w # ws) = True"

section \<open>The evdev loop\<close>

text \<open>
  What wakes the \<^verbatim>\<open>select!\<close>; with several ready, the order of its branches is the order of the
  list. The loop ends with the adapter and the handler as they are, its streams dropped.
\<close>

datatype evdev_wake =
    EvShutdown shutdown_wake
  | EvCtrlC
  | EvInput time input_event
  | EvStreamError ustr
  | EvStreamsEnded

fun evdev_run_until_shutdown ::
    "'w key_emitter \<Rightarrow> ('k, 's) xkb_lib \<Rightarrow> 'h evdev_handler \<Rightarrow> evdev_wake list \<Rightarrow>
      ('w, 'k, 's) evdev_adapter \<times> 'h \<Rightarrow> bool \<times> ('w, 'k, 's) evdev_adapter \<times> 'h" where
  "evdev_run_until_shutdown ke lib eh [] s = (False, s)"
| "evdev_run_until_shutdown ke lib eh (w # ws) s =
     (case w of
        EvShutdown (ShutdownValue v) \<Rightarrow>
          if v then (True, s) else evdev_run_until_shutdown ke lib eh ws s
      | EvShutdown SenderGone \<Rightarrow> evdev_run_until_shutdown ke lib eh ws s
      | EvCtrlC \<Rightarrow> (True, s)
      | EvInput now ev \<Rightarrow>
          (let s1 = process_event ke lib eh now ev s
           in if ea_should_exit (fst s1) then (True, s1)
              else evdev_run_until_shutdown ke lib eh ws s1)
      | EvStreamError e \<Rightarrow> (True, s)
      | EvStreamsEnded \<Rightarrow> (True, s))"

text \<open>\<open>EvdevAdapter::open\<close>: the errors of \<open>prepare\<close>, then the grab.\<close>

datatype open_error = UinputOpenFailed ustr | UsKeymapFailed | NoKeyboards

definition evdev_open ::
    "ustr + 'w \<Rightarrow> ('k, 's) xkb_state option \<Rightarrow> input_device list \<Rightarrow> (path \<Rightarrow> grab_result) \<Rightarrow>
      open_error + ('w, 'k, 's) evdev_adapter \<times> path list" where
  "evdev_open uinput us_keymap devs grab =
     (case uinput of
        Inl e \<Rightarrow> Inl (UinputOpenFailed e)
      | Inr output \<Rightarrow>
          (case us_keymap of
             None \<Rightarrow> Inl UsKeymapFailed
           | Some xkb \<Rightarrow>
               (case grab_keyboards devs grab of
                  Inl u \<Rightarrow> Inl NoKeyboards
                | Inr streams \<Rightarrow> Inr (evdev_prepare output xkb, streams))))"

section \<open>The log\<close>

datatype log_writer = LogStdout | LogFile path

text \<open>The trimmed path names the standard output; any other path is opened as it stands.\<close>

definition make_writer :: "(path \<Rightarrow> ustr option) \<Rightarrow> path \<Rightarrow> ustr + log_writer" where
  "make_writer open_append path =
     (if str_trim path = lit ''/dev/stdout'' then Inr LogStdout
      else (case open_append path of Some e \<Rightarrow> Inl e | None \<Rightarrow> Inr (LogFile path)))"

datatype log_init_error = BadDirectives log_error | CannotOpenLog path ustr

text \<open>\<open>init\<close>: the directives of the filter and the writer the subscriber gets.\<close>

definition log_init :: "(path \<Rightarrow> ustr option) \<Rightarrow> config \<Rightarrow> log_init_error + ustr \<times> log_writer" where
  "log_init open_append cfg =
     (case build_directives (cf_log_level cfg) (cf_log_modules cfg) of
        Inl e \<Rightarrow> Inl (BadDirectives e)
      | Inr directives \<Rightarrow>
          (case make_writer open_append (cf_log_path cfg) of
             Inl e \<Rightarrow> Inl (CannotOpenLog (cf_log_path cfg) e)
           | Inr writer \<Rightarrow> Inr (directives, writer)))"

end
