(* ===== verification/Services.thy ===== *)
theory Services
  imports Supervisor Cli Tray Runtime
begin

text \<open>
  The daemon process around the supervisor: \<open>run\_services\<close> and \<open>main\<close> of
  \<^verbatim>\<open>crates/daemon/src/main.rs\<close>, the control socket's file (\<^verbatim>\<open>ipc.rs\<close>) and the tray's task
  (\<^verbatim>\<open>tray.rs\<close>). Both tasks hold the senders of the supervisor's command channel, and the tray's
  task the receivers of its watch channels; \<open>supervisor_events\<close> says what the supervisor sees when
  they end.
\<close>

section \<open>The control socket's file\<close>

text \<open>
  What is at the socket's path: the socket of a daemon, named by a number, with its mode, or
  something else. \<^verbatim>\<open>remove\_file\<close> takes away either, \<^verbatim>\<open>UnixListener::bind\<close> needs the path free.
\<close>

datatype at_path = SocketFile nat u32 | OtherFile

record ipc_os =
  io_remove :: bool
  io_bind :: bool
  io_default_mode :: u32
  io_chmod :: bool

definition socket_path :: "(string \<Rightarrow> ustr option) \<Rightarrow> path option" where
  "socket_path env = map_option (\<lambda>d. path_join d (lit ''daklak.sock'')) (env ''XDG_RUNTIME_DIR'')"

definition remove_socket :: "ipc_os \<Rightarrow> at_path option \<Rightarrow> at_path option" where
  "remove_socket io f = (if io_remove io then None else f)"

definition unix_bind :: "ipc_os \<Rightarrow> nat \<Rightarrow> at_path option \<Rightarrow> bool \<times> at_path option" where
  "unix_bind io me f =
     (if f = None \<and> io_bind io then (True, Some (SocketFile me (io_default_mode io))) else (False, f))"

definition restrict_socket_permissions :: "ipc_os \<Rightarrow> at_path option \<Rightarrow> bool \<times> at_path option" where
  "restrict_socket_permissions io f =
     (if io_chmod io
      then (True, case f of Some (SocketFile owner m) \<Rightarrow> Some (SocketFile owner 0x180) | _ \<Rightarrow> f)
      else (False, f))"

text \<open>\<open>IpcServer::bind\<close> of the daemon \<open>me\<close>, and its drop.\<close>

definition ipc_bind ::
    "(string \<Rightarrow> ustr option) \<Rightarrow> ipc_os \<Rightarrow> nat \<Rightarrow> at_path option \<Rightarrow> path option \<times> at_path option" where
  "ipc_bind env io me f =
     (case socket_path env of
        None \<Rightarrow> (None, f)
      | Some path \<Rightarrow>
          (case unix_bind io me (remove_socket io f) of
             (False, f1) \<Rightarrow> (None, f1)
           | (True, f1) \<Rightarrow>
               (case restrict_socket_permissions io f1 of
                  (False, f2) \<Rightarrow> (None, remove_socket io f2)
                | (True, f2) \<Rightarrow> (Some path, f2))))"

definition ipc_drop :: "ipc_os \<Rightarrow> at_path option \<Rightarrow> at_path option" where
  "ipc_drop = remove_socket"

text \<open>\<open>ipc\_send\<close>: whom a client reaches.\<close>

datatype ipc_send_error = RuntimeDirMissing | CannotConnect path

definition ipc_connect :: "(string \<Rightarrow> ustr option) \<Rightarrow> at_path option \<Rightarrow> ipc_send_error + nat" where
  "ipc_connect env f =
     (case socket_path env of
        None \<Rightarrow> Inl RuntimeDirMissing
      | Some path \<Rightarrow>
          (case f of Some (SocketFile owner m) \<Rightarrow> Inr owner | _ \<Rightarrow> Inl (CannotConnect path)))"

section \<open>The tray's task\<close>

datatype sni_error =
    SessionBus ustr | DBusProxy ustr | NameHasOwner ustr | OwnerChanges ustr
  | SniTimeout | SniStreamEnded | SniArgs ustr

definition SNI_WATCHER :: ustr where
  "SNI_WATCHER = lit ''org.kde.StatusNotifierWatcher''"

text \<open>
  What wakes the wait for the status notifier: the timer, the end of the stream, a signal whose
  arguments cannot be read, or one with a name and its new owner. The timer comes first when both
  are ready.
\<close>

datatype sni_wake = TimerFired | StreamOver | BadSignal ustr | OwnerChanged ustr "ustr option"

fun sni_wait_loop :: "sni_wake list \<Rightarrow> (sni_error + unit) option" where
  "sni_wait_loop [] = None"
| "sni_wait_loop (TimerFired # ws) = Some (Inl SniTimeout)"
| "sni_wait_loop (StreamOver # ws) = Some (Inl SniStreamEnded)"
| "sni_wait_loop (BadSignal e # ws) = Some (Inl (SniArgs e))"
| "sni_wait_loop (OwnerChanged name new_owner # ws) =
     (if name = SNI_WATCHER \<and> (case new_owner of Some o' \<Rightarrow> o' \<noteq> [] | None \<Rightarrow> False)
      then Some (Inr ()) else sni_wait_loop ws)"

record sni_bus =
  sn_session :: "ustr option"
  sn_proxy :: "ustr option"
  sn_has_owner :: "ustr + bool"
  sn_changes :: "ustr option"
  sn_wakes :: "sni_wake list"

definition wait_for_sni_watcher :: "sni_bus \<Rightarrow> (sni_error + unit) option" where
  "wait_for_sni_watcher bus =
     (case sn_session bus of
        Some e \<Rightarrow> Some (Inl (SessionBus e))
      | None \<Rightarrow>
     (case sn_proxy bus of
        Some e \<Rightarrow> Some (Inl (DBusProxy e))
      | None \<Rightarrow>
     (case sn_has_owner bus of
        Inl e \<Rightarrow> Some (Inl (NameHasOwner e))
      | Inr owned \<Rightarrow>
          if owned then Some (Inr ())
          else (case sn_changes bus of
                  Some e \<Rightarrow> Some (Inl (OwnerChanges e))
                | None \<Rightarrow> sni_wait_loop (sn_wakes bus)))))"

definition make_tray :: "config \<Rightarrow> bool \<Rightarrow> input_backend \<Rightarrow> tray" where
  "make_tray cfg enabled backend =
     \<lparr>tr_config_path = cf_config_path cfg, tr_enabled = enabled, tr_method = cf_method cfg,
      tr_modern_style = cf_modern_style cfg, tr_evdev_enabled = cf_enable_evdev_grab cfg,
      tr_backend = backend, tr_evdev_grab_hooks = cf_evdev_grab_hooks cfg\<rparr>"

text \<open>The loop that mirrors the two watch channels; a channel whose sender is gone ends it.\<close>

datatype tray_wake = StateChanged bool | StateGone | BackendChanged input_backend | BackendGone

fun tray_loop :: "tray_wake list \<Rightarrow> tray \<Rightarrow> bool \<times> tray" where
  "tray_loop [] t = (False, t)"
| "tray_loop (StateChanged on # ws) t = tray_loop ws (t\<lparr>tr_enabled := on\<rparr>)"
| "tray_loop (StateGone # ws) t = (True, t)"
| "tray_loop (BackendChanged b # ws) t = tray_loop ws (t\<lparr>tr_backend := b\<rparr>)"
| "tray_loop (BackendGone # ws) t = (True, t)"

datatype tray_error = InitialSpawn ustr sni_error | SpawnAfterWatcher ustr

datatype tray_run = TrayWaits | TrayShows tray | TrayReturned tray | TrayFailed tray_error

text \<open>
  \<open>run\_tray\<close>: what the attempts to spawn the tray meet, the values of the channels at either, and
  the wake-ups of the loop.
\<close>

definition run_tray ::
    "config \<Rightarrow> ustr option \<Rightarrow> sni_bus \<Rightarrow> ustr option \<Rightarrow> bool \<times> input_backend \<Rightarrow> bool \<times> input_backend \<Rightarrow>
      tray_wake list \<Rightarrow> tray_run" where
  "run_tray cfg spawn1 bus spawn2 now1 now2 ws =
     (let serve = (\<lambda>(on, b).
            case tray_loop ws (make_tray cfg on b) of
              (True, t) \<Rightarrow> TrayReturned t
            | (False, t) \<Rightarrow> TrayShows t)
      in case spawn1 of
           None \<Rightarrow> serve now1
         | Some first_error \<Rightarrow>
             (case wait_for_sni_watcher bus of
                None \<Rightarrow> TrayWaits
              | Some (Inl e) \<Rightarrow> TrayFailed (InitialSpawn first_error e)
              | Some (Inr u) \<Rightarrow>
                  (case spawn2 of
                     Some e \<Rightarrow> TrayFailed (SpawnAfterWatcher e)
                   | None \<Rightarrow> serve now2)))"

text \<open>The icon's title; its dash is given by its code point.\<close>

definition tray_title :: "tray \<Rightarrow> ustr" where
  "tray_title t = lit ''daklak '' @ [0x2014] @ lit '' '' @ (if tr_enabled t then lit ''on'' else lit ''off'')"

definition config_example_candidates :: "(string \<Rightarrow> ustr option) \<Rightarrow> path list" where
  "config_example_candidates env =
     (case env ''HOME'' of
        Some home \<Rightarrow>
          [path_join (path_join (path_join (path_join home (lit ''.local'')) (lit ''share''))
             (lit ''daklak'')) (lit ''config.toml.example'')]
      | None \<Rightarrow> []) @ [lit ''/usr/share/daklak/config.toml.example'']"

text \<open>
  \<open>copy\_config\_example\<close>: the text of the first example that is a file, when it can be read, the
  directory of \<open>target\<close> (if it has a parent) can be made and the copy can be written.
\<close>

definition copy_config_example ::
    "(string \<Rightarrow> ustr option) \<Rightarrow> (path \<Rightarrow> bool) \<Rightarrow> (path \<Rightarrow> ustr option) \<Rightarrow> path option \<Rightarrow>
      (path \<Rightarrow> bool) \<Rightarrow> (ustr \<Rightarrow> bool) \<Rightarrow> ustr option" where
  "copy_config_example env is_file read parent create_dir_all write =
     (case List.find is_file (config_example_candidates env) of
        None \<Rightarrow> None
      | Some example \<Rightarrow>
          (case read example of
             None \<Rightarrow> None
           | Some txt \<Rightarrow>
               if (case parent of Some dir \<Rightarrow> \<not> create_dir_all dir | None \<Rightarrow> False) then None
               else if \<not> write txt then None
               else Some txt))"

definition discover_hook_names ::
    "features \<Rightarrow> 'w os \<Rightarrow> 'w \<Rightarrow> (path \<Rightarrow> ustr list option) \<Rightarrow> ustr list" where
  "discover_hook_names ft os w list_dir =
     (if \<not> ft_evdev_grab ft then []
      else (case hook_dir os of
              Inr dir \<Rightarrow> discover_hook_names_in os w dir (list_dir dir)
            | Inl e \<Rightarrow> builtin_hook_names))"

section \<open>The tasks around the supervisor\<close>

text \<open>
  \<open>run\_services\<close> joins the background tasks while the supervisor runs; when it has ended, the
  tasks left are aborted and joined too. A join does not always say which task it was, so only
  their number is kept, and what each join was classified as.
\<close>

record services =
  sr_running :: nat
  sr_ended :: "background_event list"

datatype 'r service_event = SupervisorEnded 'r | TaskJoined background_join

definition services_start :: "path option \<Rightarrow> services" where
  "services_start server = \<lparr>sr_running = (if server \<noteq> None then 2 else 1), sr_ended = []\<rparr>"

definition task_joined :: "background_join \<Rightarrow> services \<Rightarrow> services" where
  "task_joined j st =
     st\<lparr>sr_running := sr_running st - 1, sr_ended := sr_ended st @ [classify_background_join j]\<rparr>"

fun services_drain :: "'r service_event list \<Rightarrow> services \<Rightarrow> services option" where
  "services_drain es st =
     (if sr_running st = 0 then Some st
      else (case es of
              TaskJoined j # es' \<Rightarrow> services_drain es' (task_joined j st)
            | _ \<Rightarrow> None))"

declare services_drain.simps [simp del]

fun services_loop :: "'r service_event list \<Rightarrow> services \<Rightarrow> ('r \<times> services) option" where
  "services_loop [] st = None"
| "services_loop (SupervisorEnded r # es) st = map_option (Pair r) (services_drain es st)"
| "services_loop (TaskJoined j # es) st =
     services_loop es (if sr_running st = 0 then st else task_joined j st)"

definition run_services :: "path option \<Rightarrow> 'r service_event list \<Rightarrow> ('r \<times> services) option" where
  "run_services server es = services_loop es (services_start server)"

text \<open>
  What the supervisor sees of it. The command channel has a sender in the socket's task and one in
  the tray's; the receivers of the watch channels are in the tray's task. With no sender left
  \<^verbatim>\<open>recv\<close> gives \<^verbatim>\<open>None\<close> whenever it is asked, which the supervisor does at most twice: in the
  evdev slot of an IBus connection and in the loop around it.
\<close>

datatype process_step =
    Asked cmd_kind "ustr option"
  | TransportStopped "ustr option"
  | TaskEnds background_task

fun supervisor_events :: "bool \<Rightarrow> bool \<Rightarrow> process_step list \<Rightarrow> sv_event list" where
  "supervisor_events ipc tray [] = []"
| "supervisor_events ipc tray (Asked kind preflight # ps) =
     (if ipc \<or> tray then [Received kind preflight] else []) @ supervisor_events ipc tray ps"
| "supervisor_events ipc tray (TransportStopped r # ps) = TransportEnded r # supervisor_events ipc tray ps"
| "supervisor_events ipc tray (TaskEnds IpcTask # ps) =
     (if ipc \<and> \<not> tray then [CommandsClosed, CommandsClosed] else []) @ supervisor_events False tray ps"
| "supervisor_events ipc tray (TaskEnds TrayTask # ps) =
     (if tray then [TrayGone] else []) @ (if tray \<and> \<not> ipc then [CommandsClosed, CommandsClosed] else [])
     @ supervisor_events ipc False ps"

section \<open>Starting the daemon\<close>

datatype setup_error = SetupConfig config_error | SetupLog log_init_error

text \<open>
  The part of \<open>main\<close> between its dispatch and the runtime: the configuration is read from
  \<open>config_path\<close>, the command line overrides it, and the log is opened.
\<close>

definition daemon_setup ::
    "features \<Rightarrow> (path \<Rightarrow> file_read) \<Rightarrow> (ustr \<Rightarrow> ustr + config) \<Rightarrow> (string \<Rightarrow> ustr option) \<Rightarrow>
      (path \<Rightarrow> ustr option) \<Rightarrow> cli_overrides \<Rightarrow> path option \<Rightarrow> setup_error + config \<times> ustr \<times> log_writer" where
  "daemon_setup ft read toml env open_append ov config_path =
     (case config_load read toml env config_path of
        Inl e \<Rightarrow> Inl (SetupConfig e)
      | Inr cfg0 \<Rightarrow>
          (let cfg = apply_overrides ft ov cfg0 in
           case log_init open_append cfg of
             Inl e \<Rightarrow> Inl (SetupLog e)
           | Inr lw \<Rightarrow> Inr (cfg, lw)))"

end
