(* ===== verification/ServicesProperties.thy ===== *)
theory ServicesProperties
  imports Services SupervisorProperties
begin

text \<open>
  The properties of the daemon process: what the end of its background tasks means for the
  supervisor, what \<open>run\_services\<close> returns, who owns the control socket, the engines of the IBus
  factory, and the evdev loop with its signals.
\<close>

section \<open>Background tasks and the supervisor\<close>





text \<open>
  C23: Without the control socket the tray's task must not end: when it does, because no status
  notifier appears or there is no session bus, the command channel closes, the evdev loop
  is left, and the daemon ends successfully with the hooks it had applied still in force.
\<close>

theorem lost_tasks_end_daemon:
  assumes "startup_from_config (wo_features wo) (su_config s) = EvdevBackend"
    and "ft_evdev_grab (wo_features wo)" "su_pending s = None"
    and "en_starts en = st # sts"
    and "st_preflight st = None" "st_prepare st = None" "st_grab st = None"
    and "recover_stale_rollback (wo_os wo) (wo_hook_dir wo) (su_config s) (sv_runner wo) (en_world en) = (e, w0)"
    and "resolve_hooks (wo_os wo) (wo_hook_dir wo) w0 (su_config s) = Inr hooks"
    and "en_events en = supervisor_events False True (TaskEnds TrayTask # ps)"
  shows "\<exists>s1 en1. run wo s en = Some (None, EvdevBackend, s1, en1)
    \<and> en_world en1 = snd (setup_task (wo_os wo) (sv_runner wo) hooks w0)"
proof -
  let ?en = "en\<lparr>en_world := w0\<rparr>"
  have loop: "run wo s en = run_loop wo EvdevBackend s ?en"
    using assms(1,2,8) by (simp add: run_def)
  obtain en1 where "run_evdev_loop wo s ?en = Some (None, (publish_backend (wo_watch wo) EvdevBackend s)
        \<lparr>su_observed := False\<rparr>, en1)"
    and w: "en_world en1 = snd (setup_task (wo_os wo) (sv_runner wo) hooks w0)"
    using assms(2-10) by (simp add: run_evdev_loop_def Let_def evdev_exit_def)
  with assms(3) loop show ?thesis
    by (subst (asm) run_loop.simps) (simp add: run_single_def)
qed

lemma demo_setup:
  "\<exists>hooks. resolve_hooks (wo_os demo_wo) (wo_hook_dir demo_wo) w (su_config demo_supervisor) = Inr hooks \<and>
     dt_force (snd (setup_task (wo_os demo_wo) (sv_runner demo_wo) hooks w)) = lit ''kde'' # dt_force w"
proof -
  obtain p q where "resolve_hook_pair (wo_os demo_wo) w (lit ''kde'')
      (hook_search_dirs (wo_os demo_wo) (wo_hook_dir demo_wo)) = (p, q)" by force
  then have "resolve_hooks (wo_os demo_wo) (wo_hook_dir demo_wo) w (su_config demo_supervisor) =
      Inr [\<lparr>hk_name = lit ''kde'', hk_set_path = p, hk_unset_path = q\<rparr>]"
    by (simp add: resolve_hooks_def resolve_hooks_in_dirs_def demo_supervisor_def supervisor_new_def
        validate_hook_name_def lit_def hook_name_byte_def is_ascii_alphabetic_def is_ascii_lowercase_def)
  then obtain h where r: "resolve_hooks (wo_os demo_wo) (wo_hook_dir demo_wo) w (su_config demo_supervisor) = Inr [h]"
    and h: "hk_name h = lit ''kde''" by simp
  have "run_setup_hooks (wo_os demo_wo) [h] (sv_runner demo_wo) w =
      (Inr ([h], [HookApplied (lit ''kde'')]), w\<lparr>dt_force := lit ''kde'' # dt_force w\<rparr>)"
    by (simp add: run_setup_hooks_def run_setup_hooks_inner_def sv_runner_def demo_wo_def demo_runner
        hook_scripts_present_def h) (simp add: demo_os_def)
  moreover have "dt_force (snd (write_rollback_marker (wo_os demo_wo) a v)) = dt_force v" for a v
    by (rule desktop.fs.marker_write_keeps)
  ultimately have "dt_force (snd (setup_task (wo_os demo_wo) (sv_runner demo_wo) [h] w)) = lit ''kde'' # dt_force w"
    by (simp add: setup_task_def case_prod_beta split: option.split)
  with r show ?thesis by blast
qed

theorem lost_tasks_end_daemon_witness:
  "let en = demo_env\<lparr>en_events := supervisor_events False True [TaskEnds TrayTask]\<rparr>
   in \<exists>s1 en1. run demo_wo demo_supervisor en = Some (None, EvdevBackend, s1, en1)
        \<and> dt_force (en_world en1) = [lit ''kde'']"
proof -
  let ?en = "demo_env\<lparr>en_events := supervisor_events False True [TaskEnds TrayTask]\<rparr>"
  obtain hooks where h: "resolve_hooks (wo_os demo_wo) (wo_hook_dir demo_wo) (en_world ?en)
        (su_config demo_supervisor) = Inr hooks"
    and f: "dt_force (snd (setup_task (wo_os demo_wo) (sv_runner demo_wo) hooks (en_world ?en))) = [lit ''kde'']"
    using demo_setup [of "en_world ?en"] by (auto simp: demo_env_def demo_desktop_def)
  have r: "recover_stale_rollback (wo_os demo_wo) (wo_hook_dir demo_wo) (su_config demo_supervisor)
      (sv_runner demo_wo) (en_world ?en) = (None, en_world ?en)"
    by (simp add: recover_stale_rollback_def demo_wo_def demo_marker_path)
      (simp add: demo_os_def demo_env_def demo_desktop_def)
  have p: "en_starts ?en = demo_start None # [demo_start None]" "st_preflight (demo_start None) = None"
    "st_prepare (demo_start None) = None" "st_grab (demo_start None) = None"
    by (simp_all add: demo_env_def demo_start_def)
  have "en_events ?en = supervisor_events False True (TaskEnds TrayTask # [])" by simp
  from lost_tasks_end_daemon [OF _ _ _ p r h this] f show ?thesis by (auto simp: Let_def)
qed

section \<open>What the process returns\<close>

lemma services_loop_joins:
  "services_loop (map TaskJoined js @ es) st =
     services_loop es (fold task_joined (take (sr_running st) js) st)"
proof (induction js arbitrary: st)
  case (Cons j js)
  then show ?case by (cases "sr_running st") (simp_all add: task_joined_def)
qed simp

lemma services_drain_joins:
  "sr_running st \<le> length js \<Longrightarrow>
   services_drain (map TaskJoined js @ es) st = Some (fold task_joined (take (sr_running st) js) st)"
proof (induction js arbitrary: st)
  case (Cons j js)
  show ?case
  proof (cases "sr_running st")
    case (Suc n)
    then have n: "sr_running (task_joined j st) = n" by (simp add: task_joined_def)
    with Cons Suc show ?thesis by (simp add: services_drain.simps [of _ st])
  qed (simp add: services_drain.simps)
qed (simp add: services_drain.simps)

lemma fold_task_joined:
  "fold task_joined js st =
     st\<lparr>sr_running := sr_running st - length js, sr_ended := sr_ended st @ map classify_background_join js\<rparr>"
  by (induction js arbitrary: st) (simp_all add: task_joined_def)

text \<open>
  C22: The daemon returns what the supervisor returns, whichever background task ended before,
  failed or panicked; it returns as soon as the tasks left are joined, and each task started has
  been joined and classified exactly once by then.
\<close>

theorem services_return_supervisor:
  assumes "sr_running (services_start server) \<le> length (before @ after)"
  shows "run_services server (map TaskJoined before @ SupervisorEnded r # map TaskJoined after @ es) =
    Some (r, \<lparr>sr_running = 0, sr_ended = map classify_background_join
               (take (sr_running (services_start server)) (before @ after))\<rparr>)"
proof -
  let ?st = "services_start server"
  let ?n = "sr_running ?st"
  let ?st1 = "fold task_joined (take ?n before) ?st"
  have n: "sr_running ?st1 = ?n - length before" by (simp add: fold_task_joined)
  with assms have "sr_running ?st1 \<le> length after" by simp
  from services_drain_joins [OF this, of es]
  have "run_services server (map TaskJoined before @ SupervisorEnded r # map TaskJoined after @ es) =
      Some (r, fold task_joined (take ?n (before @ after)) ?st)"
    by (simp add: run_services_def services_loop_joins n)
  moreover have "length (take ?n (before @ after)) = ?n" using assms by simp
  ultimately show ?thesis
    by (simp add: fold_task_joined services_start_def del: take_append length_take)
qed

theorem services_return_supervisor_witness:
  "run_services None [TaskJoined (TaskErr TrayTask (lit ''no bus'')), SupervisorEnded (7::nat)] =
     Some (7, \<lparr>sr_running = 0, sr_ended = [Failed TrayTask]\<rparr>)"
  using services_return_supervisor [of None "[TaskErr TrayTask (lit ''no bus'')]" "[]" "7::nat" "[]"]
  by (simp add: services_start_def classify_background_join_def)

section \<open>The control socket\<close>

text \<open>
  C26: The control socket belongs to the daemon that bound last, whoever is still running; and
  when any daemon ends, the socket is gone for all of them. So a second daemon that starts and
  stops leaves the first one running but out of reach. Its own socket is always restricted.
\<close>

theorem socket_of_last_daemon:
  assumes "socket_path env = Some path" "io_remove io" "io_bind io" "io_chmod io"
  shows "ipc_bind env io me f = (Some path, Some (SocketFile me 0x180))
    \<and> ipc_connect env (snd (ipc_bind env io second (snd (ipc_bind env io first f)))) = Inr second
    \<and> ipc_connect env (ipc_drop io (snd (ipc_bind env io second (snd (ipc_bind env io first f)))))
        = Inl (CannotConnect path)"
  using assms by (simp add: ipc_bind_def unix_bind_def remove_socket_def restrict_socket_permissions_def
      ipc_connect_def ipc_drop_def)

theorem socket_of_last_daemon_witness:
  "let env = (\<lambda>v. if v = ''XDG_RUNTIME_DIR'' then Some (lit ''/run'') else None);
       io = \<lparr>io_remove = True, io_bind = True, io_default_mode = 0x1ED, io_chmod = True\<rparr>;
       f1 = snd (ipc_bind env io 1 None); f2 = snd (ipc_bind env io 2 f1)
   in ipc_connect env f1 = Inr 1 \<and> ipc_connect env f2 = Inr 2
      \<and> ipc_connect env (ipc_drop io f2) = Inl (CannotConnect (lit ''/run/daklak.sock''))"
proof -
  define env :: "string \<Rightarrow> ustr option" where
    "env = (\<lambda>v. if v = ''XDG_RUNTIME_DIR'' then Some (lit ''/run'') else None)"
  have p: "socket_path env = Some (lit ''/run/daklak.sock'')"
    by (simp add: socket_path_def env_def path_join_def lit_def)
  show ?thesis
    unfolding Let_def env_def [symmetric]
    using socket_of_last_daemon [OF p, of "\<lparr>io_remove = True, io_bind = True, io_default_mode = 0x1ED, io_chmod = True\<rparr>"
        1 None 2 1] p
    by (auto simp: ipc_connect_def)
qed

text \<open>Without the right to change its mode no socket is left behind.\<close>

lemma unrestricted_socket_removed:
  "io_remove io \<Longrightarrow> \<not> io_chmod io \<Longrightarrow> socket_path env = Some path \<Longrightarrow>
   ipc_bind env io me f = (None, None)"
  by (simp add: ipc_bind_def unix_bind_def remove_socket_def restrict_socket_permissions_def)

section \<open>The evdev loop with its signals\<close>

text \<open>The key events the loop gets to see: those before the first wake-up that ends it.\<close>

fun inputs_until_stop :: "evdev_wake list \<Rightarrow> (time \<times> input_event) list" where
  "inputs_until_stop [] = []"
| "inputs_until_stop (EvInput now ev # ws) = (now, ev) # inputs_until_stop ws"
| "inputs_until_stop (EvShutdown (ShutdownValue v) # ws) = (if v then [] else inputs_until_stop ws)"
| "inputs_until_stop (EvShutdown SenderGone # ws) = inputs_until_stop ws"
| "inputs_until_stop (EvCtrlC # ws) = []"
| "inputs_until_stop (EvStreamError e # ws) = []"
| "inputs_until_stop (EvStreamsEnded # ws) = []"

definition ends_loop :: "evdev_wake \<Rightarrow> bool" where
  "ends_loop w \<longleftrightarrow> (case w of EvShutdown (ShutdownValue v) \<Rightarrow> v | EvShutdown SenderGone \<Rightarrow> False
     | EvInput now ev \<Rightarrow> False | _ \<Rightarrow> True)"

text \<open>
  C35: Whatever wakes the evdev loop in whatever order, what it does to the keyboard and to the
  daemon is what the plain loop over the key events does with those that came before the first
  signal to stop. It ends exactly at a shutdown request, Ctrl-C, an error or the end of the
  streams, or at the escape, and no key is handled after that.
\<close>

theorem evdev_loop_refines:
  "snd (evdev_run_until_shutdown ke lib eh ws s) = run_events ke lib eh (inputs_until_stop ws) s
   \<and> fst (evdev_run_until_shutdown ke lib eh ws s) =
       (list_ex ends_loop ws \<or> inputs_until_stop ws \<noteq> [] \<and>
          ea_should_exit (fst (run_events ke lib eh (inputs_until_stop ws) s)))"
proof (induction ws arbitrary: s)
  case (Cons w ws)
  then show ?case
    by (cases w) (auto simp: ends_loop_def Let_def split: shutdown_wake.splits)
qed simp

text \<open>
  Once the sender of the shutdown channel is gone its branch is ready at every turn and, being the
  first, is the one taken: the loop neither ends nor handles a key.
\<close>

lemma sender_gone_spins: "evdev_run_until_shutdown ke lib eh (replicate n (EvShutdown SenderGone)) s = (False, s)"
  by (induction n) simp_all

section \<open>The engines of the factory\<close>

definition digits_value :: "ustr \<Rightarrow> nat" where
  "digits_value s = foldl (\<lambda>a d. 10 * a + (d - 48)) 0 s"

lemma digits_value_decimal: "digits_value (decimal n) = n"
proof (induction n rule: decimal.induct)
  case (1 n)
  then show ?case by (simp add: decimal.simps [of n] digits_value_def)
qed

lemma decimal_digits: "list_all is_ascii_digit (decimal n)" "decimal n \<noteq> []"
proof (induction n rule: decimal.induct)
  case (1 n)
  { case 1
    with "1.IH" show ?case by (auto simp: decimal.simps [of n] is_ascii_digit_def)
  next
    case 2
    show ?case by (simp add: decimal.simps [of n]) }
qed

lemma decimal_not_minus: "decimal n \<noteq> 45 # s"
  using decimal_digits(1) [of n] by (auto simp: is_ascii_digit_def)

lemma display_i32_inject: "display_i32 i = display_i32 j \<longleftrightarrow> i = j"
proof
  assume eq: "display_i32 i = display_i32 j"
  have "m = n" if "decimal m = decimal n" for m n
    using that digits_value_decimal by metis
  with eq have "sint i = sint j"
    using decimal_not_minus [symmetric] decimal_not_minus
    by (auto simp: display_i32_def split: if_splits) (metis eq_nat_nat_iff linorder_not_le neg_0_le_iff_le
        neg_equal_iff_equal order_less_imp_le)+
  then show "i = j" by (rule signed_word_eqI)
qed simp

text \<open>Two engines share an object path exactly when a multiple of $2^{32}$ engines lies between.\<close>

lemma engine_paths_repeat:
  "fst (create_engine (\<lambda>p. None) (\<lambda>p. None) (((\<lambda>f. snd (create_engine check answer f)) ^^ i) factory_new)) =
   fst (create_engine (\<lambda>p. None) (\<lambda>p. None) (((\<lambda>f. snd (create_engine check answer f)) ^^ j) factory_new))
   \<longleftrightarrow> i mod 2 ^ 32 = j mod 2 ^ 32"
proof -
  have step: "(\<lambda>f. snd (create_engine check answer f)) = (\<lambda>f. f\<lparr>fa_next_id := fa_next_id f + 1\<rparr>)"
    by (simp add: create_engine_def Let_def fun_eq_iff)
  have "fa_next_id (((\<lambda>f. f\<lparr>fa_next_id := fa_next_id f + 1\<rparr>) ^^ n) factory_new) = of_nat n" for n
    by (induction n) (simp_all add: factory_new_def)
  then show ?thesis
    unfolding step by (simp add: create_engine_def Let_def engine_path_def display_i32_inject
        word_of_nat_eq_iff take_bit_eq_mod)
qed

end
