(* ===== verification/UnitTestsControl.thy ===== *)
theory UnitTestsControl
  imports Services
begin

text \<open>
  The unit tests of the control path, the configuration, the command line and the tray, run on the
  model. A test that makes its own directory or socket gets that file as a value here.
\<close>

section \<open>Backends\<close>

definition parses_backend_targets_and_rejects_direct_native_backend_names :: "bool" where
  "parses_backend_targets_and_rejects_direct_native_backend_names \<longleftrightarrow>
    (backend_target_parse (lit ''native'') = Some NativeTarget \<and> backend_target_parse (lit ''auto'') = Some NativeTarget
      \<and> backend_target_parse (lit ''evdev-grab'') = Some EvdevTarget
      \<and> backend_target_parse (lit ''toggle'') = Some ToggleTarget
      \<and> backend_target_parse (lit ''ibus'') = None \<and> backend_target_parse (lit ''wayland'') = None)"

text \<open>The configuration of the priority tests, and what a build with and without IBus starts.\<close>

definition asking :: "bool \<Rightarrow> bool \<Rightarrow> bool \<Rightarrow> config" where
  "asking ibus wayland evdev =
     config_default\<lparr>cf_ibus_requested := ibus, cf_enable_wayland := wayland, cf_enable_evdev_grab := evdev\<rparr>"

definition build :: "bool \<Rightarrow> features" where
  "build ibus = \<lparr>ft_ibus = ibus, ft_evdev_grab = True\<rparr>"

definition startup_honors_evdev_enabled_over_wayland :: "bool" where
  "startup_honors_evdev_enabled_over_wayland \<longleftrightarrow>
    (list_all (\<lambda>ibus. startup_from_config (build ibus) (asking False True True) = EvdevBackend) [False, True])"

definition startup_falls_back_to_evdev_when_no_native :: "bool" where
  "startup_falls_back_to_evdev_when_no_native \<longleftrightarrow>
    (list_all (\<lambda>ibus. startup_from_config (build ibus) (asking False False True) = EvdevBackend) [False, True])"

definition native_config_prefers_ibus_over_wayland :: "bool" where
  "native_config_prefers_ibus_over_wayland \<longleftrightarrow>
    (native_from_config (build True) (asking True True False) = IbusBackend
      \<and> native_from_config (build False) (asking True True False) = WaylandBackend)"

definition matrix_ibus_x_wayland_x_evdev_x :: "bool" where
  "matrix_ibus_x_wayland_x_evdev_x \<longleftrightarrow>
    (startup_from_config (build True) (asking True True True) = IbusBackend
      \<and> startup_from_config (build False) (asking True True True) = EvdevBackend)"

definition matrix_ibus_dash_wayland_dash_evdev_x :: "bool" where
  "matrix_ibus_dash_wayland_dash_evdev_x \<longleftrightarrow>
    (list_all (\<lambda>ibus. startup_from_config (build ibus) (asking False False True) = EvdevBackend) [False, True])"

definition matrix_ibus_x_wayland_dash_evdev_dash :: "bool" where
  "matrix_ibus_x_wayland_dash_evdev_dash \<longleftrightarrow>
    (startup_from_config (build True) (asking True False False) = IbusBackend
      \<and> startup_from_config (build False) (asking True False False) = AutoBackend)"

definition matrix_ibus_x_wayland_dash_evdev_x :: "bool" where
  "matrix_ibus_x_wayland_dash_evdev_x \<longleftrightarrow>
    (startup_from_config (build True) (asking True False True) = IbusBackend
      \<and> startup_from_config (build False) (asking True False True) = EvdevBackend)"

lemma backend_tests_pass_1:
  "parses_backend_targets_and_rejects_direct_native_backend_names
   \<and> startup_honors_evdev_enabled_over_wayland
   \<and> startup_falls_back_to_evdev_when_no_native
   \<and> native_config_prefers_ibus_over_wayland
   \<and> matrix_ibus_x_wayland_x_evdev_x
   \<and> matrix_ibus_dash_wayland_dash_evdev_x
   \<and> matrix_ibus_x_wayland_dash_evdev_dash
   \<and> matrix_ibus_x_wayland_dash_evdev_x"
  by code_simp

definition matrix_ibus_dash_wayland_x_evdev_dash :: "bool" where
  "matrix_ibus_dash_wayland_x_evdev_dash \<longleftrightarrow>
    (list_all (\<lambda>ibus. startup_from_config (build ibus) (asking False True False) = WaylandBackend) [False, True])"

definition matrix_ibus_dash_wayland_x_evdev_x :: "bool" where
  "matrix_ibus_dash_wayland_x_evdev_x \<longleftrightarrow>
    (list_all (\<lambda>ibus. startup_from_config (build ibus) (asking False True True) = EvdevBackend) [False, True])"

lemma backend_tests_pass_2:
  "matrix_ibus_dash_wayland_x_evdev_dash
   \<and> matrix_ibus_dash_wayland_x_evdev_x"
  by code_simp

section \<open>Commands and replies\<close>

definition control_reply_formats_ipc_lines :: "bool" where
  "control_reply_formats_ipc_lines \<longleftrightarrow>
    (as_ipc_line (ReplyEnabled True) = (lit ''on'') \<and> as_ipc_line (ReplyEnabled False) = (lit ''off'')
      \<and> as_ipc_line (ReplyBackend WaylandBackend) = (lit ''wayland'')
      \<and> as_ipc_line (ReplyOk (lit ''backend evdev'')) = (lit ''ok backend evdev'')
      \<and> as_ipc_line (ReplyError (lit ''backend ibus unavailable'')) = (lit ''err backend ibus unavailable''))"

definition parses_existing_commands :: "bool" where
  "parses_existing_commands \<longleftrightarrow>
    (parse_ipc_command (lit ''toggle'') = Inr CmdToggle
      \<and> parse_ipc_command (lit ''enable'') = Inr CmdEnable
      \<and> parse_ipc_command (lit ''disable'') = Inr CmdDisable
      \<and> parse_ipc_command (lit ''status'') = Inr CmdStatus
      \<and> parse_ipc_command (lit ''quit'') = Inr CmdQuit)"

definition parses_backend_commands :: "bool" where
  "parses_backend_commands \<longleftrightarrow>
    (parse_ipc_command (lit ''backend'') = Inr CmdBackendStatus
      \<and> parse_ipc_command (lit ''backend evdev'') = Inr (CmdSetBackend EvdevTarget)
      \<and> parse_ipc_command (lit ''backend native'') = Inr (CmdSetBackend NativeTarget)
      \<and> parse_ipc_command (lit ''backend auto'') = Inr (CmdSetBackend NativeTarget)
      \<and> parse_ipc_command (lit ''backend toggle'') = Inr (CmdSetBackend ToggleTarget))"

definition rejects_direct_ibus_wayland_backend_switches :: "bool" where
  "rejects_direct_ibus_wayland_backend_switches \<longleftrightarrow>
    (parse_ipc_command (lit ''backend ibus'') = 
            Inl (lit ''direct ibus switching is not supported; use native, evdev, or toggle'')
      \<and> parse_ipc_command (lit ''backend wayland'') = 
            Inl (lit ''direct wayland switching is not supported; use native, evdev, or toggle''))"

definition rejects_bad_backend_commands :: "bool" where
  "rejects_bad_backend_commands \<longleftrightarrow>
    (parse_ipc_command (lit ''backend potato'') = Inl (lit ''unknown backend: potato'')
      \<and> parse_ipc_command (lit ''backend evdev extra'') = Inl (lit ''backend takes at most one argument''))"

definition bind_restricts_socket_to_owner_only :: "bool" where
  "bind_restricts_socket_to_owner_only \<longleftrightarrow>
    (let env = (\<lambda>v. if v = ''XDG_RUNTIME_DIR'' then Some (lit ''/tmp/daklak-ipc-mode'') else None);
         io = \<lparr>io_remove = True, io_bind = True, io_default_mode = 0x1ED, io_chmod = True\<rparr>
      in case ipc_bind env io 0 None of
           (Some path, Some (SocketFile owner mode)) \<Rightarrow> mode AND 0x1FF = 0x180
         | _ \<Rightarrow> False)"

text \<open>The user ids of these two tests are those of the process; two are tried.\<close>

definition validate_peer_uid_rejects_other_users :: "bool" where
  "validate_peer_uid_rejects_other_users \<longleftrightarrow>
    (list_all (\<lambda>current. \<not>  validate_peer_uid (if current = 0 then 1 else 0) current) [0, 1000])"

definition validate_peer_uid_accepts_current_user :: "bool" where
  "validate_peer_uid_accepts_current_user \<longleftrightarrow>
    (list_all (\<lambda>current. validate_peer_uid current current) [0, 1000])"

lemma control_tests_pass_1:
  "control_reply_formats_ipc_lines
   \<and> parses_existing_commands
   \<and> parses_backend_commands
   \<and> rejects_direct_ibus_wayland_backend_switches
   \<and> rejects_bad_backend_commands
   \<and> bind_restricts_socket_to_owner_only
   \<and> validate_peer_uid_rejects_other_users
   \<and> validate_peer_uid_accepts_current_user"
  by code_simp

text \<open>
  A connection that is sent these bytes, with a supervisor that answers \<open>on\<close> to whatever it is asked.
\<close>

definition served :: "nat list \<Rightarrow> connection_end option" where
  "served bytes = handle_connection (map ReadByte bytes) (\<lambda>cmd. DispatchReply (ReplyEnabled True)) True"

definition normal_ipc_command_still_dispatches :: "bool" where
  "normal_ipc_command_still_dispatches \<longleftrightarrow>
    (case served (lit ''status'' @ [10]) of
        Some en \<Rightarrow> cn_sent en = Some CmdStatus \<and> cn_written en = [111, 110, 10] \<and> cn_result en = None
      | None \<Rightarrow> False)"

definition connection_join_panic_is_observed_and_listener_continues :: "bool" where
  "connection_join_panic_is_observed_and_listener_continues \<longleftrightarrow>
    (classify_connection_join JoinPanicked = Continue)"

lemma control_tests_pass_2:
  "normal_ipc_command_still_dispatches
   \<and> connection_join_panic_is_observed_and_listener_continues"
  by code_simp

section \<open>Configuration, log and command line\<close>

definition parse_directive_list_trims_and_preserves_case :: "bool" where
  "parse_directive_list_trims_and_preserves_case \<longleftrightarrow>
    (parse_directive_list (lit ''  daklak=Debug , viet_ime=info  ,,'') = [(lit ''daklak=Debug''), (lit ''viet_ime=info'')])"

text \<open>The TOML parser rejects the text; what it says is passed on.\<close>

definition invalid_optional_default_config_returns_error :: "bool" where
  "invalid_optional_default_config_returns_error \<longleftrightarrow>
    (load_optional_file (\<lambda>p. FileText (lit ''method = [invalid'')) (\<lambda>txt. Inl (lit ''invalid array'')) (lit ''/tmp/c.toml'')
      = Inl (ParseConfig (lit ''/tmp/c.toml'') (lit ''invalid array'')))"

definition load_from_explicit_path_missing_errors :: "bool" where
  "load_from_explicit_path_missing_errors \<longleftrightarrow>
    (config_load (\<lambda>p. FileMissing (lit ''not found'')) (\<lambda>txt. Inr config_default) (\<lambda>v. None) (Some (lit ''/tmp/missing.toml''))
      = Inl (ReadConfig (lit ''/tmp/missing.toml'') (lit ''not found'')))"

definition builds_directives_from_default_level_and_modules :: "bool" where
  "builds_directives_from_default_level_and_modules \<longleftrightarrow>
    (build_directives (lit ''error'') [(lit ''daklak=debug''), (lit ''viet_ime_wayland_adapter=info'')]
      = Inr (lit ''error,daklak=trace,viet_ime_wayland_adapter=info''))"

definition debug_maps_to_trace :: "bool" where
  "debug_maps_to_trace \<longleftrightarrow>
    (build_directives (lit ''debug'') [(lit ''daklak=debug'')] = Inr (lit ''trace,daklak=trace''))"

definition rejects_bad_levels :: "bool" where
  "rejects_bad_levels \<longleftrightarrow>
    (list_all (\<lambda>r. case r of Inl e \<Rightarrow> True | Inr s \<Rightarrow> False)
        [build_directives (lit ''warn'') [], build_directives (lit ''trace'') [],
         build_directives (lit ''error'') [(lit ''daklak=warn'')], build_directives (lit ''error'') [(lit ''daklak=trace'')]])"

definition parses_backend_status_and_switch :: "bool" where
  "parses_backend_status_and_switch \<longleftrightarrow>
    ((case parse_cli_from [(lit ''backend'')] of
         Inr c \<Rightarrow> cl_command c = Some CliBackend \<and> cl_backend_arg c = None | Inl e \<Rightarrow> False)
      \<and> (case parse_cli_from [(lit ''backend''), (lit ''evdev'')] of
         Inr c \<Rightarrow> cl_command c = Some CliBackend \<and> cl_backend_arg c = Some EvdevTarget | Inl e \<Rightarrow> False)
      \<and> (case parse_cli_from [(lit ''backend''), (lit ''native'')] of Inr c \<Rightarrow> cl_backend_arg c = Some NativeTarget | Inl e \<Rightarrow> False)
      \<and> (case parse_cli_from [(lit ''backend''), (lit ''toggle'')] of Inr c \<Rightarrow> cl_backend_arg c = Some ToggleTarget | Inl e \<Rightarrow> False))"

definition background_task_panic_is_observed_as_nonfatal_failure :: "bool" where
  "background_task_panic_is_observed_as_nonfatal_failure \<longleftrightarrow>
    (classify_background_join TaskPanicked = Panicked)"

lemma config_tests_pass:
  "parse_directive_list_trims_and_preserves_case
   \<and> invalid_optional_default_config_returns_error
   \<and> load_from_explicit_path_missing_errors
   \<and> builds_directives_from_default_level_and_modules
   \<and> debug_maps_to_trace
   \<and> rejects_bad_levels
   \<and> parses_backend_status_and_switch
   \<and> background_task_panic_is_observed_as_nonfatal_failure"
  by code_simp

section \<open>The tray\<close>

definition evdev_toggle_label_mentions_grab_backend :: "bool" where
  "evdev_toggle_label_mentions_grab_backend \<longleftrightarrow>
    (evdev_toggle_label False = (lit ''Enable evdev grab backend'')
      \<and> evdev_toggle_label True = (lit ''Evdev grab backend active''))"

definition icon_name_keeps_symbolic_when_off :: "bool" where
  "icon_name_keeps_symbolic_when_off \<longleftrightarrow>
    (icon_name_for False WaylandBackend = (lit ''input-keyboard-symbolic'')
      \<and> icon_name_for False EvdevBackend = (lit ''input-keyboard-symbolic''))"

definition icon_name_badges_backend_when_on :: "bool" where
  "icon_name_badges_backend_when_on \<longleftrightarrow>
    (icon_name_for True EvdevBackend = (lit ''daklak-evdev'')
      \<and> list_all (\<lambda>native. icon_name_for True native = (lit ''daklak-native'')) [AutoBackend, IbusBackend, WaylandBackend])"

definition text_contains :: "ustr \<Rightarrow> ustr \<Rightarrow> bool" where
  "text_contains t needle \<longleftrightarrow> find_str needle t \<noteq> None"

definition replace_toml_value_skips_nested_key_with_boundary :: "bool" where
  "replace_toml_value_skips_nested_key_with_boundary \<longleftrightarrow>
    (let t = (lit ''method = '' @ [34] @ lit ''telex'' @ [34, 10, 10] @ lit ''[section]'' @ [10] @ lit ''enable_evdev_grab = false'' @ [10])
      in case replace_toml_value t (lit ''enable_evdev_grab'') (lit ''true'') (find_first_table_pos t) of
           Some (t2, replaced) \<Rightarrow> \<not>  replaced \<and> text_contains t2 (lit ''[section]'' @ [10] @ lit ''enable_evdev_grab = false'')
         | None \<Rightarrow> False)"

definition replace_toml_value_updates_in_place :: "bool" where
  "replace_toml_value_updates_in_place \<longleftrightarrow>
    (case replace_toml_value (lit ''# comment'' @ [10] @ lit ''method = '' @ [34] @ lit ''telex'' @ [34, 10] @ lit ''modern_style = true'' @ [10]) (lit ''method'') ([34] @ lit ''vni'' @ [34]) None of
        Some (t1, r1) \<Rightarrow>
          (case replace_toml_value t1 (lit ''modern_style'') (lit ''false'') None of
             Some (t2, r2) \<Rightarrow> r1 \<and> r2 \<and> t2 = (lit ''# comment'' @ [10] @ lit ''method = '' @ [34] @ lit ''vni'' @ [34, 10] @ lit ''modern_style = false'' @ [10])
           | None \<Rightarrow> False)
      | None \<Rightarrow> False)"

definition replace_toml_value_returns_false_for_missing_key :: "bool" where
  "replace_toml_value_returns_false_for_missing_key \<longleftrightarrow>
    (replace_toml_value (lit ''method = '' @ [34] @ lit ''telex'' @ [34, 10]) (lit ''enable_evdev_grab'') (lit ''true'') None
      = Some ((lit ''method = '' @ [34] @ lit ''telex'' @ [34, 10]), False))"

definition find_first_table_pos_returns_none_for_flat_config :: "bool" where
  "find_first_table_pos_returns_none_for_flat_config \<longleftrightarrow>
    (find_first_table_pos (lit ''method = '' @ [34] @ lit ''telex'' @ [34, 10] @ lit ''modern_style = true'' @ [10]) = None)"

definition find_first_table_pos_finds_table_header :: "bool" where
  "find_first_table_pos_finds_table_header \<longleftrightarrow>
    (let t = (lit ''# header'' @ [10] @ lit ''method = '' @ [34] @ lit ''telex'' @ [34, 10, 10] @ lit ''[section]'' @ [10] @ lit ''key = 1'' @ [10])
      in case find_first_table_pos t of
           Some pos \<Rightarrow> pos > 0 \<and> str_range t pos (pos + 9) = Some (lit ''[section]'')
         | None \<Rightarrow> False)"

lemma tray_tests_pass_1:
  "evdev_toggle_label_mentions_grab_backend
   \<and> icon_name_keeps_symbolic_when_off
   \<and> icon_name_badges_backend_when_on
   \<and> replace_toml_value_skips_nested_key_with_boundary
   \<and> replace_toml_value_updates_in_place
   \<and> replace_toml_value_returns_false_for_missing_key
   \<and> find_first_table_pos_returns_none_for_flat_config
   \<and> find_first_table_pos_finds_table_header"
  by code_simp

definition find_first_table_pos_handles_trailing_comment :: "bool" where
  "find_first_table_pos_handles_trailing_comment \<longleftrightarrow>
    (let t = (lit ''method = '' @ [34] @ lit ''telex'' @ [34, 10, 10] @ lit ''[section] # my table'' @ [10] @ lit ''key = 1'' @ [10])
      in case find_first_table_pos t of
           Some pos \<Rightarrow> str_range t pos (pos + 9) = Some (lit ''[section]'')
             \<and> (case str_from t pos of Some rest \<Rightarrow> text_contains rest (lit ''# my table'') | None \<Rightarrow> False)
         | None \<Rightarrow> False)"

lemma tray_tests_pass_2:
  "find_first_table_pos_handles_trailing_comment"
  by code_simp

end
