(* ===== verification/UnitTestsText.thy ===== *)
theory UnitTestsText
  imports Composer IbusAdapter
begin

text \<open>
  The unit tests of \<^verbatim>\<open>edit-strategy\<close>, of the quirks, of the text functions and policies of the
  composer and of the IBus sink, run on the model: a definition is a test of the source, assertion
  by assertion, and the lemmas after each group of tests say that the model passes them.
\<close>

section \<open>The shadow buffer\<close>

definition pop_ascii_char :: "bool" where
  "pop_ascii_char \<longleftrightarrow>
    (let (buf, popped) = pop_chars 1 (shadow_append (lit ''a'') shadow_new)
      in popped = (1, 1) \<and> sb_text buf = [])"

definition pop_multibyte_char :: "bool" where
  "pop_multibyte_char \<longleftrightarrow>
    (let (buf, popped) = pop_chars 1 (shadow_append [0xE2] shadow_new)
      in popped = (2, 1) \<and> sb_text buf = [])"

definition pop_three_byte_char :: "bool" where
  "pop_three_byte_char \<longleftrightarrow>
    (let (buf, popped) = pop_chars 1 (shadow_append [0x1EA7] shadow_new)
      in popped = (3, 1) \<and> sb_text buf = [])"

definition pop_partial_mixed :: "bool" where
  "pop_partial_mixed \<longleftrightarrow>
    (let (buf, popped) = pop_chars 1 (shadow_append [116, 114, 0xE2] shadow_new)
      in popped = (2, 1) \<and> sb_text buf = (lit ''tr''))"

definition pop_more_than_available :: "bool" where
  "pop_more_than_available \<longleftrightarrow>
    (let (buf, popped) = pop_chars 5 (shadow_append (lit ''a'') shadow_new)
      in popped = (1, 1) \<and> sb_text buf = [])"

definition observe_surrounding_syncs_text_before_cursor :: "bool" where
  "observe_surrounding_syncs_text_before_cursor \<longleftrightarrow>
    (let buf = snd (observe_surrounding (lit ''hello world'') 5 5 shadow_new)
      in sb_text buf = (lit ''hello'') \<and> sb_last_cursor buf = Some 5)"

definition observe_surrounding_handles_multibyte_cursor :: "bool" where
  "observe_surrounding_handles_multibyte_cursor \<longleftrightarrow>
    (sb_text (snd (observe_surrounding [108, 0xE0, 110, 104] 4 4 shadow_new)) = [108, 0xE0, 110])"

definition unexpected_cursor_jump_reports_true :: "bool" where
  "unexpected_cursor_jump_reports_true \<longleftrightarrow>
    (let buf = snd (observe_surrounding (lit ''hello'') 5 5 shadow_new);
         (unexpected, buf2) = observe_surrounding (lit ''hello'') 1 1 buf
      in unexpected \<and> sb_text buf2 = (lit ''h''))"

lemma shadow_tests_pass_1:
  "pop_ascii_char
   \<and> pop_multibyte_char
   \<and> pop_three_byte_char
   \<and> pop_partial_mixed
   \<and> pop_more_than_available
   \<and> observe_surrounding_syncs_text_before_cursor
   \<and> observe_surrounding_handles_multibyte_cursor
   \<and> unexpected_cursor_jump_reports_true"
  by code_simp

definition pending_commit_marks_cursor_change_expected :: "bool" where
  "pending_commit_marks_cursor_change_expected \<longleftrightarrow>
    (let buf = snd (observe_surrounding [116, 114, 0xE2] 4 4 shadow_new);
         (unexpected, buf2) = observe_surrounding [116, 114, 0x1EA7] 4 4 (buf\<lparr>sb_pending_commit := True\<rparr>)
      in \<not>  unexpected \<and> \<not>  sb_pending_commit buf2)"

definition pop_delete_span_includes_selected_after_cursor :: "bool" where
  "pop_delete_span_includes_selected_after_cursor \<longleftrightarrow>
    (let buf = snd (observe_surrounding (lit ''translate'') 3 9 shadow_new);
         (buf2, before_b, before_c, after_b, after_c) = pop_delete_span 1 buf
      in sb_text buf = (lit ''tra'') \<and> (before_b, before_c) = (1, 1) \<and> (after_b, after_c) = (6, 6)
         \<and> sb_text buf2 = (lit ''tr''))"

lemma shadow_tests_pass_2:
  "pending_commit_marks_cursor_change_expected
   \<and> pop_delete_span_includes_selected_after_cursor"
  by code_simp

section \<open>The strategies\<close>

text \<open>The sink of the tests records the calls.\<close>

datatype call =
    DeleteSurroundingTextCall u32 u32 u32 u32
  | CommitStringCall ustr
  | CommitCall u32
  | VkKeyCall u32 u32 key_state
  | VkModifiersCall u32 u32 u32 u32
  | VkCommitCharCall u32 uchar

definition mock_sink :: "call list output_sink" where
  "mock_sink =
     \<lparr>os_delete_surrounding_text = (\<lambda>bb bc ab ac s. s @ [DeleteSurroundingTextCall bb bc ab ac]),
      os_commit_string = (\<lambda>t s. s @ [CommitStringCall t]),
      os_commit = (\<lambda>serial s. s @ [CommitCall serial]),
      os_vk_key = (\<lambda>time key_code state s. s @ [VkKeyCall time key_code state]),
      os_vk_modifiers = (\<lambda>dep lat lock grp s. s @ [VkModifiersCall dep lat lock grp]),
      os_vk_commit_char = (\<lambda>time c s. (True, s @ [VkCommitCharCall time c])),
      os_commit_via_keysym = default_commit_via_keysym,
      os_commit_key_channel_text = default_commit_key_channel_text\<rparr>"

text \<open>\<^verbatim>\<open>s.shadow.append(t)\<close> on a new strategy.\<close>

definition strategy_showing :: "backspace_method \<Rightarrow> ustr \<Rightarrow> strategy" where
  "strategy_showing m t = (strategy_new m)\<lparr>st_shadow := shadow_append t shadow_new\<rparr>"

definition tier1_single_ascii_backspace :: "bool" where
  "tier1_single_ascii_backspace \<longleftrightarrow>
    (let (s, calls) = strategy_apply mock_sink 1 [0xE2] 1 0 Bytes (strategy_showing SurroundingText (lit ''a''), [])
      in calls = [DeleteSurroundingTextCall 1 1 0 0, CommitStringCall [0xE2], CommitCall 1]
         \<and> sb_text (st_shadow s) = [0xE2])"

definition tier1_multibyte_delete :: "bool" where
  "tier1_multibyte_delete \<longleftrightarrow>
    (let (s, calls) = strategy_apply mock_sink 1 [0x1EA7] 1 0 Bytes (strategy_showing SurroundingText [0xE2], [])
      in calls ! 0 = DeleteSurroundingTextCall 2 1 0 0 \<and> calls ! 1 = CommitStringCall [0x1EA7]
         \<and> sb_text (st_shadow s) = [0x1EA7])"

definition tier1_multibyte_delete_can_emit_char_count_primary_length :: "bool" where
  "tier1_multibyte_delete_can_emit_char_count_primary_length \<longleftrightarrow>
    (let (s, calls) = strategy_apply mock_sink 1 [0x1EF1] 1 0 Chars (strategy_showing SurroundingText [0x1B0], [])
      in calls ! 0 = DeleteSurroundingTextCall 1 1 0 0 \<and> calls ! 1 = CommitStringCall [0x1EF1]
         \<and> sb_text (st_shadow s) = [0x1EF1])"

definition tier1_retroactive_pho_horn_to_pho_hook :: "bool" where
  "tier1_retroactive_pho_horn_to_pho_hook \<longleftrightarrow>
    (let (s, calls) = strategy_apply mock_sink 1 [0x1EDF] 1 0 Bytes (strategy_showing SurroundingText [112, 104, 0x1A1], [])
      in calls ! 0 = DeleteSurroundingTextCall 2 1 0 0 \<and> calls ! 1 = CommitStringCall [0x1EDF]
         \<and> sb_text (st_shadow s) = [112, 104, 0x1EDF])"

definition tier1_multi_char_delete :: "bool" where
  "tier1_multi_char_delete \<longleftrightarrow>
    (let (s, calls) = strategy_apply mock_sink 4 [116, 105, 0x1EBF, 110] 1 0 Bytes (strategy_showing SurroundingText (lit ''tie'' @ [0xEA]), [])
      in calls ! 0 = DeleteSurroundingTextCall 5 4 0 0 \<and> calls ! 1 = CommitStringCall [116, 105, 0x1EBF, 110])"

definition tier2_single_backspace :: "bool" where
  "tier2_single_backspace \<longleftrightarrow>
    (let (s, calls) = strategy_apply mock_sink 1 [0xE2] 1 0 Bytes (strategy_showing ForwardKey (lit ''a''), [])
      in calls = [VkKeyCall 0 14 Pressed, VkKeyCall 0 14 Released, CommitStringCall [0xE2], CommitCall 1])"

definition tier2_three_backspaces :: "bool" where
  "tier2_three_backspaces \<longleftrightarrow>
    (let (s, calls) = strategy_apply mock_sink 3 (lit ''x'') 2 5 Bytes (strategy_showing ForwardKey (lit ''abc''), [])
      in length calls = 8
         \<and> calls ! 0 = VkKeyCall 5 14 Pressed \<and> calls ! 1 = VkKeyCall 5 14 Released
         \<and> calls ! 2 = VkKeyCall 5 14 Pressed \<and> calls ! 3 = VkKeyCall 5 14 Released
         \<and> calls ! 4 = VkKeyCall 5 14 Pressed \<and> calls ! 5 = VkKeyCall 5 14 Released
         \<and> calls ! 6 = CommitStringCall (lit ''x'') \<and> calls ! 7 = CommitCall 2)"

definition tier2_shadow_updated :: "bool" where
  "tier2_shadow_updated \<longleftrightarrow>
    (let (s, calls) = strategy_apply mock_sink 1 [0xE2] 1 0 Bytes (strategy_showing ForwardKey (lit ''abc''), [])
      in sb_text (st_shadow s) = [97, 98, 0xE2])"

lemma strategy_tests_pass_1:
  "tier1_single_ascii_backspace
   \<and> tier1_multibyte_delete
   \<and> tier1_multibyte_delete_can_emit_char_count_primary_length
   \<and> tier1_retroactive_pho_horn_to_pho_hook
   \<and> tier1_multi_char_delete
   \<and> tier2_single_backspace
   \<and> tier2_three_backspaces
   \<and> tier2_shadow_updated"
  by code_simp

definition surrounding_text_syncs_shadow :: "bool" where
  "surrounding_text_syncs_shadow \<longleftrightarrow>
    (sb_text (st_shadow (on_surrounding_text (lit ''cha'') 3 3 (strategy_new SurroundingText))) = (lit ''cha''))"

definition tier1_uses_surrounding_text_bytes :: "bool" where
  "tier1_uses_surrounding_text_bytes \<longleftrightarrow>
    (let s = on_surrounding_text [99, 104, 0xE2] 4 4 (strategy_new SurroundingText);
         calls = snd (strategy_apply mock_sink 1 [0x1EA7] 1 0 Bytes (s, []))
      in calls ! 0 = DeleteSurroundingTextCall 2 1 0 0 \<and> calls ! 1 = CommitStringCall [0x1EA7])"

definition tier1_selection_falls_back_to_forward_key :: "bool" where
  "tier1_selection_falls_back_to_forward_key \<longleftrightarrow>
    (let s = on_surrounding_text (lit ''translate'') 3 9 (strategy_new SurroundingText);
         (s2, calls) = strategy_apply mock_sink 1 [0xE2] 1 0 Bytes (s, [])
      in calls = [VkKeyCall 0 14 Pressed, VkKeyCall 0 14 Released,
                  VkKeyCall 0 14 Pressed, VkKeyCall 0 14 Released,
                  CommitStringCall [0xE2], CommitCall 1]
         \<and> sb_text (st_shadow s2) = [116, 114, 0xE2])"

definition reset_shadow_clears :: "bool" where
  "reset_shadow_clears \<longleftrightarrow>
    (sb_text (st_shadow (reset_shadow (strategy_showing SurroundingText (lit ''hello'')))) = [])"

text \<open>
  A sink whose key channel takes a whole text or refuses it; its log holds what the source's holds
  as strings.
\<close>

datatype channel_op = CommitStringOp ustr | KeyOp u32 key_state | VkCharOp uchar

record whole_channel_sink =
  wc_ops :: "channel_op list"
  wc_key_channel_ok :: bool

definition whole_channel :: "whole_channel_sink output_sink" where
  "whole_channel =
     \<lparr>os_delete_surrounding_text = (\<lambda>bb bc ab ac s. s),
      os_commit_string = (\<lambda>t s. s\<lparr>wc_ops := wc_ops s @ [CommitStringOp t]\<rparr>),
      os_commit = (\<lambda>serial s. s),
      os_vk_key = (\<lambda>time key_code state s. s\<lparr>wc_ops := wc_ops s @ [KeyOp key_code state]\<rparr>),
      os_vk_modifiers = (\<lambda>dep lat lock grp s. s),
      os_vk_commit_char = (\<lambda>time c s. (False, s)),
      os_commit_via_keysym = default_commit_via_keysym,
      os_commit_key_channel_text = (\<lambda>serial time t s.
        if \<not> wc_key_channel_ok s then (False, s)
        else (True, s\<lparr>wc_ops := wc_ops s @ map VkCharOp t\<rparr>))\<rparr>"

definition channel_ops :: "bool \<Rightarrow> bool \<Rightarrow> channel_op list" where
  "channel_ops key_channel_ok prefer_key_channel_commit =
     wc_ops (snd (forward_key_apply whole_channel 2 [0x1EAD, 112] 1 0 prefer_key_channel_commit
       (shadow_append [108, 0xE2, 112] shadow_new, \<lparr>wc_ops = [], wc_key_channel_ok = key_channel_ok\<rparr>)))"

definition forward_key_replacement_does_not_split_when_key_channel_is_available :: "bool" where
  "forward_key_replacement_does_not_split_when_key_channel_is_available \<longleftrightarrow>
    (let ops = channel_ops True True
      in VkCharOp 0x1EAD \<in> set ops \<and> VkCharOp 112 \<in> set ops
         \<and> \<not>  list_ex (\<lambda>op. case op of CommitStringOp t \<Rightarrow> True | _ \<Rightarrow> False) ops)"

definition forward_key_replacement_falls_back_as_whole_commit_string :: "bool" where
  "forward_key_replacement_falls_back_as_whole_commit_string \<longleftrightarrow>
    (let ops = channel_ops False True
      in CommitStringOp [0x1EAD, 112] \<in> set ops \<and> CommitStringOp (lit ''p'') \<notin> set ops
         \<and> CommitStringOp [0x1EAD] \<notin> set ops)"

definition forward_key_replacement_uses_whole_commit_string_on_normal_path :: "bool" where
  "forward_key_replacement_uses_whole_commit_string_on_normal_path \<longleftrightarrow>
    (let ops = channel_ops False False
      in CommitStringOp [0x1EAD, 112] \<in> set ops \<and> CommitStringOp (lit ''p'') \<notin> set ops
         \<and> CommitStringOp [0x1EAD] \<notin> set ops)"

definition gedit_non_empty_surrounding_is_tier1 :: "bool" where
  "gedit_non_empty_surrounding_is_tier1 \<longleftrightarrow>
    (detect_method True = SurroundingText)"

lemma strategy_tests_pass_2:
  "surrounding_text_syncs_shadow
   \<and> tier1_uses_surrounding_text_bytes
   \<and> tier1_selection_falls_back_to_forward_key
   \<and> reset_shadow_clears
   \<and> forward_key_replacement_does_not_split_when_key_channel_is_available
   \<and> forward_key_replacement_falls_back_as_whole_commit_string
   \<and> forward_key_replacement_uses_whole_commit_string_on_normal_path
   \<and> gedit_non_empty_surrounding_is_tier1"
  by code_simp

definition non_terminal_no_surrounding_is_forward_key :: "bool" where
  "non_terminal_no_surrounding_is_forward_key \<longleftrightarrow>
    (detect_method False = ForwardKey)"

definition empty_surrounding_is_tier1 :: "bool" where
  "empty_surrounding_is_tier1 \<longleftrightarrow>
    (detect_method True = SurroundingText)"

lemma strategy_tests_pass_3:
  "non_terminal_no_surrounding_is_forward_key
   \<and> empty_surrounding_is_tier1"
  by code_simp

section \<open>The quirks\<close>

definition final_echo_resets_to_byte_delete :: "bool" where
  "final_echo_resets_to_byte_delete \<longleftrightarrow>
    (let quirk = firefox_observe_surrounding [116, 0x1EF1] True False (record_expected_echo [116, 0x1EF1] (lit ''t'') firefox_new)
      in fx_delete_unit quirk = Bytes \<and> \<not>  has_pending_echo quirk)"

definition delete_only_echo_keeps_waiting :: "bool" where
  "delete_only_echo_keeps_waiting \<longleftrightarrow>
    (let quirk = firefox_observe_surrounding (lit ''t'') True False (record_expected_echo [116, 0x1EF1] (lit ''t'') firefox_new)
      in fx_delete_unit quirk = Bytes \<and> has_pending_echo quirk)"

definition stale_recent_echo_arms_char_delete :: "bool" where
  "stale_recent_echo_arms_char_delete \<longleftrightarrow>
    (let quirk = firefox_observe_surrounding [116, 0x1B0] True False (record_expected_echo [116, 0x1EF1] (lit ''t'') firefox_new)
      in fx_delete_unit quirk = Chars \<and> \<not>  has_pending_echo quirk)"

definition retroactive_cursor_on_boundary_keeps_byte_delete :: "bool" where
  "retroactive_cursor_on_boundary_keeps_byte_delete \<longleftrightarrow>
    (let quirk = firefox_observe_surrounding [116, 0x1B0, 32] True True (record_expected_echo [116, 0x1EF1] (lit ''t'') firefox_new)
      in fx_delete_unit quirk = Bytes \<and> \<not>  has_pending_echo quirk)"

definition non_recent_mismatch_clears_pending_echo :: "bool" where
  "non_recent_mismatch_clears_pending_echo \<longleftrightarrow>
    (let quirk = firefox_observe_surrounding (lit ''other'') False False (record_expected_echo [116, 0x1EF1] (lit ''t'') firefox_new)
      in fx_delete_unit quirk = Bytes \<and> \<not>  has_pending_echo quirk)"

definition first_correction_never_downgrades :: "bool" where
  "first_correction_never_downgrades \<longleftrightarrow>
    (\<not>  fst (note_correction_and_should_downgrade ibus_quirk_new))"

definition echoed_corrections_never_downgrade :: "bool" where
  "echoed_corrections_never_downgrade \<longleftrightarrow>
    (let (d1, q1) = note_correction_and_should_downgrade ibus_quirk_new;
         (d2, q2) = note_correction_and_should_downgrade (ibus_mark_surrounding_frame_seen q1);
         (d3, q3) = note_correction_and_should_downgrade (ibus_mark_surrounding_frame_seen q2)
      in \<not>  d1 \<and> \<not>  d2 \<and> \<not>  d3)"

definition repeated_missing_echoes_downgrade_after_threshold :: "bool" where
  "repeated_missing_echoes_downgrade_after_threshold \<longleftrightarrow>
    (let (d1, q1) = note_correction_and_should_downgrade ibus_quirk_new;
         (d2, q2) = note_correction_and_should_downgrade q1
      in \<not>  d1 \<and> d2)"

lemma quirk_tests_pass_1:
  "final_echo_resets_to_byte_delete
   \<and> delete_only_echo_keeps_waiting
   \<and> stale_recent_echo_arms_char_delete
   \<and> retroactive_cursor_on_boundary_keeps_byte_delete
   \<and> non_recent_mismatch_clears_pending_echo
   \<and> first_correction_never_downgrades
   \<and> echoed_corrections_never_downgrade
   \<and> repeated_missing_echoes_downgrade_after_threshold"
  by code_simp

definition reset_clears_downgrade_history :: "bool" where
  "reset_clears_downgrade_history \<longleftrightarrow>
    (let (d1, q1) = note_correction_and_should_downgrade ibus_quirk_new;
         (d2, q2) = note_correction_and_should_downgrade q1;
         (d3, q3) = note_correction_and_should_downgrade (ibus_quirk_reset q2)
      in \<not>  d1 \<and> d2 \<and> \<not>  d3)"

lemma quirk_tests_pass_2:
  "reset_clears_downgrade_history"
  by code_simp

section \<open>Words and offsets\<close>

definition extracts_word_at_end_of_line :: "bool" where
  "extracts_word_at_end_of_line \<longleftrightarrow>
    (current_word_before_cursor (lit ''phow'') 4 = (lit ''phow''))"

definition extracts_word_in_middle_of_line :: "bool" where
  "extracts_word_in_middle_of_line \<longleftrightarrow>
    (current_word_before_cursor (lit ''hello phow'') 10 = (lit ''phow''))"

definition extracts_partial_word_at_cursor :: "bool" where
  "extracts_partial_word_at_cursor \<longleftrightarrow>
    (current_word_before_cursor (lit ''phow'') 3 = (lit ''pho''))"

definition empty_text_returns_empty :: "bool" where
  "empty_text_returns_empty \<longleftrightarrow>
    (current_word_before_cursor [] 0 = [])"

definition cursor_at_start_returns_empty :: "bool" where
  "cursor_at_start_returns_empty \<longleftrightarrow>
    (current_word_before_cursor (lit ''hello'') 0 = [])"

definition handles_multibyte_chars_at_char_boundary :: "bool" where
  "handles_multibyte_chars_at_char_boundary \<longleftrightarrow>
    (current_word_before_cursor [116, 114, 0xE2] 4 = [116, 114, 0xE2])"

definition handles_cursor_inside_multibyte_char :: "bool" where
  "handles_cursor_inside_multibyte_char \<longleftrightarrow>
    (current_word_before_cursor [116, 114, 0xE2] 3 = (lit ''tr''))"

definition cursor_beyond_text_clamps :: "bool" where
  "cursor_beyond_text_clamps \<longleftrightarrow>
    (current_word_before_cursor (lit ''hi'') 99 = (lit ''hi''))"

lemma word_tests_pass_1:
  "extracts_word_at_end_of_line
   \<and> extracts_word_in_middle_of_line
   \<and> extracts_partial_word_at_cursor
   \<and> empty_text_returns_empty
   \<and> cursor_at_start_returns_empty
   \<and> handles_multibyte_chars_at_char_boundary
   \<and> handles_cursor_inside_multibyte_char
   \<and> cursor_beyond_text_clamps"
  by code_simp

definition space_separates_words :: "bool" where
  "space_separates_words \<longleftrightarrow>
    (current_word_before_cursor (lit ''foo bar baz'') 11 = (lit ''baz''))"

definition tab_separates_words :: "bool" where
  "tab_separates_words \<longleftrightarrow>
    (current_word_before_cursor (lit ''foo'' @ [9] @ lit ''bar'') 7 = (lit ''bar''))"

definition newline_separates_words :: "bool" where
  "newline_separates_words \<longleftrightarrow>
    (current_word_before_cursor (lit ''line1'' @ [10] @ lit ''line2'') 11 = (lit ''line2''))"

definition comma_separates_vietnamese_syllables :: "bool" where
  "comma_separates_vietnamese_syllables \<longleftrightarrow>
    (let t = (lit ''xin,ch'' @ [0xE0, 111]) in current_word_before_cursor t (of_nat (blen t)) = [99, 104, 0xE0, 111])"

definition delimiters_separate_current_vietnamese_word :: "bool" where
  "delimiters_separate_current_vietnamese_word \<longleftrightarrow>
    (current_word_before_cursor (lit ''(ti'' @ [0x1EBF, 110, 103]) (of_nat (blen (lit ''(ti'' @ [0x1EBF, 110, 103]))) = [116, 105, 0x1EBF, 110, 103]
      \<and> current_word_before_cursor (lit ''anh/ch'' @ [0x1ECB]) (of_nat (blen (lit ''anh/ch'' @ [0x1ECB]))) = [99, 104, 0x1ECB]
      \<and> current_word_before_cursor [0x201C, 0x111, 0x1EB9, 112] (of_nat (blen [0x201C, 0x111, 0x1EB9, 112])) = [0x111, 0x1EB9, 112])"

definition selection_after_word_prefix_seeds_prefix_for_both_directions :: "bool" where
  "selection_after_word_prefix_seeds_prefix_for_both_directions \<longleftrightarrow>
    (let t = (lit ''the vietnamese'');
         selection_start = of_nat (blen (lit ''the viet''));
         selection_end = of_nat (blen (lit ''the vietnamese''))
      in current_word_before_insertion_point t selection_start selection_end = (lit ''viet'')
         \<and> current_word_before_insertion_point t selection_end selection_start = (lit ''viet''))"

definition selection_at_word_start_seeds_nothing_for_both_directions :: "bool" where
  "selection_at_word_start_seeds_nothing_for_both_directions \<longleftrightarrow>
    (let t = (lit ''the vietnamese'');
         selection_start = of_nat (blen (lit ''the ''));
         selection_end = of_nat (blen (lit ''the viet''))
      in current_word_before_insertion_point t selection_start selection_end = []
         \<and> current_word_before_insertion_point t selection_end selection_start = [])"

definition cursor_inside_word_ignores_suffix_after_cursor :: "bool" where
  "cursor_inside_word_ignores_suffix_after_cursor \<longleftrightarrow>
    (let cursor = of_nat (blen ([116, 105, 0x1EBF] @ lit ''ng vie''))
      in current_word_before_insertion_point ([116, 105, 0x1EBF] @ lit ''ng viet vui v'' @ [0x1EBB]) cursor cursor = (lit ''vie''))"

lemma word_tests_pass_2:
  "space_separates_words
   \<and> tab_separates_words
   \<and> newline_separates_words
   \<and> comma_separates_vietnamese_syllables
   \<and> delimiters_separate_current_vietnamese_word
   \<and> selection_after_word_prefix_seeds_prefix_for_both_directions
   \<and> selection_at_word_start_seeds_nothing_for_both_directions
   \<and> cursor_inside_word_ignores_suffix_after_cursor"
  by code_simp

definition cursor_at_end_of_word_seeds_full_ascii_suffix_after_vietnamese_text :: "bool" where
  "cursor_at_end_of_word_seeds_full_ascii_suffix_after_vietnamese_text \<longleftrightarrow>
    (let cursor = of_nat (blen ([116, 105, 0x1EBF] @ lit ''ng viet''))
      in current_word_before_insertion_point ([116, 105, 0x1EBF] @ lit ''ng viet vui v'' @ [0x1EBB]) cursor cursor = (lit ''viet''))"

definition ascii_char_offset_equals_byte_offset :: "bool" where
  "ascii_char_offset_equals_byte_offset \<longleftrightarrow>
    (char_to_byte_offset (lit ''is'') 0 = 0 \<and> char_to_byte_offset (lit ''is'') 1 = 1 \<and> char_to_byte_offset (lit ''is'') 2 = 2)"

definition multibyte_cursor_at_end_maps_to_byte_len :: "bool" where
  "multibyte_cursor_at_end_maps_to_byte_len \<longleftrightarrow>
    (char_to_byte_offset [0xED] 1 = 2)"

definition mixed_multibyte_offsets :: "bool" where
  "mixed_multibyte_offsets \<longleftrightarrow>
    (char_to_byte_offset [0xED, 105, 115] 0 = 0
      \<and> char_to_byte_offset [0xED, 105, 115] 1 = 2
      \<and> char_to_byte_offset [0xED, 105, 115] 2 = 3
      \<and> char_to_byte_offset [0xED, 105, 115] 3 = 4)"

definition offset_past_end_clamps_to_byte_len :: "bool" where
  "offset_past_end_clamps_to_byte_len \<longleftrightarrow>
    (char_to_byte_offset [0xED] 99 = 2)"

lemma word_tests_pass_3:
  "cursor_at_end_of_word_seeds_full_ascii_suffix_after_vietnamese_text
   \<and> ascii_char_offset_equals_byte_offset
   \<and> multibyte_cursor_at_end_maps_to_byte_len
   \<and> mixed_multibyte_offsets
   \<and> offset_past_end_clamps_to_byte_len"
  by code_simp

section \<open>Telling a keystroke from other changes\<close>

definition oci_empty_to_first_char :: "bool" where
  "oci_empty_to_first_char \<longleftrightarrow>
    (detect_one_char_insertion [] 0 (lit ''t'') 1)"

definition oci_append_ascii :: "bool" where
  "oci_append_ascii \<longleftrightarrow>
    (detect_one_char_insertion (lit ''ti'') 2 (lit ''tie'') 3)"

definition oci_append_after_vietnamese :: "bool" where
  "oci_append_after_vietnamese \<longleftrightarrow>
    (detect_one_char_insertion [116, 105, 0xEA] 4 [116, 105, 0xEA, 110] 5)"

definition oci_append_direct_multibyte_scalar :: "bool" where
  "oci_append_direct_multibyte_scalar \<longleftrightarrow>
    (detect_one_char_insertion (lit ''ti'') 2 [116, 105, 0x1EBF] (of_nat (blen [116, 105, 0x1EBF])))"

definition oci_mid_text_insert :: "bool" where
  "oci_mid_text_insert \<longleftrightarrow>
    (detect_one_char_insertion (lit ''abcd'') 2 (lit ''abXcd'') 3)"

definition oci_multi_char_paste_rejected :: "bool" where
  "oci_multi_char_paste_rejected \<longleftrightarrow>
    (\<not>  detect_one_char_insertion (lit ''ab'') 2 (lit ''abcde'') 5)"

definition oci_backspace_rejected :: "bool" where
  "oci_backspace_rejected \<longleftrightarrow>
    (\<not>  detect_one_char_insertion (lit ''abc'') 3 (lit ''ab'') 2)"

definition oci_same_text_rejected :: "bool" where
  "oci_same_text_rejected \<longleftrightarrow>
    (\<not>  detect_one_char_insertion (lit ''abc'') 3 (lit ''abc'') 3)"

lemma classifier_tests_pass_1:
  "oci_empty_to_first_char
   \<and> oci_append_ascii
   \<and> oci_append_after_vietnamese
   \<and> oci_append_direct_multibyte_scalar
   \<and> oci_mid_text_insert
   \<and> oci_multi_char_paste_rejected
   \<and> oci_backspace_rejected
   \<and> oci_same_text_rejected"
  by code_simp

definition oci_cursor_jump_rejected :: "bool" where
  "oci_cursor_jump_rejected \<longleftrightarrow>
    (\<not>  detect_one_char_insertion (lit ''abcde'') 5 (lit ''abcde'') 2)"

definition oci_replace_with_same_length_rejected :: "bool" where
  "oci_replace_with_same_length_rejected \<longleftrightarrow>
    (\<not>  detect_one_char_insertion [116, 105, 0xEA] 4 (lit ''tiab'') 4)"

definition oci_cursor_mismatch_rejected :: "bool" where
  "oci_cursor_mismatch_rejected \<longleftrightarrow>
    (detect_one_char_insertion (lit ''ab'') 2 (lit ''abc'') 3 \<and> \<not>  detect_one_char_insertion (lit ''ab'') 2 (lit ''abc'') 1)"

definition oci_post_apply_echo_rejected :: "bool" where
  "oci_post_apply_echo_rejected \<longleftrightarrow>
    (\<not>  detect_one_char_insertion (lit ''tiee'') 4 [116, 105, 0xEA] 4)"

definition oci_duong_line_break_to_capital_d :: "bool" where
  "oci_duong_line_break_to_capital_d \<longleftrightarrow>
    (\<not>  detect_one_char_insertion [0x111, 0x1B0, 0x1EDD, 110, 103] 9 (lit ''D'') 1)"

definition oci_second_capital_d_on_new_line :: "bool" where
  "oci_second_capital_d_on_new_line \<longleftrightarrow>
    (detect_one_char_insertion (lit ''D'') 1 (lit ''DD'') 2)"

definition deletion_rejects_cursor_inside_multibyte_char :: "bool" where
  "deletion_rejects_cursor_inside_multibyte_char \<longleftrightarrow>
    (\<not>  detect_deletion [97, 0x1EBF, 98] 2 [97, 0x1EBF] 2)"

definition deletion_accepts_multibyte_char_span :: "bool" where
  "deletion_accepts_multibyte_char_span \<longleftrightarrow>
    (detect_deletion [97, 0x1EBF, 98] (of_nat (blen [97, 0x1EBF])) (lit ''ab'') 1)"

lemma classifier_tests_pass_2:
  "oci_cursor_jump_rejected
   \<and> oci_replace_with_same_length_rejected
   \<and> oci_cursor_mismatch_rejected
   \<and> oci_post_apply_echo_rejected
   \<and> oci_duong_line_break_to_capital_d
   \<and> oci_second_capital_d_on_new_line
   \<and> deletion_rejects_cursor_inside_multibyte_char
   \<and> deletion_accepts_multibyte_char_span"
  by code_simp

section \<open>The policies of the composer\<close>

definition surrounding_observer_trusts_mid_word_one_char_without_reseed :: "bool" where
  "surrounding_observer_trusts_mid_word_one_char_without_reseed \<longleftrightarrow>
    (surrounding_observe True True False False False = \<lparr>sd_trust = True, sd_reseed = False\<rparr>)"

definition surrounding_observer_trusts_recent_shadow_confirmed_without_reseed :: "bool" where
  "surrounding_observer_trusts_recent_shadow_confirmed_without_reseed \<longleftrightarrow>
    (surrounding_observe True False False False True = \<lparr>sd_trust = True, sd_reseed = False\<rparr>)"

definition surrounding_observer_drops_recent_unconfirmed_selection :: "bool" where
  "surrounding_observer_drops_recent_unconfirmed_selection \<longleftrightarrow>
    (surrounding_observe True False False False False = \<lparr>sd_trust = False, sd_reseed = False\<rparr>)"

definition surrounding_observer_drops_recent_delete_echo :: "bool" where
  "surrounding_observer_drops_recent_delete_echo \<longleftrightarrow>
    (surrounding_observe True False True False False = \<lparr>sd_trust = False, sd_reseed = False\<rparr>)"

definition surrounding_observer_trusts_external_delete_for_reset :: "bool" where
  "surrounding_observer_trusts_external_delete_for_reset \<longleftrightarrow>
    (surrounding_observe False False True False False = \<lparr>sd_trust = True, sd_reseed = False\<rparr>)"

text \<open>
  A raw key without a recorded edit, as the tests build it. The tests that need a composer have
  \<open>toy_vnkey\<close> for the library, whose answers they do not look at, and a clock that stands still.
\<close>

definition raw_key :: "uchar \<Rightarrow> bool \<Rightarrow> pending_raw" where
  "raw_key ch from_frame = \<lparr>pw_ch = ch, pw_repairable = True, pw_edit = None, pw_from_frame = from_frame\<rparr>"

definition confirmation_state_only_pending_variant_contains_raw_key :: "bool" where
  "confirmation_state_only_pending_variant_contains_raw_key \<longleftrightarrow>
    (map_option pw_ch (pending_raw_of (PendingRaw (raw_key 115 False))) = Some 115
      \<and> pending_raw_of Live = None \<and> pending_raw_of LiveConfirmed = None
      \<and> pending_raw_of FrameDerived = None \<and> pending_raw_of AwaitingFrame = None)"

definition selected_frame_preserves_pending_frame_provenance :: "bool" where
  "selected_frame_preserves_pending_frame_provenance \<longleftrightarrow>
    (let c0 = set_surrounding_confirmation True (composer_new toy_vnkey 0 Telex SurroundingText False);
         c1 = c0\<lparr>cp_edit := record_surrounding (lit ''foo'') 3 3 (em_on_surrounding_text (lit ''foo'') 3 3 (cp_edit c0)),
                  cp_confirmation := PendingRaw (raw_key 120 True)\<rparr>;
         (repair, c2) = apply_surrounding toy_vnkey 0 (lit ''foobar'') 3 6 False c1
      in repair = None \<and> cp_confirmation c2 = FrameDerived)"

definition key_start_plan_requires_confirmation_for_every_uncertain_state :: "bool" where
  "key_start_plan_requires_confirmation_for_every_uncertain_state \<longleftrightarrow>
    (list_all (\<lambda>confirmation. ks_context_uncertain (plan_key_start
           \<lparr>fk_ch = 115, fk_method = SurroundingText, fk_confirmation_enabled = True,
            fk_confirmation = confirmation, fk_previous_was_separator = False,
            fk_engine_at_word_beginning = False, fk_shadow_word = []\<rparr>))
        [FrameDerived, AwaitingFrame, PendingRaw (raw_key 114 False)])"

lemma policy_tests_pass_1:
  "surrounding_observer_trusts_mid_word_one_char_without_reseed
   \<and> surrounding_observer_trusts_recent_shadow_confirmed_without_reseed
   \<and> surrounding_observer_drops_recent_unconfirmed_selection
   \<and> surrounding_observer_drops_recent_delete_echo
   \<and> surrounding_observer_trusts_external_delete_for_reset
   \<and> confirmation_state_only_pending_variant_contains_raw_key
   \<and> selected_frame_preserves_pending_frame_provenance
   \<and> key_start_plan_requires_confirmation_for_every_uncertain_state"
  by code_simp

definition key_finish_plan_never_applies_from_uncertain_context :: "bool" where
  "key_finish_plan_never_applies_from_uncertain_context \<longleftrightarrow>
    (case plan_key_finish 115 True False False
             \<lparr>pr_backspaces = 1, pr_commit = [0xE1], pr_consumed = True\<rparr> (lit ''a'') of
        FinishForward p \<Rightarrow> True | FinishApply b t \<Rightarrow> False)"

definition edit_model_owns_shadow_and_tier_apply :: "bool" where
  "edit_model_owns_shadow_and_tier_apply \<longleftrightarrow>
    (let edit = push_forwarded_char 97 (edit_model_new SurroundingText);
         (edit2, calls) = em_apply mock_sink 1 [0xE2] 1 0 Bytes (edit, [])
      in em_shadow_text edit = (lit ''a'')
         \<and> length (filter (\<lambda>k. case k of DeleteSurroundingTextCall a b c d \<Rightarrow> True | _ \<Rightarrow> False) calls) = 1
         \<and> [t. CommitStringCall t \<leftarrow> calls] = [[0xE2]]
         \<and> em_shadow_text edit2 = [0xE2])"

definition dead_surrounding_frames_signal_forward_key_downgrade :: "bool" where
  "dead_surrounding_frames_signal_forward_key_downgrade \<longleftrightarrow>
    (let c0 = composer_new toy_vnkey 0 Telex SurroundingText False;
         (d0, c1) = note_surrounding_liveness [] 0 c0;
         c2 = snd (observe_surrounding_bytes toy_vnkey 0 (lit ''T'') 1 1 False c1);
         (d1, c3) = note_surrounding_liveness [] 0 c2;
         (d2, c4) = note_surrounding_liveness [] 0 c3
      in \<not>  d0 \<and> shadow_text c2 = (lit ''T'') \<and> \<not>  d1 \<and> d2)"

definition live_surrounding_frame_resets_dead_strikes :: "bool" where
  "live_surrounding_frame_resets_dead_strikes \<longleftrightarrow>
    (let c0 = composer_new toy_vnkey 0 Telex SurroundingText False;
         c1 = snd (observe_surrounding_bytes toy_vnkey 0 (lit ''ph'') 2 2 False c0);
         (d1, c2) = note_surrounding_liveness [] 0 c1;
         (d2, c3) = note_surrounding_liveness (lit ''pho'') 3 c2;
         (d3, c4) = note_surrounding_liveness [] 0 c3
      in \<not>  d1 \<and> \<not>  d2 \<and> \<not>  d3)"

definition unechoed_surrounding_corrections_signal_forward_key_downgrade :: "bool" where
  "unechoed_surrounding_corrections_signal_forward_key_downgrade \<longleftrightarrow>
    (let (d1, c1) = note_surrounding_correction (composer_new toy_vnkey 0 Telex SurroundingText False);
         (d2, c2) = note_surrounding_correction c1
      in \<not>  d1 \<and> d2)"

definition echoed_surrounding_corrections_never_downgrade :: "bool" where
  "echoed_surrounding_corrections_never_downgrade \<longleftrightarrow>
    (let c0 = composer_new toy_vnkey 0 Telex SurroundingText False;
         (d1, c1) = note_surrounding_correction (mark_surrounding_frame_seen c0);
         (d2, c2) = note_surrounding_correction (mark_surrounding_frame_seen c1);
         (d3, c3) = note_surrounding_correction (mark_surrounding_frame_seen c2)
      in \<not>  d1 \<and> \<not>  d2 \<and> \<not>  d3)"

lemma policy_tests_pass_2:
  "key_finish_plan_never_applies_from_uncertain_context
   \<and> edit_model_owns_shadow_and_tier_apply
   \<and> dead_surrounding_frames_signal_forward_key_downgrade
   \<and> live_surrounding_frame_resets_dead_strikes
   \<and> unechoed_surrounding_corrections_signal_forward_key_downgrade
   \<and> echoed_surrounding_corrections_never_downgrade"
  by code_simp

section \<open>The IBus sink\<close>

definition vk_key_uses_evdev_keycode_for_forward_event :: "bool" where
  "vk_key_uses_evdev_keycode_for_forward_event \<longleftrightarrow>
    (let fs = ik_forwards (ibus_vk_key 0 14 Released (ibus_vk_key 0 14 Pressed ibus_sink_new))
      in length fs = 2 \<and> pf_keycode (fs ! 0) = 14 \<and> pf_keyval (fs ! 0) = XK_BACKSPACE
         \<and> pf_state (fs ! 0) = IBUS_FORWARD_MASK
         \<and> pf_keycode (fs ! 1) = 14 \<and> pf_keyval (fs ! 1) = XK_BACKSPACE
         \<and> pf_state (fs ! 1) = IBUS_FORWARD_MASK OR IBUS_RELEASE_MASK)"

definition ibus_does_not_claim_key_channel_commit_support :: "bool" where
  "ibus_does_not_claim_key_channel_commit_support \<longleftrightarrow>
    (let (a, s1) = os_vk_commit_char ibus_output 0 0x1EAD ibus_sink_new;
         (b, s2) = os_commit_key_channel_text ibus_output 0 0 [0x1EAD, 112] s1
      in \<not>  a \<and> \<not>  b \<and> ik_commits s2 = [])"

definition ibus_forward_key_replacement_is_one_whole_commit_text :: "bool" where
  "ibus_forward_key_replacement_is_one_whole_commit_text \<longleftrightarrow>
    (let sink = snd (strategy_apply ibus_output 2 [0x1EAD, 112] 0 0 Bytes (strategy_new ForwardKey, ibus_sink_new))
      in length (ik_forwards sink) = 4 \<and> ik_commits sink = [[0x1EAD, 112]])"

definition method_selection_prefers_surrounding :: "bool" where
  "method_selection_prefers_surrounding \<longleftrightarrow>
    (method_for_capability True = SurroundingText)"

definition method_selection_falls_back_to_forward_key :: "bool" where
  "method_selection_falls_back_to_forward_key \<longleftrightarrow>
    (method_for_capability False = ForwardKey)"

definition surrounding_frame_upgrades_only_without_explicit_caps_clear :: "bool" where
  "surrounding_frame_upgrades_only_without_explicit_caps_clear \<longleftrightarrow>
    (should_upgrade_on_surrounding False False \<and> \<not>  should_upgrade_on_surrounding False True
      \<and> \<not>  should_upgrade_on_surrounding True False \<and> \<not>  should_upgrade_on_surrounding True True)"

lemma ibus_sink_tests_pass:
  "vk_key_uses_evdev_keycode_for_forward_event
   \<and> ibus_does_not_claim_key_channel_commit_support
   \<and> ibus_forward_key_replacement_is_one_whole_commit_text
   \<and> method_selection_prefers_surrounding
   \<and> method_selection_falls_back_to_forward_key
   \<and> surrounding_frame_upgrades_only_without_explicit_caps_clear"
  by code_simp

end
