(* ===== verification/UnitTestsKeys.thy ===== *)
theory UnitTestsKeys
  imports Evdev WaylandAdapter
begin

text \<open>
  The unit tests of \<^verbatim>\<open>keymap\<close>, \<^verbatim>\<open>key-emitter\<close>, \<^verbatim>\<open>evdev-adapter\<close> and \<^verbatim>\<open>wayland-adapter\<close>, run on the
  model. The US keymap that libxkbcommon compiles for them is here the few keys they press.
\<close>

section \<open>The keymap\<close>

definition slots_under_kernel_key_max :: "bool" where
  "slots_under_kernel_key_max \<longleftrightarrow>
    (Max (set SAFE_KEYCODES) \<le> 767)"

definition safe_keycodes_skip_known_hostile_codes :: "bool" where
  "safe_keycodes_skip_known_hostile_codes \<longleftrightarrow>
    (list_all (\<lambda>hostile. hostile \<notin> set SAFE_KEYCODES)
       [116, 142, 143, 205, 224, 225, 227, 236, 237, 238, 239, 245, 246, 247])"

definition safe_keycodes_under_x11_8bit_ceiling :: "bool" where
  "safe_keycodes_under_x11_8bit_ceiling \<longleftrightarrow>
    (list_all (\<lambda>kc. kc \<le> 247) SAFE_KEYCODES)"

definition safe_keycodes_in_expected_zones :: "bool" where
  "safe_keycodes_in_expected_zones \<longleftrightarrow>
    (list_all (\<lambda>kc.
        let in_ime = 85 \<le> kc \<and> kc \<le> 94 \<and> kc \<noteq> 92;
            in_f_keys = 183 \<le> kc \<and> kc \<le> 189;
            in_intl = kc = 122 \<or> kc = 123 \<or> kc = 124
        in in_ime \<or> in_f_keys \<or> in_intl) SAFE_KEYCODES)"

definition level5_shift_evdev_not_in_safe_keycodes :: "bool" where
  "level5_shift_evdev_not_in_safe_keycodes \<longleftrightarrow>
    (LEVEL5_SHIFT_EVDEV \<notin> set SAFE_KEYCODES)"

definition vietnamese_lookup_returns_correct_level :: "bool" where
  "vietnamese_lookup_returns_correct_level \<longleftrightarrow>
    (let base = ucast (slot_keycode 0)
      in char_to_emit (VN_LOWER ! 0) = Some \<lparr>es_keycode = base, es_mods = 0\<rparr>
         \<and> char_to_emit (VN_UPPER ! 0) = Some \<lparr>es_keycode = base, es_mods = MOD_SHIFT_XKB\<rparr>
         \<and> char_to_emit (VN_LOWER ! 1) = Some \<lparr>es_keycode = base, es_mods = MOD_LEVEL3\<rparr>
         \<and> char_to_emit (VN_UPPER ! 1) = Some \<lparr>es_keycode = base, es_mods = MOD_SHIFT_XKB OR MOD_LEVEL3\<rparr>
         \<and> char_to_emit (VN_LOWER ! 2) = Some \<lparr>es_keycode = base, es_mods = MOD_LEVEL5\<rparr>
         \<and> char_to_emit (VN_UPPER ! 2) = Some \<lparr>es_keycode = base, es_mods = MOD_SHIFT_XKB OR MOD_LEVEL5\<rparr>
         \<and> char_to_emit (VN_LOWER ! 3) = Some \<lparr>es_keycode = base, es_mods = MOD_LEVEL3 OR MOD_LEVEL5\<rparr>
         \<and> char_to_emit (VN_UPPER ! 3) = Some \<lparr>es_keycode = base, es_mods = MOD_SHIFT_XKB OR MOD_LEVEL3 OR MOD_LEVEL5\<rparr>)"

lemma keymap_tests_pass_1:
  "slots_under_kernel_key_max
   \<and> safe_keycodes_skip_known_hostile_codes
   \<and> safe_keycodes_under_x11_8bit_ceiling
   \<and> safe_keycodes_in_expected_zones
   \<and> level5_shift_evdev_not_in_safe_keycodes
   \<and> vietnamese_lookup_returns_correct_level"
  by code_simp

definition ascii_lowercase_uses_standard_evdev :: "bool" where
  "ascii_lowercase_uses_standard_evdev \<longleftrightarrow>
    (char_to_emit 97 = Some \<lparr>es_keycode = 30, es_mods = 0\<rparr>
      \<and> char_to_emit 110 = Some \<lparr>es_keycode = 49, es_mods = 0\<rparr>
      \<and> char_to_emit 116 = Some \<lparr>es_keycode = 20, es_mods = 0\<rparr>
      \<and> char_to_emit 32 = Some \<lparr>es_keycode = 57, es_mods = 0\<rparr>)"

definition ascii_uppercase_uses_shift :: "bool" where
  "ascii_uppercase_uses_shift \<longleftrightarrow>
    (char_to_emit 65 = Some \<lparr>es_keycode = 30, es_mods = MOD_SHIFT_XKB\<rparr>
      \<and> char_to_emit 78 = Some \<lparr>es_keycode = 49, es_mods = MOD_SHIFT_XKB\<rparr>)"

definition no_dance_when_spec_mods_zero :: "bool" where
  "no_dance_when_spec_mods_zero \<longleftrightarrow>
    (plan_mod_dance 0 0 = None
      \<and> plan_mod_dance 0x01 0 = None
      \<and> plan_mod_dance 0x0C 0 = None)"

definition dance_l2_shift_with_no_user_mods :: "bool" where
  "dance_l2_shift_with_no_user_mods \<longleftrightarrow>
    (plan_mod_dance 0 0x01 = Some (0x01, 0))"

definition dance_l3_altgr_with_no_user_mods :: "bool" where
  "dance_l3_altgr_with_no_user_mods \<longleftrightarrow>
    (plan_mod_dance 0 0x80 = Some (0x80, 0))"

definition dance_l4_shift_altgr_with_no_user_mods :: "bool" where
  "dance_l4_shift_altgr_with_no_user_mods \<longleftrightarrow>
    (plan_mod_dance 0 0x81 = Some (0x81, 0))"

lemma keymap_tests_pass_2:
  "ascii_lowercase_uses_standard_evdev
   \<and> ascii_uppercase_uses_shift
   \<and> no_dance_when_spec_mods_zero
   \<and> dance_l2_shift_with_no_user_mods
   \<and> dance_l3_altgr_with_no_user_mods
   \<and> dance_l4_shift_altgr_with_no_user_mods"
  by code_simp

definition dance_or_combines_user_shift_with_spec_altgr :: "bool" where
  "dance_or_combines_user_shift_with_spec_altgr \<longleftrightarrow>
    (plan_mod_dance 0x01 0x80 = Some (0x81, 0x01))"

definition dance_preserves_ctrl_in_emit_and_restore :: "bool" where
  "dance_preserves_ctrl_in_emit_and_restore \<longleftrightarrow>
    (plan_mod_dance 0x04 0x81 = Some (0x85, 0x04))"

definition dance_ctrl_shift_held_with_spec_altgr :: "bool" where
  "dance_ctrl_shift_held_with_spec_altgr \<longleftrightarrow>
    (plan_mod_dance 0x05 0x80 = Some (0x85, 0x05))"

definition dance_alt_held_with_spec_shift :: "bool" where
  "dance_alt_held_with_spec_shift \<longleftrightarrow>
    (plan_mod_dance 0x08 0x01 = Some (0x09, 0x08))"

definition dance_user_already_holding_spec_mods_still_dances :: "bool" where
  "dance_user_already_holding_spec_mods_still_dances \<longleftrightarrow>
    (plan_mod_dance 0x81 0x81 = Some (0x81, 0x81))"

definition dance_l5_levelfive_with_no_user_mods :: "bool" where
  "dance_l5_levelfive_with_no_user_mods \<longleftrightarrow>
    (plan_mod_dance 0 0x20 = Some (0x20, 0))"

lemma keymap_tests_pass_3:
  "dance_or_combines_user_shift_with_spec_altgr
   \<and> dance_preserves_ctrl_in_emit_and_restore
   \<and> dance_ctrl_shift_held_with_spec_altgr
   \<and> dance_alt_held_with_spec_shift
   \<and> dance_user_already_holding_spec_mods_still_dances
   \<and> dance_l5_levelfive_with_no_user_mods"
  by code_simp

definition dance_l8_all_three_mods :: "bool" where
  "dance_l8_all_three_mods \<longleftrightarrow>
    (plan_mod_dance 0 0xA1 = Some (0xA1, 0))"

definition dance_preserves_user_ctrl_with_l5_spec :: "bool" where
  "dance_preserves_user_ctrl_with_l5_spec \<longleftrightarrow>
    (plan_mod_dance 0x04 0x20 = Some (0x24, 0x04))"

definition telex_coverage_under_x11_ceiling :: "bool" where
  "telex_coverage_under_x11_ceiling \<longleftrightarrow>
    (list_all (\<lambda>c. case char_to_emit c of Some s \<Rightarrow> es_keycode s \<le> 247 | None \<Rightarrow> False)
       [0xE0, 0x1EA7, 0x1EBF, 0x1EDD, 0x1EEF, 0x1EB7, 0x111, 0x1EA6, 0x1EBE, 0x110])"

lemma keymap_tests_pass_4:
  "dance_l8_all_three_mods
   \<and> dance_preserves_user_ctrl_with_l5_spec
   \<and> telex_coverage_under_x11_ceiling"
  by code_simp

section \<open>Sending a character\<close>

datatype emitted = KeyEvent u32 u32 u32 | ModifiersEvent u32 u32 u32 u32

definition mock_emitter :: "bool \<Rightarrow> emitted list key_emitter" where
  "mock_emitter echo_through_grab =
     \<lparr>ke_emit_key = (\<lambda>time keycode v log. log @ [KeyEvent time keycode v]),
      ke_emit_modifiers = (\<lambda>dep lat lock grp log. log @ [ModifiersEvent dep lat lock grp]),
      ke_modifier_echo_through_grab = echo_through_grab, ke_sync_barrier = default_sync_barrier\<rparr>"

text \<open>The fixture: no echo is expected yet, and no modifier held.\<close>

definition emit_mock :: "bool \<Rightarrow> u32 option \<Rightarrow> u32 \<Rightarrow> uchar \<Rightarrow> bool \<times> synthetic_mods \<times> emitted list" where
  "emit_mock echo held time c =
     emit_char (mock_emitter echo) 0
       \<lparr>ep_raw_mods = (0, 0, 0, 0), ep_held_user_kc = held, ep_time = time, ep_c = c\<rparr>
       (\<lparr>sm_pending = 0, sm_expected = [], sm_emitted_at = None\<rparr>, [])"

definition emit_char_unknown_returns_false :: "bool" where
  "emit_char_unknown_returns_false \<longleftrightarrow>
    (let (ok, sm, log) = emit_mock True None 0 0xFFFF
      in \<not>  ok \<and> log = [] \<and> sm_pending sm = 0 \<and> sm_expected sm = [])"

definition emit_char_known_char_emits_press_release :: "bool" where
  "emit_char_known_char_emits_press_release \<longleftrightarrow>
    (let (ok, sm, log) = emit_mock True None 42 0xE2;
         keys = List.map_filter (\<lambda>e. case e of KeyEvent t kc v \<Rightarrow> Some (t, kc, v) | _ \<Rightarrow> None) log
      in ok \<and> length keys = 2 \<and> snd (snd (keys ! 0)) = 1 \<and> snd (snd (keys ! 1)) = 0
         \<and> fst (snd (keys ! 0)) = fst (snd (keys ! 1)) \<and> fst (keys ! 0) = 42)"

definition emit_char_bumps_pending_when_echo_grab :: "bool" where
  "emit_char_bumps_pending_when_echo_grab \<longleftrightarrow>
    (let (ok, sm, log) = emit_mock True None 0 0xC2;
         emitted_modifiers = List.map_filter (\<lambda>e. case e of
           ModifiersEvent dep lat lock grp \<Rightarrow> Some (dep, lat, lock, grp) | _ \<Rightarrow> None) log
      in ok \<and> sm_pending sm = 2 \<and> sm_expected sm = emitted_modifiers \<and> sm_emitted_at sm \<noteq> None)"

definition emit_char_no_bump_when_no_grab_echo :: "bool" where
  "emit_char_no_bump_when_no_grab_echo \<longleftrightarrow>
    (let (ok, sm, log) = emit_mock False None 0 0xC2
      in ok \<and> sm_pending sm = 0 \<and> sm_expected sm = [] \<and> sm_emitted_at sm = None)"

definition emit_char_path_a_prelude_release :: "bool" where
  "emit_char_path_a_prelude_release \<longleftrightarrow>
    (let log = snd (snd (emit_mock True None 0 0xE2))
      in case List.map_filter (\<lambda>e. case e of KeyEvent t kc v \<Rightarrow> if v = 1 then Some kc else None | _ \<Rightarrow> None) log of
           [] \<Rightarrow> False
         | kc # _ \<Rightarrow>
             (let (ok, sm, log2) = emit_mock True (Some kc) 0 0xE2
              in ok \<and> log2 \<noteq> [] \<and> hd log2 = KeyEvent 0 kc 0))"

lemma emission_tests_pass:
  "emit_char_unknown_returns_false
   \<and> emit_char_known_char_emits_press_release
   \<and> emit_char_bumps_pending_when_echo_grab
   \<and> emit_char_no_bump_when_no_grab_echo
   \<and> emit_char_path_a_prelude_release"
  by code_simp

section \<open>The evdev loop\<close>

text \<open>
  The emitter keeps the key codes and values, the handler answers from a list of decisions and
  swallows keys when the list is used up. The keymap knows the key S.
\<close>

definition capturing_emitter :: "(u32 \<times> u32) list key_emitter" where
  "capturing_emitter =
     \<lparr>ke_emit_key = (\<lambda>time keycode v events. events @ [(keycode, v)]),
      ke_emit_modifiers = (\<lambda>dep lat lock grp events. events),
      ke_modifier_echo_through_grab = default_modifier_echo_through_grab,
      ke_sync_barrier = default_sync_barrier\<rparr>"

definition mock_handler :: "key_decision list evdev_handler" where
  "mock_handler =
     \<lparr>eh_handle_char = (\<lambda>code ch ds. case ds of [] \<Rightarrow> (Consumed, []) | d # ds' \<Rightarrow> (d, ds')),
      eh_handle_backspace = (\<lambda>ds. (ForwardRaw, ds)), eh_clear_session = (\<lambda>ds. ds),
      eh_clear_last_input_char = (\<lambda>ds. ds), eh_full_reset_window = (\<lambda>ds. ds),
      eh_check_idle_reset_window = (\<lambda>ds. ds)\<rparr>"

definition test_adapter :: "((u32 \<times> u32) list, unit, u32) evdev_adapter" where
  "test_adapter = evdev_prepare [] (xkb_from_keymap toy_xkb ())"

text \<open>Key S with these values in turn: the adapter and the decisions left over.\<close>

definition key_s :: "32 word list \<Rightarrow> key_decision list \<Rightarrow>
    ((u32 \<times> u32) list, unit, u32) evdev_adapter \<times> key_decision list" where
  "key_s vs ds =
     fold (\<lambda>v. process_event capturing_emitter toy_xkb mock_handler 0
                 \<lparr>ie_type = EV_KEY, ie_code = 31, ie_value = v\<rparr>) vs (test_adapter, ds)"

definition consumed_press_drops_its_release :: "bool" where
  "consumed_press_drops_its_release \<longleftrightarrow>
    (let (adapter, ds) = key_s [1, 0] [Consumed]
      in ea_output adapter = [] \<and> 31 \<notin> ea_forwarded_press adapter)"

definition forwarded_press_forwards_its_release :: "bool" where
  "forwarded_press_forwards_its_release \<longleftrightarrow>
    (let (adapter, ds) = key_s [1, 0] [ForwardRaw]
      in ea_output adapter = [(31, 1), (31, 0)] \<and> 31 \<notin> ea_forwarded_press adapter)"

definition autorepeat_of_forwarded_key_reforwards :: "bool" where
  "autorepeat_of_forwarded_key_reforwards \<longleftrightarrow>
    (let (adapter, ds) = key_s [1, 2] [ForwardRaw, ForwardRaw]
      in ea_output adapter = [(31, 1), (31, 2)] \<and> ds = [])"

definition autorepeat_of_compose_key_recomposes :: "bool" where
  "autorepeat_of_compose_key_recomposes \<longleftrightarrow>
    (let (adapter, ds) = key_s [1, 2] [Consumed, Apply ForwardKey 1 (lit ''a'')]
      in ds = [] \<and> ea_output adapter \<noteq> [])"

definition first_raw_forward_of_held_key_emits_press_not_dangling_repeat :: "bool" where
  "first_raw_forward_of_held_key_emits_press_not_dangling_repeat \<longleftrightarrow>
    (let (adapter, ds) = key_s [1, 2, 2] [Consumed, ForwardRaw, ForwardRaw]
      in ea_output adapter = [(31, 1), (31, 2)])"

lemma evdev_loop_tests_pass:
  "consumed_press_drops_its_release
   \<and> forwarded_press_forwards_its_release
   \<and> autorepeat_of_forwarded_key_reforwards
   \<and> autorepeat_of_compose_key_recomposes
   \<and> first_raw_forward_of_held_key_emits_press_not_dangling_repeat"
  by code_simp

section \<open>The Wayland adapter\<close>

definition profile_for_imv2_has_vk_no_keysym :: "bool" where
  "profile_for_imv2_has_vk_no_keysym \<longleftrightarrow>
    (let p = for_protocol ImV2
      in tp_protocol p = ImV2 \<and> tp_has_vk_keyboard p \<and> \<not>  tp_has_keysym_commit p
         \<and> \<not>  tp_heartbeats_done p \<and> tp_delivers_commit_string p \<and> tp_can_receive_surrounding p)"

definition profile_for_imv1_no_vk_has_keysym :: "bool" where
  "profile_for_imv1_no_vk_has_keysym \<longleftrightarrow>
    (let p = for_protocol ImV1
      in tp_protocol p = ImV1 \<and> \<not>  tp_has_vk_keyboard p \<and> tp_has_keysym_commit p
         \<and> tp_heartbeats_done p \<and> tp_delivers_commit_string p \<and> tp_can_receive_surrounding p)"

definition vk_keyboard_capability_follows_protocol_not_name :: "bool" where
  "vk_keyboard_capability_follows_protocol_not_name \<longleftrightarrow>
    (\<not>  tp_has_vk_keyboard (for_protocol ImV1) \<and> tp_has_vk_keyboard (for_protocol ImV2))"

definition focus_is_not_implied_by_protocol :: "bool" where
  "focus_is_not_implied_by_protocol \<longleftrightarrow>
    (tp_focus (for_protocol ImV1) = FocusNone \<and> tp_focus (for_protocol ImV2) = FocusNone)"

definition profile_can_pair_any_protocol_with_any_focus :: "bool" where
  "profile_can_pair_any_protocol_with_any_focus \<longleftrightarrow>
    (let v1_wlr = (for_protocol ImV1)\<lparr>tp_focus := WlrForeignToplevel\<rparr>;
         v2_plasma = (for_protocol ImV2)\<lparr>tp_focus := KdePlasma\<rparr>
      in tp_protocol v1_wlr = ImV1 \<and> tp_focus v1_wlr = WlrForeignToplevel \<and> \<not>  tp_has_vk_keyboard v1_wlr
         \<and> tp_protocol v2_plasma = ImV2 \<and> tp_focus v2_plasma = KdePlasma)"

text \<open>
  The US keymap of the tests: the keys O (24) and L (38), the left Shift (42), which does not
  repeat, and the modifier Shift.
\<close>

definition us_for_test :: "(unit, u32) xkb_lib" where
  "us_for_test =
     \<lparr>xl_state_new = (\<lambda>_. 0), xl_update_mask = (\<lambda>dep _ _ _ _. dep),
      xl_key_get_one_sym = (\<lambda>_ kc. if kc = 32 then 0x6F else if kc = 46 then 0x6C else 0),
      xl_key_get_layout = (\<lambda>_ _. 0),
      xl_key_get_syms_by_level = (\<lambda>_ kc _ _. if kc = 32 then [0x6F] else if kc = 46 then [0x6C] else []),
      xl_key_repeats = (\<lambda>_ kc. kc \<noteq> 50),
      xl_mod_get_index = (\<lambda>_ name. if name = ''Shift'' then 0 else MOD_INVALID),
      xl_keysym_to_utf32 = (\<lambda>k. k), xl_utf32_to_keysym = (\<lambda>k. k)\<rparr>"

definition noop_handler :: "(unit, 'x) adapter_handler" where
  "noop_handler =
     \<lparr>ah_on_done_frame = (\<lambda>_ s. s), ah_on_key_pressed = (\<lambda>_ _ _ s. (Consumed, s)),
      ah_apply_pending = (\<lambda>_ _ _ _ _ s. s), ah_on_key_released = default_on_key_released,
      ah_on_modifiers = (\<lambda>_ s. s)\<rparr>"

definition apply_handler :: "(unit, 'x) adapter_handler" where
  "apply_handler = noop_handler\<lparr>ah_on_key_pressed := (\<lambda>_ _ _ s. (Apply ForwardKey 0 [111], s))\<rparr>"

text \<open>\<open>set\_info(25, 600)\<close>, the US keymap, and one press at time 0.\<close>

definition pressed_at_1234 :: "u32 \<Rightarrow> unit \<times> (unit, u32) adapter_state" where
  "pressed_at_1234 key =
     dispatch_key_press apply_handler us_for_test 0 1234 key
       ((), adapter_state_new\<lparr>as_xkb := Some (xkb_from_keymap us_for_test ()),
              as_client_repeat := repeat_set_info 25 600 client_repeat_default\<rparr>)"

definition applied_key_arms_client_repeat_until_release :: "bool" where
  "applied_key_arms_client_repeat_until_release \<longleftrightarrow>
    (let (h, st) = pressed_at_1234 24;
         (h2, st2) = dispatch_key_release apply_handler 1000000 2234 24 (h, st)
      in repeat_deadline (as_client_repeat st) \<noteq> None \<and> repeat_deadline (as_client_repeat st2) = None)"

lemma wayland_tests_pass_1:
  "profile_for_imv2_has_vk_no_keysym
   \<and> profile_for_imv1_no_vk_has_keysym
   \<and> vk_keyboard_capability_follows_protocol_not_name
   \<and> focus_is_not_implied_by_protocol
   \<and> profile_can_pair_any_protocol_with_any_focus
   \<and> applied_key_arms_client_repeat_until_release"
  by code_simp

definition applied_nonrepeatable_key_does_not_arm_client_repeat :: "bool" where
  "applied_nonrepeatable_key_does_not_arm_client_repeat \<longleftrightarrow>
    (repeat_deadline (as_client_repeat (snd (pressed_at_1234 42))) = None)"

definition real_modifier_update_is_not_swallowed_by_pending_synthetic_echo :: "bool" where
  "real_modifier_update_is_not_swallowed_by_pending_synthetic_echo \<longleftrightarrow>
    (let st = adapter_state_new\<lparr>as_xkb := Some (xkb_from_keymap us_for_test ()),
                as_synthetic_mods := \<lparr>sm_pending = 1, sm_expected = [], sm_emitted_at = Some 0\<rparr>\<rparr>;
         (h, st2) = handle_modifiers noop_handler us_for_test 0 (1, 0, 0, 0) ((), st)
      in mods_contains (as_modifiers st2) MOD_SHIFT \<and> as_raw_mods st2 = (1, 0, 0, 0))"

definition client_timer_raw_repeat_is_a_balanced_pulse :: "bool" where
  "client_timer_raw_repeat_is_a_balanced_pulse \<longleftrightarrow>
    (repeat_forward_values True = [1, 0] \<and> repeat_forward_values False = [2])"

definition fresh_state :: "(unit, u32) adapter_state" where
  "fresh_state = adapter_state_new"

definition press_value_is_2_only_while_forwarding_repeat :: "bool" where
  "press_value_is_2_only_while_forwarding_repeat \<longleftrightarrow>
    (let s1 = fresh_state\<lparr>as_forwarding_repeat := True\<rparr>;
         s2 = s1\<lparr>as_forwarding_repeat := False\<rparr>
      in press_value fresh_state = 1 \<and> press_value s1 = 2 \<and> press_value s2 = 1)"

definition held_user_kc_tracks_unreleased_forwarded_press :: "bool" where
  "held_user_kc_tracks_unreleased_forwarded_press \<longleftrightarrow>
    (let press_at = 0;
         s1 = fresh_state\<lparr>as_last_forwarded_key := Some (38, press_at)\<rparr>;
         s2 = s1\<lparr>as_last_forwarded_release := Some (39, press_at + millis 1)\<rparr>;
         s3 = s2\<lparr>as_last_forwarded_release := Some (38, press_at + millis 2)\<rparr>
      in held_user_kc fresh_state = None \<and> held_user_kc s1 = Some 38
         \<and> held_user_kc s2 = Some 38 \<and> held_user_kc s3 = None)"

definition is_level_shifted_compares_decoded_char_to_base_level :: "bool" where
  "is_level_shifted_compares_decoded_char_to_base_level \<longleftrightarrow>
    (let s2 = fresh_state\<lparr>as_xkb := Some (xkb_from_keymap us_for_test ())\<rparr>
      in \<not>  as_forwarding_repeat fresh_state \<and> \<not>  ctx_is_level_shifted us_for_test fresh_state 38 76
         \<and> ctx_is_level_shifted us_for_test s2 38 76 \<and> \<not>  ctx_is_level_shifted us_for_test s2 38 108)"

lemma wayland_tests_pass_2:
  "applied_nonrepeatable_key_does_not_arm_client_repeat
   \<and> real_modifier_update_is_not_swallowed_by_pending_synthetic_echo
   \<and> client_timer_raw_repeat_is_a_balanced_pulse
   \<and> press_value_is_2_only_while_forwarding_repeat
   \<and> held_user_kc_tracks_unreleased_forwarded_press
   \<and> is_level_shifted_compares_decoded_char_to_base_level"
  by code_simp

definition consumed_key_arms_repeat_after_compositor_delay :: "bool" where
  "consumed_key_arms_repeat_after_compositor_delay \<longleftrightarrow>
    (let now = 0;
         r = repeat_arm 24 1234 now (repeat_set_info 25 600 client_repeat_default);
         (event, r2) = repeat_fire (now + millis 600) r
      in repeat_deadline r = Some (now + millis 600) \<and> event = Some (24, 1834)
         \<and> repeat_deadline r2 = Some (now + millis 640))"

definition release_and_zero_rate_cancel_repeat :: "bool" where
  "release_and_zero_rate_cancel_repeat \<longleftrightarrow>
    (let now = 0;
         r1 = repeat_release 24 (repeat_arm 24 1234 now (repeat_set_info 25 600 client_repeat_default));
         r2 = repeat_set_info 0 600 (repeat_arm 24 1234 now r1)
      in repeat_deadline r1 = None \<and> repeat_deadline r2 = None)"

definition release_of_another_key_does_not_cancel_repeat :: "bool" where
  "release_of_another_key_does_not_cancel_repeat \<longleftrightarrow>
    (let now = 0;
         r = repeat_arm 24 1234 now (repeat_set_info 25 600 client_repeat_default)
      in repeat_deadline (repeat_release 38 r) = Some (now + millis 600))"

definition v1_mapped_keysym_under_depressed_modifier_needs_modifier_guard :: "bool" where
  "v1_mapped_keysym_under_depressed_modifier_needs_modifier_guard \<longleftrightarrow>
    (v1_keysym_needs_modifier_guard False False (1, 0, 0, 0)
      \<and> \<not>  v1_keysym_needs_modifier_guard False True (1, 0, 0, 0)
      \<and> \<not>  v1_keysym_needs_modifier_guard True False (1, 0, 0, 0)
      \<and> \<not>  v1_keysym_needs_modifier_guard False False (0, 0, 0, 0)
      \<and> \<not>  v1_keysym_needs_modifier_guard False False (0, 0, 0, 1))"

definition forward_backspace_under_depressed_modifier_needs_modifier_guard :: "bool" where
  "forward_backspace_under_depressed_modifier_needs_modifier_guard \<longleftrightarrow>
    (forward_backspace_needs_modifier_guard 14 (1, 0, 0, 0)
      \<and> \<not>  forward_backspace_needs_modifier_guard 14 (0, 0, 0, 0)
      \<and> \<not>  forward_backspace_needs_modifier_guard 14 (0, 0, 0, 1)
      \<and> \<not>  forward_backspace_needs_modifier_guard 30 (1, 0, 0, 0))"

lemma wayland_tests_pass_3:
  "consumed_key_arms_repeat_after_compositor_delay
   \<and> release_and_zero_rate_cancel_repeat
   \<and> release_of_another_key_does_not_cancel_repeat
   \<and> v1_mapped_keysym_under_depressed_modifier_needs_modifier_guard
   \<and> forward_backspace_under_depressed_modifier_needs_modifier_guard"
  by code_simp

end
