(* ===== verification/UnitTestsDaemon.thy ===== *)
theory UnitTestsDaemon
  imports UnitTestsText UnitTestsKeys Supervisor
begin

text \<open>
  The unit tests of the daemon's key routing, of the supervisor's targets and of the evdev hooks,
  run on the model. As in the theory \<open>UnitTestsText\<close>, \<open>toy_vnkey\<close> stands for the library in tests
  that do not look at what it composes, and the clock stands still.
\<close>

section \<open>The daemon and its sessions\<close>

definition test_daemon :: "ustr daemon" where
  "test_daemon = daemon_new config_default True None"

definition session_daemon :: "backspace_method \<Rightarrow> ustr daemon" where
  "session_daemon m = test_daemon
     \<lparr>dm_router := (dm_router test_daemon)\<lparr>rt_current_active := True,
        rt_composer := Some (composer_new toy_vnkey 0 Telex m False)\<rparr>\<rparr>"

definition test_frame :: "ustr \<Rightarrow> u32 \<Rightarrow> u32 \<Rightarrow> frame_snapshot" where
  "test_frame t cursor anchor =
     \<lparr>fs_activate = False, fs_deactivate = False, fs_surrounding_text = Some (t, cursor, anchor),
      fs_purpose = 0, fs_app_id = None, fs_is_xwayland = False\<rparr>"

definition daemon_initializes_router_lifecycle_state :: "bool" where
  "daemon_initializes_router_lifecycle_state \<longleftrightarrow>
    (let r = dm_router test_daemon
      in \<not>  rt_current_active r \<and> \<not>  rt_synthetic_active r \<and> rt_composer r = None
         \<and> rt_focused_app_id r = None \<and> rt_last_enabled r)"

definition detect_capability_present_surrounding_is_surrounding_text :: "bool" where
  "detect_capability_present_surrounding_is_surrounding_text \<longleftrightarrow>
    (let f = (test_frame [] 0 0)\<lparr>fs_purpose := 13\<rparr>
      in detect_method (fs_surrounding_text f \<noteq> None) = SurroundingText)"

definition detect_capability_absent_surrounding_is_forward_key :: "bool" where
  "detect_capability_absent_surrounding_is_forward_key \<longleftrightarrow>
    (let f = (test_frame [] 0 0)\<lparr>fs_surrounding_text := None\<rparr>
      in detect_method (fs_surrounding_text f \<noteq> None) = ForwardKey)"

definition native_focus_without_text_input_synthesizes_forward_key_session :: "bool" where
  "native_focus_without_text_input_synthesizes_forward_key_session \<longleftrightarrow>
    (let ctx = context_of us_for_test 0 fresh_state;
         r = dm_router (on_focus_changed toy_vnkey 0 ctx (Some (lit ''com.mitchellh.ghostty'')) test_daemon)
      in rt_current_active r \<and> rt_synthetic_active r \<and> rt_focused_app_id r = Some (lit ''com.mitchellh.ghostty'')
         \<and> (case rt_composer r of Some c \<Rightarrow> cp_method c = ForwardKey \<and> \<not>  cp_commit_string_functional c | None \<Rightarrow> False))"

lemma session_tests_pass_1:
  "daemon_initializes_router_lifecycle_state
   \<and> detect_capability_present_surrounding_is_surrounding_text
   \<and> detect_capability_absent_surrounding_is_forward_key
   \<and> native_focus_without_text_input_synthesizes_forward_key_session"
  by code_simp

definition focus_without_vk_does_not_synthesize_session :: "bool" where
  "focus_without_vk_does_not_synthesize_session \<longleftrightarrow>
    (let st = fresh_state\<lparr>as_profile := (as_profile fresh_state)\<lparr>tp_has_vk_keyboard := False\<rparr>\<rparr>;
         r = dm_router (on_focus_changed toy_vnkey 0 (context_of us_for_test 0 st) (Some (lit ''com.mitchellh.ghostty'')) test_daemon)
      in \<not>  rt_current_active r \<and> \<not>  rt_synthetic_active r \<and> rt_composer r = None)"

definition last_input :: "ustr daemon \<Rightarrow> uchar option" where
  "last_input d = (case dm_composer d of Some w \<Rightarrow> cp_last_input_char w | None \<Rightarrow> None)"

definition sync_enabled_edge_gates_and_resets_inflight :: "bool" where
  "sync_enabled_edge_gates_and_resets_inflight \<longleftrightarrow>
    (let (on1, d1) = sync_enabled_edge toy_vnkey (session_daemon SurroundingText);
         d2 = snd (handle_char toy_vnkey 0 104 d1);
         (on2, d3) = sync_enabled_edge toy_vnkey (d2\<lparr>dm_enabled := False\<rparr>)
      in on1 \<and> last_input d2 \<noteq> None \<and> \<not>  on2 \<and> last_input d3 = None)"

lemma session_tests_pass_2:
  "focus_without_vk_does_not_synthesize_session
   \<and> sync_enabled_edge_gates_and_resets_inflight"
  by code_simp

section \<open>Repeats and shifted keys under Wayland\<close>

text \<open>\<open>on_key_pressed\<close> on a fresh adapter state, with or without the repeat flag.\<close>

definition press_key :: "bool \<Rightarrow> u32 \<Rightarrow> uchar option \<Rightarrow> ustr daemon \<Rightarrow> key_decision \<times> ustr daemon" where
  "press_key repeat key ch d =
     (let st = fresh_state\<lparr>as_forwarding_repeat := repeat\<rparr>;
          (decision, d', st') = on_key_pressed toy_vnkey 0 (context_of us_for_test 0 st) 0 key ch (d, st)
      in (decision, d'))"

definition raw_forward_key_repeat_is_forwarded_raw :: "bool" where
  "raw_forward_key_repeat_is_forwarded_raw \<longleftrightarrow>
    (fst (press_key True 6 (Some 53) (session_daemon SurroundingText)) = ForwardRaw)"

definition backspace_repeat_is_processed_not_swallowed :: "bool" where
  "backspace_repeat_is_processed_not_swallowed \<longleftrightarrow>
    (fst (press_key True 14 None (session_daemon SurroundingText)) = ForwardRaw)"

definition nav_key_repeat_is_consumed_and_forwarded :: "bool" where
  "nav_key_repeat_is_consumed_and_forwarded \<longleftrightarrow>
    (let d = snd (press_key False 105 None (session_daemon SurroundingText))
      in fst (press_key True 105 None d) = Consumed \<and> 105 \<in> set NAV_KEYS)"

definition modifier_shortcut_repeat_is_consumed :: "bool" where
  "modifier_shortcut_repeat_is_consumed \<longleftrightarrow>
    (let d = session_daemon SurroundingText;
         d' = d\<lparr>dm_router := (dm_router d)\<lparr>rt_modifiers := MOD_CTRL\<rparr>\<rparr>
      in fst (press_key True 105 None d') = Consumed)"

lemma repeat_tests_pass_1:
  "raw_forward_key_repeat_is_forwarded_raw
   \<and> backspace_repeat_is_processed_not_swallowed
   \<and> nav_key_repeat_is_consumed_and_forwarded
   \<and> modifier_shortcut_repeat_is_consumed"
  by code_simp

text \<open>Key L with the US keymap, under either protocol, in a session of the key tier.\<close>

definition press_l :: "im_protocol \<Rightarrow> uchar \<Rightarrow> key_decision \<times> ustr daemon" where
  "press_l protocol ch =
     (let st = fresh_state\<lparr>as_profile := for_protocol protocol, as_xkb := Some (xkb_from_keymap us_for_test ())\<rparr>;
          (decision, d, st') = on_key_pressed toy_vnkey 0 (context_of us_for_test 0 st) 0 38 (Some ch)
                                 (session_daemon ForwardKey, st)
      in (decision, d))"

definition v1_level_shifted_passthrough_commits_decoded_char :: "bool" where
  "v1_level_shifted_passthrough_commits_decoded_char \<longleftrightarrow>
    (case fst (press_l ImV1 76) of Apply m backspaces commit \<Rightarrow> backspaces = 0 \<and> commit = (lit ''L'') | _ \<Rightarrow> False)"

definition v1_level_shifted_passthrough_is_not_recorded_as_raw_forward :: "bool" where
  "v1_level_shifted_passthrough_is_not_recorded_as_raw_forward \<longleftrightarrow>
    (let (decision, d) = press_l ImV1 76
      in (case decision of Apply m b c \<Rightarrow> True | _ \<Rightarrow> False)
         \<and> (case dm_composer d of Some w \<Rightarrow> shadow_text w = [] | None \<Rightarrow> False))"

definition v1_base_level_passthrough_still_forwards_raw :: "bool" where
  "v1_base_level_passthrough_still_forwards_raw \<longleftrightarrow>
    (fst (press_l ImV1 108) = ForwardRaw)"

definition v2_level_shifted_passthrough_still_forwards_raw :: "bool" where
  "v2_level_shifted_passthrough_still_forwards_raw \<longleftrightarrow>
    (fst (press_l ImV2 76) = ForwardRaw)"

lemma repeat_tests_pass_2:
  "v1_level_shifted_passthrough_commits_decoded_char
   \<and> v1_level_shifted_passthrough_is_not_recorded_as_raw_forward
   \<and> v1_base_level_passthrough_still_forwards_raw
   \<and> v2_level_shifted_passthrough_still_forwards_raw"
  by code_simp

section \<open>Changes of the configuration\<close>

definition change_to :: "method_config \<Rightarrow> bool \<Rightarrow> config_change" where
  "change_to m modern = \<lparr>cc_method = m, cc_modern_style = modern, cc_enable_evdev_grab = False\<rparr>"

text \<open>A watch channel keeps the value sent last.\<close>

definition sent :: "config_change \<Rightarrow> ustr daemon \<Rightarrow> ustr daemon" where
  "sent change d = d\<lparr>dm_config_change_rx := Some change\<rparr>"

definition full_state_struct_applies_method_and_modern_style_together :: "bool" where
  "full_state_struct_applies_method_and_modern_style_together \<longleftrightarrow>
    (let d = sync_config toy_vnkey (sent (change_to VniConfig False) test_daemon)
      in cf_method (dm_config test_daemon) = TelexConfig \<and> cf_modern_style (dm_config test_daemon)
         \<and> cf_method (dm_config d) = VniConfig \<and> \<not>  cf_modern_style (dm_config d))"

definition noop_update_does_not_reset_engine_inflight :: "bool" where
  "noop_update_does_not_reset_engine_inflight \<longleftrightarrow>
    (let d1 = snd (handle_char toy_vnkey 0 104 (session_daemon SurroundingText));
         d2 = sync_config toy_vnkey (sent (change_to TelexConfig True) d1)
      in last_input d1 \<noteq> None \<and> last_input d2 \<noteq> None)"

definition sequential_sends_apply_latest_config :: "bool" where
  "sequential_sends_apply_latest_config \<longleftrightarrow>
    (let d = sync_config toy_vnkey (sent (change_to TelexConfig False) (sent (change_to VniConfig True) test_daemon))
      in cf_method (dm_config d) = TelexConfig \<and> \<not>  cf_modern_style (dm_config d))"

definition method_change_resets_engine_state :: "bool" where
  "method_change_resets_engine_state \<longleftrightarrow>
    (let d1 = snd (handle_char toy_vnkey 0 104 (session_daemon SurroundingText));
         d2 = sync_config toy_vnkey (sent (change_to VniConfig True) d1)
      in last_input d1 \<noteq> None \<and> last_input d2 = None \<and> cf_method (dm_config d2) = VniConfig)"

lemma config_change_tests_pass:
  "full_state_struct_applies_method_and_modern_style_together
   \<and> noop_update_does_not_reset_engine_inflight
   \<and> sequential_sends_apply_latest_config
   \<and> method_change_resets_engine_state"
  by code_simp

section \<open>The evdev transport\<close>

definition evdev_chars :: "(u32 \<times> uchar) list \<Rightarrow> ustr daemon \<Rightarrow> key_decision list \<times> ustr daemon" where
  "evdev_chars keys d =
     fold (\<lambda>(code, ch) (ks, d). let (k, d') = eh_handle_char (daemon_handler toy_vnkey 0) code ch d in (ks @ [k], d'))
       keys ([], d)"

definition disabled_forwards_raw_never_composes :: "bool" where
  "disabled_forwards_raw_never_composes \<longleftrightarrow>
    (let (ks, d) = evdev_chars [(35, 104), (24, 111), (17, 119)] ((session_daemon SurroundingText)\<lparr>dm_enabled := False\<rparr>)
      in ks = [ForwardRaw, ForwardRaw, ForwardRaw]
         \<and> fst (eh_handle_backspace (daemon_handler toy_vnkey 0) d) = ForwardRaw)"

definition toggling_off_resets_inflight_composition :: "bool" where
  "toggling_off_resets_inflight_composition \<longleftrightarrow>
    (let d1 = snd (evdev_chars [(35, 104), (24, 111)] (session_daemon SurroundingText));
         d2 = snd (evdev_chars [(49, 110)] (d1\<lparr>dm_enabled := False\<rparr>))
      in last_input d1 \<noteq> None \<and> last_input d2 = None)"

lemma evdev_transport_tests_pass:
  "disabled_forwards_raw_never_composes
   \<and> toggling_off_resets_inflight_composition"
  by code_simp

section \<open>The targets of the supervisor\<close>

definition native_resolves_from_config_even_when_evdev_startup_is_enabled :: "bool" where
  "native_resolves_from_config_even_when_evdev_startup_is_enabled \<longleftrightarrow>
    (let cfg = config_default\<lparr>cf_enable_wayland := True, cf_enable_evdev_grab := True\<rparr>
      in resolve_target \<lparr>ft_ibus = False, ft_evdev_grab = True\<rparr> (supervisor_new cfg True True AutoBackend) NativeTarget = Inr WaylandBackend)"

definition toggle_resolves_opposite_current_backend :: "bool" where
  "toggle_resolves_opposite_current_backend \<longleftrightarrow>
    (let cfg = config_default\<lparr>cf_enable_wayland := True\<rparr>;
         ft = \<lparr>ft_ibus = False, ft_evdev_grab = True\<rparr>
      in resolve_target ft (supervisor_new cfg True True WaylandBackend) ToggleTarget = Inr EvdevBackend
         \<and> resolve_target ft (supervisor_new cfg True True EvdevBackend) ToggleTarget = Inr WaylandBackend)"

lemma target_tests_pass:
  "native_resolves_from_config_even_when_evdev_startup_is_enabled
   \<and> toggle_resolves_opposite_current_backend"
  by code_simp

section \<open>The evdev hooks\<close>

definition hook_names_allow_safe_ascii :: "bool" where
  "hook_names_allow_safe_ascii \<longleftrightarrow>
    (validate_hook_name (lit ''sway'') = None \<and> validate_hook_name (lit ''kde-6'') = None \<and> validate_hook_name (lit ''x11_custom'') = None)"

definition hook_names_reject_paths_and_shell_syntax :: "bool" where
  "hook_names_reject_paths_and_shell_syntax \<longleftrightarrow>
    (list_all (\<lambda>name. validate_hook_name name \<noteq> None)
        [[], (lit ''../x11''), (lit ''foo/bar''), (lit ''foo;rm''), (lit ''foo bar'')])"

text \<open>
  The system of these tests: its world is the list of hooks run so far. Only the paths in \<open>present\<close>
  are files, with this mode and the tests' own user; the environment has one variable.
\<close>

type_synonym hook_calls = "(ustr \<times> ustr) list"

definition hook_test_os :: "path list \<Rightarrow> u32 \<Rightarrow> ustr option \<Rightarrow> hook_calls os" where
  "hook_test_os present mode var =
     \<lparr>os_status = (\<lambda>p env w. (Inr (Some 0), w)), os_current_exe = None,
      os_canonicalize = (\<lambda>w p. Inr p),
      os_metadata = (\<lambda>w p. Inr \<lparr>fm_is_file = p \<in> set present, fm_mode = mode, fm_uid = 1000\<rparr>),
      os_euid = 1000, os_is_file = (\<lambda>w p. p \<in> set present), os_is_dir = (\<lambda>w p. False),
      os_exists = (\<lambda>w p. p \<in> set present), os_env = (\<lambda>v. var), os_pid = [55],
      os_open_truncate = (\<lambda>p w. (None, w)), os_write_all = (\<lambda>p t w. (None, w)),
      os_sync_all = (\<lambda>p w. (None, w)), os_rename = (\<lambda>p q w. (None, w)),
      os_set_permissions = (\<lambda>p m w. (None, w)), os_remove_file = (\<lambda>p w. (Removed, w)),
      os_read_to_string = (\<lambda>w p. Inl []), os_marker_to_json = (\<lambda>hs. Inl []),
      os_marker_from_json = (\<lambda>t. Inl [])\<rparr>"

definition builtin_dir_runtime_env_overrides_compile_time :: "bool" where
  "builtin_dir_runtime_env_overrides_compile_time \<longleftrightarrow>
    (let dir = (\<lambda>var compile_time. resolve_builtin_dir (hook_test_os [] 0 var) ''DAKLAK_TEST_BUILTIN_DIR_KEY'' compile_time)
      in dir (Some (lit ''/run/libexec/daklak/hooks'')) (Some (lit ''/compile/libexec/daklak/hooks'')) = Some (lit ''/run/libexec/daklak/hooks'')
         \<and> dir (Some []) (Some (lit ''/compile/libexec/daklak/hooks'')) = Some (lit ''/compile/libexec/daklak/hooks'')
         \<and> dir None None = None)"

definition hook_file_policy_rejects_group_or_other_writable_scripts :: "bool" where
  "hook_file_policy_rejects_group_or_other_writable_scripts \<longleftrightarrow>
    (case validate_hook_script_path (hook_test_os [(lit ''/tmp/p/sway-set'')] 0x1B6 None) [] (lit ''/tmp/p/sway-set'') of
        Inl (HookWritable p) \<Rightarrow> True | _ \<Rightarrow> False)"

lemma hook_tests_pass_1:
  "hook_names_allow_safe_ascii
   \<and> hook_names_reject_paths_and_shell_syntax
   \<and> builtin_dir_runtime_env_overrides_compile_time
   \<and> hook_file_policy_rejects_group_or_other_writable_scripts"
  by code_simp

definition hook_file_policy_accepts_owner_private_script :: "bool" where
  "hook_file_policy_accepts_owner_private_script \<longleftrightarrow>
    (case validate_hook_script_path (hook_test_os [(lit ''/tmp/p/sway-set'')] 0x1C0 None) [] (lit ''/tmp/p/sway-set'') of
        Inr canonical \<Rightarrow> hd canonical = 47 | Inl e \<Rightarrow> False)"

definition asking_hooks :: "ustr list \<Rightarrow> config" where
  "asking_hooks names = config_default\<lparr>cf_evdev_grab_hooks := names\<rparr>"

definition resolves_hook_pairs_from_config_array :: "bool" where
  "resolves_hook_pairs_from_config_array \<longleftrightarrow>
    (case resolve_hooks_in_dirs (hook_test_os [] 0 None) [] (asking_hooks [(lit ''sway''), (lit ''kde'')]) [(lit ''/tmp/daklak-hooks'')] of
        Inr hooks \<Rightarrow> hk_set_path (hooks ! 0) = (lit ''/tmp/daklak-hooks/sway-set'')
          \<and> hk_unset_path (hooks ! 0) = (lit ''/tmp/daklak-hooks/sway-unset'')
          \<and> hk_set_path (hooks ! 1) = (lit ''/tmp/daklak-hooks/kde-set'')
          \<and> hk_unset_path (hooks ! 1) = (lit ''/tmp/daklak-hooks/kde-unset'')
      | Inl e \<Rightarrow> False)"

definition resolves_user_hooks_before_packaged_hooks :: "bool" where
  "resolves_user_hooks_before_packaged_hooks \<longleftrightarrow>
    (let present = [(lit ''/t/user/sway-set''), (lit ''/t/user/sway-unset''), (lit ''/t/packaged/sway-set''), (lit ''/t/packaged/sway-unset''),
           (lit ''/t/packaged/kde-set''), (lit ''/t/packaged/kde-unset'')]
      in case resolve_hooks_in_dirs (hook_test_os present 0 None) [] (asking_hooks [(lit ''sway''), (lit ''kde'')])
                [(lit ''/t/user''), (lit ''/t/packaged'')] of
           Inr hooks \<Rightarrow> hk_set_path (hooks ! 0) = (lit ''/t/user/sway-set'')
             \<and> hk_unset_path (hooks ! 0) = (lit ''/t/user/sway-unset'')
             \<and> hk_set_path (hooks ! 1) = (lit ''/t/packaged/kde-set'')
             \<and> hk_unset_path (hooks ! 1) = (lit ''/t/packaged/kde-unset'')
         | Inl e \<Rightarrow> False)"

definition resolves_hook_from_first_dir_with_complete_pair_in_search_list :: "bool" where
  "resolves_hook_from_first_dir_with_complete_pair_in_search_list \<longleftrightarrow>
    (let present = [(lit ''/t/local/kde-set''), (lit ''/t/local/kde-unset''), (lit ''/t/system/x11-set''), (lit ''/t/system/x11-unset'')]
      in case resolve_hooks_in_dirs (hook_test_os present 0 None) [] (asking_hooks [(lit ''kde''), (lit ''x11'')])
                [(lit ''/t/config''), (lit ''/t/local''), (lit ''/t/system'')] of
           Inr hooks \<Rightarrow> hk_set_path (hooks ! 0) = (lit ''/t/local/kde-set'')
             \<and> hk_set_path (hooks ! 1) = (lit ''/t/system/x11-set'')
         | Inl e \<Rightarrow> False)"

lemma hook_tests_pass_2:
  "hook_file_policy_accepts_owner_private_script
   \<and> resolves_hook_pairs_from_config_array
   \<and> resolves_user_hooks_before_packaged_hooks
   \<and> resolves_hook_from_first_dir_with_complete_pair_in_search_list"
  by code_simp

text \<open>The runner that records its calls and answers with the exit code of a table, or 0.\<close>

definition fake_runner :: "((ustr \<times> ustr) \<times> int) list \<Rightarrow> hook_calls hook_runner" where
  "fake_runner codes p phase name calls =
     (Inr (case map_of codes (name, phase) of Some c \<Rightarrow> c | None \<Rightarrow> 0), calls @ [(name, phase)])"

definition test_hook :: "ustr \<Rightarrow> hook_spec" where
  "test_hook name = \<lparr>hk_name = name, hk_set_path = lit ''/tmp/'' @ name @ lit ''-set'',
     hk_unset_path = lit ''/tmp/'' @ name @ lit ''-unset''\<rparr>"

definition setup_records_applied_and_skipped_hooks :: "bool" where
  "setup_records_applied_and_skipped_hooks \<longleftrightarrow>
    (case run_setup_hooks_inner (hook_test_os [] 0 None) [test_hook (lit ''sway''), test_hook (lit ''kde'')]
             (fake_runner [(((lit ''sway''), (lit ''set'')), 10), (((lit ''kde''), (lit ''set'')), 0)]) False [] of
        (Inr (applied, outcomes), calls) \<Rightarrow> map hk_name applied = [(lit ''kde'')]
          \<and> outcomes = [HookSkipped (lit ''sway''), HookApplied (lit ''kde'')]
      | _ \<Rightarrow> False)"

definition missing_hook_scripts_are_skipped_not_fatal :: "bool" where
  "missing_hook_scripts_are_skipped_not_fatal \<longleftrightarrow>
    (case run_setup_hooks_inner (hook_test_os [] 0 None) [test_hook (lit ''ghost'')] (fake_runner []) True [] of
        (Inr (applied, outcomes), calls) \<Rightarrow> applied = [] \<and> outcomes = [HookSkipped (lit ''ghost'')] \<and> calls = []
      | _ \<Rightarrow> False)"

definition failure_cleans_already_applied_hooks_in_reverse_order :: "bool" where
  "failure_cleans_already_applied_hooks_in_reverse_order \<longleftrightarrow>
    (case run_setup_hooks_inner (hook_test_os [] 0 None) [test_hook (lit ''first''), test_hook (lit ''second''), test_hook (lit ''third'')]
             (fake_runner [(((lit ''first''), (lit ''set'')), 0), (((lit ''second''), (lit ''set'')), 0), (((lit ''third''), (lit ''set'')), 2),
                           (((lit ''second''), (lit ''unset'')), 0), (((lit ''first''), (lit ''unset'')), 0)]) False [] of
        (Inl (SetFailed name code), calls) \<Rightarrow> name = (lit ''third'')
          \<and> calls = [((lit ''first''), (lit ''set'')), ((lit ''second''), (lit ''set'')), ((lit ''third''), (lit ''set'')), ((lit ''second''), (lit ''unset'')), ((lit ''first''), (lit ''unset''))]
      | _ \<Rightarrow> False)"

definition cleanup_treats_skip_exit_as_success :: "bool" where
  "cleanup_treats_skip_exit_as_success \<longleftrightarrow>
    (run_cleanup_hooks [test_hook (lit ''gnome'')] (fake_runner [(((lit ''gnome''), (lit ''unset'')), 10)]) []
      = (None, [((lit ''gnome''), (lit ''unset''))]))"

lemma hook_tests_pass_3:
  "setup_records_applied_and_skipped_hooks
   \<and> missing_hook_scripts_are_skipped_not_fatal
   \<and> failure_cleans_already_applied_hooks_in_reverse_order
   \<and> cleanup_treats_skip_exit_as_success"
  by code_simp

section \<open>Recovering keystrokes\<close>

definition viqr_context_reversal_uses_viqr_keystrokes :: "bool" where
  "viqr_context_reversal_uses_viqr_keystrokes \<longleftrightarrow>
    (context_from_surrounding [110, 0xF3] Viqr = ([110, 111, 39], [1, 2]))"

definition viqr_context_reversal_circumflex_and_horn :: "bool" where
  "viqr_context_reversal_circumflex_and_horn \<longleftrightarrow>
    (fst (context_from_surrounding [0x1A1] Viqr) = (lit ''o+'') \<and> fst (context_from_surrounding [0xF4] Viqr) = (lit ''o^'')
      \<and> fst (context_from_surrounding [0x103] Viqr) = (lit ''a(''))"

lemma recovery_tests_pass:
  "viqr_context_reversal_uses_viqr_keystrokes
   \<and> viqr_context_reversal_circumflex_and_horn"
  by code_simp

end
