(* ===== verification/Spec2Isabelle.thy ===== *)
theory Spec2Isabelle
  imports ComposerProperties TextProperties EvdevProperties WaylandProperties
    SupervisorProperties ControlProperties KeymapUpload TrayProperties Focus
    WaylandLoopProperties StartupProperties ComposerTyping ServicesProperties
    UnitTestsControl UnitTestsDaemon
begin

text \<open>
  A verification of daklak, a Vietnamese input method for Wayland, IBus and evdev (the Rust
  workspace under \<^verbatim>\<open>src/crates\<close>).

  \<^bold>\<open>The program.\<close> A keystroke reaches the daemon through one of three transports: a Wayland input
  method (version 1 or 2), an IBus engine, or a grab of the evdev keyboards. The daemon gates it
  (enabled, shortcuts, navigation keys) and hands it to the composer of the session, which feeds
  the \<^verbatim>\<open>vnkey\<close> engine, mirrors the text on screen in a shadow buffer, and decides between
  forwarding the key and an edit: so many backspaces, then a commit text. A strategy performs the
  edit on the transport's sink, by deleting surrounding text or with synthetic backspaces. Around
  this sit the supervisor, which starts and switches backends and runs the desktop's hook scripts,
  the control socket with its command line, the tray with its edit of the configuration file, and
  the tracking of the focused window.

  \<^bold>\<open>Theories and code.\<close>
  \<^item> \<open>Prelude\<close>, \<open>Utf8\<close>: machine integers, strings as lists of scalar values with byte offsets,
    UTF-8, and the functions of \<^verbatim>\<open>str\<close> the source uses.
  \<^item> \<open>GlyphTables\<close>, \<open>Engine\<close>: \<^verbatim>\<open>engine/src\<close>. The library is the record \<open>vnkey\<close> of its functions.
  \<^item> \<open>Shadow\<close>, \<open>EditStrategy\<close>: \<^verbatim>\<open>edit-strategy/src\<close>. \<^verbatim>\<open>OutputSink\<close> is a record of functions on an
    arbitrary sink state; the locales \<open>editing_sink\<close> and \<open>sink_invariant\<close> are its contracts.
  \<^item> \<open>TextHelpers\<close>, \<open>Quirks\<close>, \<open>Composer\<close>: \<^verbatim>\<open>daemon/src/composer.rs\<close> and \<^verbatim>\<open>quirks\<close>; \<open>ComposerLemmas\<close>,
    \<open>ComposerFrames\<close> and \<open>ComposerProperties\<close> hold its invariants and its behaviour, \<open>ComposerTyping\<close>
    the typing of its texts and commits as Rust strings over whole sessions.
  \<^item> \<open>Config\<close>, \<open>Daemon\<close>, \<open>DaemonLemmas\<close>: \<^verbatim>\<open>config.rs\<close>, \<^verbatim>\<open>logging.rs\<close>, \<^verbatim>\<open>handler.rs\<close> and the three
    files of \<^verbatim>\<open>transport\<close> that serve keys.
  \<^item> \<open>IbusAdapter\<close>, \<open>IbusSession\<close>: \<^verbatim>\<open>ibus-adapter/src\<close>, and the session with the client behind it.
  \<^item> \<open>Keymap\<close>, \<open>Xkb\<close>, \<open>KeyEmitter\<close>, \<open>KeymapUpload\<close>: \<^verbatim>\<open>keymap/src\<close> and \<^verbatim>\<open>key-emitter/src\<close>; the
    locales \<open>key_channel\<close>, \<open>modifier_channel\<close>, \<open>kernel_channel\<close> and \<open>uinput_kernel\<close> say what a way of
    sending keys does to the client.
  \<^item> \<open>Evdev\<close>, \<open>EvdevSession\<close>, \<open>EvdevProperties\<close>: \<^verbatim>\<open>evdev-adapter/src\<close>.
  \<^item> \<open>WaylandAdapter\<close>, \<open>WaylandSession\<close>, \<open>WaylandProperties\<close>: \<^verbatim>\<open>wayland-adapter/src\<close>.
  \<^item> \<open>WaylandLoop\<close>, \<open>WaylandLoopProperties\<close>: \<open>connect\<close>, \<^verbatim>\<open>wayland\_handle.rs\<close>, the v1 keyboard and
    \<^verbatim>\<open>daemon/src/main\_loop.rs\<close>: a session from its start to its teardown.
  \<^item> \<open>Startup\<close>, \<open>StartupProperties\<close>: reading the configuration, \<^verbatim>\<open>evdev\_preflight.rs\<close>, finding and
    grabbing keyboards, and \<^verbatim>\<open>ibus-adapter/src/bus.rs\<close>.
  \<^item> \<open>Focus\<close>: toplevel tracking in \<^verbatim>\<open>wayland-adapter/src/dispatch.rs\<close> and \<^verbatim>\<open>focus/src/x11.rs\<close>.
  \<^item> \<open>Ipc\<close>, \<open>Cli\<close>, \<open>ControlProperties\<close>: \<^verbatim>\<open>backend.rs\<close>, \<^verbatim>\<open>control.rs\<close>, \<^verbatim>\<open>ipc.rs\<close>, \<^verbatim>\<open>main.rs\<close>.
  \<^item> \<open>EvdevHooks\<close>, \<open>Supervisor\<close>, \<open>HookLaws\<close>, \<open>SupervisorLemmas\<close>, \<open>SupervisorProperties\<close>:
    \<^verbatim>\<open>evdev\_hooks.rs\<close> and \<^verbatim>\<open>transport/supervisor.rs\<close>; the locales \<open>honest_runner\<close>, \<open>script_programs\<close>,
    \<open>honest_files\<close>, \<open>hook_files\<close> and \<open>hook_system\<close> say what hook scripts and the file system keep.
  \<^item> \<open>Tray\<close>, \<open>TrayProperties\<close>: \<^verbatim>\<open>tray.rs\<close>.
  \<^item> \<open>Runtime\<close>, \<open>Services\<close>, \<open>ServicesProperties\<close>: the daemon process: \<^verbatim>\<open>main.rs\<close> with its background
    tasks, the file of the control socket (\<^verbatim>\<open>ipc.rs\<close>), the task of the tray, the IBus object factory
    and connection, the evdev loop with its signals, and opening the log.
  \<^item> \<open>TextProperties\<close>: what the text-level functions compute.
  \<^item> \<open>UnitTestsText\<close>, \<open>UnitTestsKeys\<close>, \<open>UnitTestsControl\<close>, \<open>UnitTestsDaemon\<close>: the repository's own unit
    tests, as far as they do not need the \<open>vnkey\<close> library, run on the definitions above.

  \<^bold>\<open>State and operations.\<close> A struct is a record with the fields of the source, a method a function
  from the old to the new state with its answer. Shared flags and watch channels are fields of the
  state that reads them; clock readings are arguments. Slices and unwraps that may panic are
  options. Sending is appending to a list of requests or signals; what those do to the other side
  is a separate function (\<open>vk_deliver\<close>, \<open>wl_deliver\<close>, the IBus client's replay), the documented
  behaviour of the protocol.

  \<^bold>\<open>What is shown.\<close> For each transport, that a decided edit reaches the client's text exactly, and
  invariants over whole sessions (the shadow under IBus, keys down under evdev, acknowledged frames
  and modifier echoes under Wayland). For the composer, its invariant, the decision for a key, the
  treatment of frames and the repair of raw keys. For the supervisor, that hooks are undone in
  every run, that a failing grab falls back, and that a crash is recovered. For the process, what the end of its
  background tasks does to the supervisor, and who owns the control socket. For the control path,
  the round trip from the command line to the reply. For the tray, what an edit of the file leaves
  alone. For the tables and parsers, equivalences, round trips and bounds. Some theorems prove a
  defect of the code rather than its absence; their text says so.

  \<^bold>\<open>Bounds and fuel.\<close> No definition takes fuel. Loops over outside events recurse on the list of
  events and answer \<open>None\<close> when it ends first: the loop then still waits. The supervisor's outer
  loops end by a measure, each round using up an event or an attempt to start; the keymap upload is
  a partial function since its loop may not end. Frames, texts and event lists are of any length.

  \<^bold>\<open>Not modelled.\<close> The \<^verbatim>\<open>vnkey\<close> engine, a git submodule whose directory is empty, and libxkbcommon,
  TOML, JSON, D-Bus, Wayland, X11 and tokio are parameters or outside: nothing is claimed of their
  insides. Of the system calls around them the outcomes are arguments. Desktop notifications, the
  wording of log lines and the help text, and the tracing subscriber are output without logic of
  their own; tokio's scheduling appears as the order of the events in a list. A mutex is taken
  as never poisoned, except where the source handles that. For the supervisor the outcomes of the
  preflight check and of connecting are inputs. The probes under \<^verbatim>\<open>src/tools\<close>,
  and the tests that type whole words through the library, are outside.
\<close>

end
